(* ===== verification/Prelude.thy ===== *)
theory Prelude
  imports Main "HOL-Library.Char_ord" "HOL-Library.Word"
begin

text \<open>
  Shared vocabulary of the development: Go strings as byte lists, the functions of Go's
  \<open>strings\<close> and \<open>strconv\<close> packages that HostLens calls, results of fallible calls as a sum
  type, and the generic lemmas on lists that the component theories use.

  A Go string is a sequence of bytes, so it is an Isabelle \<open>string\<close> (a list of 8-bit characters).
  The source ranges over runes in a few places, always to compare them with ASCII bounds; every
  byte of a multi-byte rune is at least 128, so the byte-wise loops below decide the same.
\<close>

section \<open>Types and automation\<close>

type_synonym bytes = string
type_synonym uid = "32 word"
type_synonym gid = "32 word"
type_synonym mode = "32 word"

text \<open>A Go function returning a value and an error returns either the error or the value.\<close>

type_synonym ('e, 'a) result = "'e + 'a"

text \<open>
  \<open>go_defs\<close>: definitions of small predicates that are transparent to proofs;
  \<open>go_dests\<close>: destruction facts of fallible operations.
\<close>

named_theorems go_defs
named_theorems go_dests

text \<open>An early return of an error: the call succeeds iff the guard is off and the rest succeeds.\<close>

lemma early_return_Inr [simp]: "((if b then Inl e else x) = Inr y) \<longleftrightarrow> \<not> b \<and> x = Inr y"
  by simp

lemma early_return_Some [simp]: "((if b then None else x) = Some y) \<longleftrightarrow> \<not> b \<and> x = Some y"
  by simp

section \<open>The strings package\<close>

definition contains_char :: "string \<Rightarrow> char \<Rightarrow> bool" where
  "contains_char s c \<longleftrightarrow> List.member s c"

definition ContainsAny :: "string \<Rightarrow> string \<Rightarrow> bool" where
  "ContainsAny s chars \<longleftrightarrow> list_ex (\<lambda>c. List.member chars c) s"

definition HasPrefix :: "string \<Rightarrow> string \<Rightarrow> bool" where
  "HasPrefix s p \<longleftrightarrow> take (length p) s = p"

definition HasSuffix :: "string \<Rightarrow> string \<Rightarrow> bool" where
  "HasSuffix s p \<longleftrightarrow> length p \<le> length s \<and> drop (length s - length p) s = p"

definition TrimPrefix :: "string \<Rightarrow> string \<Rightarrow> string" where
  "TrimPrefix s p = (if HasPrefix s p then drop (length p) s else s)"

definition TrimSuffix :: "string \<Rightarrow> string \<Rightarrow> string" where
  "TrimSuffix s p = (if HasSuffix s p then take (length s - length p) s else s)"

text \<open>\<open>strings.Cut\<close> with a one-byte separator: the text before it, the text after it, found.\<close>

fun Cut :: "string \<Rightarrow> char \<Rightarrow> string \<times> string \<times> bool" where
  "Cut [] sep = ([], [], False)"
| "Cut (c # s) sep =
     (if c = sep then ([], s, True)
      else (case Cut s sep of (before, after, found) \<Rightarrow> (c # before, after, found)))"

lemma Cut_length: "Cut s sep = (b, a, f) \<Longrightarrow> s \<noteq> [] \<Longrightarrow> length a < length s"
proof (induction s arbitrary: b)
  case (Cons c s)
  show ?case
  proof (cases "c = sep \<or> s = []")
    case True
    with Cons.prems show ?thesis by (auto split: if_splits)
  next
    case False
    with Cons.prems obtain b' where "Cut s sep = (b', a, f)" by (auto split: prod.splits)
    with Cons.IH False show ?thesis by fastforce
  qed
qed simp

text \<open>\<open>strings.Split\<close> with a one-byte separator; the empty string gives one empty field.\<close>

fun Split :: "string \<Rightarrow> char \<Rightarrow> string list" where
  "Split [] sep = [[]]"
| "Split (c # s) sep =
     (if c = sep then [] # Split s sep
      else (case Split s sep of f # fs \<Rightarrow> (c # f) # fs | [] \<Rightarrow> [[c]]))"

text \<open>\<open>strings.Join\<close> with a one-byte separator.\<close>

fun Join :: "string list \<Rightarrow> char \<Rightarrow> string" where
  "Join [] sep = []"
| "Join [f] sep = f"
| "Join (f # g # fs) sep = f @ sep # Join (g # fs) sep"

definition Trim :: "string \<Rightarrow> char \<Rightarrow> string" where
  "Trim s c = rev (dropWhile (\<lambda>d. d = c) (rev (dropWhile (\<lambda>d. d = c) s)))"

text \<open>\<open>strings.Count\<close> of one byte.\<close>

definition CountByte :: "string \<Rightarrow> char \<Rightarrow> nat" where
  "CountByte s c = count_list s c"

text \<open>
  \<open>strings.EqualFold\<close> for an ASCII word without the letters k and s, the only ones whose simple
  case folding leaves ASCII; the source calls it with the word Bearer.
\<close>

definition ascii_lower :: "char \<Rightarrow> char" where
  "ascii_lower c = (if CHR ''A'' \<le> c \<and> c \<le> CHR ''Z'' then char_of (of_char c + (32::nat)) else c)"

definition EqualFold :: "string \<Rightarrow> string \<Rightarrow> bool" where
  "EqualFold s t \<longleftrightarrow> map ascii_lower s = map ascii_lower t"

section \<open>The strconv package\<close>

definition is_digit :: "char \<Rightarrow> bool" where
  "is_digit c \<longleftrightarrow> CHR ''0'' \<le> c \<and> c \<le> CHR ''9''"

definition digit_value :: "char \<Rightarrow> nat" where
  "digit_value c = of_char c - 48"

definition digits_value :: "string \<Rightarrow> nat" where
  "digits_value s = foldl (\<lambda>n c. 10 * n + digit_value c) 0 s"

text \<open>
  \<open>strconv.Atoi\<close> on a 64-bit platform: an optional sign, at least one decimal digit and nothing
  else, and a value in the range of \<open>int\<close>; anything else is an error.
\<close>

definition Atoi :: "string \<Rightarrow> int option" where
  "Atoi s =
     (let neg = (s \<noteq> [] \<and> hd s = CHR ''-'');
          ds = (if s \<noteq> [] \<and> (hd s = CHR ''-'' \<or> hd s = CHR ''+'') then tl s else s);
          v = (if neg then - int (digits_value ds) else int (digits_value ds))
      in if ds \<noteq> [] \<and> list_all is_digit ds \<and> - (2 ^ 63) \<le> v \<and> v < 2 ^ 63 then Some v else None)"

definition digit_char :: "nat \<Rightarrow> char" where
  "digit_char d = char_of (48 + d)"

fun nat_digits :: "nat \<Rightarrow> string" where
  "nat_digits n = (if n < 10 then [digit_char n] else nat_digits (n div 10) @ [digit_char (n mod 10)])"

declare nat_digits.simps [simp del]

definition Itoa :: "int \<Rightarrow> string" where
  "Itoa n = (if n < 0 then CHR ''-'' # nat_digits (nat (- n)) else nat_digits (nat n))"

end
