(* ===== verification/GoPath.thy ===== *)
theory GoPath
  imports Prelude
begin

text \<open>
  The parts of Go's \<open>unicode/utf8\<close>, \<open>path\<close>, \<open>path/filepath\<close> and \<open>net\<close> packages that decide
  HostLens's policy and configuration checks: rune decoding, \<open>path.Match\<close> (the glob of profile
  rules), \<open>filepath.Clean\<close>, \<open>Dir\<close>, \<open>Base\<close> and \<open>IsAbs\<close>, and \<open>net.SplitHostPort\<close>. They are
  library code, so they carry no source lines of the repository; the lemmas at the end of each
  section are the facts that the component theories use.
\<close>

section \<open>Runes\<close>

abbreviation RuneError :: nat where
  "RuneError \<equiv> 0xFFFD"

definition cont_byte :: "nat \<Rightarrow> nat \<Rightarrow> char \<Rightarrow> bool" where
  "cont_byte lo hi c \<longleftrightarrow> lo \<le> of_char c \<and> of_char c \<le> hi"

text \<open>
  \<open>utf8.DecodeRuneInString\<close>: the rune and its width; width 0 on the empty string and width 1
  with \<open>RuneError\<close> on an invalid encoding.
\<close>

fun DecodeRune :: "string \<Rightarrow> nat \<times> nat" where
  "DecodeRune [] = (RuneError, 0)"
| "DecodeRune (c0 # s) =
     (let b0 = (of_char c0 :: nat);
          lo = (if b0 = 0xE0 then 0xA0 else if b0 = 0xF0 then 0x90 else 0x80);
          hi = (if b0 = 0xED then 0x9F else if b0 = 0xF4 then 0x8F else 0xBF)
      in if b0 < 0x80 then (b0, 1)
         else if 0xC2 \<le> b0 \<and> b0 \<le> 0xDF then
           (case s of c1 # _ \<Rightarrow>
              if cont_byte 0x80 0xBF c1 then ((b0 - 0xC0) * 64 + (of_char c1 - 0x80), 2)
              else (RuneError, 1)
            | [] \<Rightarrow> (RuneError, 1))
         else if 0xE0 \<le> b0 \<and> b0 \<le> 0xEF then
           (case s of c1 # c2 # _ \<Rightarrow>
              if cont_byte lo hi c1 \<and> cont_byte 0x80 0xBF c2
              then ((b0 - 0xE0) * 4096 + (of_char c1 - 0x80) * 64 + (of_char c2 - 0x80), 3)
              else (RuneError, 1)
            | _ \<Rightarrow> (RuneError, 1))
         else if 0xF0 \<le> b0 \<and> b0 \<le> 0xF4 then
           (case s of c1 # c2 # c3 # _ \<Rightarrow>
              if cont_byte lo hi c1 \<and> cont_byte 0x80 0xBF c2 \<and> cont_byte 0x80 0xBF c3
              then ((b0 - 0xF0) * 262144 + (of_char c1 - 0x80) * 4096
                      + (of_char c2 - 0x80) * 64 + (of_char c3 - 0x80), 4)
              else (RuneError, 1)
            | _ \<Rightarrow> (RuneError, 1))
         else (RuneError, 1))"

section \<open>path.Match\<close>

text \<open>
  The glob matcher, function by function: \<open>scanChunk\<close>, \<open>getEsc\<close>, \<open>matchChunk\<close> and \<open>Match\<close>.
  \<open>None\<close> is \<open>ErrBadPattern\<close>.
\<close>

abbreviation backslash :: char where
  "backslash \<equiv> CHR 0x5C"

fun skipStars :: "string \<Rightarrow> bool \<times> string" where
  "skipStars [] = (False, [])"
| "skipStars (c # p) = (if c = CHR ''*'' then (True, snd (skipStars p)) else (False, c # p))"

fun scanBody :: "bool \<Rightarrow> string \<Rightarrow> string \<times> string" where
  "scanBody inrange [] = ([], [])"
| "scanBody inrange (c # p) =
     (if c = backslash then
        (case p of [] \<Rightarrow> ([c], [])
         | d # q \<Rightarrow> (case scanBody inrange q of (chunk, rest) \<Rightarrow> (c # d # chunk, rest)))
      else if c = CHR ''['' then (case scanBody True p of (chunk, rest) \<Rightarrow> (c # chunk, rest))
      else if c = CHR '']'' then (case scanBody False p of (chunk, rest) \<Rightarrow> (c # chunk, rest))
      else if c = CHR ''*'' \<and> \<not> inrange then ([], c # p)
      else (case scanBody inrange p of (chunk, rest) \<Rightarrow> (c # chunk, rest)))"

definition scanChunk :: "string \<Rightarrow> bool \<times> string \<times> string" where
  "scanChunk pattern =
     (case skipStars pattern of (star, p) \<Rightarrow>
        (case scanBody False p of (chunk, rest) \<Rightarrow> (star, chunk, rest)))"

definition getEsc :: "string \<Rightarrow> (nat \<times> string) option" where
  "getEsc chunk =
     (if chunk = [] \<or> hd chunk = CHR ''-'' \<or> hd chunk = CHR '']'' then None
      else
        (let chunk' = (if hd chunk = backslash then tl chunk else chunk)
         in if chunk' = [] then None
            else (case DecodeRune chunk' of (r, n) \<Rightarrow>
              if r = RuneError \<and> n = 1 \<or> drop n chunk' = [] then None
              else Some (r, drop n chunk'))))"

lemma DecodeRune_pos: "s \<noteq> [] \<Longrightarrow> 0 < snd (DecodeRune s)"
  by (cases s) (auto simp: Let_def split: list.splits)

lemma getEsc_shorter: "getEsc chunk = Some (r, rest) \<Longrightarrow> length rest < length chunk"
proof -
  assume g: "getEsc chunk = Some (r, rest)"
  define chunk' where "chunk' = (if hd chunk = backslash then tl chunk else chunk)"
  obtain r' n where d: "DecodeRune chunk' = (r', n)" by fastforce
  from g d have ne: "chunk \<noteq> []" "chunk' \<noteq> []" and rest: "rest = drop n chunk'"
    by (auto simp: getEsc_def Let_def chunk'_def split: if_splits)
  from DecodeRune_pos [OF ne(2)] d have "0 < n" by simp
  moreover have "length chunk' \<le> length chunk" by (simp add: chunk'_def)
  moreover have "0 < length chunk'" using ne(2) by simp
  ultimately show "length rest < length chunk"
    unfolding rest length_drop by linarith
qed

text \<open>The loop over the ranges of a character class.\<close>

function classLoop :: "nat \<Rightarrow> string \<Rightarrow> bool \<Rightarrow> nat \<Rightarrow> (bool \<times> string) option" where
  "classLoop r chunk matched nrange =
     (if chunk \<noteq> [] \<and> hd chunk = CHR '']'' \<and> 0 < nrange then Some (matched, tl chunk)
      else
        (case getEsc chunk of
           None \<Rightarrow> None
         | Some (lo, chunk1) \<Rightarrow>
             (if hd chunk1 = CHR ''-'' then
                (case getEsc (tl chunk1) of
                   None \<Rightarrow> None
                 | Some (hi, chunk2) \<Rightarrow>
                     classLoop r chunk2 (matched \<or> lo \<le> r \<and> r \<le> hi) (Suc nrange))
              else classLoop r chunk1 (matched \<or> lo \<le> r \<and> r \<le> lo) (Suc nrange))))"
  by pat_completeness auto
termination
proof (relation "measure (\<lambda>(r, chunk, matched, nrange). length chunk)", goal_cases)
  case 1
  show ?case by simp
next
  case (2 r chunk matched nrange pair lo chunk1 pair' hi chunk2)
  then have "length chunk1 < length chunk" "length chunk2 < length (tl chunk1)"
    by (auto dest: getEsc_shorter)
  then show ?case by simp
next
  case (3 r chunk matched nrange pair lo chunk1)
  then show ?case by (auto dest: getEsc_shorter)
qed

declare classLoop.simps [simp del]

lemma classLoop_shorter:
  "classLoop r chunk matched nrange = Some (m, rest) \<Longrightarrow> length rest \<le> length chunk"
proof (induction r chunk matched nrange arbitrary: m rest rule: classLoop.induct)
  case (1 r chunk matched nrange)
  show ?case
  proof (cases "chunk \<noteq> [] \<and> hd chunk = CHR '']'' \<and> 0 < nrange")
    case True
    with "1.prems" show ?thesis by (auto simp: classLoop.simps [of r chunk])
  next
    case False
    with "1.prems" obtain lo chunk1 where g: "getEsc chunk = Some (lo, chunk1)"
      by (subst (asm) classLoop.simps) (auto split: option.splits)
    have len: "length chunk1 < length chunk" using g by (rule getEsc_shorter)
    show ?thesis
    proof (cases "hd chunk1 = CHR ''-''")
      case True
      with "1.prems" False g obtain hi chunk2 where h: "getEsc (tl chunk1) = Some (hi, chunk2)"
        and c: "classLoop r chunk2 (matched \<or> lo \<le> r \<and> r \<le> hi) (Suc nrange) = Some (m, rest)"
        by (subst (asm) classLoop.simps) (auto split: option.splits)
      from "1.IH"(1) [OF False g refl True h refl c] getEsc_shorter [OF h] len
      show ?thesis by simp
    next
      case nodash: False
      with "1.prems" False g
      have c: "classLoop r chunk1 (matched \<or> lo \<le> r \<and> r \<le> lo) (Suc nrange) = Some (m, rest)"
        by (subst (asm) classLoop.simps) auto
      from "1.IH"(2) [OF False g refl nodash c] len show ?thesis by simp
    qed
  qed
qed

text \<open>
  \<open>matchChunk\<close>: after a mismatch (\<open>failed\<close>) the loop goes on over the chunk, only to find a
  malformed pattern. \<open>Some (rest, True)\<close> is a match that leaves \<open>rest\<close>.
\<close>

function matchChunk :: "bool \<Rightarrow> string \<Rightarrow> string \<Rightarrow> (string \<times> bool) option" where
  "matchChunk failed0 [] s = (if failed0 then Some ([], False) else Some (s, True))"
| "matchChunk failed0 (c # chunk) s =
     (let failed = (failed0 \<or> s = []) in
      if c = CHR ''['' then
        (let (r, n) = (if failed then (0, 0) else DecodeRune s);
             negated = (chunk \<noteq> [] \<and> hd chunk = CHR ''^'');
             chunk1 = (if negated then tl chunk else chunk)
         in case classLoop r chunk1 False 0 of
              None \<Rightarrow> None
            | Some (matched, chunk2) \<Rightarrow>
                matchChunk (failed \<or> matched = negated) chunk2 (drop n s))
      else if c = CHR ''?'' then
        (if failed then matchChunk True chunk s
         else matchChunk (hd s = CHR ''/'') chunk (drop (snd (DecodeRune s)) s))
      else if c = backslash then
        (case chunk of
           [] \<Rightarrow> None
         | d # chunk1 \<Rightarrow>
             (if failed then matchChunk True chunk1 s
              else matchChunk (d \<noteq> hd s) chunk1 (tl s)))
      else
        (if failed then matchChunk True chunk s
         else matchChunk (c \<noteq> hd s) chunk (tl s)))"
  by pat_completeness auto
termination
proof (relation "measure (\<lambda>(failed, chunk, s). length chunk)", goal_cases)
  case 1
  show ?case by simp
next
  case (2 failed0 c chunk s failed rn r n negated chunk1 ms matched chunk2)
  then have "length chunk2 \<le> length chunk1" by (auto dest: classLoop_shorter)
  moreover have "length chunk1 \<le> length chunk" using 2 by (simp split: if_splits)
  ultimately show ?case by simp
qed auto

text \<open>The search for the chunk after a star, which cannot skip a slash.\<close>

datatype search = SearchError | SearchNone | SearchFound string

fun starSearch :: "string \<Rightarrow> string \<Rightarrow> string \<Rightarrow> search" where
  "starSearch chunk pattern [] = SearchNone"
| "starSearch chunk pattern (c # name) =
     (if c = CHR ''/'' then SearchNone
      else
        (case matchChunk False chunk name of
           None \<Rightarrow> SearchError
         | Some (t, ok) \<Rightarrow>
             (if ok \<and> \<not> (pattern = [] \<and> t \<noteq> []) then SearchFound t
              else starSearch chunk pattern name)))"

lemma skipStars_length: "length (snd (skipStars p)) \<le> length p"
  by (induction p) auto

lemma scanBody_append: "fst (scanBody b p) @ snd (scanBody b p) = p"
proof (induction b p rule: scanBody.induct)
  case (2 b c p)
  show ?case
    using 2 by (subst (1 2) scanBody.simps)
      (auto simp del: scanBody.simps simp: case_prod_unfold split: list.splits)
qed simp

lemma scanChunk_shorter:
  assumes "scanChunk pattern = (star, chunk, rest)" and "pattern \<noteq> []"
  shows "length rest < length pattern"
proof -
  obtain b p where sk: "skipStars pattern = (b, p)" by fastforce
  obtain ch re where sb: "scanBody False p = (ch, re)" by fastforce
  from assms(1) sk sb have eqs: "star = b" "chunk = ch" "rest = re"
    by (auto simp: scanChunk_def)
  from scanBody_append [of False p] sb have len: "length ch + length re = length p"
    by (metis fst_conv length_append snd_conv)
  obtain c q where pat: "pattern = c # q" using assms(2) by (cases pattern) auto
  show ?thesis
  proof (cases "c = CHR ''*''")
    case True
    with sk pat have "p = snd (skipStars q)" by auto
    then have "length p \<le> length q" by (simp add: skipStars_length)
    with len pat eqs show ?thesis by simp
  next
    case False
    with sk pat have p: "p = c # q" by auto
    with sb False have "ch \<noteq> []" by (auto split: if_splits list.splits prod.splits)
    with len p pat eqs show ?thesis by (cases ch) auto
  qed
qed

text \<open>Before a mismatch is reported, the rest of the pattern is checked for its syntax.\<close>

function checkRest :: "string \<Rightarrow> bool option" where
  "checkRest pattern =
     (if pattern = [] then Some False
      else
        (case scanChunk pattern of (star, chunk, rest) \<Rightarrow>
           (case matchChunk False chunk [] of None \<Rightarrow> None | Some _ \<Rightarrow> checkRest rest)))"
  by pat_completeness auto
termination
  by (relation "measure length") (auto dest: scanChunk_shorter [OF sym])

declare checkRest.simps [simp del]

function pathMatch :: "string \<Rightarrow> string \<Rightarrow> bool option" where
  "pathMatch pattern name =
     (if pattern = [] then Some (name = [])
      else
        (case scanChunk pattern of (star, chunk, rest) \<Rightarrow>
           if star \<and> chunk = [] then Some (\<not> contains_char name (CHR ''/''))
           else
             (case matchChunk False chunk name of
                None \<Rightarrow> None
              | Some (t, ok) \<Rightarrow>
                  (if ok \<and> (t = [] \<or> rest \<noteq> []) then pathMatch rest t
                   else if star then
                     (case starSearch chunk rest name of
                        SearchError \<Rightarrow> None
                      | SearchFound t' \<Rightarrow> pathMatch rest t'
                      | SearchNone \<Rightarrow> checkRest rest)
                   else checkRest rest))))"
  by pat_completeness auto
termination
  by (relation "measure (\<lambda>(pattern, name). length pattern)") (auto dest: scanChunk_shorter [OF sym])

declare pathMatch.simps [simp del]

text \<open>The two patterns whose meaning the policy relies on: a literal name and a lone star.\<close>

definition meta_char :: "char \<Rightarrow> bool" where
  "meta_char c \<longleftrightarrow> c = CHR ''*'' \<or> c = CHR ''?'' \<or> c = CHR ''['' \<or> c = backslash"

lemma scanBody_literal: "\<forall>c\<in>set p. \<not> meta_char c \<Longrightarrow> scanBody b p = (p, [])"
  by (induction p arbitrary: b) (auto simp: meta_char_def)

lemma skipStars_literal: "\<forall>c\<in>set p. \<not> meta_char c \<Longrightarrow> skipStars p = (False, p)"
  by (cases p) (auto simp: meta_char_def)

lemma matchChunk_literal:
  "\<forall>c\<in>set chunk. \<not> meta_char c \<Longrightarrow>
   matchChunk failed chunk s =
     (if failed \<or> take (length chunk) s \<noteq> chunk then Some ([], False)
      else Some (drop (length chunk) s, True))"
proof (induction chunk arbitrary: failed s)
  case Nil
  then show ?case by simp
next
  case (Cons c chunk)
  then have "c \<noteq> CHR ''*''" "c \<noteq> CHR ''?''" "c \<noteq> CHR ''[''" "c \<noteq> backslash"
    and lit: "\<forall>c\<in>set chunk. \<not> meta_char c"
    by (auto simp: meta_char_def)
  then show ?case
    using Cons.IH [OF lit] by (cases s) (auto simp: Let_def)
qed

lemma checkRest_Nil [simp]: "checkRest [] = Some False"
  by (simp add: checkRest.simps)

lemma pathMatch_literal:
  assumes "\<forall>c\<in>set p. \<not> meta_char c"
  shows "pathMatch p name = Some (name = p)"
proof (cases "p = []")
  case True
  then show ?thesis by (simp add: pathMatch.simps)
next
  case False
  have Nil: "pathMatch [] t = Some (t = [])" for t by (simp add: pathMatch.simps)
  have sc: "scanChunk p = (False, p, [])"
    using assms by (simp add: scanChunk_def skipStars_literal scanBody_literal)
  have "take (length p) name = p \<Longrightarrow> drop (length p) name = [] \<Longrightarrow> name = p"
    by (metis append_take_drop_id append_Nil2)
  then show ?thesis
    using False by (subst pathMatch.simps) (auto simp: sc Nil matchChunk_literal [OF assms])
qed

lemma pathMatch_star: "pathMatch ''*'' name = Some (CHR ''/'' \<notin> set name)"
  by (subst pathMatch.simps) (simp add: scanChunk_def contains_char_def)

section \<open>File paths\<close>

definition IsAbs :: "string \<Rightarrow> bool" where
  "IsAbs p \<longleftrightarrow> HasPrefix p ''/''"

text \<open>
  \<open>filepath.Clean\<close> by its documented rules: empty and dot elements go, an inner dot-dot cancels
  the element before it, a leading dot-dot of a rooted path goes, and the empty result is a dot.
  The accumulator holds the kept elements in reverse.
\<close>

fun cleanElems :: "bool \<Rightarrow> string list \<Rightarrow> string list \<Rightarrow> string list" where
  "cleanElems rooted acc [] = rev acc"
| "cleanElems rooted acc (e # es) =
     (if e = [] \<or> e = ''.'' then cleanElems rooted acc es
      else if e = ''..'' then
        (case acc of
           a # acc' \<Rightarrow> if a = ''..'' then cleanElems rooted (e # acc) es
                       else cleanElems rooted acc' es
         | [] \<Rightarrow> if rooted then cleanElems rooted [] es else cleanElems rooted [e] es)
      else cleanElems rooted (e # acc) es)"

definition Clean :: "string \<Rightarrow> string" where
  "Clean p =
     (let rooted = IsAbs p;
          q = (if rooted then ''/'' else []) @ Join (cleanElems rooted [] (Split p (CHR ''/''))) (CHR ''/'')
      in if q = [] then ''.'' else q)"

text \<open>\<open>filepath.Dir\<close> and \<open>filepath.Base\<close>.\<close>

definition upto_last_slash :: "string \<Rightarrow> string" where
  "upto_last_slash p = rev (dropWhile (\<lambda>c. c \<noteq> CHR ''/'') (rev p))"

definition Dir :: "string \<Rightarrow> string" where
  "Dir p = Clean (upto_last_slash p)"

definition Base :: "string \<Rightarrow> string" where
  "Base p =
     (if p = [] then ''.''
      else
        (let q = rev (dropWhile (\<lambda>c. c = CHR ''/'') (rev p))
         in if q = [] then ''/'' else rev (takeWhile (\<lambda>c. c \<noteq> CHR ''/'') (rev q))))"

text \<open>\<open>filepath.Join\<close> of two elements.\<close>

definition JoinPath :: "string \<Rightarrow> string \<Rightarrow> string" where
  "JoinPath a b =
     (if a = [] then (if b = [] then [] else Clean b)
      else if b = [] then Clean a else Clean (a @ ''/'' @ b))"

section \<open>Host and port\<close>

text \<open>\<open>net.SplitHostPort\<close>; its error texts are not told apart.\<close>

definition index_of :: "string \<Rightarrow> char \<Rightarrow> nat" where
  "index_of s c = length (takeWhile (\<lambda>d. d \<noteq> c) s)"

definition last_index :: "string \<Rightarrow> char \<Rightarrow> nat" where
  "last_index s c = length s - 1 - index_of (rev s) c"

definition SplitHostPort :: "string \<Rightarrow> (string \<times> string) option" where
  "SplitHostPort hostport =
     (if \<not> contains_char hostport (CHR '':'') then None
      else
        (let i = last_index hostport (CHR '':''); port = drop (Suc i) hostport in
         if hd hostport = CHR ''['' then
           (if \<not> contains_char hostport (CHR '']'') then None
            else
              (let end = index_of hostport (CHR '']'') in
               if Suc end \<noteq> i then None
               else if contains_char (drop 1 hostport) (CHR ''['')
                    \<or> contains_char (drop (Suc end) hostport) (CHR '']'') then None
               else Some (take (end - 1) (drop 1 hostport), port)))
         else
           (let host = take i hostport in
            if contains_char host (CHR '':'') \<or> contains_char hostport (CHR ''['')
               \<or> contains_char hostport (CHR '']'') then None
            else Some (host, port))))"

end
