(* ===== verification/Trusted.thy ===== *)
theory Trusted
  imports GoPath
begin

unbundle bit_operations_syntax

text \<open>
  The operating system as HostLens reads it, and the protected-path checks of
  \<open>internal/core/trusted_linux.go\<close> and \<open>internal/core/ownership_linux.go\<close>. A system call is a
  field of the record \<open>os\<close>: the model makes no assumption on what the calls return, so each
  error branch of the source is reachable. Modes and user identifiers are 32-bit words, as in
  \<open>unix.Stat_t\<close>.
\<close>

section \<open>The operating system\<close>

datatype errno = ErrNotExist | ErrOther string

record stat =
  st_Mode :: mode
  st_Uid :: uid
  st_Gid :: gid
  st_Size :: int

text \<open>
  An open file: what \<open>Stat\<close> says, what reading it to the end gives, and whether \<open>Close\<close> fails.
\<close>

record "file" =
  f_Stat :: "(errno, stat) result"
  f_Data :: "(errno, bytes) result"
  f_Close :: "(errno, unit) result"

record os =
  Lstat :: "string \<Rightarrow> (errno, stat) result"
  Open :: "string \<Rightarrow> (errno, file) result"
  OpenRoot :: "string \<Rightarrow> (errno, string \<Rightarrow> (errno, file) result) result"
  Geteuid :: int

definition S_IFMT :: mode where "S_IFMT = 0xF000"
definition S_IFDIR :: mode where "S_IFDIR = 0x4000"
definition S_IFREG :: mode where "S_IFREG = 0x8000"
definition S_IFSOCK :: mode where "S_IFSOCK = 0xC000"
definition S_ISVTX :: mode where "S_ISVTX = 0x200"

definition IsRegular :: "stat \<Rightarrow> bool" where
  "IsRegular info \<longleftrightarrow> st_Mode info AND S_IFMT = S_IFREG"

definition IsDir :: "stat \<Rightarrow> bool" where
  "IsDir info \<longleftrightarrow> st_Mode info AND S_IFMT = S_IFDIR"

definition Perm :: "stat \<Rightarrow> mode" where
  "Perm info = st_Mode info AND 0x1FF"

text \<open>The octal masks of the source: 0022 (group and other write) and 0007 (any other access).\<close>

definition group_other_write :: mode where "group_other_write = 0x12"
definition any_other :: mode where "any_other = 0x07"

section \<open>Ownership and protected paths\<close>

definition trustedOwner :: "os \<Rightarrow> stat \<Rightarrow> bool" where
  "trustedOwner os info \<longleftrightarrow> st_Uid info = 0 \<or> uint (st_Uid info) = Geteuid os"

datatype trust_error =
    PathNotClean
  | LstatFailed errno
  | UntrustedParent string
  | OpenFailed errno
  | ProtectedFileRequired
  | ProtectedDirectoryRequired
  | OutOfFuel

definition parentTrusted :: "os \<Rightarrow> stat \<Rightarrow> bool" where
  "parentTrusted os info \<longleftrightarrow>
     \<not> (st_Mode info AND S_IFMT \<noteq> S_IFDIR
        \<or> (st_Uid info \<noteq> 0 \<and> uint (st_Uid info) \<noteq> Geteuid os)
        \<or> (st_Mode info AND group_other_write \<noteq> 0
            \<and> \<not> (st_Uid info = 0 \<and> st_Mode info AND S_ISVTX \<noteq> 0)))"

text \<open>The loop over the parent directories up to the root, with one unit of fuel per turn.\<close>

fun trustParentsFrom :: "nat \<Rightarrow> os \<Rightarrow> string \<Rightarrow> (trust_error, unit) result" where
  "trustParentsFrom 0 os parent = Inl OutOfFuel"
| "trustParentsFrom (Suc fuel) os parent =
     (case Lstat os parent of
        Inl e \<Rightarrow> Inl (LstatFailed e)
      | Inr info \<Rightarrow>
          (if \<not> parentTrusted os info then Inl (UntrustedParent parent)
           else if parent = ''/'' then Inr ()
           else trustParentsFrom fuel os (Dir parent)))"

definition trustParents :: "os \<Rightarrow> string \<Rightarrow> (trust_error, unit) result" where
  "trustParents os path =
     (if \<not> IsAbs path \<or> Clean path \<noteq> path then Inl PathNotClean
      else trustParentsFrom (Suc (length path)) os (Dir path))"

definition OpenTrusted :: "os \<Rightarrow> string \<Rightarrow> (trust_error, file) result" where
  "OpenTrusted os path =
     (case trustParents os path of
        Inl e \<Rightarrow> Inl e
      | Inr _ \<Rightarrow>
          (case Open os path of
             Inl e \<Rightarrow> Inl (OpenFailed e)
           | Inr fl \<Rightarrow>
               (case f_Stat fl of
                  Inl e \<Rightarrow> Inl ProtectedFileRequired
                | Inr info \<Rightarrow>
                    (if \<not> IsRegular info \<or> Perm info AND group_other_write \<noteq> 0 \<or> \<not> trustedOwner os info
                     then Inl ProtectedFileRequired
                     else Inr fl))))"

definition TrustedDirectory :: "os \<Rightarrow> string \<Rightarrow> (trust_error, unit) result" where
  "TrustedDirectory os path =
     (case trustParents os path of
        Inl e \<Rightarrow> Inl e
      | Inr _ \<Rightarrow>
          (case Lstat os path of
             Inl e \<Rightarrow> Inl (LstatFailed e)
           | Inr info \<Rightarrow>
               (if st_Mode info AND S_IFMT \<noteq> S_IFDIR
                   \<or> (st_Uid info \<noteq> 0 \<and> uint (st_Uid info) \<noteq> Geteuid os)
                   \<or> st_Mode info AND group_other_write \<noteq> 0
                then Inl ProtectedDirectoryRequired
                else Inr ())))"

section \<open>Clean absolute paths\<close>

text \<open>A clean absolute path is a slash and its elements joined by slashes.\<close>

definition good_elem :: "string \<Rightarrow> bool" where
  "good_elem e \<longleftrightarrow> e \<noteq> [] \<and> e \<noteq> ''.'' \<and> e \<noteq> ''..'' \<and> CHR ''/'' \<notin> set e"

definition abs_path :: "string list \<Rightarrow> string" where
  "abs_path es = CHR ''/'' # Join es (CHR ''/'')"

lemma Split_nonempty [simp]: "Split s sep \<noteq> []"
  by (cases s) (auto split: list.splits)

lemma Split_append_sep: "Split (s @ sep # t) sep = Split s sep @ Split t sep"
proof (induction s)
  case Nil
  then show ?case by simp
next
  case (Cons c s)
  obtain f fs where "Split s sep = f # fs" by (cases "Split s sep") auto
  with Cons show ?case by simp
qed

lemma Split_no_sep: "sep \<notin> set s \<Longrightarrow> Split s sep = [s]"
  by (induction s) auto

lemma Split_elem_no_sep: "e \<in> set (Split s sep) \<Longrightarrow> sep \<notin> set e"
proof (induction s arbitrary: e)
  case (Cons c s)
  obtain f fs where "Split s sep = f # fs" by (cases "Split s sep") auto
  with Cons show ?case by (auto split: if_splits)
qed simp

lemma Join_snoc: "es \<noteq> [] \<Longrightarrow> Join (es @ [e]) sep = Join es sep @ sep # e"
proof (induction es)
  case (Cons a es)
  then show ?case by (cases es) auto
qed simp

lemma Split_Join: "es \<noteq> [] \<Longrightarrow> \<forall>e\<in>set es. sep \<notin> set e \<Longrightarrow> Split (Join es sep) sep = es"
proof (induction es)
  case (Cons a es)
  then show ?case by (cases es) (auto simp: Split_no_sep Split_append_sep)
qed simp

lemma cleanElems_good:
  "\<forall>e\<in>set acc. good_elem e \<Longrightarrow> \<forall>e\<in>set es. CHR ''/'' \<notin> set e \<Longrightarrow>
   e \<in> set (cleanElems True acc es) \<Longrightarrow> good_elem e"
proof (induction True acc es rule: cleanElems.induct)
  case (2 acc e' es)
  then show ?case by (auto simp: good_elem_def split: if_splits list.splits)
qed simp

lemma cleanElems_id: "\<forall>e\<in>set es. good_elem e \<Longrightarrow> cleanElems True acc es = rev acc @ es"
  by (induction es arbitrary: acc) (auto simp: good_elem_def)

lemma IsAbs_Cons: "IsAbs p \<longleftrightarrow> (\<exists>q. p = CHR ''/'' # q)"
  by (cases p) (auto simp: IsAbs_def HasPrefix_def)

lemma clean_abs_path:
  assumes "IsAbs p" and "Clean p = p"
  obtains es where "p = abs_path es" and "\<forall>e\<in>set es. good_elem e"
proof
  let ?es = "cleanElems True [] (Split p (CHR ''/''))"
  have "Clean p = abs_path ?es" using assms(1) by (simp add: Clean_def abs_path_def)
  with assms(2) show "p = abs_path ?es" by simp
  show "\<forall>e\<in>set ?es. good_elem e"
    using cleanElems_good [of "[]" "Split p (CHR ''/'')"] Split_elem_no_sep by auto
qed

lemma Clean_abs_path:
  assumes "\<forall>e\<in>set es. good_elem e"
  shows "Clean (abs_path es) = abs_path es" and "Clean (abs_path es @ ''/'') = abs_path es"
proof -
  have sp: "cleanElems True [] (Split (Join es (CHR ''/'')) (CHR ''/'')) = es"
  proof (cases "es = []")
    case False
    with assms show ?thesis by (simp add: Split_Join good_elem_def cleanElems_id)
  qed simp
  have app: "cleanElems True [] (xs @ [[]]) = cleanElems True [] xs" for xs
  proof -
    have "cleanElems True acc (xs @ [[]]) = cleanElems True acc xs" for acc
      by (induction True acc xs rule: cleanElems.induct) (auto split: list.splits)
    then show ?thesis .
  qed
  show "Clean (abs_path es) = abs_path es"
    using sp by (simp add: Clean_def abs_path_def IsAbs_Cons)
  show "Clean (abs_path es @ ''/'') = abs_path es"
    using sp app [of "[] # Split (Join es (CHR ''/'')) (CHR ''/'')"]
    by (simp add: Clean_def abs_path_def IsAbs_Cons Split_append_sep)
qed

lemma upto_last_slash_append: "CHR ''/'' \<notin> set e \<Longrightarrow> upto_last_slash (p @ CHR ''/'' # e) = p @ ''/''"
  by (auto simp: upto_last_slash_def dropWhile_append1 dropWhile_append3)

lemma Dir_abs_path:
  assumes good: "\<forall>e\<in>set es. good_elem e"
  shows "Dir (abs_path es) = abs_path (butlast es)"
proof (cases es rule: rev_cases)
  case Nil
  then show ?thesis by (simp add: Dir_def abs_path_def upto_last_slash_def Clean_def IsAbs_Cons)
next
  case (snoc ds e)
  have e: "CHR ''/'' \<notin> set e" using good snoc by (simp add: good_elem_def)
  have ds: "\<forall>e\<in>set ds. good_elem e" using good snoc by simp
  show ?thesis
  proof (cases "ds = []")
    case True
    then have "upto_last_slash (abs_path es) = abs_path []"
      using upto_last_slash_append [OF e, of "[]"] snoc by (simp add: abs_path_def)
    then show ?thesis using True snoc Clean_abs_path(1) [of "[]"] by (simp add: Dir_def)
  next
    case False
    then have "abs_path es = abs_path ds @ CHR ''/'' # e"
      using snoc by (simp add: abs_path_def Join_snoc)
    then show ?thesis
      using snoc upto_last_slash_append [OF e] Clean_abs_path(2) [OF ds] by (simp add: Dir_def)
  qed
qed

lemma abs_path_root: "\<forall>e\<in>set es. good_elem e \<Longrightarrow> abs_path es = ''/'' \<longleftrightarrow> es = []"
  by (cases es; cases "tl es") (auto simp: abs_path_def good_elem_def)

lemma length_Join: "\<forall>e\<in>set es. e \<noteq> [] \<Longrightarrow> length es \<le> length (Join es sep)"
proof (induction es)
  case (Cons a es)
  then show ?case by (cases a; cases es) auto
qed simp

section \<open>The parent loop\<close>

definition dir_ok :: "os \<Rightarrow> string \<Rightarrow> bool" where
  "dir_ok os p \<longleftrightarrow> (\<exists>info. Lstat os p = Inr info \<and> parentTrusted os info)"

text \<open>With more fuel than elements the loop ends, and it accepts iff each prefix is trusted.\<close>

lemma trustParentsFrom_abs_path:
  assumes "\<forall>e\<in>set es. good_elem e" and "length es < fuel"
  shows "trustParentsFrom fuel os (abs_path es) \<noteq> Inl OutOfFuel
    \<and> (trustParentsFrom fuel os (abs_path es) = Inr () \<longleftrightarrow> (\<forall>k\<le>length es. dir_ok os (abs_path (take k es))))"
  using assms
proof (induction es arbitrary: fuel rule: rev_induct)
  case Nil
  then obtain f where "fuel = Suc f" by (cases fuel) auto
  then show ?case by (auto simp: abs_path_def dir_ok_def split: sum.splits)
next
  case (snoc e es)
  then obtain f where f: "fuel = Suc f" "length es < f" by (cases fuel) auto
  have dir: "Dir (abs_path (es @ [e])) = abs_path es"
    using Dir_abs_path [OF snoc.prems(1)] by simp
  have root: "abs_path (es @ [e]) \<noteq> ''/''"
    using abs_path_root [OF snoc.prems(1)] by simp
  have split: "(\<forall>k\<le>length (es @ [e]). dir_ok os (abs_path (take k (es @ [e])))) \<longleftrightarrow>
      dir_ok os (abs_path (es @ [e])) \<and> (\<forall>k\<le>length es. dir_ok os (abs_path (take k es)))"
    by (auto simp: le_Suc_eq)
  have IH: "trustParentsFrom f os (abs_path es) \<noteq> Inl OutOfFuel"
    "trustParentsFrom f os (abs_path es) = Inr () \<longleftrightarrow> (\<forall>k\<le>length es. dir_ok os (abs_path (take k es)))"
    using snoc.IH [OF _ f(2)] snoc.prems(1) by auto
  have "trustParentsFrom fuel os (abs_path (es @ [e])) =
      (case Lstat os (abs_path (es @ [e])) of
         Inl e \<Rightarrow> Inl (LstatFailed e)
       | Inr info \<Rightarrow> if \<not> parentTrusted os info then Inl (UntrustedParent (abs_path (es @ [e])))
           else trustParentsFrom f os (abs_path es))"
    by (simp only: f(1) trustParentsFrom.simps dir root if_False)
  then show ?case
    unfolding split using IH by (auto simp: dir_ok_def split: sum.splits)
qed

lemma trustParents_abs_path:
  assumes good: "\<forall>e\<in>set es. good_elem e"
  shows "trustParents os (abs_path es) \<noteq> Inl OutOfFuel"
    and "trustParents os (abs_path es) = Inr () \<longleftrightarrow> (\<forall>k<max 1 (length es). dir_ok os (abs_path (take k es)))"
proof -
  have bl: "\<forall>e\<in>set (butlast es). good_elem e" using good by (auto dest: in_set_butlastD)
  have "length es \<le> length (Join es (CHR ''/''))"
    using good by (intro length_Join) (auto simp: good_elem_def)
  then have len: "length (butlast es) < Suc (length (abs_path es))" by (simp add: abs_path_def)
  have tp: "trustParents os (abs_path es) =
      trustParentsFrom (Suc (length (abs_path es))) os (abs_path (butlast es))"
    using Clean_abs_path(1) [OF good] Dir_abs_path [OF good]
    by (simp add: trustParents_def IsAbs_Cons abs_path_def)
  have "(\<forall>k\<le>length (butlast es). dir_ok os (abs_path (take k (butlast es)))) \<longleftrightarrow>
      (\<forall>k<max 1 (length es). dir_ok os (abs_path (take k es)))"
    by (cases es rule: rev_cases) (auto simp: less_Suc_eq_le)
  with trustParentsFrom_abs_path [OF bl len, of os]
  show "trustParents os (abs_path es) \<noteq> Inl OutOfFuel"
    and "trustParents os (abs_path es) = Inr () \<longleftrightarrow> (\<forall>k<max 1 (length es). dir_ok os (abs_path (take k es)))"
    unfolding tp by auto
qed

lemma trustParents_fuel: "trustParents os path \<noteq> Inl OutOfFuel"
proof (cases "IsAbs path \<and> Clean path = path")
  case True
  then obtain es where "path = abs_path es" "\<forall>e\<in>set es. good_elem e"
    using clean_abs_path by blast
  then show ?thesis using trustParents_abs_path(1) by simp
next
  case False
  then show ?thesis by (auto simp: trustParents_def)
qed

text \<open>What a successful trusted open guarantees, as an elimination rule for its clients.\<close>

lemma OpenTrusted_Inr:
  assumes "OpenTrusted os path = Inr fl"
  obtains es info where "path = abs_path es" "\<forall>e\<in>set es. good_elem e"
    "\<forall>k<max 1 (length es). dir_ok os (abs_path (take k es))"
    "Open os path = Inr fl" "f_Stat fl = Inr info" "IsRegular info"
    "Perm info AND group_other_write = 0" "trustedOwner os info"
proof -
  from assms obtain info where o: "trustParents os path = Inr ()" "Open os path = Inr fl"
    "f_Stat fl = Inr info" "IsRegular info" "Perm info AND group_other_write = 0" "trustedOwner os info"
    by (auto simp: OpenTrusted_def split: sum.splits if_splits)
  from o(1) have "IsAbs path" "Clean path = path" by (auto simp: trustParents_def split: if_splits)
  then obtain es where "path = abs_path es" "\<forall>e\<in>set es. good_elem e"
    by (rule clean_abs_path)
  with o that show thesis using trustParents_abs_path(2) by blast
qed

section \<open>Properties\<close>

text \<open>
  C19: a file opened by \<open>OpenTrusted\<close> has a clean absolute path, it is a regular file owned by root
  or the calling user that neither group nor others can write, and every directory from the root
  down to its parent is a directory owned by root or the caller that others cannot write unless it
  is root's and sticky. So no other local user can have replaced the file or a directory above it.
\<close>

theorem open_trusted_protects:
  assumes "OpenTrusted os path = Inr fl"
  shows "\<exists>es info. path = abs_path es \<and> (\<forall>e\<in>set es. good_elem e)
    \<and> f_Stat fl = Inr info \<and> IsRegular info \<and> Perm info AND group_other_write = 0 \<and> trustedOwner os info
    \<and> (\<forall>k<max 1 (length es). \<exists>st. Lstat os (abs_path (take k es)) = Inr st \<and> IsDir st \<and> trustedOwner os st
         \<and> (st_Mode st AND group_other_write = 0 \<or> st_Uid st = 0 \<and> st_Mode st AND S_ISVTX \<noteq> 0))"
proof -
  from assms obtain es info where es: "path = abs_path es" "\<forall>e\<in>set es. good_elem e"
    and dirs: "\<forall>k<max 1 (length es). dir_ok os (abs_path (take k es))"
    and info: "f_Stat fl = Inr info" "IsRegular info" "Perm info AND group_other_write = 0" "trustedOwner os info"
    by (rule OpenTrusted_Inr)
  have "\<exists>st. Lstat os p = Inr st \<and> IsDir st \<and> trustedOwner os st
      \<and> (st_Mode st AND group_other_write = 0 \<or> st_Uid st = 0 \<and> st_Mode st AND S_ISVTX \<noteq> 0)"
    if "dir_ok os p" for p
    using that by (auto simp: dir_ok_def parentTrusted_def IsDir_def trustedOwner_def)
  with es dirs info show ?thesis by blast
qed

text \<open>A file system with one protected configuration file, for the witnesses.\<close>

definition root_dir :: stat where
  "root_dir = \<lparr>st_Mode = 0x41ED, st_Uid = 0, st_Gid = 0, st_Size = 0\<rparr>"

definition root_file :: stat where
  "root_file = \<lparr>st_Mode = 0x81A0, st_Uid = 0, st_Gid = 0, st_Size = 0\<rparr>"

definition plain_file :: "bytes \<Rightarrow> file" where
  "plain_file data = \<lparr>f_Stat = Inr root_file, f_Data = Inr data, f_Close = Inr ()\<rparr>"

definition example_os :: os where
  "example_os = \<lparr>Lstat = (\<lambda>_. Inr root_dir), Open = (\<lambda>_. Inr (plain_file [])),
     OpenRoot = (\<lambda>_. Inr (\<lambda>_. Inr (plain_file []))), Geteuid = 0\<rparr>"

lemma example_open: "OpenTrusted example_os ''/etc/hostlens'' = Inr (plain_file [])"
proof -
  have "trustParents example_os ''/etc/hostlens'' = Inr ()" by code_simp
  moreover have "IsRegular root_file" "Perm root_file AND group_other_write = 0"
    "trustedOwner example_os root_file" by code_simp+
  ultimately show ?thesis by (simp add: OpenTrusted_def example_os_def plain_file_def)
qed

theorem open_trusted_protects_witness:
  "\<exists>es info. ''/etc/hostlens'' = abs_path es \<and> (\<forall>e\<in>set es. good_elem e)
    \<and> f_Stat (plain_file []) = Inr info \<and> IsRegular info \<and> Perm info AND group_other_write = 0
    \<and> trustedOwner example_os info
    \<and> (\<forall>k<max 1 (length es). \<exists>st. Lstat example_os (abs_path (take k es)) = Inr st \<and> IsDir st
         \<and> trustedOwner example_os st
         \<and> (st_Mode st AND group_other_write = 0 \<or> st_Uid st = 0 \<and> st_Mode st AND S_ISVTX \<noteq> 0))"
  by (rule open_trusted_protects [OF example_open])

end
