(* ===== verification/Encoding.thy ===== *)
theory Encoding
  imports Prelude
begin

unbundle bit_operations_syntax

text \<open>
  The encodings of Go's standard library that the token store uses: SHA-256
  (\<open>crypto/sha256\<close>) on 32-bit words, lower-case hexadecimal (\<open>encoding/hex\<close>) and the unpadded
  URL-safe base64 alphabet (\<open>encoding/base64\<close>, \<open>RawURLEncoding\<close>), with the facts on lengths and
  alphabets that \<open>internal/auth/store.go\<close> relies on.
\<close>

section \<open>SHA-256\<close>

definition rotr :: "nat \<Rightarrow> 32 word \<Rightarrow> 32 word" where
  "rotr n w = drop_bit n w OR push_bit (32 - n) w"

text \<open>
  The constants as the standard defines them: the first 32 bits of the fractional parts of the cube
  roots of the first 64 primes, and of the square roots of the first eight. \<open>int_root\<close> finds the
  integer root bit by bit; the roots are below eight. The primes up to 311 are the numbers that no
  smaller prime up to 17 divides, as 19 squared is larger.
\<close>

definition small_primes :: "int list" where
  "small_primes = filter (\<lambda>n. list_all (\<lambda>d. n = d \<or> n mod d \<noteq> 0) [2, 3, 5, 7, 11, 13, 17]) [2..311]"

fun int_root :: "nat \<Rightarrow> nat \<Rightarrow> int \<Rightarrow> int \<Rightarrow> int" where
  "int_root k 0 n r = r"
| "int_root k (Suc b) n r = int_root k b n (if (r + 2 ^ b) ^ k \<le> n then r + 2 ^ b else r)"

definition sha_K :: "32 word list" where
  "sha_K = map (\<lambda>p. word_of_int (int_root 3 35 (p * 2 ^ 96) 0)) small_primes"

type_synonym sha_state = "32 word \<times> 32 word \<times> 32 word \<times> 32 word \<times> 32 word \<times> 32 word \<times> 32 word \<times> 32 word"

definition sha_init :: sha_state where
  "sha_init =
     (let h = (\<lambda>p. word_of_int (int_root 2 35 (p * 2 ^ 64) 0))
      in (h 2, h 3, h 5, h 7, h 11, h 13, h 17, h 19))"

text \<open>Some of the published values.\<close>

lemma sha_constants: "length sha_K = 64" "hd sha_K = 0x428a2f98" "last sha_K = 0xc67178f2" "fst sha_init = 0x6a09e667"
proof -
  have p: "length small_primes = 64 \<and> hd small_primes = 2 \<and> last small_primes = 311" by code_simp
  then have ne: "small_primes \<noteq> []" by auto
  have r: "int_root 3 35 (2 * 2 ^ 96) 0 = 0x1428a2f98 \<and> int_root 3 35 (311 * 2 ^ 96) 0 = 0x6c67178f2
      \<and> int_root 2 35 (2 * 2 ^ 64) 0 = 0x16a09e667" by code_simp
  show "length sha_K = 64" "hd sha_K = 0x428a2f98" "last sha_K = 0xc67178f2" "fst sha_init = 0x6a09e667"
    using p r ne by (simp_all add: sha_K_def sha_init_def hd_map last_map Let_def)
qed

definition byte_word :: "char \<Rightarrow> 32 word" where
  "byte_word c = of_nat (of_char c)"

text \<open>Big-endian words of a block of bytes.\<close>

fun be_words :: "bytes \<Rightarrow> 32 word list" where
  "be_words (a # b # c # d # r) =
     (push_bit 24 (byte_word a) OR push_bit 16 (byte_word b) OR push_bit 8 (byte_word c) OR byte_word d) # be_words r"
| "be_words _ = []"

definition byte_of :: "nat \<Rightarrow> char" where
  "byte_of n = char_of (n mod 256)"

fun be_bytes :: "nat \<Rightarrow> nat \<Rightarrow> bytes" where
  "be_bytes 0 n = []"
| "be_bytes (Suc k) n = be_bytes k (n div 256) @ [byte_of n]"

definition sha_pad :: "bytes \<Rightarrow> bytes" where
  "sha_pad m = m @ byte_of 128 # replicate ((119 - length m mod 64) mod 64) (byte_of 0) @ be_bytes 8 (8 * length m)"

text \<open>The message schedule, kept newest first.\<close>

fun sha_schedule :: "nat \<Rightarrow> 32 word list \<Rightarrow> 32 word list" where
  "sha_schedule 0 ws = ws"
| "sha_schedule (Suc k) ws =
     (let w2 = ws ! 1; w7 = ws ! 6; w15 = ws ! 14; w16 = ws ! 15;
          s0 = rotr 7 w15 XOR rotr 18 w15 XOR drop_bit 3 w15;
          s1 = rotr 17 w2 XOR rotr 19 w2 XOR drop_bit 10 w2
      in sha_schedule k ((w16 + s0 + w7 + s1) # ws))"

fun sha_round :: "sha_state \<Rightarrow> 32 word \<times> 32 word \<Rightarrow> sha_state" where
  "sha_round (a, b, c, d, e, f, g, h) (k, w) =
     (let S1 = rotr 6 e XOR rotr 11 e XOR rotr 25 e;
          ch = (e AND f) XOR (NOT e AND g);
          t1 = h + S1 + ch + k + w;
          S0 = rotr 2 a XOR rotr 13 a XOR rotr 22 a;
          maj = (a AND b) XOR (a AND c) XOR (b AND c);
          t2 = S0 + maj
      in (t1 + t2, a, b, c, d + t1, e, f, g))"

fun sha_add :: "sha_state \<Rightarrow> sha_state \<Rightarrow> sha_state" where
  "sha_add (a, b, c, d, e, f, g, h) (a', b', c', d', e', f', g', h') =
     (a + a', b + b', c + c', d + d', e + e', f + f', g + g', h + h')"

definition sha_block :: "sha_state \<Rightarrow> bytes \<Rightarrow> sha_state" where
  "sha_block st block =
     sha_add st (foldl sha_round st (zip sha_K (rev (sha_schedule 48 (rev (be_words block))))))"

function sha_blocks :: "sha_state \<Rightarrow> bytes \<Rightarrow> sha_state" where
  "sha_blocks st m = (if length m < 64 then st else sha_blocks (sha_block st (take 64 m)) (drop 64 m))"
  by pat_completeness auto
termination by (relation "measure (\<lambda>(st, m). length m)") auto

declare sha_blocks.simps [simp del]

definition word_bytes :: "32 word \<Rightarrow> bytes" where
  "word_bytes w = map (\<lambda>k. byte_of (unat (drop_bit k w AND 0xFF))) [24, 16, 8, 0]"

fun sha_output :: "sha_state \<Rightarrow> bytes" where
  "sha_output (a, b, c, d, e, f, g, h) = concat (map word_bytes [a, b, c, d, e, f, g, h])"

definition Sum256 :: "bytes \<Rightarrow> bytes" where
  "Sum256 m = sha_output (sha_blocks sha_init (sha_pad m))"

section \<open>Hexadecimal\<close>

definition hex_char :: "nat \<Rightarrow> char" where
  "hex_char n = (if n < 10 then char_of (48 + n) else char_of (87 + n))"

definition is_hex :: "char \<Rightarrow> bool" where
  "is_hex c \<longleftrightarrow> (CHR ''0'' \<le> c \<and> c \<le> CHR ''9'') \<or> (CHR ''a'' \<le> c \<and> c \<le> CHR ''f'') \<or> (CHR ''A'' \<le> c \<and> c \<le> CHR ''F'')"

fun HexEncode :: "bytes \<Rightarrow> string" where
  "HexEncode [] = []"
| "HexEncode (c # cs) = hex_char (of_char c div 16) # hex_char (of_char c mod 16) # HexEncode cs"

text \<open>\<open>hex.DecodeString\<close> succeeds on an even number of hexadecimal digits of either case.\<close>

definition hexValid :: "string \<Rightarrow> bool" where
  "hexValid s \<longleftrightarrow> even (length s) \<and> list_all is_hex s"

section \<open>Unpadded URL-safe base64\<close>

definition b64_char :: "nat \<Rightarrow> char" where
  "b64_char n =
     (if n < 26 then char_of (65 + n) else if n < 52 then char_of (71 + n)
      else if n < 62 then char_of (n - 4) else if n = 62 then CHR ''-'' else CHR ''_'')"

fun Base64RawURL :: "bytes \<Rightarrow> string" where
  "Base64RawURL (a # b # c # r) =
     (let n = of_char a * 65536 + of_char b * 256 + of_char c :: nat
      in b64_char (n div 262144) # b64_char (n div 4096 mod 64) # b64_char (n div 64 mod 64)
         # b64_char (n mod 64) # Base64RawURL r)"
| "Base64RawURL [a, b] =
     (let n = of_char a * 256 + of_char b :: nat
      in [b64_char (n div 1024), b64_char (n div 16 mod 64), b64_char (n mod 16 * 4)])"
| "Base64RawURL [a] =
     (let n = of_char a :: nat in [b64_char (n div 4), b64_char (n mod 4 * 16)])"
| "Base64RawURL [] = []"

section \<open>Lengths and alphabets\<close>

lemma length_be_bytes [simp]: "length (be_bytes k n) = k"
  by (induction k arbitrary: n) auto

lemma length_sha_output [simp]: "length (sha_output s) = 32"
  by (cases s rule: sha_output.cases) (simp add: word_bytes_def)

lemma length_Sum256 [simp]: "length (Sum256 m) = 32"
  by (simp add: Sum256_def)

lemma length_HexEncode [simp]: "length (HexEncode bs) = 2 * length bs"
  by (induction bs) auto

lemma is_hex_char: "n < 16 \<Longrightarrow> is_hex (hex_char n)"
  by (simp add: is_hex_def hex_char_def less_eq_char_def)

lemma of_char_div_16: "of_char c div 16 < (16::nat)"
  using nat_of_char_less_256 [of c] by (simp add: less_mult_imp_div_less)

lemma hexValid_HexEncode [simp]: "hexValid (HexEncode bs)"
proof -
  have "list_all is_hex (HexEncode bs)"
    by (induction bs) (simp_all add: is_hex_char of_char_div_16)
  then show ?thesis by (simp add: hexValid_def)
qed

lemma length_Base64RawURL: "length (Base64RawURL bs) = (4 * length bs + 2) div 3"
  by (induction bs rule: Base64RawURL.induct) (simp_all add: Let_def)

end
