(* ===== verification/Tokens.thy ===== *)
theory Tokens
  imports Trusted Encoding
begin

unbundle bit_operations_syntax

text \<open>
  The token store of \<open>internal/auth/store.go\<close>: the records, the bounded protected read with its
  record checks, \<open>Verify\<close>, the locked atomic \<open>update\<close> and the operations \<open>Create\<close>, \<open>Revoke\<close>,
  \<open>Rotate\<close> and \<open>List\<close> built on it.

  The directory that \<open>os.Root\<close> opens is a map from file names to their metadata and contents.
  What the kernel, the clock and the random source answer is the record \<open>host\<close>: each system call
  of \<open>update\<close> may fail. An operation that changes the directory returns the list of all directory
  states it goes through, so that a crash between two system calls is one of them. Instants are
  nanoseconds since the zero instant of Go's \<open>time.Time\<close>, so \<open>IsZero\<close> is equality with 0. The text
  form of a list of records is the parameter \<open>json_codec\<close>: \<open>Marshal\<close>, the strict decode of the
  first value, and whether a second decode reports the end of the input.
\<close>

section \<open>Data\<close>

type_synonym time = int

record token =
  t_ID :: string
  t_Name :: string
  t_Roles :: "string list"
  t_Expires :: time
  t_Revoked :: bool
  t_Hash :: string
  t_Legacy :: bool

record store =
  s_Path :: string
  s_TokenGID :: int

record json_codec =
  Marshal :: "token list \<Rightarrow> bytes option"
  DecodeTokens :: "bytes \<Rightarrow> (string, token list) result"
  DecodeEOF :: "bytes \<Rightarrow> bool"

type_synonym dir = "string \<rightharpoonup> stat \<times> bytes"

datatype syscall =
  SysOpenRoot | SysOpen | SysStat | SysLock | SysCreate | SysChown | SysWrite | SysSync | SysClose
| SysRename | SysDirOpen | SysDirSync | SysRemove

record host =
  h_DirInfo :: "string \<Rightarrow> (errno, stat) result"
  h_Euid :: uid
  h_Egid :: gid
  h_Umask :: mode
  h_Fault :: "syscall \<Rightarrow> errno option"
  h_Written :: nat
  h_Now :: "nat \<Rightarrow> time"
  h_Random :: "nat \<Rightarrow> (errno, nat \<Rightarrow> char) result"

datatype store_error =
    InvalidCredential
  | ProtectedDirRequired
  | UntrustedDirOwner
  | OpenRootFailed errno
  | StoreOpenFailed errno
  | UnsafeStore
  | UntrustedStoreOwner
  | StoreDecode string
  | TrailingData
  | InvalidRecord
  | InvalidHash
  | DuplicateID
  | DuplicateHash
  | ActiveWithoutRole
  | InvalidRecordRole
  | LockUnavailable
  | StoreTooLarge
  | RandomFailed errno
  | TempFailed errno
  | RenameFailed errno
  | DirSyncFailed errno
  | InvalidRequest
  | InvalidRole string
  | TokenNotFound
  | OverlapExceedsExpiry
  | ActiveTokenNotFound

definition maxStoreBytes :: int where
  "maxStoreBytes = 1048576"

text \<open>The \<open>k\<close>-th call of \<open>random\<close> in an operation: the buffer of the given size, filled.\<close>

definition random :: "host \<Rightarrow> nat \<Rightarrow> nat \<Rightarrow> (errno, bytes) result" where
  "random h k size' = (case h_Random h k of Inl e \<Rightarrow> Inl e | Inr f \<Rightarrow> Inr (map f [0..<size']))"

definition digest :: "string \<Rightarrow> string" where
  "digest secret = HexEncode (Sum256 (''hostlens-token-v2'' @ byte_of 0 # secret))"

definition legacyDigest :: "string \<Rightarrow> string" where
  "legacyDigest secret = HexEncode (Sum256 secret)"

definition roleValid :: "string \<Rightarrow> bool" where
  "roleValid role \<longleftrightarrow> role = ''observe'' \<or> role = ''repair''"

definition ownerTrusted :: "host \<Rightarrow> stat \<Rightarrow> bool" where
  "ownerTrusted h info \<longleftrightarrow> st_Uid info = 0 \<or> uint (st_Uid info) = uint (h_Euid h)"

section \<open>Reading\<close>

text \<open>The masks 0022 and 0027 of the source.\<close>

definition store_mask :: mode where "store_mask = 0x17"

definition store_root :: "store \<Rightarrow> host \<Rightarrow> (store_error, unit) result" where
  "store_root s h =
     (case h_DirInfo h (Dir (s_Path s)) of
        Inl e \<Rightarrow> Inl ProtectedDirRequired
      | Inr info \<Rightarrow>
          (if \<not> IsDir info \<or> Perm info AND group_other_write \<noteq> 0 then Inl ProtectedDirRequired
           else if \<not> ownerTrusted h info then Inl UntrustedDirOwner
           else (case h_Fault h SysOpenRoot of Some e \<Rightarrow> Inl (OpenRootFailed e) | None \<Rightarrow> Inr ())))"

text \<open>The loop over the decoded records with the sets of identifiers and hashes seen so far.\<close>

fun checkRecords :: "string list \<Rightarrow> string list \<Rightarrow> token list \<Rightarrow> (store_error, unit) result" where
  "checkRecords ids hashes [] = Inr ()"
| "checkRecords ids hashes (r # rs) =
     (if t_ID r = [] \<or> length (t_Hash r) \<noteq> 64 \<or> t_Name r = [] then Inl InvalidRecord
      else if \<not> hexValid (t_Hash r) then Inl InvalidHash
      else if List.member ids (t_ID r) then Inl DuplicateID
      else if List.member hashes (t_Hash r) then Inl DuplicateHash
      else if \<not> t_Revoked r \<and> t_Roles r = [] then Inl ActiveWithoutRole
      else if \<not> list_all roleValid (t_Roles r) then Inl InvalidRecordRole
      else checkRecords (t_ID r # ids) (t_Hash r # hashes) rs)"

definition limitReader :: "int \<Rightarrow> bytes \<Rightarrow> bytes" where
  "limitReader n data = (if int (length data) \<le> n then data else take (nat n) data)"

definition read_store :: "store \<Rightarrow> host \<Rightarrow> json_codec \<Rightarrow> dir \<Rightarrow> (store_error, token list) result" where
  "read_store s h cd d =
     (case (case h_Fault h SysOpen of
              Some e \<Rightarrow> Inl e
            | None \<Rightarrow> (case d (Base (s_Path s)) of None \<Rightarrow> Inl ErrNotExist | Some f \<Rightarrow> Inr f)) of
        Inl e \<Rightarrow> if e = ErrNotExist then Inr [] else Inl (StoreOpenFailed e)
      | Inr (info, content) \<Rightarrow>
          (if h_Fault h SysStat \<noteq> None \<or> \<not> IsRegular info \<or> Perm info AND store_mask \<noteq> 0
              \<or> st_Size info > maxStoreBytes \<or> st_Size info < 0 then Inl UnsafeStore
           else if \<not> ownerTrusted h info then Inl UntrustedStoreOwner
           else
             (let data = limitReader (maxStoreBytes + 1) content in
              case DecodeTokens cd data of
                Inl e \<Rightarrow> Inl (StoreDecode e)
              | Inr records \<Rightarrow>
                  (if \<not> DecodeEOF cd data then Inl TrailingData
                   else (case checkRecords [] [] records of Inl e \<Rightarrow> Inl e | Inr _ \<Rightarrow> Inr records)))))"

section \<open>Verify\<close>

text \<open>The loop of \<open>Verify\<close>; record number \<open>i\<close> is compared with the clock read at that turn.\<close>

fun findToken :: "(nat \<Rightarrow> time) \<Rightarrow> string \<Rightarrow> string \<Rightarrow> nat \<Rightarrow> token list \<Rightarrow> token option" where
  "findToken now modern legacy i [] = None"
| "findToken now modern legacy i (r # rs) =
     (let want = (if t_Legacy r then legacy else modern) in
      if want = t_Hash r \<and> \<not> t_Revoked r \<and> (t_Expires r = 0 \<or> now i < t_Expires r)
      then Some (r\<lparr>t_Hash := []\<rparr>)
      else findToken now modern legacy (Suc i) rs)"

definition Verify :: "store \<Rightarrow> host \<Rightarrow> json_codec \<Rightarrow> dir \<Rightarrow> string \<Rightarrow> (store_error, token) result" where
  "Verify s h cd d secret =
     (if length secret < 32 \<or> 128 < length secret then Inl InvalidCredential
      else
        (case store_root s h of
           Inl e \<Rightarrow> Inl e
         | Inr _ \<Rightarrow>
             (case read_store s h cd d of
                Inl e \<Rightarrow> Inl e
              | Inr records \<Rightarrow>
                  (case findToken (h_Now h) (digest secret) (legacyDigest secret) 0 records of
                     None \<Rightarrow> Inl InvalidCredential
                   | Some t \<Rightarrow> Inr t))))"

definition ListTokens :: "store \<Rightarrow> host \<Rightarrow> json_codec \<Rightarrow> dir \<Rightarrow> (store_error, token list) result" where
  "ListTokens s h cd d =
     (case store_root s h of
        Inl e \<Rightarrow> Inl e
      | Inr _ \<Rightarrow>
          (case read_store s h cd d of
             Inl e \<Rightarrow> Inl e
           | Inr records \<Rightarrow> Inr (map (\<lambda>r. r\<lparr>t_Hash := []\<rparr>) records)))"

section \<open>The atomic update\<close>

definition new_stat :: "host \<Rightarrow> gid \<Rightarrow> bytes \<Rightarrow> stat" where
  "new_stat h gid data =
     \<lparr>st_Mode = S_IFREG OR (0x1A0 AND NOT (h_Umask h)), st_Uid = h_Euid h, st_Gid = gid, st_Size = int (length data)\<rparr>"

text \<open>The deferred removal of the temporary file; its error is ignored.\<close>

definition removeTmp :: "host \<Rightarrow> string \<Rightarrow> dir \<Rightarrow> dir" where
  "removeTmp h tmp d = (if h_Fault h SysRemove = None then d(tmp := None) else d)"

text \<open>
  From the open temporary file on: change its group, write, sync and close it, rename it over the
  store and sync the directory. Each branch ends with the deferred removal.
\<close>

definition publish :: "store \<Rightarrow> host \<Rightarrow> bytes \<Rightarrow> string \<Rightarrow> dir \<Rightarrow> (store_error, unit) result \<times> dir list" where
  "publish s h data tmp d0 =
     (let d1 = d0(tmp \<mapsto> (new_stat h (h_Egid h) [], []));
          chown = (s_TokenGID s > 0 \<and> h_Euid h = 0);
          gid = (if chown then word_of_int (s_TokenGID s) else h_Egid h);
          d2 = d1(tmp \<mapsto> (new_stat h gid [], []))
      in
      (case (if chown then h_Fault h SysChown else None) of
         Some e \<Rightarrow> (Inl (TempFailed e), [d1, removeTmp h tmp d1])
       | None \<Rightarrow>
           (let content = (if h_Fault h SysWrite = None then data else take (h_Written h) data);
                d3 = d2(tmp \<mapsto> (new_stat h gid content, content));
                writeErr = (case h_Fault h SysWrite of Some e \<Rightarrow> Some e | None \<Rightarrow> h_Fault h SysSync);
                err = (case writeErr of Some e \<Rightarrow> Some e | None \<Rightarrow> h_Fault h SysClose)
            in
            (case err of
               Some e \<Rightarrow> (Inl (TempFailed e), [d1, d2, d3, removeTmp h tmp d3])
             | None \<Rightarrow>
                 (case h_Fault h SysRename of
                    Some e \<Rightarrow> (Inl (RenameFailed e), [d1, d2, d3, removeTmp h tmp d3])
                  | None \<Rightarrow>
                      (let d4 = (d3(tmp := None))(Base (s_Path s) \<mapsto> (new_stat h gid data, data));
                           end_states = [d1, d2, d3, d4, removeTmp h tmp d4]
                       in
                       (case h_Fault h SysDirOpen of
                          Some e \<Rightarrow> (Inl (DirSyncFailed e), end_states)
                        | None \<Rightarrow>
                            (case h_Fault h SysDirSync of
                               Some e \<Rightarrow> (Inl (DirSyncFailed e), end_states)
                             | None \<Rightarrow> (Inr (), end_states)))))))))"

definition tmpName :: "bytes \<Rightarrow> string" where
  "tmpName nonce = ''.tokens-'' @ HexEncode nonce"

text \<open>
  \<open>update\<close> with the change as a function of the records; its second result is what the closure of
  the source leaves in its captured variable. The list holds the directory states after the first.
\<close>

definition update :: "store \<Rightarrow> host \<Rightarrow> json_codec \<Rightarrow> nat
    \<Rightarrow> (token list \<Rightarrow> (store_error, token list \<times> 'a) result) \<Rightarrow> dir
    \<Rightarrow> (store_error, 'a) result \<times> dir list" where
  "update s h cd seed change d =
     (case store_root s h of
        Inl e \<Rightarrow> (Inl e, [])
      | Inr _ \<Rightarrow>
          (if h_Fault h SysLock \<noteq> None then (Inl LockUnavailable, [])
           else
             (case read_store s h cd d of
                Inl e \<Rightarrow> (Inl e, [])
              | Inr records \<Rightarrow>
                  (case change records of
                     Inl e \<Rightarrow> (Inl e, [])
                   | Inr (records', x) \<Rightarrow>
                       (case Marshal cd records' of
                          None \<Rightarrow> (Inl StoreTooLarge, [])
                        | Some data \<Rightarrow>
                            (if int (length data) > maxStoreBytes then (Inl StoreTooLarge, [])
                             else
                               (case random h seed 12 of
                                  Inl e \<Rightarrow> (Inl (RandomFailed e), [])
                                | Inr nonce \<Rightarrow>
                                    (case (case h_Fault h SysCreate of
                                             Some e \<Rightarrow> Some e
                                           | None \<Rightarrow> if d (tmpName nonce) \<noteq> None then Some (ErrOther ''exists'') else None) of
                                       Some e \<Rightarrow> (Inl (TempFailed e), [])
                                     | None \<Rightarrow>
                                         (case publish s h data (tmpName nonce) d of
                                            (Inl e, ds) \<Rightarrow> (Inl e, ds)
                                          | (Inr _, ds) \<Rightarrow> (Inr x, ds))))))))))"

section \<open>Create, Revoke and Rotate\<close>

definition Create :: "store \<Rightarrow> host \<Rightarrow> json_codec \<Rightarrow> string \<Rightarrow> string list \<Rightarrow> time \<Rightarrow> dir
    \<Rightarrow> (store_error, token \<times> string) result \<times> dir list" where
  "Create s h cd name roles expires d =
     (if name = [] \<or> 128 < length name \<or> ContainsAny name [byte_of 0, byte_of 10, byte_of 13] \<or> roles = []
         \<or> expires \<noteq> 0 \<and> \<not> h_Now h 0 < expires
      then (Inl InvalidRequest, [])
      else
        (case List.find (\<lambda>role. \<not> roleValid role) roles of
           Some role \<Rightarrow> (Inl (InvalidRole role), [])
         | None \<Rightarrow>
             (case random h 0 12 of
                Inl e \<Rightarrow> (Inl (RandomFailed e), [])
              | Inr i \<Rightarrow>
                  (case random h 1 32 of
                     Inl e \<Rightarrow> (Inl (RandomFailed e), [])
                   | Inr value \<Rightarrow>
                       (let secret = Base64RawURL value;
                            record' = \<lparr>t_ID = HexEncode i, t_Name = name, t_Roles = roles, t_Expires = expires,
                              t_Revoked = False, t_Hash = digest secret, t_Legacy = False\<rparr>
                        in
                        (case update s h cd 2 (\<lambda>records. Inr (records @ [record'], ())) d of
                           (Inl e, ds) \<Rightarrow> (Inl e, ds)
                         | (Inr _, ds) \<Rightarrow> (Inr (record'\<lparr>t_Hash := []\<rparr>, secret), ds)))))))"

fun revokeRecord :: "string \<Rightarrow> token list \<Rightarrow> token list option" where
  "revokeRecord i [] = None"
| "revokeRecord i (r # rs) =
     (if t_ID r = i then Some (r\<lparr>t_Revoked := True\<rparr> # rs)
      else (case revokeRecord i rs of None \<Rightarrow> None | Some rs' \<Rightarrow> Some (r # rs')))"

definition Revoke :: "store \<Rightarrow> host \<Rightarrow> json_codec \<Rightarrow> string \<Rightarrow> dir \<Rightarrow> (store_error, unit) result \<times> dir list" where
  "Revoke s h cd i d =
     update s h cd 0
       (\<lambda>records. case revokeRecord i records of None \<Rightarrow> Inl TokenNotFound | Some rs \<Rightarrow> Inr (rs, ())) d"

text \<open>
  The loop of the closure in \<open>Rotate\<close>: at the first active record with the identifier it retires
  the record at \<open>overlap\<close> and returns the completed new record to append.
\<close>

fun rotateRecord :: "(nat \<Rightarrow> time) \<Rightarrow> string \<Rightarrow> time \<Rightarrow> token \<Rightarrow> nat \<Rightarrow> token list
    \<Rightarrow> (store_error, token list \<times> token) result" where
  "rotateRecord now i overlap new k [] = Inl ActiveTokenNotFound"
| "rotateRecord now i overlap new k (old # rs) =
     (if t_ID old \<noteq> i \<or> t_Revoked old \<or> t_Expires old \<noteq> 0 \<and> \<not> now k < t_Expires old
      then (case rotateRecord now i overlap new (Suc k) rs of
              Inl e \<Rightarrow> Inl e
            | Inr (rs', new') \<Rightarrow> Inr (old # rs', new'))
      else if t_Expires old \<noteq> 0 \<and> t_Expires old < overlap then Inl OverlapExceedsExpiry
      else
        (let new' = new\<lparr>t_Name := t_Name old, t_Roles := t_Roles old\<rparr>
         in Inr (old\<lparr>t_Expires := overlap\<rparr> # rs, new')))"

definition Rotate :: "store \<Rightarrow> host \<Rightarrow> json_codec \<Rightarrow> string \<Rightarrow> time \<Rightarrow> time \<Rightarrow> dir
    \<Rightarrow> (store_error, token \<times> string) result \<times> dir list" where
  "Rotate s h cd i expires overlap d =
     (if i = [] \<or> \<not> h_Now h 0 < overlap \<or> expires \<noteq> 0 \<and> (\<not> h_Now h 1 < expires \<or> expires < overlap)
      then (Inl InvalidRequest, [])
      else
        (case random h 0 12 of
           Inl e \<Rightarrow> (Inl (RandomFailed e), [])
         | Inr idBytes \<Rightarrow>
             (case random h 1 32 of
                Inl e \<Rightarrow> (Inl (RandomFailed e), [])
              | Inr secretBytes \<Rightarrow>
                  (let secret = Base64RawURL secretBytes;
                       newRecord = \<lparr>t_ID = HexEncode idBytes, t_Name = [], t_Roles = [], t_Expires = expires,
                         t_Revoked = False, t_Hash = digest secret, t_Legacy = False\<rparr>
                   in
                   (case update s h cd 2
                      (\<lambda>records. case rotateRecord (h_Now h) i overlap newRecord 2 records of
                         Inl e \<Rightarrow> Inl e
                       | Inr (rs, new) \<Rightarrow> Inr (rs @ [new], new)) d of
                      (Inl e, ds) \<Rightarrow> (Inl e, ds)
                    | (Inr new, ds) \<Rightarrow> (Inr (new\<lparr>t_Hash := []\<rparr>, secret), ds))))))"

end
