(* ===== verification/Docker.thy ===== *)
theory Docker
  imports Tokens
begin

unbundle bit_operations_syntax

text \<open>
  The Docker adapter of \<open>internal/containers/docker.go\<close>: the fixed HTTP contract of the capped
  transport, the socket checks, the reads, the bounded log collection and the restart. The Moby
  API client and its \<open>stdcopy\<close> package are third-party code: the client is the record
  \<open>docker_api\<close>, whose fields answer the calls the adapter makes, and \<open>stdcopy\<close> the sequence of
  writes a demultiplexed stream makes with its final error. Operations that make several calls
  return the trace of the calls, in order.
\<close>

section \<open>Data\<close>

record engine =
  e_ObservedAt :: time
  e_Version :: string
  e_API :: string
  e_OS :: string
  e_Arch :: string

record container =
  c_ObservedAt :: time
  c_ID :: string
  c_Names :: "string list"
  c_Image :: string
  c_State :: string
  c_Status :: string
  c_Health :: string
  c_Restarts :: "int option"
  c_OOMKilled :: "bool option"

record container_stats =
  cs_ObservedAt :: time
  cs_ID :: string
  cs_CPUUsageNanos :: "64 word option"
  cs_MemoryUsageBytes :: "64 word option"
  cs_MemoryLimitBytes :: "64 word option"
  cs_PIDs :: "64 word option"

record log_chunk =
  l_Stream :: string
  l_Text :: string

record container_log =
  l_ObservedAt :: time
  l_ID :: string
  l_Chunks :: "log_chunk list"
  l_Limit :: int
  l_Truncated :: bool

record inventory =
  i_ObservedAt :: time
  i_Containers :: "container list"
  i_Limit :: int

record container_restart =
  cr_Container :: "container option"
  cr_Invoked :: "bool option"
  cr_Completed :: "bool option"
  cr_Issue :: string

text \<open>What the API client returns, restricted to the fields the adapter reads.\<close>

record api_version =
  v_Version :: string
  v_APIVersion :: string
  v_Os :: string
  v_Arch :: string

record api_item =
  it_ID :: string
  it_Names :: "string list"
  it_Image :: string
  it_State :: string
  it_Status :: string

record api_state =
  as_Status :: string
  as_OOMKilled :: bool
  as_Health :: "string option"

record api_config =
  ac_Image :: string
  ac_Tty :: bool

record api_container =
  ct_ID :: string
  ct_Name :: string
  ct_RestartCount :: int
  ct_State :: "api_state option"
  ct_Config :: "api_config option"

record api_sample =
  sa_ID :: string
  sa_Read :: time
  sa_CPU :: "64 word"
  sa_Memory :: "64 word"
  sa_Limit :: "64 word"
  sa_PIDs :: "64 word"

datatype body_end = BodyEOF | BodyLimit | BodyError string

record log_options =
  lo_ShowStdout :: bool
  lo_ShowStderr :: bool
  lo_Since :: time
  lo_Until :: time
  lo_Timestamps :: bool
  lo_Tail :: string

record docker_api =
  api_Version :: "(string, api_version) result"
  api_List :: "bool \<Rightarrow> int \<Rightarrow> (string, api_item list) result"
  api_Inspect :: "nat \<Rightarrow> string \<Rightarrow> (string, api_container) result"
  api_Stats :: "string \<Rightarrow> (string, bytes) result"
  api_Sample :: "bytes \<Rightarrow> (string, api_sample) result"
  api_Logs :: "string \<Rightarrow> log_options \<Rightarrow> (string, bytes \<times> body_end) result"
  api_StdCopy :: "bytes \<Rightarrow> (string \<times> bytes) list \<times> string option"
  api_Restart :: "string \<Rightarrow> int \<Rightarrow> (string, unit) result"
  api_Now :: "nat \<Rightarrow> time"

datatype docker_call = CallInspect string | CallRestart string int

datatype docker_error =
    OutsideContract
  | TransportError string
  | ExceedsByteCeiling
  | SocketUnsafe
  | SocketNotRootOwned
  | DialFailed string
  | SocketChanged
  | AbsoluteSocketRequired
  | VersionUnavailable string
  | InventoryUnavailable string
  | FullIDRequired
  | ContainerUnavailable string
  | DifferentContainer
  | StatsUnavailable string
  | StatsInvalid string
  | StatsOmittedTime
  | LogsUnavailable string
  | LogsExceedCeiling
  | InvalidFrame
  | LogsInvalid
  | IDOrLimitInvalid

section \<open>The fixed contract of the transport\<close>

definition validID :: "string \<Rightarrow> bool" where
  "validID i \<longleftrightarrow> length i = 64 \<and>
     list_all (\<lambda>c. \<not> (c < CHR ''0'' \<or> c > CHR ''9'' \<and> (c < CHR ''a'' \<or> c > CHR ''f''))) i"

definition allowedPath :: "string \<Rightarrow> string \<Rightarrow> bool \<Rightarrow> bool" where
  "allowedPath meth raw write =
     (let parts = Split (Trim raw (CHR ''/'')) (CHR ''/'') in
      if length parts = 1 \<and> (meth = ''GET'' \<or> meth = ''HEAD'' \<and> parts ! 0 = ''_ping'')
         \<and> (parts ! 0 = ''_ping'' \<or> parts ! 0 = ''version'')
      then True
      else if length parts = 0 \<or> \<not> HasPrefix (parts ! 0) ''v1.'' then False
      else
        (let parts = tl parts in
         if meth = ''GET''
         then
           (if length parts = 1 \<and> (parts ! 0 = ''_ping'' \<or> parts ! 0 = ''version'' \<or> parts ! 0 = ''info'') then True
            else if length parts = 2 \<and> parts ! 0 = ''containers'' \<and> parts ! 1 = ''json'' then True
            else length parts = 3 \<and> parts ! 0 = ''containers'' \<and> validID (parts ! 1)
              \<and> (parts ! 2 = ''json'' \<or> parts ! 2 = ''stats'' \<or> parts ! 2 = ''logs''))
         else write \<and> meth = ''POST'' \<and> length parts = 3 \<and> parts ! 0 = ''containers'' \<and> validID (parts ! 1)
           \<and> parts ! 2 = ''restart''))"

definition maxDockerResponse :: int where
  "maxDockerResponse = 8388608"

definition maxLogBytes :: int where
  "maxLogBytes = 524288"

text \<open>\<open>io.ReadAll\<close> of an \<open>io.LimitReader\<close>: a stream longer than the limit ends there without error.\<close>

definition readAllLimit :: "int \<Rightarrow> bytes \<times> body_end \<Rightarrow> bytes \<times> body_end" where
  "readAllLimit n body = (if n \<le> int (length (fst body)) then (take (nat n) (fst body), BodyEOF) else body)"

definition responseLimit :: "string \<Rightarrow> int" where
  "responseLimit path =
     (let limit = (if HasSuffix path ''/logs'' then maxLogBytes else maxDockerResponse)
      in if HasSuffix path ''/stats'' then 1048576 else limit)"

text \<open>
  The round trip: \<open>base\<close> performs the request and gives the response body and the result of
  closing it.
\<close>

definition RoundTrip :: "(string \<Rightarrow> string \<Rightarrow> (string, (bytes \<times> body_end) \<times> string option) result) \<Rightarrow> bool
    \<Rightarrow> string \<Rightarrow> string \<Rightarrow> (docker_error, bytes \<times> body_end) result" where
  "RoundTrip base write meth path =
     (if \<not> allowedPath meth path write then Inl OutsideContract
      else
        (case base meth path of
           Inl e \<Rightarrow> Inl (TransportError e)
         | Inr (body, closeErr) \<Rightarrow>
             (let limit = responseLimit path;
                  (data, err) = readAllLimit (limit + 1) body
              in
              if err \<noteq> BodyEOF \<or> closeErr \<noteq> None then Inl (TransportError ''read or close'')
              else if int (length data) > limit
              then (if \<not> HasSuffix path ''/logs'' then Inl ExceedsByteCeiling
                    else Inr (take (nat limit) data, BodyLimit))
              else Inr (data, BodyEOF))))"

text \<open>
  The socket dialer: the type, permissions and owner of the socket before the dial, the dial, and
  the same file after it. The file identity that \<open>os.SameFile\<close> compares is a number (the device
  and inode).
\<close>

definition socketOwnedByRoot :: "stat \<Rightarrow> bool" where
  "socketOwnedByRoot info \<longleftrightarrow> st_Uid info = 0"

definition socketDialer :: "(errno, stat \<times> nat) result \<Rightarrow> (string, 'conn) result \<Rightarrow> (errno, stat \<times> nat) result
    \<Rightarrow> (docker_error, 'conn) result" where
  "socketDialer before dial after =
     (case before of
        Inl e \<Rightarrow> Inl SocketUnsafe
      | Inr (info, ident) \<Rightarrow>
          (if st_Mode info AND S_IFMT \<noteq> S_IFSOCK \<or> Perm info AND any_other \<noteq> 0 then Inl SocketUnsafe
           else if \<not> socketOwnedByRoot info then Inl SocketNotRootOwned
           else
             (case dial of
                Inl e \<Rightarrow> Inl (DialFailed e)
              | Inr conn \<Rightarrow>
                  (case after of
                     Inl e \<Rightarrow> Inl SocketChanged
                   | Inr (info', ident') \<Rightarrow> if ident \<noteq> ident' then Inl SocketChanged else Inr conn))))"

definition newDockerClient :: "string \<Rightarrow> bool \<Rightarrow> (docker_error, bool \<times> int) result" where
  "newDockerClient socket write =
     (if socket = [] \<or> \<not> HasPrefix socket ''/'' then Inl AbsoluteSocketRequired
      else Inr (write, if write then 30 else 10))"

section \<open>Reads\<close>

definition dockerEngine :: "docker_api \<Rightarrow> (docker_error, engine) result" where
  "dockerEngine api =
     (case api_Version api of
        Inl e \<Rightarrow> Inl (VersionUnavailable e)
      | Inr v \<Rightarrow> Inr \<lparr>e_ObservedAt = api_Now api 0, e_Version = v_Version v, e_API = v_APIVersion v,
          e_OS = v_Os v, e_Arch = v_Arch v\<rparr>)"

definition dockerContainers :: "docker_api \<Rightarrow> (docker_error, inventory) result" where
  "dockerContainers api =
     (case api_List api True 501 of
        Inl e \<Rightarrow> Inl (InventoryUnavailable e)
      | Inr items \<Rightarrow>
          (let now = api_Now api 0 in
           Inr \<lparr>i_ObservedAt = now,
             i_Containers = map (\<lambda>it. \<lparr>c_ObservedAt = now, c_ID = it_ID it, c_Names = it_Names it,
               c_Image = it_Image it, c_State = it_State it, c_Status = it_Status it, c_Health = [],
               c_Restarts = None, c_OOMKilled = None\<rparr>) (take (min (length items) 500) items),
             i_Limit = 500\<rparr>))"

text \<open>\<open>Container\<close> makes the \<open>k\<close>-th inspection of the operation.\<close>

definition dockerContainer :: "docker_api \<Rightarrow> nat \<Rightarrow> string \<Rightarrow> (docker_error, container) result \<times> docker_call list" where
  "dockerContainer api k i =
     (if \<not> validID i then (Inl FullIDRequired, [])
      else
        ((case api_Inspect api k i of
            Inl e \<Rightarrow> Inl (ContainerUnavailable e)
          | Inr r \<Rightarrow>
              (if ct_ID r \<noteq> i then Inl DifferentContainer
               else
                 (let state = (case ct_State r of None \<Rightarrow> [] | Some st \<Rightarrow> as_Status st);
                      health = (case ct_State r of None \<Rightarrow> []
                        | Some st \<Rightarrow> (case as_Health st of None \<Rightarrow> [] | Some hl \<Rightarrow> hl));
                      oom = (case ct_State r of None \<Rightarrow> None | Some st \<Rightarrow> Some (as_OOMKilled st));
                      image = (case ct_Config r of None \<Rightarrow> [] | Some cf \<Rightarrow> ac_Image cf)
                  in Inr \<lparr>c_ObservedAt = api_Now api k, c_ID = ct_ID r, c_Names = [ct_Name r], c_Image = image,
                       c_State = state, c_Status = state, c_Health = health,
                       c_Restarts = Some (ct_RestartCount r), c_OOMKilled = oom\<rparr>))),
         [CallInspect i]))"

definition dockerStats :: "docker_api \<Rightarrow> string \<Rightarrow> (docker_error, container_stats) result" where
  "dockerStats api i =
     (if \<not> validID i then Inl FullIDRequired
      else
        (case api_Stats api i of
           Inl e \<Rightarrow> Inl (StatsUnavailable e)
         | Inr body \<Rightarrow>
             (case api_Sample api (limitReader (maxDockerResponse + 1) body) of
                Inl e \<Rightarrow> Inl (StatsInvalid e)
              | Inr sample \<Rightarrow>
                  (if sa_ID sample \<noteq> i then Inl DifferentContainer
                   else if sa_Read sample = 0 then Inl StatsOmittedTime
                   else Inr \<lparr>cs_ObservedAt = sa_Read sample, cs_ID = i, cs_CPUUsageNanos = Some (sa_CPU sample),
                          cs_MemoryUsageBytes = Some (sa_Memory sample), cs_MemoryLimitBytes = Some (sa_Limit sample),
                          cs_PIDs = Some (sa_PIDs sample)\<rparr>))))"

section \<open>Logs\<close>

text \<open>The big-endian length field of a frame header.\<close>

definition frame_size :: "bytes \<Rightarrow> int" where
  "frame_size raw = of_char (raw ! 4) * 16777216 + of_char (raw ! 5) * 65536 + of_char (raw ! 6) * 256 + of_char (raw ! 7)"

text \<open>The loop of \<open>completeDockerFrames\<close> on the input from position \<open>at\<close> on.\<close>

function framesFrom :: "nat \<Rightarrow> bytes \<Rightarrow> nat \<times> bool" where
  "framesFrom at rest =
     (if rest = [] then (0, True)
      else if length rest < 8 then (at, False)
      else
        (let n = frame_size rest in
         if n > int (length rest) - 8 then (at, False)
         else if 8 + n = int (length rest) then (at + 8 + nat n, True)
         else framesFrom (at + 8 + nat n) (drop (8 + nat n) rest)))"
  by pat_completeness auto
termination by (relation "measure (\<lambda>(at, rest). length rest)") auto

declare framesFrom.simps [simp del]

definition completeDockerFrames :: "bytes \<Rightarrow> nat \<times> bool" where
  "completeDockerFrames raw = framesFrom 0 raw"

definition validDockerFrames :: "bytes \<Rightarrow> bool" where
  "validDockerFrames raw = snd (completeDockerFrames raw)"

record log_collector =
  lc_chunks :: "log_chunk list"
  lc_used :: int

definition maxCollected :: int where
  "maxCollected = 65536"

text \<open>\<open>logWriter.Write\<close>: the collector afterwards, and whether \<open>errLogLimit\<close> is returned.\<close>

definition logWrite :: "string \<Rightarrow> bytes \<Rightarrow> log_collector \<Rightarrow> log_collector \<times> bool" where
  "logWrite stream data lc =
     (let remaining = maxCollected - lc_used lc in
      if remaining \<le> 0 \<or> 200 \<le> length (lc_chunks lc) then (lc, True)
      else
        (let n = min (int (length data)) remaining in
         (\<lparr>lc_chunks = lc_chunks lc @ [\<lparr>l_Stream = stream, l_Text = take (nat n) data\<rparr>], lc_used = lc_used lc + n\<rparr>,
          n < int (length data))))"

text \<open>A copy loop over the writes of a stream; it stops at the first \<open>errLogLimit\<close>.\<close>

fun copyWrites :: "(string \<times> bytes) list \<Rightarrow> log_collector \<Rightarrow> log_collector \<times> bool" where
  "copyWrites [] lc = (lc, False)"
| "copyWrites ((stream, data) # ws) lc =
     (case logWrite stream data lc of
        (lc', True) \<Rightarrow> (lc', True)
      | (lc', False) \<Rightarrow> copyWrites ws lc')"

abbreviation newline :: char where
  "newline \<equiv> CHR 0x0A"

definition countLines :: "log_chunk list \<Rightarrow> nat" where
  "countLines chunks =
     sum_list (map (\<lambda>c. CountByte (l_Text c) newline) chunks)
     + (if chunks \<noteq> [] \<and> \<not> HasSuffix (l_Text (last chunks)) [newline] then 1 else 0)"

text \<open>The inner loop: remove up to \<open>drop'\<close> lines from the front of one chunk.\<close>

function dropChunkLines :: "nat \<Rightarrow> string \<Rightarrow> nat \<times> string" where
  "dropChunkLines d txt' =
     (if d = 0 \<or> txt' = [] then (d, txt')
      else
        (case Cut txt' newline of
           (_, after, found) \<Rightarrow> if \<not> found then (d, []) else dropChunkLines (d - 1) after))"
  by pat_completeness auto
termination by (relation "measure fst") auto

declare dropChunkLines.simps [simp del]

fun dropLines :: "nat \<Rightarrow> log_chunk list \<Rightarrow> log_chunk list" where
  "dropLines d [] = []"
| "dropLines d (c # cs) =
     (case dropChunkLines d (l_Text c) of
        (d', txt') \<Rightarrow> if txt' \<noteq> [] then c\<lparr>l_Text := txt'\<rparr> # dropLines d' cs else dropLines d' cs)"

definition keepLatestLines :: "log_chunk list \<Rightarrow> nat \<Rightarrow> log_chunk list \<times> bool" where
  "keepLatestLines chunks limit =
     (if countLines chunks \<le> limit then (chunks, False)
      else (dropLines (countLines chunks - limit) chunks, True))"

definition minutes15 :: time where
  "minutes15 = 900000000000"

text \<open>
  The end of \<open>Logs\<close>, for a stream of writes with its final error: run the copy, refuse any error
  but the limit, keep the latest lines.
\<close>

definition assembleLogs :: "time \<Rightarrow> string \<Rightarrow> int \<Rightarrow> bool \<Rightarrow> (string \<times> bytes) list \<times> string option
    \<Rightarrow> (docker_error, container_log) result" where
  "assembleLogs now i limit transportTruncated stream =
     (let (lc, hit) = copyWrites (fst stream) \<lparr>lc_chunks = [], lc_used = 0\<rparr> in
      if \<not> hit \<and> snd stream \<noteq> None then Inl LogsInvalid
      else
        (let (chunks, countTruncated) = keepLatestLines (lc_chunks lc) (nat limit)
         in Inr \<lparr>l_ObservedAt = now, l_ID = i, l_Chunks = chunks, l_Limit = limit,
              l_Truncated = (transportTruncated \<or> hit \<or> countTruncated)\<rparr>))"

definition dockerLogs :: "docker_api \<Rightarrow> string \<Rightarrow> int \<Rightarrow> (docker_error, container_log) result" where
  "dockerLogs api i limit =
     (if \<not> validID i \<or> limit < 1 \<or> limit > 100 then Inl IDOrLimitInvalid
      else
        (case api_Inspect api 0 i of
           Inl e \<Rightarrow> Inl (ContainerUnavailable e)
         | Inr inspect \<Rightarrow>
             (if ct_ID inspect \<noteq> i then Inl (ContainerUnavailable ''changed'')
              else
                (let now = api_Now api 0 in
                 case api_Logs api i \<lparr>lo_ShowStdout = True, lo_ShowStderr = True, lo_Since = now - minutes15,
                        lo_Until = now, lo_Timestamps = True, lo_Tail = Itoa (limit + 1)\<rparr> of
                   Inl e \<Rightarrow> Inl (LogsUnavailable e)
                 | Inr body \<Rightarrow>
                     (let (raw, err) = readAllLimit (maxLogBytes + 1) body;
                          transportTruncated = (err = BodyLimit)
                      in
                      if err \<noteq> BodyEOF \<and> \<not> transportTruncated \<or> int (length raw) > maxLogBytes then Inl LogsExceedCeiling
                      else
                        (let tty = (case ct_Config inspect of None \<Rightarrow> False | Some cf \<Rightarrow> ac_Tty cf);
                             (complete, valid) = completeDockerFrames raw
                         in
                         if \<not> tty \<and> \<not> valid \<and> \<not> transportTruncated then Inl InvalidFrame
                         else
                           assembleLogs now i limit transportTruncated
                             (if tty then (if raw = [] then ([], None) else ([(''stdout'', raw)], None))
                              else api_StdCopy api (if valid then raw else take complete raw))))))))"

section \<open>Restart\<close>

definition dockerRestart :: "docker_api \<Rightarrow> string \<Rightarrow> (docker_error, container_restart) result \<times> docker_call list" where
  "dockerRestart api i =
     (if \<not> validID i then (Inl FullIDRequired, [])
      else
        (case dockerContainer api 0 i of
           (Inl e, calls) \<Rightarrow> (Inl e, calls)
         | (Inr before, calls) \<Rightarrow>
             (if c_ID before \<noteq> i then (Inl DifferentContainer, calls)
              else
                (let calls = calls @ [CallRestart i 10] in
                 case api_Restart api i 10 of
                   Inl e \<Rightarrow> (Inr \<lparr>cr_Container = None, cr_Invoked = None, cr_Completed = None,
                                cr_Issue = ''restart_outcome_unknown''\<rparr>, calls)
                 | Inr _ \<Rightarrow>
                     (case dockerContainer api 1 i of
                        (Inl e, calls') \<Rightarrow>
                          (Inr \<lparr>cr_Container = None, cr_Invoked = Some True, cr_Completed = Some True,
                             cr_Issue = ''post_observation_unavailable''\<rparr>, calls @ calls')
                      | (Inr after, calls') \<Rightarrow>
                          (Inr \<lparr>cr_Container = Some after, cr_Invoked = Some True, cr_Completed = Some True,
                             cr_Issue = []\<rparr>, calls @ calls'))))))"

end
