(* ===== verification/Docker_Correct.thy ===== *)
theory Docker_Correct
  imports Docker "HOL-Library.Sublist"
begin

text \<open>
  The correctness of the Docker adapter: the transport lets exactly the fixed contract pass and
  bounds what it returns, the frame scan finds exactly the complete frames, logs stay within their
  byte, chunk and line limits and are the latest lines, and a restart is requested only for the
  container that was just inspected under the full identifier.
\<close>

section \<open>The contract of the transport\<close>

text \<open>
  The requests the adapter may make, by method and path elements; the first argument says whether
  the client may write.
\<close>

inductive docker_contract :: "bool \<Rightarrow> string \<Rightarrow> string list \<Rightarrow> bool" where
  ping: "meth = ''GET'' \<or> meth = ''HEAD'' \<Longrightarrow> docker_contract w meth [''_ping'']"
| version: "docker_contract w ''GET'' [''version'']"
| read_engine: "HasPrefix v ''v1.'' \<Longrightarrow> op \<in> {''_ping'', ''version'', ''info''} \<Longrightarrow> docker_contract w ''GET'' [v, op]"
| read_list: "HasPrefix v ''v1.'' \<Longrightarrow> docker_contract w ''GET'' [v, ''containers'', ''json'']"
| read_container: "HasPrefix v ''v1.'' \<Longrightarrow> validID i \<Longrightarrow> op \<in> {''json'', ''stats'', ''logs''} \<Longrightarrow>
    docker_contract w ''GET'' [v, ''containers'', i, op]"
| restart: "HasPrefix v ''v1.'' \<Longrightarrow> validID i \<Longrightarrow> docker_contract True ''POST'' [v, ''containers'', i, ''restart'']"

inductive_simps contract1: "docker_contract w meth [p]"
inductive_simps contract2: "docker_contract w meth [p, a]"
inductive_simps contract3: "docker_contract w meth [p, a, b]"
inductive_simps contract4: "docker_contract w meth [p, a, b, c]"
inductive_simps contract5: "docker_contract w meth (p # a # b # c # d # ps)"

lemma allowedPath_contract:
  "allowedPath meth raw w \<longleftrightarrow> docker_contract w meth (Split (Trim raw (CHR ''/'')) (CHR ''/''))"
proof -
  obtain p ps where sp: "Split (Trim raw (CHR ''/'')) (CHR ''/'') = p # ps"
    by (cases "Split (Trim raw (CHR ''/'')) (CHR ''/'')") auto
  consider (one) "ps = []" | (two) a where "ps = [a]" | (three) a b where "ps = [a, b]"
    | (four) a b c where "ps = [a, b, c]" | (more) a b c d qs where "ps = a # b # c # d # qs"
    by (metis list.exhaust)
  then show ?thesis
  proof cases
    case one
    then show ?thesis unfolding allowedPath_def sp Let_def contract1 [of w meth p]
      by (cases "meth = ''GET''"; cases "p = ''_ping''") (simp_all add: HasPrefix_def contract1, blast?)
  next
    case two
    then show ?thesis unfolding allowedPath_def sp Let_def by (cases "meth = ''GET''") (auto simp: contract2)
  next
    case three
    then show ?thesis unfolding allowedPath_def sp Let_def by (cases "meth = ''GET''") (auto simp: contract3)
  next
    case four
    then show ?thesis unfolding allowedPath_def sp Let_def
      by (cases "meth = ''GET''"; cases "a = ''containers''"; cases "HasPrefix p ''v1.''") (auto simp: contract4)
  next
    case more
    then show ?thesis unfolding allowedPath_def sp Let_def by (cases "meth = ''GET''") (auto simp: contract5)
  qed
qed

lemma readAllLimit_bound: "readAllLimit n body = (data, e) \<Longrightarrow> 0 \<le> n \<Longrightarrow> int (length data) \<le> n"
  by (auto simp: readAllLimit_def split: if_splits)

lemma responseLimit_pos: "0 < responseLimit path"
  by (simp add: responseLimit_def maxLogBytes_def maxDockerResponse_def Let_def)

section \<open>Frames\<close>

definition is_frame :: "bytes \<Rightarrow> bool" where
  "is_frame f \<longleftrightarrow> 8 \<le> length f \<and> int (length f) = 8 + frame_size f"

lemma frame_size_nonneg: "0 \<le> frame_size raw"
proof -
  have "0 \<le> (of_char c :: int)" for c by (metis of_char_of of_nat_0_le_iff of_nat_of_char)
  then show ?thesis by (simp add: frame_size_def)
qed

lemma frame_size_prefix: "8 \<le> length f \<Longrightarrow> frame_size (f @ r) = frame_size f"
  by (simp add: frame_size_def nth_append)

lemma frame_size_take: "8 \<le> n \<Longrightarrow> n \<le> length rest \<Longrightarrow> frame_size (take n rest) = frame_size rest"
  using frame_size_prefix [of "take n rest" "drop n rest"] by simp

lemma is_frame_take:
  assumes "8 \<le> length rest" "frame_size rest \<le> int (length rest) - 8"
  shows "is_frame (take (8 + nat (frame_size rest)) rest)"
  using assms frame_size_nonneg [of rest] by (simp add: is_frame_def frame_size_take)

lemma framesFrom_split:
  assumes "framesFrom at rest = (n, ok)" and "rest \<noteq> []"
  shows "\<exists>fs r. rest = concat fs @ r \<and> list_all is_frame fs \<and> n = at + length (concat fs)
    \<and> (ok \<longleftrightarrow> r = []) \<and> \<not> (\<exists>f r'. r = f @ r' \<and> is_frame f)"
  using assms
proof (induction at rest arbitrary: n ok rule: framesFrom.induct)
  case (1 at rest)
  have not_frame: "\<not> is_frame f" if "rest = f @ r'" "length rest < 8 \<or> int (length rest) - 8 < frame_size rest" for f r'
    using that by (auto simp: is_frame_def frame_size_prefix)
  have nil: "\<not> is_frame []" by (simp add: is_frame_def)
  show ?case
  proof (cases "length rest < 8 \<or> int (length rest) - 8 < frame_size rest")
    case True
    then have "n = at" "\<not> ok" using "1.prems" by (auto simp: framesFrom.simps [of at rest] Let_def split: if_splits)
    with True "1.prems"(2) not_frame show ?thesis by (intro exI [of _ "[]"] exI [of _ rest]) auto
  next
    case False
    let ?k = "8 + nat (frame_size rest)"
    have f: "is_frame (take ?k rest)" using False by (intro is_frame_take) auto
    have k: "?k \<le> length rest" using False frame_size_nonneg [of rest] by linarith
    show ?thesis
    proof (cases "8 + frame_size rest = int (length rest)")
      case True
      then have "n = at + ?k" "ok" "?k = length rest"
        using False "1.prems" by (auto simp: framesFrom.simps [of at rest] Let_def split: if_splits)
      then show ?thesis using f nil by (intro exI [of _ "[rest]"] exI [of _ "[]"]) auto
    next
      case neq: False
      then have run: "framesFrom (at + 8 + nat (frame_size rest)) (drop ?k rest) = (n, ok)"
        using False "1.prems" by (auto simp: framesFrom.simps [of at rest] Let_def split: if_splits)
      have ne: "drop ?k rest \<noteq> []" using k neq frame_size_nonneg [of rest] by simp
      have g: "\<not> length rest < 8" "frame_size rest = frame_size rest" "\<not> int (length rest) - 8 < frame_size rest"
        using False by auto
      from "1.IH" [OF "1.prems"(2) g neq run ne] obtain fs r where ih: "drop ?k rest = concat fs @ r" "list_all is_frame fs"
        "n = at + 8 + nat (frame_size rest) + length (concat fs)" "ok \<longleftrightarrow> r = []" "\<not> (\<exists>f r'. r = f @ r' \<and> is_frame f)"
        by blast
      have "rest = concat (take ?k rest # fs) @ r" using ih(1) by (metis append_assoc append_take_drop_id concat.simps(2))
      moreover have "n = at + length (concat (take ?k rest # fs))" using ih(3) k by simp
      moreover have "list_all is_frame (take ?k rest # fs)" using ih(2) f by simp
      ultimately show ?thesis using ih(4,5) by blast
    qed
  qed
qed

section \<open>Collecting log chunks\<close>

definition log_text :: "log_chunk list \<Rightarrow> string" where
  "log_text cs = concat (map l_Text cs)"

text \<open>The collector counts its bytes and stays within its limits.\<close>

definition collector_ok :: "log_collector \<Rightarrow> bool" where
  "collector_ok lc \<longleftrightarrow> lc_used lc = int (length (log_text (lc_chunks lc))) \<and> lc_used lc \<le> maxCollected
     \<and> length (lc_chunks lc) \<le> 200"

lemma log_text_append [simp]: "log_text (a @ b) = log_text a @ log_text b" "log_text [] = []"
  "log_text (c # cs) = l_Text c @ log_text cs"
  by (simp_all add: log_text_def)

lemma logWrite_ok:
  assumes "collector_ok lc" and "logWrite stream data lc = (lc', hit)"
  shows "collector_ok lc'" and "\<exists>part. prefix part data \<and> log_text (lc_chunks lc') = log_text (lc_chunks lc) @ part
    \<and> (\<not> hit \<longrightarrow> part = data)"
proof -
  let ?n = "min (int (length data)) (maxCollected - lc_used lc)"
  have "collector_ok lc' \<and> (\<exists>part. prefix part data \<and> log_text (lc_chunks lc') = log_text (lc_chunks lc) @ part
    \<and> (\<not> hit \<longrightarrow> part = data))"
  proof (cases "maxCollected - lc_used lc \<le> 0 \<or> 200 \<le> length (lc_chunks lc)")
    case True
    then have "lc' = lc" "hit" using assms(2) by (simp_all add: logWrite_def Let_def)
    then show ?thesis using assms(1) by auto
  next
    case False
    then have 2: "0 < maxCollected - lc_used lc" "length (lc_chunks lc) < 200"
      "lc' = \<lparr>lc_chunks = lc_chunks lc @ [\<lparr>l_Stream = stream, l_Text = take (nat ?n) data\<rparr>], lc_used = lc_used lc + ?n\<rparr>"
      "hit \<longleftrightarrow> ?n < int (length data)"
      using assms(2) by (simp_all add: logWrite_def Let_def)
    then have "collector_ok lc'" using assms(1) by (auto simp: collector_ok_def min_def)
    moreover have "prefix (take (nat ?n) data) data" by (rule take_is_prefix)
    moreover have "\<not> hit \<longrightarrow> take (nat ?n) data = data" using 2(4) by auto
    ultimately show ?thesis using 2(3) by (intro conjI exI [of _ "take (nat ?n) data"]) auto
  qed
  then show "collector_ok lc'" and "\<exists>part. prefix part data \<and> log_text (lc_chunks lc') = log_text (lc_chunks lc) @ part
    \<and> (\<not> hit \<longrightarrow> part = data)" by auto
qed

lemma copyWrites_ok:
  "collector_ok lc \<Longrightarrow> copyWrites ws lc = (lc', hit) \<Longrightarrow>
   collector_ok lc' \<and> (\<exists>part. prefix part (concat (map snd ws))
     \<and> log_text (lc_chunks lc') = log_text (lc_chunks lc) @ part \<and> (\<not> hit \<longrightarrow> part = concat (map snd ws)))"
proof (induction ws lc rule: copyWrites.induct)
  case (2 stream data ws lc)
  obtain lc1 h1 where w: "logWrite stream data lc = (lc1, h1)" by fastforce
  from logWrite_ok [OF "2.prems"(1) w] obtain part where ok: "collector_ok lc1" and
    part: "prefix part data" "log_text (lc_chunks lc1) = log_text (lc_chunks lc) @ part" "\<not> h1 \<longrightarrow> part = data" by blast
  show ?case
  proof (cases h1)
    case True
    then have "lc' = lc1" "hit" using "2.prems"(2) w by auto
    with ok part show ?thesis by (auto intro: prefix_append exI [of _ part])
  next
    case False
    then have run: "copyWrites ws lc1 = (lc', hit)" using "2.prems"(2) w by simp
    from "2.IH" [OF w [symmetric] _ ok run] False obtain p2 where "collector_ok lc'" "prefix p2 (concat (map snd ws))"
      "log_text (lc_chunks lc') = log_text (lc_chunks lc1) @ p2" "\<not> hit \<longrightarrow> p2 = concat (map snd ws)" by auto
    with part False show ?thesis by (intro conjI exI [of _ "data @ p2"]) auto
  qed
qed auto

section \<open>The latest lines\<close>

text \<open>The number of lines of a text: its newlines, and one more for an unterminated last line.\<close>

definition text_lines :: "string \<Rightarrow> nat" where
  "text_lines s = count_list s newline + (if s \<noteq> [] \<and> last s \<noteq> newline then 1 else 0)"

lemma Cut_found: "Cut s sep = (b, a, True) \<Longrightarrow> s = b @ sep # a \<and> sep \<notin> set b"
  by (induction s arbitrary: b) (auto split: if_splits prod.splits)

lemma Cut_not_found: "Cut s sep = (b, a, False) \<Longrightarrow> sep \<notin> set s"
  by (induction s arbitrary: b) (auto split: if_splits prod.splits)

lemma dropChunkLines_spec:
  "dropChunkLines d s = (d', s') \<Longrightarrow>
   suffix s' s \<and> d' \<le> d \<and> count_list s newline = count_list s' newline + (d - d') \<and> (s' = [] \<or> d' = 0)
   \<and> (d' = 0 \<and> s \<noteq> [] \<and> last s \<noteq> newline \<longrightarrow> s' \<noteq> [])"
proof (induction d s arbitrary: d' s' rule: dropChunkLines.induct)
  case (1 d s)
  show ?case
  proof (cases "d = 0 \<or> s = []")
    case True
    then show ?thesis using "1.prems" by (auto simp: dropChunkLines.simps [of d s])
  next
    case False
    obtain b a found where c: "Cut s newline = (b, a, found)" by (cases "Cut s newline") auto
    show ?thesis
    proof (cases found)
      case True
      then have run: "dropChunkLines (d - 1) a = (d', s')" and s: "s = b @ newline # a" "newline \<notin> set b"
        using "1.prems" False c Cut_found [of s newline b a] by (auto simp: dropChunkLines.simps [of d s])
      from "1.IH" [OF False c [symmetric] refl _ run] True
      have ih: "suffix s' a" "d' \<le> d - 1" "count_list a newline = count_list s' newline + (d - 1 - d')" "s' = [] \<or> d' = 0"
        "d' = 0 \<and> a \<noteq> [] \<and> last a \<noteq> newline \<longrightarrow> s' \<noteq> []" by auto
      have "count_list b newline = 0" using s(2) by (simp add: count_list_0_iff)
      with ih s(1) False show ?thesis by (auto simp: suffix_def split: if_splits)
    next
      case nf: False
      then have "d' = d" "s' = []" "count_list s newline = 0"
        using "1.prems" False c Cut_not_found [of s newline b a]
        by (auto simp: dropChunkLines.simps [of d s] count_list_0_iff)
      then show ?thesis using False by simp
    qed
  qed
qed

lemma dropLines_spec:
  "\<exists>d'. d' \<le> d \<and> suffix (log_text (dropLines d cs)) (log_text cs)
     \<and> count_list (log_text cs) newline = count_list (log_text (dropLines d cs)) newline + (d - d')
     \<and> (log_text (dropLines d cs) = [] \<or> d' = 0)
     \<and> (d' = 0 \<and> log_text cs \<noteq> [] \<and> last (log_text cs) \<noteq> newline \<longrightarrow> log_text (dropLines d cs) \<noteq> [])"
proof (induction d cs rule: dropLines.induct)
  case (2 d c cs)
  obtain d1 s1 where c: "dropChunkLines d (l_Text c) = (d1, s1)" by fastforce
  from dropChunkLines_spec [OF c] have k: "suffix s1 (l_Text c)" "d1 \<le> d"
    "count_list (l_Text c) newline = count_list s1 newline + (d - d1)" "s1 = [] \<or> d1 = 0"
    "d1 = 0 \<and> l_Text c \<noteq> [] \<and> last (l_Text c) \<noteq> newline \<longrightarrow> s1 \<noteq> []" by auto
  have "\<exists>d'. d' \<le> d1 \<and> suffix (log_text (dropLines d1 cs)) (log_text cs)
     \<and> count_list (log_text cs) newline = count_list (log_text (dropLines d1 cs)) newline + (d1 - d')
     \<and> (log_text (dropLines d1 cs) = [] \<or> d' = 0)
     \<and> (d' = 0 \<and> log_text cs \<noteq> [] \<and> last (log_text cs) \<noteq> newline \<longrightarrow> log_text (dropLines d1 cs) \<noteq> [])"
    by (cases "s1 = []") (rule "2.IH" [OF c [symmetric]], simp)+
  then obtain d' where ih: "d' \<le> d1"
    "suffix (log_text (dropLines d1 cs)) (log_text cs)"
    "count_list (log_text cs) newline = count_list (log_text (dropLines d1 cs)) newline + (d1 - d')"
    "log_text (dropLines d1 cs) = [] \<or> d' = 0"
    "d' = 0 \<and> log_text cs \<noteq> [] \<and> last (log_text cs) \<noteq> newline \<longrightarrow> log_text (dropLines d1 cs) \<noteq> []"
    by (elim exE conjE)
  have txt': "log_text (dropLines d (c # cs)) = s1 @ log_text (dropLines d1 cs)" using c by simp
  have rest: "log_text (dropLines 0 cs) = log_text cs"
    by (induction cs) (auto simp: dropChunkLines.simps)
  have "suffix (s1 @ log_text (dropLines d1 cs)) (l_Text c @ log_text cs)"
    using k(1,4) ih(2) rest by (auto simp: suffix_def)
  moreover have "s1 @ log_text (dropLines d1 cs) \<noteq> []"
    if "d' = 0" "log_text (c # cs) \<noteq> []" "last (log_text (c # cs)) \<noteq> newline"
    using that k(5) ih by (cases "log_text cs = []") auto
  ultimately show ?case
    unfolding txt' using k(2-4) ih(1,3,4) by (intro exI [of _ d']) auto
qed auto

lemma last_terminated:
  assumes "HasSuffix (l_Text (last cs)) [newline]" "cs \<noteq> []"
  shows "log_text cs \<noteq> [] \<and> last (log_text cs) = newline"
proof -
  obtain ds c where cs: "cs = ds @ [c]" using assms(2) by (cases cs rule: rev_cases) auto
  then show ?thesis using assms(1) by (cases "l_Text c" rule: rev_cases) (auto simp: HasSuffix_def)
qed

lemma text_lines_le_countLines: "text_lines (log_text cs) \<le> countLines cs"
proof (cases cs rule: rev_cases)
  case (snoc ds c)
  have "count_list (log_text cs) newline = sum_list (map (\<lambda>c. CountByte (l_Text c) newline) cs)"
    by (induction cs) (auto simp: CountByte_def)
  moreover have "HasSuffix (l_Text c) [newline] \<Longrightarrow> last (log_text cs) = newline"
    using last_terminated [of cs] snoc by simp
  ultimately show ?thesis using snoc by (auto simp: text_lines_def countLines_def)
qed (simp add: text_lines_def countLines_def)

lemma countLines_exact:
  assumes "cs \<noteq> []" "l_Text (last cs) \<noteq> []"
  shows "countLines cs = text_lines (log_text cs)"
proof -
  obtain ds c where cs: "cs = ds @ [c]" using assms(1) by (cases cs rule: rev_cases) auto
  have "count_list (log_text cs) newline = sum_list (map (\<lambda>c. CountByte (l_Text c) newline) cs)"
    by (induction cs) (auto simp: CountByte_def)
  moreover have "HasSuffix (l_Text c) [newline] \<longleftrightarrow> last (log_text cs) = newline"
    using assms(2) cs by (cases "l_Text c" rule: rev_cases) (auto simp: HasSuffix_def)
  ultimately show ?thesis using cs assms(2) by (auto simp: text_lines_def countLines_def)
qed

lemma suffix_last: "suffix s' s \<Longrightarrow> s' \<noteq> [] \<Longrightarrow> last s' = last s"
  by (auto simp: suffix_def)

lemma count_list_last: "s \<noteq> [] \<Longrightarrow> last s = c \<Longrightarrow> 0 < count_list s c"
  by (metis count_list_0_iff gr0I last_in_set)

text \<open>Keeping the latest lines: a suffix of the text, of at most the limit of lines.\<close>

lemma keepLatestLines_spec:
  assumes "keepLatestLines cs limit = (kept, trunc)" and "0 < limit"
  shows "suffix (log_text kept) (log_text cs)" and "text_lines (log_text kept) \<le> limit"
    and "l_Text (last cs) \<noteq> [] \<Longrightarrow> cs \<noteq> [] \<Longrightarrow> text_lines (log_text kept) = min limit (text_lines (log_text cs))"
    and "length kept \<le> length cs"
proof -
  let ?s = "log_text cs" and ?s' = "log_text kept" and ?d = "countLines cs - limit"
  have len: "length (dropLines d cs) \<le> length cs" for d
    by (induction d cs rule: dropLines.induct) (auto split: prod.splits simp: le_SucI)
  consider (all) "countLines cs \<le> limit" "kept = cs" | (cut) "limit < countLines cs" "kept = dropLines ?d cs"
    using assms(1) by (auto simp: keepLatestLines_def split: if_splits)
  then have "suffix ?s' ?s \<and> text_lines ?s' \<le> limit
      \<and> (l_Text (last cs) \<noteq> [] \<and> cs \<noteq> [] \<longrightarrow> text_lines ?s' = min limit (text_lines ?s)) \<and> length kept \<le> length cs"
  proof cases
    case all
    then show ?thesis using text_lines_le_countLines [of cs] countLines_exact [of cs] by auto
  next
    case cut
    from dropLines_spec [of ?d cs] obtain d' where d': "d' \<le> ?d" "suffix ?s' ?s"
      "count_list ?s newline = count_list ?s' newline + (?d - d')" "?s' = [] \<or> d' = 0"
      "d' = 0 \<and> ?s \<noteq> [] \<and> last ?s \<noteq> newline \<longrightarrow> ?s' \<noteq> []" using cut(2) by blast
    have cnt: "count_list ?s newline = sum_list (map (\<lambda>c. CountByte (l_Text c) newline) cs)"
      by (induction cs) (auto simp: CountByte_def)
    have "?d \<le> count_list ?s newline" using assms(2) cnt by (auto simp: countLines_def)
    then have z: "d' = 0" using d' by (cases "?s' = []") auto
    have open_last: "?s' \<noteq> [] \<and> last ?s' \<noteq> newline \<Longrightarrow> \<not> HasSuffix (l_Text (last cs)) [newline]"
      using suffix_last [OF d'(2)] last_terminated [of cs] cut(1) by (cases "cs = []") (auto simp: countLines_def)
    have "text_lines ?s' \<le> limit"
      using d'(3) z cut(1) cnt open_last by (auto simp: text_lines_def countLines_def split: if_splits)
    moreover have "text_lines ?s' = min limit (text_lines ?s)" if ne: "l_Text (last cs) \<noteq> []" "cs \<noteq> []"
      using countLines_exact [OF ne(2,1)] cut(1) d'(3,5) z suffix_last [OF d'(2)]
      by (auto simp: text_lines_def split: if_splits)
    ultimately show ?thesis using d'(2) len cut(2) by blast
  qed
  then show "suffix ?s' ?s" "text_lines ?s' \<le> limit" "length kept \<le> length cs"
    "l_Text (last cs) \<noteq> [] \<Longrightarrow> cs \<noteq> [] \<Longrightarrow> text_lines ?s' = min limit (text_lines ?s)" by auto
qed

lemma dockerLogs_Inr:
  assumes "dockerLogs api i limit = Inr l"
  obtains now tr stream where "assembleLogs now i limit tr stream = Inr l"
proof -
  from assms obtain inspect where "api_Inspect api 0 i = Inr inspect" "ct_ID inspect = i"
    by (auto simp: dockerLogs_def split: sum.splits)
  with assms obtain body where "(let (raw, err) = readAllLimit (maxLogBytes + 1) body;
                          transportTruncated = (err = BodyLimit)
                      in
                      if err \<noteq> BodyEOF \<and> \<not> transportTruncated \<or> int (length raw) > maxLogBytes then Inl LogsExceedCeiling
                      else
                        (let tty = (case ct_Config inspect of None \<Rightarrow> False | Some cf \<Rightarrow> ac_Tty cf);
                             (complete, valid) = completeDockerFrames raw
                         in
                         if \<not> tty \<and> \<not> valid \<and> \<not> transportTruncated then Inl InvalidFrame
                         else assembleLogs (api_Now api 0) i limit transportTruncated
                             (if tty then (if raw = [] then ([], None) else ([(''stdout'', raw)], None))
                              else api_StdCopy api (if valid then raw else take complete raw)))) = Inr l"
    by (auto simp: dockerLogs_def Let_def split: sum.splits)
  then show thesis by (auto simp: Let_def split: prod.splits intro: that)
qed

section \<open>Restart\<close>

lemma dockerContainer_cases:
  assumes "dockerContainer api k i = (r, calls)"
  shows "validID i \<Longrightarrow> calls = [CallInspect i]" and "r = Inr c \<Longrightarrow> validID i \<and> c_ID c = i
    \<and> (\<exists>a. api_Inspect api k i = Inr a \<and> ct_ID a = i)"
  using assms by (auto simp: dockerContainer_def Let_def split: if_splits sum.splits)

section \<open>Examples\<close>

text \<open>An engine with one running container whose log has two lines.\<close>

definition example_id :: string where
  "example_id = replicate 64 (CHR ''a'')"

definition example_inspect :: api_container where
  "example_inspect = \<lparr>ct_ID = example_id, ct_Name = ''/web'', ct_RestartCount = 0,
     ct_State = Some \<lparr>as_Status = ''running'', as_OOMKilled = False, as_Health = None\<rparr>,
     ct_Config = Some \<lparr>ac_Image = ''nginx'', ac_Tty = True\<rparr>\<rparr>"

definition example_log :: bytes where
  "example_log = ''one'' @ newline # ''two'' @ [newline]"

definition example_api :: docker_api where
  "example_api = \<lparr>api_Version = Inl ''down'', api_List = (\<lambda>_ _. Inr []), api_Inspect = (\<lambda>_ _. Inr example_inspect),
     api_Stats = (\<lambda>_. Inl ''down''), api_Sample = (\<lambda>_. Inl ''bad''), api_Logs = (\<lambda>_ _. Inr (example_log, BodyEOF)),
     api_StdCopy = (\<lambda>raw. ([(''stdout'', raw)], None)), api_Restart = (\<lambda>_ _. Inr ()), api_Now = (\<lambda>_. 1)\<rparr>"

text \<open>
  The one case in which the count of lines is off: a trailing empty chunk counts as a line, so the
  only line of this log is dropped although the limit is one.
\<close>

lemma empty_last_chunk_drops_line:
  "keepLatestLines [\<lparr>l_Stream = ''stdout'', l_Text = ''one'' @ [newline]\<rparr>, \<lparr>l_Stream = ''stdout'', l_Text = []\<rparr>] 1 = ([], True)"
  by code_simp

section \<open>Properties\<close>

text \<open>
  C23: the transport below the Docker client lets a request pass exactly when it belongs to the
  fixed contract: pings, the version, and under a v1 API prefix the engine information, the
  container list and, for a full container identifier, inspection, statistics and logs; the only
  request that changes anything is the restart of such a container, for a client that may write.
\<close>

theorem transport_contract:
  "allowedPath meth raw w \<longleftrightarrow> docker_contract w meth (Split (Trim raw (CHR ''/'')) (CHR ''/''))"
  by (rule allowedPath_contract)

text \<open>
  A response that the capped transport hands on never exceeds the limit of its path (512 KiB
  for logs, 1 MiB for statistics, 8 MiB otherwise); only a log response may be cut, and then it
  ends with the limit error. A request outside the contract never reaches the base transport.
\<close>

theorem transport_bounded:
  assumes "RoundTrip base w meth path = Inr (data, fin)"
  shows "docker_contract w meth (Split (Trim path (CHR ''/'')) (CHR ''/''))
    \<and> int (length data) \<le> responseLimit path \<and> (fin = BodyEOF \<or> fin = BodyLimit \<and> HasSuffix path ''/logs'')"
proof -
  obtain body closeErr where b: "allowedPath meth path w" "base meth path = Inr (body, closeErr)"
    using assms by (auto simp: RoundTrip_def split: if_splits sum.splits)
  obtain d e where r: "readAllLimit (responseLimit path + 1) body = (d, e)" by fastforce
  show ?thesis
    using assms b r responseLimit_pos [of path]
    by (auto simp: RoundTrip_def Let_def allowedPath_contract split: if_splits)
qed

theorem transport_bounded_witness:
  "docker_contract False ''GET'' (Split (Trim ''/v1.47/info'' (CHR ''/'')) (CHR ''/''))"
proof -
  have "RoundTrip (\<lambda>_ _. Inr ((''ok'', BodyEOF), None)) False ''GET'' ''/v1.47/info'' = Inr (''ok'', BodyEOF)" by code_simp
  from transport_bounded [OF this] show ?thesis by blast
qed

text \<open>
  The frame scan splits a log stream into complete frames and a rest: the position it returns
  is the end of the last complete frame, it reports success exactly when nothing is left, and what
  is left does not start with a complete frame.
\<close>

theorem frames_complete:
  "\<exists>fs rest. raw = concat fs @ rest \<and> list_all is_frame fs \<and> fst (completeDockerFrames raw) = length (concat fs)
     \<and> (validDockerFrames raw \<longleftrightarrow> rest = []) \<and> \<not> (\<exists>f r. rest = f @ r \<and> is_frame f)"
proof (cases "raw = []")
  case True
  then show ?thesis
    by (intro exI [of _ "[]"]) (simp add: completeDockerFrames_def validDockerFrames_def framesFrom.simps is_frame_def)
next
  case False
  obtain n ok where c: "framesFrom 0 raw = (n, ok)" by fastforce
  from framesFrom_split [OF c False] c show ?thesis
    by (simp add: completeDockerFrames_def validDockerFrames_def)
qed

text \<open>
  C25: the logs of a container are bounded whatever the engine sends: at most 64 KiB of text in at
  most 200 chunks, at most the requested number of lines, for the requested container only; the
  requested number is between 1 and 100.
\<close>

theorem logs_bounded:
  assumes "dockerLogs api i limit = Inr l"
  shows "validID i \<and> l_ID l = i \<and> 1 \<le> limit \<and> limit \<le> 100 \<and> l_Limit l = limit
    \<and> int (length (log_text (l_Chunks l))) \<le> maxCollected \<and> length (l_Chunks l) \<le> 200
    \<and> int (text_lines (log_text (l_Chunks l))) \<le> limit"
proof -
  have g: "validID i" "1 \<le> limit" "limit \<le> 100" using assms by (auto simp: dockerLogs_def)
  from assms obtain now tr stream where "assembleLogs now i limit tr stream = Inr l" by (rule dockerLogs_Inr)
  then obtain lc hit chunks ct tr' where
    run: "copyWrites (fst stream) \<lparr>lc_chunks = [], lc_used = 0\<rparr> = (lc, hit)" "keepLatestLines (lc_chunks lc) (nat limit) = (chunks, ct)"
      "l = \<lparr>l_ObservedAt = now, l_ID = i, l_Chunks = chunks, l_Limit = limit, l_Truncated = tr'\<rparr>"
    by (auto simp: assembleLogs_def split: prod.splits)
  have "collector_ok \<lparr>lc_chunks = [], lc_used = 0\<rparr>" by (simp add: collector_ok_def maxCollected_def)
  from copyWrites_ok [OF this run(1)] have ok: "collector_ok lc" by blast
  have kept: "suffix (log_text chunks) (log_text (lc_chunks lc))" "text_lines (log_text chunks) \<le> nat limit"
    "length chunks \<le> length (lc_chunks lc)"
    using keepLatestLines_spec [OF run(2)] g(2) by auto
  have "length (log_text chunks) \<le> length (log_text (lc_chunks lc))" using kept(1) by (auto simp: suffix_def)
  then show ?thesis using ok kept g run(3) by (auto simp: collector_ok_def)
qed

theorem logs_bounded_witness:
  "\<exists>l. dockerLogs example_api example_id 1 = Inr l \<and> int (text_lines (log_text (l_Chunks l))) \<le> 1"
proof -
  have "\<not> isl (dockerLogs example_api example_id 1)" by code_simp
  then obtain l where l: "dockerLogs example_api example_id 1 = Inr l" by (metis sum.collapse(2))
  with logs_bounded [OF l] show ?thesis by blast
qed

text \<open>
  When too many lines were collected, exactly the latest ones are kept: the kept text is the
  end of the collected text and has as many lines as the limit allows. The last collected chunk
  must not be empty, since an empty one is counted as a line.
\<close>

theorem latest_lines_kept:
  assumes "keepLatestLines cs limit = (kept, trunc)" and "0 < limit" and "cs \<noteq> []" and "l_Text (last cs) \<noteq> []"
  shows "suffix (log_text kept) (log_text cs) \<and> text_lines (log_text kept) = min limit (text_lines (log_text cs))
    \<and> (trunc \<longleftrightarrow> limit < text_lines (log_text cs))"
  using keepLatestLines_spec [OF assms(1,2)] countLines_exact [OF assms(3,4)] assms
  by (auto simp: keepLatestLines_def split: if_splits)

theorem latest_lines_kept_witness:
  "text_lines (log_text (fst (keepLatestLines [\<lparr>l_Stream = ''stdout'', l_Text = example_log\<rparr>] 1))) = 1"
proof -
  have "text_lines example_log = 2" by code_simp
  then show ?thesis
    using latest_lines_kept [OF prod.collapse [symmetric], of 1 "[\<lparr>l_Stream = ''stdout'', l_Text = example_log\<rparr>]"]
    by (simp add: example_log_def)
qed

text \<open>
  C24: the engine is asked to restart a container only after an inspection in the same operation
  has answered with exactly the requested full identifier, at most once and for that identifier;
  a restart is reported completed only if the engine acknowledged it, and the container reported
  afterwards has the same identifier.
\<close>

theorem restart_exact_container:
  assumes "dockerRestart api i = (r, calls)"
  shows "(calls = [] \<or> calls = [CallInspect i] \<or> calls = [CallInspect i, CallRestart i 10]
      \<or> calls = [CallInspect i, CallRestart i 10, CallInspect i])
    \<and> (CallRestart i 10 \<in> set calls \<longrightarrow> validID i \<and> (\<exists>a. api_Inspect api 0 i = Inr a \<and> ct_ID a = i))
    \<and> (\<forall>out. r = Inr out \<and> cr_Completed out = Some True \<longrightarrow> api_Restart api i 10 = Inr () \<and> CallRestart i 10 \<in> set calls)
    \<and> (\<forall>out c. r = Inr out \<and> cr_Container out = Some c \<longrightarrow> c_ID c = i)"
proof (cases "validID i")
  case False
  then show ?thesis using assms by (auto simp: dockerRestart_def)
next
  case True
  obtain r0 calls0 where c0: "dockerContainer api 0 i = (r0, calls0)" by fastforce
  obtain r1 calls1 where c1: "dockerContainer api 1 i = (r1, calls1)" by fastforce
  note d0 = dockerContainer_cases [OF c0] and d1 = dockerContainer_cases [OF c1]
  show ?thesis
  proof (cases r0)
    case (Inl e)
    then show ?thesis using assms True c0 d0(1) by (auto simp: dockerRestart_def)
  next
    case (Inr b)
    then have b: "c_ID b = i" "\<exists>a. api_Inspect api 0 i = Inr a \<and> ct_ID a = i" using d0(2) by auto
    show ?thesis
      using assms True c0 c1 Inr b d0(1) d1(1) d1(2)
      by (cases "api_Restart api i 10"; cases r1) (auto simp: dockerRestart_def Let_def)
  qed
qed

theorem restart_exact_container_witness:
  "\<exists>r. dockerRestart example_api example_id = (r, [CallInspect example_id, CallRestart example_id 10, CallInspect example_id])
     \<and> validID example_id"
proof -
  have calls: "snd (dockerRestart example_api example_id)
      = [CallInspect example_id, CallRestart example_id 10, CallInspect example_id]" by code_simp
  then have d: "dockerRestart example_api example_id = (fst (dockerRestart example_api example_id),
      [CallInspect example_id, CallRestart example_id 10, CallInspect example_id])"
    by (metis prod.collapse)
  from restart_exact_container [OF this] have "validID example_id" by simp
  with d show ?thesis by blast
qed

end
