(* ===== verification/Status.thy ===== *)
theory Status
  imports Tokens "HOL-Library.List_Lexorder"
begin

text \<open>
  The host and service adapter of \<open>internal/status\<close>: the data of \<open>status.go\<close>, the Linux reader of
  \<open>linux.go\<close> (host measurements, unit rows of \<open>systemctl\<close>, bounded journal output) and the
  restarter of \<open>repair_linux.go\<close>. The measurement and D-Bus libraries and the commands
  \<open>systemctl\<close> and \<open>journalctl\<close> are outside the repository: what they answer is an argument of the
  definitions. A load average is carried as the 64 bits of its floating-point value, since the
  code only passes it on.
\<close>

section \<open>Data\<close>

record issue =
  is_Source :: string
  is_Kind :: string

abbreviation Issue :: "string \<Rightarrow> string \<Rightarrow> issue" where
  "Issue source kind \<equiv> \<lparr>is_Source = source, is_Kind = kind\<rparr>"

record host_status =
  hs_ObservedAt :: time
  hs_OS :: string
  hs_Platform :: string
  hs_Kernel :: string
  hs_Architecture :: string
  hs_Uptime :: "64 word option"
  hs_LogicalCPUs :: "int option"
  hs_LoadOne :: "64 word option"
  hs_LoadFive :: "64 word option"
  hs_LoadFifteen :: "64 word option"
  hs_MemoryTotal :: "64 word option"
  hs_MemoryUsed :: "64 word option"
  hs_SwapTotal :: "64 word option"
  hs_SwapUsed :: "64 word option"
  hs_DiskTotal :: "64 word option"
  hs_DiskUsed :: "64 word option"
  hs_InodesTotal :: "64 word option"
  hs_InodesUsed :: "64 word option"
  hs_Failed :: "string list"
  hs_FailedLimit :: int
  hs_Issues :: "issue list"

record service =
  sv_ObservedAt :: time
  sv_Name :: string
  sv_Availability :: string
  sv_State :: string
  sv_Detail :: string
  sv_Result :: string
  sv_Restarts :: "64 word option"
  sv_Issues :: "issue list"

record service_inventory =
  si_ObservedAt :: time
  si_Services :: "service list"
  si_Limit :: int
  si_Issues :: "issue list"

record log_entry =
  en_Time :: time
  en_Message :: string

record service_log =
  sl_ObservedAt :: time
  sl_Name :: string
  sl_Entries :: "log_entry list"
  sl_Limit :: int
  sl_Truncated :: bool
  sl_Issues :: "issue list"

record service_restart =
  sr_Service :: "service option"
  sr_Invoked :: "bool option"
  sr_Completed :: "bool option"
  sr_Issue :: string

datatype status_error =
    InvalidServiceName
  | SystemdUnavailable string
  | UnitUnavailable string
  | InventoryBusy
  | RowsUnavailable string
  | LogLimitInvalid
  | JournalUnavailable
  | InvalidJournal string
  | InspectionFailed string
  | IdentityOrStateChanged

section \<open>Host measurements\<close>

text \<open>
  The six sources; each answers an error or a possibly missing value. The swap source may be
  absent.
\<close>

record info_stat =
  in_OS :: string
  in_Platform :: string
  in_KernelVersion :: string
  in_Uptime :: "64 word"

record disk_stat =
  di_Total :: "64 word"
  di_Used :: "64 word"
  di_InodesTotal :: "64 word"
  di_InodesUsed :: "64 word"

record host_sources =
  hx_info :: "(string, info_stat option) result"
  hx_cpu :: "(string, int) result"
  hx_load :: "(string, (64 word \<times> 64 word \<times> 64 word) option) result"
  hx_memory :: "(string, (64 word \<times> 64 word) option) result"
  hx_swap :: "(string, (64 word \<times> 64 word) option) result option"
  hx_disk :: "(string, disk_stat option) result"

definition empty_host :: "time \<Rightarrow> string \<Rightarrow> host_status" where
  "empty_host now arch = \<lparr>hs_ObservedAt = now, hs_OS = [], hs_Platform = [], hs_Kernel = [], hs_Architecture = arch,
     hs_Uptime = None, hs_LogicalCPUs = None, hs_LoadOne = None, hs_LoadFive = None, hs_LoadFifteen = None,
     hs_MemoryTotal = None, hs_MemoryUsed = None, hs_SwapTotal = None, hs_SwapUsed = None, hs_DiskTotal = None,
     hs_DiskUsed = None, hs_InodesTotal = None, hs_InodesUsed = None, hs_Failed = [], hs_FailedLimit = 0, hs_Issues = []\<rparr>"

definition host_issue :: "string \<Rightarrow> string \<Rightarrow> host_status \<Rightarrow> host_status" where
  "host_issue source kind r = r\<lparr>hs_Issues := hs_Issues r @ [Issue source kind]\<rparr>"

text \<open>One definition per source, in the order of the function.\<close>

definition addInfo :: "host_sources \<Rightarrow> host_status \<Rightarrow> host_status" where
  "addInfo src r =
     (case hx_info src of
        Inr (Some h) \<Rightarrow> r\<lparr>hs_OS := in_OS h, hs_Platform := in_Platform h, hs_Kernel := in_KernelVersion h,
                          hs_Uptime := Some (in_Uptime h)\<rparr>
      | _ \<Rightarrow> host_issue ''host'' ''failed'' r)"

definition addCPU :: "host_sources \<Rightarrow> host_status \<Rightarrow> host_status" where
  "addCPU src r =
     (case hx_cpu src of
        Inr n \<Rightarrow> if n > 0 then r\<lparr>hs_LogicalCPUs := Some n\<rparr> else host_issue ''cpu'' ''failed'' r
      | Inl _ \<Rightarrow> host_issue ''cpu'' ''failed'' r)"

definition addLoad :: "host_sources \<Rightarrow> host_status \<Rightarrow> host_status" where
  "addLoad src r =
     (case hx_load src of
        Inr (Some (one, five, fifteen)) \<Rightarrow>
          r\<lparr>hs_LoadOne := Some one, hs_LoadFive := Some five, hs_LoadFifteen := Some fifteen\<rparr>
      | _ \<Rightarrow> host_issue ''load'' ''unavailable'' r)"

definition addMemory :: "host_sources \<Rightarrow> host_status \<Rightarrow> host_status" where
  "addMemory src r =
     (case hx_memory src of
        Inr (Some (tot, used)) \<Rightarrow> r\<lparr>hs_MemoryTotal := Some tot, hs_MemoryUsed := Some used\<rparr>
      | _ \<Rightarrow> host_issue ''memory'' ''failed'' r)"

definition addSwap :: "host_sources \<Rightarrow> host_status \<Rightarrow> host_status" where
  "addSwap src r =
     (case hx_swap src of
        None \<Rightarrow> r
      | Some (Inr (Some (tot, used))) \<Rightarrow> r\<lparr>hs_SwapTotal := Some tot, hs_SwapUsed := Some used\<rparr>
      | Some _ \<Rightarrow> host_issue ''swap'' ''failed'' r)"

definition addDisk :: "host_sources \<Rightarrow> host_status \<Rightarrow> host_status" where
  "addDisk src r =
     (case hx_disk src of
        Inr (Some d) \<Rightarrow> r\<lparr>hs_DiskTotal := Some (di_Total d), hs_DiskUsed := Some (di_Used d),
                          hs_InodesTotal := Some (di_InodesTotal d), hs_InodesUsed := Some (di_InodesUsed d)\<rparr>
      | _ \<Rightarrow> host_issue ''root_disk'' ''failed'' r)"

definition collectHost :: "time \<Rightarrow> string \<Rightarrow> host_sources \<Rightarrow> host_status" where
  "collectHost now arch src =
     addDisk src (addSwap src (addMemory src (addLoad src (addCPU src (addInfo src (empty_host now arch))))))"

section \<open>Unit rows\<close>

definition unit_char :: "char \<Rightarrow> bool" where
  "unit_char c \<longleftrightarrow> c = CHR '':'' \<or> c = CHR ''_'' \<or> c = CHR ''.'' \<or> c = CHR ''@'' \<or> c = CHR ''-''
     \<or> (CHR ''a'' \<le> c \<and> c \<le> CHR ''z'') \<or> (CHR ''A'' \<le> c \<and> c \<le> CHR ''Z'') \<or> (CHR ''0'' \<le> c \<and> c \<le> CHR ''9'')"

definition validateUnit :: "string \<Rightarrow> bool" where
  "validateUnit name \<longleftrightarrow>
     \<not> (name = [] \<or> 256 < length name \<or> \<not> HasSuffix name ''.service'' \<or> HasPrefix name ''-'')
     \<and> list_all unit_char name"

text \<open>\<open>strings.Fields\<close> with the white space of \<open>unicode.IsSpace\<close>.\<close>

definition IsSpace :: "int \<Rightarrow> bool" where
  "IsSpace r \<longleftrightarrow> (9 \<le> r \<and> r \<le> 13) \<or> r = 32 \<or> r = 133 \<or> r = 160 \<or> r = 5760 \<or> (8192 \<le> r \<and> r \<le> 8202)
     \<or> r = 8232 \<or> r = 8233 \<or> r = 8239 \<or> r = 8287 \<or> r = 12288"

function fieldsFrom :: "string \<Rightarrow> string \<Rightarrow> string list" where
  "fieldsFrom cur s =
     (if s = [] then (if cur = [] then [] else [cur])
      else
        (let (r, w) = DecodeRune s; w = max 1 w in
         if IsSpace (int r) then (if cur = [] then fieldsFrom [] (drop w s) else cur # fieldsFrom [] (drop w s))
         else fieldsFrom (cur @ take w s) (drop w s)))"
  by pat_completeness auto
termination by (relation "measure (\<lambda>(cur, s). length s)") auto

declare fieldsFrom.simps [simp del]

definition Fields :: "string \<Rightarrow> string list" where
  "Fields s = fieldsFrom [] s"

text \<open>
  The loop over the scanner's lines. A line of 8 KiB or more fills the scanner's buffer, which
  ends the scan with an error; \<open>readErr\<close> is what reading the pipe ends with after its data.
\<close>

definition stripCR :: "string \<Rightarrow> string" where
  "stripCR l = (if l \<noteq> [] \<and> last l = CHR 0x0D then butlast l else l)"

definition unit_row :: "string list \<Rightarrow> service" where
  "unit_row f = \<lparr>sv_ObservedAt = 0, sv_Name = f ! 0, sv_Availability = f ! 1, sv_State = f ! 2, sv_Detail = f ! 3,
     sv_Result = [], sv_Restarts = None, sv_Issues = []\<rparr>"

function collectRows :: "(string \<Rightarrow> bool) \<Rightarrow> nat \<Rightarrow> string option \<Rightarrow> service list \<Rightarrow> bytes
    \<Rightarrow> service list \<times> bool \<times> string option" where
  "collectRows permitted limit readErr units data =
     (if data = [] then (units, False, readErr)
      else
        (let (line, rest, found) = Cut data (CHR 0x0A) in
         if 8192 \<le> int (length line) then (units, False, Some ''token too long'')
         else
           (let fields = Fields (stripCR line) in
            if length fields < 4 \<or> \<not> validateUnit (fields ! 0) \<or> \<not> permitted (fields ! 0)
            then collectRows permitted limit readErr units rest
            else if length units = limit then (units, True, None)
            else collectRows permitted limit readErr (units @ [unit_row fields]) rest)))"
  by pat_completeness auto
termination
  by (relation "measure (\<lambda>(permitted, limit, readErr, units, data). length data)")
    (auto dest: Cut_length [OF sym])

declare collectRows.simps [simp del]

definition collectUnitRows :: "bytes \<times> string option \<Rightarrow> (string \<Rightarrow> bool) \<Rightarrow> nat \<Rightarrow> service list \<times> bool \<times> string option" where
  "collectUnitRows pipe permitted limit = collectRows permitted limit (snd pipe) [] (fst pipe)"

text \<open>
  One run of a command: the error of starting it, or its output with the error that ends the pipe
  and the error of \<open>Wait\<close>.
\<close>

type_synonym command = "string \<Rightarrow> string list \<Rightarrow> (string, (bytes \<times> string option) \<times> string option) result"

definition systemctlRows :: "command \<Rightarrow> string \<Rightarrow> (string \<Rightarrow> bool) \<Rightarrow> nat \<Rightarrow> (string, service list \<times> bool) result" where
  "systemctlRows run selection permitted limit =
     (case run ''/usr/bin/prlimit'' [''--as=134217728'', ''--'', ''/usr/bin/systemctl'', ''list-units'', ''--type=service'',
              selection, ''--no-legend'', ''--plain'', ''--full'', ''--no-pager''] of
        Inl e \<Rightarrow> Inl e
      | Inr (pipe, waitErr) \<Rightarrow>
          (let (units, capped, scanErr) = collectUnitRows pipe permitted limit in
           case scanErr of
             Some e \<Rightarrow> Inl e
           | None \<Rightarrow>
               (case waitErr of
                  Some e \<Rightarrow> if \<not> capped then Inl e else Inr (units, capped)
                | None \<Rightarrow> Inr (units, capped))))"

text \<open>\<open>slot\<close> says whether the single inventory slot was free; a missing filter is \<open>None\<close>.\<close>

definition hostStatus :: "time \<Rightarrow> string \<Rightarrow> host_sources \<Rightarrow> bool \<Rightarrow> command \<Rightarrow> (string \<Rightarrow> bool) option \<Rightarrow> host_status" where
  "hostStatus now arch src slot run permitted =
     (let r = collectHost now arch src in
      case permitted of
        None \<Rightarrow> r
      | Some allowed \<Rightarrow>
          (let r = r\<lparr>hs_FailedLimit := 50\<rparr> in
           if \<not> slot then host_issue ''failed_services'' ''busy'' r
           else
             (case systemctlRows run ''--state=failed'' allowed 50 of
                Inl e \<Rightarrow> host_issue ''failed_services'' ''unavailable'' r
              | Inr (units, capped) \<Rightarrow>
                  (let r = (if capped then host_issue ''failed_services'' ''result_limit'' r else r)
                   in r\<lparr>hs_Failed := hs_Failed r @ map sv_Name (filter (\<lambda>u. sv_State u = ''failed'') units)\<rparr>))))"

definition listServices :: "time \<Rightarrow> bool \<Rightarrow> command \<Rightarrow> (string \<Rightarrow> bool) option \<Rightarrow> (status_error, service_inventory) result" where
  "listServices now slot run permitted =
     (let r = \<lparr>si_ObservedAt = now, si_Services = [], si_Limit = 500, si_Issues = []\<rparr> in
      case permitted of
        None \<Rightarrow> Inr r
      | Some allowed \<Rightarrow>
          (if \<not> slot then Inl InventoryBusy
           else
             (case systemctlRows run ''--all'' allowed 500 of
                Inl e \<Rightarrow> Inl (RowsUnavailable e)
              | Inr (units, capped) \<Rightarrow>
                  Inr (r\<lparr>si_Issues := (if capped then [Issue ''services'' ''result_limit''] else []),
                         si_Services := sort_key sv_Name (map (\<lambda>u. u\<lparr>sv_ObservedAt := now\<rparr>) units)\<rparr>))))"

section \<open>Service properties\<close>

text \<open>A D-Bus property value, as far as the code distinguishes types.\<close>

datatype dbus_value = DBusString string | DBusUint32 "32 word" | DBusOther

definition prop_string :: "(string \<rightharpoonup> dbus_value) \<Rightarrow> string \<Rightarrow> string" where
  "prop_string props key = (case props key of Some (DBusString v) \<Rightarrow> v | _ \<Rightarrow> [])"

datatype job_end = JobResult string | JobContextDone

record systemd =
  sd_Connect :: "string option"
  sd_UnitProperties :: "nat \<Rightarrow> string \<Rightarrow> (string, string \<rightharpoonup> dbus_value) result"
  sd_ServiceProperties :: "string \<Rightarrow> (string, string \<rightharpoonup> dbus_value) result"
  sd_Restart :: "string \<Rightarrow> string \<Rightarrow> string option"
  sd_Job :: job_end
  sd_Now :: time

definition base_service :: "time \<Rightarrow> string \<Rightarrow> (string \<rightharpoonup> dbus_value) \<Rightarrow> service" where
  "base_service now name props = \<lparr>sv_ObservedAt = now, sv_Name = name, sv_Availability = prop_string props ''LoadState'',
     sv_State = prop_string props ''ActiveState'', sv_Detail = prop_string props ''SubState'', sv_Result = [],
     sv_Restarts = None, sv_Issues = []\<rparr>"

definition serviceStatus :: "systemd \<Rightarrow> string \<Rightarrow> (status_error, service) result" where
  "serviceStatus sd name =
     (if \<not> validateUnit name then Inl InvalidServiceName
      else
        (case sd_Connect sd of
           Some e \<Rightarrow> Inl (SystemdUnavailable e)
         | None \<Rightarrow>
             (case sd_UnitProperties sd 0 name of
                Inl e \<Rightarrow> Inl (UnitUnavailable e)
              | Inr props \<Rightarrow>
                  (let r = base_service (sd_Now sd) name props in
                   case sd_ServiceProperties sd name of
                     Inl e \<Rightarrow> Inr (r\<lparr>sv_Issues := [Issue ''service_properties'' ''unavailable'']\<rparr>)
                   | Inr sp \<Rightarrow>
                       (let r = r\<lparr>sv_Result := prop_string sp ''Result''\<rparr> in
                        case sp ''NRestarts'' of
                          Some (DBusUint32 n) \<Rightarrow> Inr (r\<lparr>sv_Restarts := Some (ucast n)\<rparr>)
                        | _ \<Rightarrow> Inr (r\<lparr>sv_Issues := [Issue ''service_restarts'' ''unavailable'']\<rparr>))))))"

datatype systemd_call = CallProperties string | CallRestartUnit string string

definition restart_result :: "bool option \<Rightarrow> bool option \<Rightarrow> string \<Rightarrow> service_restart" where
  "restart_result invoked completed iss =
     \<lparr>sr_Service = None, sr_Invoked = invoked, sr_Completed = completed, sr_Issue = iss\<rparr>"

definition RestartService :: "systemd \<Rightarrow> string \<Rightarrow> (status_error, service_restart) result \<times> systemd_call list" where
  "RestartService sd name =
     (if \<not> validateUnit name then (Inl InvalidServiceName, [])
      else
        (case sd_Connect sd of
           Some e \<Rightarrow> (Inl (SystemdUnavailable e), [])
         | None \<Rightarrow>
             (case sd_UnitProperties sd 0 name of
                Inl e \<Rightarrow> (Inl (InspectionFailed e), [CallProperties name])
              | Inr props \<Rightarrow>
                  (if prop_string props ''Id'' \<noteq> name \<or> prop_string props ''LoadState'' \<noteq> ''loaded''
                   then (Inl IdentityOrStateChanged, [CallProperties name])
                   else
                     (let calls = [CallProperties name, CallRestartUnit name ''replace''] in
                      case sd_Restart sd name ''replace'' of
                        Some e \<Rightarrow> (Inr (restart_result None None ''restart_outcome_unknown''), calls)
                      | None \<Rightarrow>
                          (case sd_Job sd of
                             JobContextDone \<Rightarrow> (Inr (restart_result (Some True) None ''restart_outcome_unknown''), calls)
                           | JobResult outcome \<Rightarrow>
                               (if outcome \<noteq> ''done''
                                then (Inr (restart_result (Some True) (Some False) ''restart_failed''), calls)
                                else
                                  (case sd_UnitProperties sd 1 name of
                                     Inl e \<Rightarrow>
                                       (Inr (restart_result (Some True) (Some True) ''post_observation_unavailable''),
                                        calls @ [CallProperties name])
                                   | Inr after \<Rightarrow>
                                       (if prop_string after ''Id'' \<noteq> name
                                        then (Inr (restart_result (Some True) (Some True) ''post_identity_changed''),
                                              calls @ [CallProperties name])
                                        else (Inr ((restart_result (Some True) (Some True) [])
                                                \<lparr>sr_Service := Some (base_service (sd_Now sd) name after)\<rparr>),
                                              calls @ [CallProperties name]))))))))))"

section \<open>Journal\<close>

record capped_writer =
  cw_buffer :: bytes
  cw_limit :: int
  cw_truncated :: bool

text \<open>\<open>cappedWriter.Write\<close>: the writer afterwards, the count, and whether it returns an error.\<close>

definition cappedWrite :: "capped_writer \<Rightarrow> bytes \<Rightarrow> capped_writer \<times> int \<times> bool" where
  "cappedWrite w data =
     (let remaining = cw_limit w - int (length (cw_buffer w)) in
      if int (length data) > remaining
      then (w\<lparr>cw_buffer := cw_buffer w @ take (nat (max remaining 0)) data, cw_truncated := True\<rparr>, max remaining 0, True)
      else (w\<lparr>cw_buffer := cw_buffer w @ data\<rparr>, int (length data), False))"

text \<open>The copy of a command's output into a writer stops at the first error.\<close>

fun cappedCopy :: "capped_writer \<Rightarrow> bytes list \<Rightarrow> capped_writer \<times> bool" where
  "cappedCopy w [] = (w, False)"
| "cappedCopy w (data # rest) =
     (case cappedWrite w data of
        (w', _, True) \<Rightarrow> (w', True)
      | (w', _, False) \<Rightarrow> cappedCopy w' rest)"

text \<open>
  The journal's JSON values: the raw message and the timestamp text of each decoded row, in order,
  and the error that ends the decoding (\<open>None\<close> at the end of the input); the decoding of a raw
  message as a JSON string.
\<close>

record journal_codec =
  jc_Rows :: "bytes \<Rightarrow> (bytes \<times> string) list \<times> string option"
  jc_String :: "bytes \<Rightarrow> string option"

definition UnixMicro :: "int \<Rightarrow> time" where
  "UnixMicro micros = micros * 1000 + 62135596800000000000"

fun journalRows :: "journal_codec \<Rightarrow> (bytes \<times> string) list \<Rightarrow> bool \<Rightarrow> bool \<Rightarrow> log_entry list
    \<Rightarrow> bool \<times> bool \<times> log_entry list" where
  "journalRows jc [] unsupported truncated entries = (unsupported, truncated, entries)"
| "journalRows jc ((raw, stamp) # rows) unsupported truncated entries =
     (case Atoi stamp of
        None \<Rightarrow> journalRows jc rows True truncated entries
      | Some micros \<Rightarrow>
          (if raw = [] \<or> raw = ''null'' then journalRows jc rows True truncated entries
           else
             (case jc_String jc raw of
                None \<Rightarrow> journalRows jc rows True truncated entries
              | Some message \<Rightarrow>
                  (if 4096 < int (length message)
                   then journalRows jc rows unsupported True
                          (entries @ [\<lparr>en_Time = UnixMicro micros, en_Message = take 4096 message\<rparr>])
                   else journalRows jc rows unsupported truncated
                          (entries @ [\<lparr>en_Time = UnixMicro micros, en_Message = message\<rparr>])))))"

text \<open>
  An error in the middle of the stream ends the loop if the output was already marked truncated,
  by the output limit or by a shortened message, and is an error otherwise.
\<close>

definition decodeJournal :: "journal_codec \<Rightarrow> bytes \<Rightarrow> service_log \<Rightarrow> (status_error, service_log) result" where
  "decodeJournal jc data r =
     (let (rows, err) = jc_Rows jc data;
          (unsupported, truncated, entries) = journalRows jc rows False (sl_Truncated r) (sl_Entries r)
      in
      case (if truncated then None else err) of
        Some e \<Rightarrow> Inl (InvalidJournal e)
      | None \<Rightarrow>
          (let issues = (if unsupported then sl_Issues r @ [Issue ''service_journal_entry'' ''unsupported''] else sl_Issues r);
               over = int (length entries) > sl_Limit r
           in Inr (r\<lparr>sl_Issues := issues,
                      sl_Entries := (if over then drop (length entries - nat (sl_Limit r)) entries else entries),
                      sl_Truncated := (truncated \<or> over)\<rparr>)))"

definition contains_text :: "string \<Rightarrow> string \<Rightarrow> bool" where
  "contains_text s t \<longleftrightarrow> list_ex (\<lambda>k. HasPrefix (drop k s) t) [0..<Suc (length s)]"

definition ServiceLogs :: "journal_codec \<Rightarrow> (string \<Rightarrow> string list \<Rightarrow> bytes list \<times> bytes list \<times> string option) \<Rightarrow> time
    \<Rightarrow> string \<Rightarrow> int \<Rightarrow> (status_error, service_log) result" where
  "ServiceLogs jc run now name limit =
     (if \<not> validateUnit name then Inl InvalidServiceName
      else if limit < 1 \<or> limit > 100 then Inl LogLimitInvalid
      else
        (let (out, err, exitErr) = run ''/usr/bin/journalctl'' [''--no-pager'', ''--output=json'', ''--unit'', name,
               ''--since=-15min'', ''--lines'', Itoa (limit + 1)];
             (output, outErr) = cappedCopy \<lparr>cw_buffer = [], cw_limit = 131072, cw_truncated = False\<rparr> out;
             (warnings, warnErr) = cappedCopy \<lparr>cw_buffer = [], cw_limit = 4096, cw_truncated = False\<rparr> err
         in
         if (exitErr \<noteq> None \<or> outErr \<or> warnErr) \<and> \<not> cw_truncated output then Inl JournalUnavailable
         else
           decodeJournal jc (cw_buffer output)
             \<lparr>sl_ObservedAt = now, sl_Name = name, sl_Entries = [], sl_Limit = limit, sl_Truncated = cw_truncated output,
              sl_Issues = (if contains_text (cw_buffer warnings) ''not seeing messages''
                             \<or> contains_text (cw_buffer warnings) ''insufficient permissions''
                           then [Issue ''service_journal'' ''access_limited''] else [])\<rparr>))"

end
