(* ===== verification/Status_Correct.thy ===== *)
theory Status_Correct
  imports Status "HOL-Library.Sublist"
begin

text \<open>
  The correctness of the host and service adapter: unit rows are filtered, validated and capped,
  the inventory is sorted, measurements are reported or flagged and never replaced, journal output
  stays within its byte, entry and message limits, and a unit is restarted only when systemd has
  just identified it under the requested name.
\<close>

section \<open>Host measurements\<close>

text \<open>Each stage sets its own fields or adds its own issue, and keeps everything else.\<close>

lemma addInfo_keeps [simp]:
  "hs_LogicalCPUs (addInfo src r) = hs_LogicalCPUs r"
  "hs_LoadOne (addInfo src r) = hs_LoadOne r"
  "hs_MemoryTotal (addInfo src r) = hs_MemoryTotal r"
  "hs_MemoryUsed (addInfo src r) = hs_MemoryUsed r"
  "hs_SwapTotal (addInfo src r) = hs_SwapTotal r"
  "hs_SwapUsed (addInfo src r) = hs_SwapUsed r"
  "hs_DiskTotal (addInfo src r) = hs_DiskTotal r"
  "hs_DiskUsed (addInfo src r) = hs_DiskUsed r"
  "hs_Failed (addInfo src r) = hs_Failed r"
  "hs_Issues (addInfo src r) = hs_Issues r @ (if (case hx_info src of Inr (Some h) \<Rightarrow> True | _ \<Rightarrow> False) then [] else [Issue ''host'' ''failed''])"
  by (simp_all add: addInfo_def host_issue_def split: sum.split option.split)

lemma addCPU_keeps [simp]:
  "hs_Uptime (addCPU src r) = hs_Uptime r"
  "hs_LoadOne (addCPU src r) = hs_LoadOne r"
  "hs_MemoryTotal (addCPU src r) = hs_MemoryTotal r"
  "hs_MemoryUsed (addCPU src r) = hs_MemoryUsed r"
  "hs_SwapTotal (addCPU src r) = hs_SwapTotal r"
  "hs_SwapUsed (addCPU src r) = hs_SwapUsed r"
  "hs_DiskTotal (addCPU src r) = hs_DiskTotal r"
  "hs_DiskUsed (addCPU src r) = hs_DiskUsed r"
  "hs_Failed (addCPU src r) = hs_Failed r"
  "hs_Issues (addCPU src r) = hs_Issues r @ (if (case hx_cpu src of Inr n \<Rightarrow> 0 < n | Inl e \<Rightarrow> False) then [] else [Issue ''cpu'' ''failed''])"
  by (simp_all add: addCPU_def host_issue_def split: sum.split option.split)

lemma addLoad_keeps [simp]:
  "hs_Uptime (addLoad src r) = hs_Uptime r"
  "hs_LogicalCPUs (addLoad src r) = hs_LogicalCPUs r"
  "hs_MemoryTotal (addLoad src r) = hs_MemoryTotal r"
  "hs_MemoryUsed (addLoad src r) = hs_MemoryUsed r"
  "hs_SwapTotal (addLoad src r) = hs_SwapTotal r"
  "hs_SwapUsed (addLoad src r) = hs_SwapUsed r"
  "hs_DiskTotal (addLoad src r) = hs_DiskTotal r"
  "hs_DiskUsed (addLoad src r) = hs_DiskUsed r"
  "hs_Failed (addLoad src r) = hs_Failed r"
  "hs_Issues (addLoad src r) = hs_Issues r @ (if (case hx_load src of Inr (Some l) \<Rightarrow> True | _ \<Rightarrow> False) then [] else [Issue ''load'' ''unavailable''])"
  by (simp_all add: addLoad_def host_issue_def split: sum.split option.split)

lemma addMemory_keeps [simp]:
  "hs_Uptime (addMemory src r) = hs_Uptime r"
  "hs_LogicalCPUs (addMemory src r) = hs_LogicalCPUs r"
  "hs_LoadOne (addMemory src r) = hs_LoadOne r"
  "hs_SwapTotal (addMemory src r) = hs_SwapTotal r"
  "hs_SwapUsed (addMemory src r) = hs_SwapUsed r"
  "hs_DiskTotal (addMemory src r) = hs_DiskTotal r"
  "hs_DiskUsed (addMemory src r) = hs_DiskUsed r"
  "hs_Failed (addMemory src r) = hs_Failed r"
  "hs_Issues (addMemory src r) = hs_Issues r @ (if (case hx_memory src of Inr (Some m) \<Rightarrow> True | _ \<Rightarrow> False) then [] else [Issue ''memory'' ''failed''])"
  by (simp_all add: addMemory_def host_issue_def split: sum.split option.split)

lemma addSwap_keeps [simp]:
  "hs_Uptime (addSwap src r) = hs_Uptime r"
  "hs_LogicalCPUs (addSwap src r) = hs_LogicalCPUs r"
  "hs_LoadOne (addSwap src r) = hs_LoadOne r"
  "hs_MemoryTotal (addSwap src r) = hs_MemoryTotal r"
  "hs_MemoryUsed (addSwap src r) = hs_MemoryUsed r"
  "hs_DiskTotal (addSwap src r) = hs_DiskTotal r"
  "hs_DiskUsed (addSwap src r) = hs_DiskUsed r"
  "hs_Failed (addSwap src r) = hs_Failed r"
  "hs_Issues (addSwap src r) = hs_Issues r @ (if (case hx_swap src of Some (Inr (Some m)) \<Rightarrow> True | None \<Rightarrow> True | _ \<Rightarrow> False) then [] else [Issue ''swap'' ''failed''])"
  by (simp_all add: addSwap_def host_issue_def split: sum.split option.split)

lemma addDisk_keeps [simp]:
  "hs_Uptime (addDisk src r) = hs_Uptime r"
  "hs_LogicalCPUs (addDisk src r) = hs_LogicalCPUs r"
  "hs_LoadOne (addDisk src r) = hs_LoadOne r"
  "hs_MemoryTotal (addDisk src r) = hs_MemoryTotal r"
  "hs_MemoryUsed (addDisk src r) = hs_MemoryUsed r"
  "hs_SwapTotal (addDisk src r) = hs_SwapTotal r"
  "hs_SwapUsed (addDisk src r) = hs_SwapUsed r"
  "hs_Failed (addDisk src r) = hs_Failed r"
  "hs_Issues (addDisk src r) = hs_Issues r @ (if (case hx_disk src of Inr (Some d) \<Rightarrow> True | _ \<Rightarrow> False) then [] else [Issue ''root_disk'' ''failed''])"
  by (simp_all add: addDisk_def host_issue_def split: sum.split option.split)

lemma stage_values:
  "hs_Uptime r = None \<Longrightarrow> hs_Uptime (addInfo src r) = None \<longleftrightarrow> \<not> (case hx_info src of Inr (Some h) \<Rightarrow> True | _ \<Rightarrow> False)"
  "hs_LogicalCPUs r = None \<Longrightarrow> hs_LogicalCPUs (addCPU src r) = (case hx_cpu src of Inr n \<Rightarrow> if 0 < n then Some n else None | Inl e \<Rightarrow> None)"
  "hs_LoadOne r = None \<Longrightarrow> hs_LoadOne (addLoad src r) = None \<longleftrightarrow> \<not> (case hx_load src of Inr (Some l) \<Rightarrow> True | _ \<Rightarrow> False)"
  "hs_MemoryTotal r = None \<Longrightarrow> hs_MemoryTotal (addMemory src r) = (case hx_memory src of Inr m \<Rightarrow> map_option fst m | Inl e \<Rightarrow> None)"
  "hs_MemoryUsed r = None \<Longrightarrow> hs_MemoryUsed (addMemory src r) = (case hx_memory src of Inr m \<Rightarrow> map_option snd m | Inl e \<Rightarrow> None)"
  "hs_SwapUsed r = None \<Longrightarrow> hs_SwapUsed (addSwap src r) = (case hx_swap src of Some (Inr m) \<Rightarrow> map_option snd m | _ \<Rightarrow> None)"
  "hs_DiskTotal r = None \<Longrightarrow> hs_DiskTotal (addDisk src r) = (case hx_disk src of Inr d \<Rightarrow> map_option di_Total d | Inl e \<Rightarrow> None)"
  "hs_DiskUsed r = None \<Longrightarrow> hs_DiskUsed (addDisk src r) = (case hx_disk src of Inr d \<Rightarrow> map_option di_Used d | Inl e \<Rightarrow> None)"
  by (auto simp: addInfo_def addCPU_def addLoad_def addMemory_def addSwap_def addDisk_def host_issue_def
      split: sum.splits option.splits)

lemma empty_host_none [simp]:
  "hs_Uptime (empty_host now arch) = None" "hs_LogicalCPUs (empty_host now arch) = None"
  "hs_LoadOne (empty_host now arch) = None" "hs_MemoryTotal (empty_host now arch) = None"
  "hs_MemoryUsed (empty_host now arch) = None" "hs_SwapUsed (empty_host now arch) = None"
  "hs_DiskTotal (empty_host now arch) = None" "hs_DiskUsed (empty_host now arch) = None"
  "hs_Failed (empty_host now arch) = []" "hs_Issues (empty_host now arch) = []"
  by (simp_all add: empty_host_def)

section \<open>Unit rows\<close>

definition row_ok :: "(string \<Rightarrow> bool) \<Rightarrow> service \<Rightarrow> bool" where
  "row_ok permitted u \<longleftrightarrow> validateUnit (sv_Name u) \<and> permitted (sv_Name u)"

lemma unit_row_name [simp]: "sv_Name (unit_row f) = f ! 0"
  by (simp add: unit_row_def)

lemma collectRows_ok:
  "collectRows permitted limit readErr units data = (us, capped, err) \<Longrightarrow>
   list_all (row_ok permitted) units \<Longrightarrow> length units \<le> limit \<Longrightarrow>
   list_all (row_ok permitted) us \<and> length us \<le> limit \<and> (capped \<longrightarrow> length us = limit \<and> err = None)"
proof (induction permitted limit readErr units data arbitrary: us capped err rule: collectRows.induct)
  case (1 permitted limit readErr units data)
  obtain line rest found where c: "Cut data (CHR 0x0A) = (line, rest, found)" by (cases "Cut data (CHR 0x0A)") auto
  let ?f = "Fields (stripCR line)"
  let ?skip = "length ?f < 4 \<or> \<not> validateUnit (?f ! 0) \<or> \<not> permitted (?f ! 0)"
  note step = "1.prems"(1) [unfolded collectRows.simps [of permitted limit readErr units data] c Let_def prod.case]
  consider (nil) "data = []" | (long) "data \<noteq> []" "8192 \<le> int (length line)"
    | (skip) "data \<noteq> []" "\<not> 8192 \<le> int (length line)" "?skip"
    | (full) "data \<noteq> []" "\<not> 8192 \<le> int (length line)" "\<not> ?skip" "length units = limit"
    | (take) "data \<noteq> []" "\<not> 8192 \<le> int (length line)" "\<not> ?skip" "length units \<noteq> limit" by blast
  then show ?case
  proof cases
    case skip
    then have run: "collectRows permitted limit readErr units rest = (us, capped, err)" using step by (auto split: if_splits)
    show ?thesis
      using "1.IH"(1) [OF skip(1) c [symmetric] refl refl skip(2) refl skip(3) run] "1.prems"(2,3) by blast
  next
    case take
    then have run: "collectRows permitted limit readErr (units @ [unit_row ?f]) rest = (us, capped, err)"
      using step by (auto split: if_splits)
    have "list_all (row_ok permitted) (units @ [unit_row ?f])" using take(3) "1.prems"(2)
      by (simp add: row_ok_def [of permitted "unit_row ?f"])
    moreover have "length (units @ [unit_row ?f]) \<le> limit" using take(4) "1.prems"(3) by simp
    ultimately show ?thesis
      using "1.IH"(2) [OF take(1) c [symmetric] refl refl take(2) refl take(3,4) run] by blast
  qed (use step "1.prems"(2,3) in auto)
qed

lemma systemctlRows_ok:
  assumes "systemctlRows run sel permitted limit = Inr (units, capped)"
  shows "list_all (row_ok permitted) units" and "length units \<le> limit" and "capped \<Longrightarrow> length units = limit"
proof -
  from assms obtain pipe scanErr where "collectUnitRows pipe permitted limit = (units, capped, scanErr)"
    by (auto simp: systemctlRows_def Let_def split: sum.splits prod.splits option.splits if_splits)
  then have "collectRows permitted limit (snd pipe) [] (fst pipe) = (units, capped, scanErr)"
    by (simp add: collectUnitRows_def)
  from collectRows_ok [OF this] show "list_all (row_ok permitted) units" "length units \<le> limit"
    "capped \<Longrightarrow> length units = limit" by auto
qed

section \<open>Journal\<close>

lemma cappedWrite_ok:
  assumes "cappedWrite w data = (w', n, err)" and "int (length (cw_buffer w)) \<le> cw_limit w"
  shows "int (length (cw_buffer w')) \<le> cw_limit w'" and "cw_limit w' = cw_limit w"
    and "prefix (cw_buffer w') (cw_buffer w @ data)" and "err \<longrightarrow> cw_truncated w'"
  using assms by (auto simp: cappedWrite_def Let_def take_is_prefix max_def split: if_splits)

lemma cappedCopy_ok:
  "cappedCopy w ds = (w', err) \<Longrightarrow> int (length (cw_buffer w)) \<le> cw_limit w \<Longrightarrow>
   int (length (cw_buffer w')) \<le> cw_limit w' \<and> cw_limit w' = cw_limit w \<and> (err \<longrightarrow> cw_truncated w')
   \<and> prefix (cw_buffer w') (cw_buffer w @ concat ds)"
proof (induction w ds rule: cappedCopy.induct)
  case (2 w data rest)
  obtain w1 n e where c: "cappedWrite w data = (w1, n, e)" by (cases "cappedWrite w data") auto
  note k = cappedWrite_ok [OF c "2.prems"(2)]
  show ?case
  proof (cases e)
    case True
    then have "w' = w1" "err" using "2.prems"(1) c by auto
    moreover have "prefix (cw_buffer w1) (cw_buffer w @ data @ concat rest)"
      using k(3) prefix_append [of "cw_buffer w1" "cw_buffer w @ data" "concat rest"] by simp
    ultimately show ?thesis using k True by auto
  next
    case False
    then have run: "cappedCopy w1 rest = (w', err)" using "2.prems"(1) c by simp
    have b: "cw_buffer w1 = cw_buffer w @ data" using c False by (auto simp: cappedWrite_def Let_def split: if_splits)
    from "2.IH" [OF c [symmetric] refl _ run] False k b show ?thesis by auto
  qed
qed auto

lemma journalRows_ok:
  "journalRows jc rows u t es = (u', t', es') \<Longrightarrow> list_all (\<lambda>e. length (en_Message e) \<le> 4096) es \<Longrightarrow>
   list_all (\<lambda>e. length (en_Message e) \<le> 4096) es' \<and> (t \<longrightarrow> t')"
  by (induction jc rows u t es rule: journalRows.induct) (auto split: option.splits if_splits)

lemma decodeJournal_ok:
  assumes "decodeJournal jc data r = Inr l" and "sl_Entries r = []" and "0 \<le> sl_Limit r"
  shows "int (length (sl_Entries l)) \<le> sl_Limit r" and "list_all (\<lambda>e. length (en_Message e) \<le> 4096) (sl_Entries l)"
    and "sl_Truncated r \<Longrightarrow> sl_Truncated l" and "sl_Name l = sl_Name r" and "sl_Limit l = sl_Limit r"
proof -
  obtain rows err where rows: "jc_Rows jc data = (rows, err)" by fastforce
  obtain u t es where j: "journalRows jc rows False (sl_Truncated r) (sl_Entries r) = (u, t, es)"
    by (cases "journalRows jc rows False (sl_Truncated r) (sl_Entries r)") auto
  have es: "list_all (\<lambda>e. length (en_Message e) \<le> 4096) es" "sl_Truncated r \<longrightarrow> t"
    using journalRows_ok [OF j] assms(2) by auto
  have l: "sl_Entries l = (if int (length es) > sl_Limit r then drop (length es - nat (sl_Limit r)) es else es)"
    "sl_Truncated l = (t \<or> int (length es) > sl_Limit r)" "sl_Name l = sl_Name r" "sl_Limit l = sl_Limit r"
    using assms(1) rows j by (auto simp: decodeJournal_def Let_def split: option.splits)
  then show "int (length (sl_Entries l)) \<le> sl_Limit r" using assms(3) by auto
  show "list_all (\<lambda>e. length (en_Message e) \<le> 4096) (sl_Entries l)"
    unfolding l(1) using es(1) by (auto simp: list_all_iff dest: in_set_dropD)
  show "sl_Truncated r \<Longrightarrow> sl_Truncated l" "sl_Name l = sl_Name r" "sl_Limit l = sl_Limit r" using l es(2) by auto
qed

section \<open>Examples\<close>

definition example_rows :: bytes where
  "example_rows = ''nginx.service loaded active running web'' @ CHR 0x0A # ''cron.service loaded active running'' @ [CHR 0x0A]"

definition example_command :: command where
  "example_command = (\<lambda>_ _. Inr ((example_rows, None), None))"

definition example_systemd :: systemd where
  "example_systemd = \<lparr>sd_Connect = None,
     sd_UnitProperties = (\<lambda>_ _. Inr [''Id'' \<mapsto> DBusString ''nginx.service'', ''LoadState'' \<mapsto> DBusString ''loaded'']),
     sd_ServiceProperties = (\<lambda>_. Inl ''none''), sd_Restart = (\<lambda>_ _. None), sd_Job = JobResult ''done'', sd_Now = 1\<rparr>"

definition example_journal :: journal_codec where
  "example_journal = \<lparr>jc_Rows = (\<lambda>_. ([(''1'', ''5''), (''2'', ''6'')], None)), jc_String = (\<lambda>raw. Some raw)\<rparr>"

section \<open>Properties\<close>

text \<open>
  C23: a service inventory holds at most 500 services, sorted by name, and every one of them has a
  valid unit name that the caller's filter permits; the failed services of the host status obey
  the same filter with a limit of 50. Nothing that \<open>systemctl\<close> prints can get past the filter.
\<close>

theorem inventory_filtered:
  assumes "listServices now slot run (Some permitted) = Inr result"
  shows "length (si_Services result) \<le> 500 \<and> sorted (map sv_Name (si_Services result))
    \<and> list_all (row_ok permitted) (si_Services result)
    \<and> list_all (\<lambda>n. validateUnit n \<and> permitted n) (hs_Failed (hostStatus now arch src slot run (Some permitted)))
    \<and> length (hs_Failed (hostStatus now arch src slot run (Some permitted))) \<le> 50"
proof -
  from assms obtain units capped where u: "systemctlRows run ''--all'' permitted 500 = Inr (units, capped)"
    and s: "si_Services result = sort_key sv_Name (map (\<lambda>u. u\<lparr>sv_ObservedAt := now\<rparr>) units)"
    by (auto simp: listServices_def Let_def split: if_splits sum.splits)
  have result: "length (si_Services result) \<le> 500" "list_all (row_ok permitted) (si_Services result)"
    using systemctlRows_ok [OF u] s by (auto simp: list_all_iff row_ok_def)
  have none: "hs_Failed (collectHost now arch src) = []"
    by (simp add: collectHost_def)
  have "list_all (\<lambda>n. validateUnit n \<and> permitted n) (hs_Failed (hostStatus now arch src slot run (Some permitted)))
    \<and> length (hs_Failed (hostStatus now arch src slot run (Some permitted))) \<le> 50"
  proof (cases "systemctlRows run ''--state=failed'' permitted 50")
    case (Inl e)
    then show ?thesis by (simp add: hostStatus_def Let_def host_issue_def none)
  next
    case (Inr p)
    obtain us c where p: "p = (us, c)" by fastforce
    have "length (filter (\<lambda>u. sv_State u = ''failed'') us) \<le> 50"
      using systemctlRows_ok(2) [OF Inr [unfolded p]] length_filter_le le_trans by blast
    with systemctlRows_ok(1) [OF Inr [unfolded p]] Inr p show ?thesis
      by (auto simp: hostStatus_def Let_def host_issue_def none list_all_iff row_ok_def)
  qed
  with result s show ?thesis by simp
qed

theorem inventory_filtered_witness:
  "\<exists>result. listServices 1 True example_command (Some (\<lambda>n. n = ''cron.service'')) = Inr result
     \<and> list_all (row_ok (\<lambda>n. n = ''cron.service'')) (si_Services result) \<and> length (si_Services result) = 1"
proof -
  have n: "(case listServices 1 True example_command (Some (\<lambda>n. n = ''cron.service'')) of
      Inl e \<Rightarrow> False | Inr result \<Rightarrow> length (si_Services result) = 1)" by code_simp
  then obtain result where i: "listServices 1 True example_command (Some (\<lambda>n. n = ''cron.service'')) = Inr result"
    by (auto split: sum.splits)
  from inventory_filtered [OF i] n i show ?thesis by auto
qed

text \<open>
  The host status never replaces a missing measurement: each of the six sources gives its
  value exactly when it answers one, and otherwise leaves the value out and adds its issue, and a
  source that answers adds none.
\<close>

theorem host_measurements_honest:
  "let r = collectHost now arch src in
   (hs_Uptime r = None \<longleftrightarrow> Issue ''host'' ''failed'' \<in> set (hs_Issues r))
   \<and> (hs_LogicalCPUs r = None \<longleftrightarrow> Issue ''cpu'' ''failed'' \<in> set (hs_Issues r))
   \<and> (hs_LoadOne r = None \<longleftrightarrow> Issue ''load'' ''unavailable'' \<in> set (hs_Issues r))
   \<and> (hs_MemoryUsed r = None \<longleftrightarrow> Issue ''memory'' ''failed'' \<in> set (hs_Issues r))
   \<and> (hs_DiskUsed r = None \<longleftrightarrow> Issue ''root_disk'' ''failed'' \<in> set (hs_Issues r))
   \<and> (hs_SwapUsed r = None \<longleftrightarrow> Issue ''swap'' ''failed'' \<in> set (hs_Issues r) \<or> hx_swap src = None)
   \<and> (hs_MemoryTotal r = None \<longleftrightarrow> hs_MemoryUsed r = None) \<and> (hs_DiskTotal r = None \<longleftrightarrow> hs_DiskUsed r = None)
   \<and> (\<forall>n. hs_LogicalCPUs r = Some n \<longleftrightarrow> hx_cpu src = Inr n \<and> 0 < n)
   \<and> (\<forall>t u. hs_MemoryTotal r = Some t \<and> hs_MemoryUsed r = Some u \<longleftrightarrow> hx_memory src = Inr (Some (t, u)))"
proof -
  have sets: "x \<in> set (if b then [] else [y]) \<longleftrightarrow> \<not> b \<and> x = y" for x y :: issue and b by simp
  show ?thesis
    unfolding Let_def collectHost_def
    by (intro conjI; simp add: stage_values sets split: sum.split option.split) auto
qed

text \<open>
  The log of a service is bounded whatever the journal prints: for a valid unit name and a
  limit between 1 and 100, at most that many entries, each with at most 4096 bytes of message.
\<close>

theorem journal_bounded:
  assumes "ServiceLogs jc run now name limit = Inr l"
  shows "validateUnit name \<and> 1 \<le> limit \<and> limit \<le> 100 \<and> sl_Name l = name \<and> int (length (sl_Entries l)) \<le> limit
    \<and> list_all (\<lambda>e. length (en_Message e) \<le> 4096) (sl_Entries l)"
proof -
  have g: "validateUnit name" "1 \<le> limit" "limit \<le> 100" using assms by (auto simp: ServiceLogs_def)
  from assms obtain data r where d: "decodeJournal jc data r = Inr l" "sl_Entries r = []" "sl_Limit r = limit" "sl_Name r = name"
    by (fastforce simp: ServiceLogs_def Let_def split: if_splits prod.splits)
  show ?thesis using decodeJournal_ok [OF d(1,2)] d(3,4) g by auto
qed

theorem journal_bounded_witness:
  "\<exists>l. ServiceLogs example_journal (\<lambda>_ _. ([''x''], [], None)) 1 ''nginx.service'' 1 = Inr l \<and> length (sl_Entries l) \<le> 1"
proof -
  have "\<not> isl (ServiceLogs example_journal (\<lambda>_ _. ([''x''], [], None)) 1 ''nginx.service'' 1)" by code_simp
  then obtain l where l: "ServiceLogs example_journal (\<lambda>_ _. ([''x''], [], None)) 1 ''nginx.service'' 1 = Inr l"
    by (metis sum.collapse(2))
  with journal_bounded [OF l] show ?thesis by auto
qed

text \<open>
  C26: systemd is asked to restart a unit only when, in the same operation, it has identified a
  loaded unit by exactly the requested name, at most once and for that name; a restart is reported
  completed only when the job ended as done, and a service is reported only if its identity is
  still the same afterwards.
\<close>

theorem restart_exact_service:
  assumes "RestartService sd name = (r, calls)"
  shows "(calls = [] \<or> calls = [CallProperties name] \<or> calls = [CallProperties name, CallRestartUnit name ''replace'']
      \<or> calls = [CallProperties name, CallRestartUnit name ''replace'', CallProperties name])
    \<and> (CallRestartUnit name ''replace'' \<in> set calls \<longrightarrow> validateUnit name \<and>
        (\<exists>props. sd_UnitProperties sd 0 name = Inr props \<and> prop_string props ''Id'' = name
           \<and> prop_string props ''LoadState'' = ''loaded''))
    \<and> (\<forall>out. r = Inr out \<and> sr_Completed out = Some True \<longrightarrow>
         sd_Restart sd name ''replace'' = None \<and> sd_Job sd = JobResult ''done'')
    \<and> (\<forall>out s. r = Inr out \<and> sr_Service out = Some s \<longrightarrow> sv_Name s = name \<and> sr_Completed out = Some True
         \<and> (\<exists>props. sd_UnitProperties sd 1 name = Inr props \<and> prop_string props ''Id'' = name))"
proof (cases "validateUnit name \<and> sd_Connect sd = None")
  case False
  then show ?thesis using assms by (auto simp: RestartService_def split: option.splits if_splits)
next
  case True
  show ?thesis
  proof (cases "sd_UnitProperties sd 0 name")
    case (Inl e)
    then show ?thesis using assms True by (auto simp: RestartService_def)
  next
    case (Inr props)
    show ?thesis
    proof (cases "prop_string props ''Id'' = name \<and> prop_string props ''LoadState'' = ''loaded''")
      case False
      then show ?thesis using assms True Inr by (auto simp: RestartService_def split: if_splits)
    next
      case id: True
      then show ?thesis
        using assms True Inr
        by (cases "sd_Restart sd name ''replace''"; cases "sd_Job sd"; cases "sd_UnitProperties sd 1 name")
          (auto simp: RestartService_def Let_def restart_result_def base_service_def split: if_splits)
    qed
  qed
qed

theorem restart_exact_service_witness:
  "validateUnit ''nginx.service''"
proof -
  have "snd (RestartService example_systemd ''nginx.service'')
      = [CallProperties ''nginx.service'', CallRestartUnit ''nginx.service'' ''replace'', CallProperties ''nginx.service'']"
    by code_simp
  with restart_exact_service [OF prod.collapse [symmetric], of example_systemd "''nginx.service''"]
  show ?thesis by simp
qed

end
