(* ===== verification/Policy.thy ===== *)
theory Policy
  imports GoPath
begin

text \<open>
  Profiles, rules and the compiled policy of \<open>internal/core/policy.go\<close>, with the profile-name
  check of \<open>internal/core/config.go\<close>. \<open>Compile\<close> is a depth-first search over the include graph
  with three node colours; its termination is proved here and its correctness in
  \<open>Policy_Correct\<close>. \<open>Allows\<close>, \<open>Explain\<close> and \<open>Advertises\<close> are the decisions that the gateway,
  the repair worker and the command line take from a compiled policy.
\<close>

section \<open>Data\<close>

text \<open>\<open>Effect\<close> and \<open>Role\<close> are string types in the source: a decoded rule can hold any string.\<close>

type_synonym effect = string
type_synonym role = string

definition EffectObserve :: effect where "EffectObserve = ''observe''"
definition EffectRepair :: effect where "EffectRepair = ''repair''"
definition RoleObserve :: role where "RoleObserve = ''observe''"
definition RoleRepair :: role where "RoleRepair = ''repair''"

record rule =
  rule_Effect :: effect
  rule_Tool :: string
  rule_Resource :: string

record profile =
  Includes :: "string list"
  Allow :: "rule list"
  Deny :: "rule list"

text \<open>A rule key is an effect and a tool; an absent key of the Go map reads as no rules.\<close>

type_synonym ruleKey = "effect \<times> string"

record policy =
  allow :: "ruleKey \<Rightarrow> rule list"
  deny :: "ruleKey \<Rightarrow> rule list"

record explanation =
  ex_Effect :: effect
  ex_Tool :: string
  ex_Resource :: string
  ex_Allowed :: bool
  ex_Scope :: string
  ex_AdditionalChecks :: "string list"
  ex_Grants :: "rule list"
  ex_Denials :: "rule list"

type_synonym profiles = "(string \<times> profile) list"
type_synonym tools = "string \<rightharpoonup> effect"

datatype rule_error =
    InvalidEffect effect
  | UnknownTool string effect
  | ResourceEmptyOrControl
  | InvalidPattern

datatype compile_error =
    InvalidProfileName string
  | IncludeCycle string
  | ProfileMissing string
  | AllowRule string rule_error
  | RepairNotExact string
  | DenyRule string rule_error

section \<open>Validation of names and rules\<close>

definition ValidProfileName :: "string \<Rightarrow> bool" where
  "ValidProfileName name \<longleftrightarrow>
     \<not> (name = [] \<or> 64 < length name
        \<or> ContainsAny name [CHR ''/'', backslash, CHR ''.'', CHR 0x00, CHR 0x0A, CHR 0x0D])
     \<and> list_all (\<lambda>c. \<not> (c \<noteq> CHR ''-'' \<and> c \<noteq> CHR ''_'' \<and> (c < CHR ''a'' \<or> CHR ''z'' < c)
                          \<and> (c < CHR ''0'' \<or> CHR ''9'' < c))) name"

definition validRule :: "tools \<Rightarrow> rule \<Rightarrow> (rule_error, unit) result" where
  "validRule tools r =
     (if rule_Effect r \<noteq> EffectObserve \<and> rule_Effect r \<noteq> EffectRepair
      then Inl (InvalidEffect (rule_Effect r))
      else if tools (rule_Tool r) \<noteq> Some (rule_Effect r)
      then Inl (UnknownTool (rule_Tool r) (rule_Effect r))
      else if rule_Resource r = [] \<or> ContainsAny (rule_Resource r) [CHR 0x00, CHR 0x0A, CHR 0x0D]
      then Inl ResourceEmptyOrControl
      else if pathMatch (rule_Resource r) ''probe'' = None then Inl InvalidPattern
      else Inr ())"

text \<open>The characters that make a resource a pattern for the policy.\<close>

definition wildcard :: "string \<Rightarrow> bool" where
  "wildcard res \<longleftrightarrow> ContainsAny res ''*?[''"

definition rule_key :: "rule \<Rightarrow> ruleKey" where
  "rule_key r = (rule_Effect r, rule_Tool r)"

section \<open>Compile\<close>

text \<open>The loops over a profile's allow and deny rules: each stops at the first bad rule.\<close>

fun addAllow :: "tools \<Rightarrow> string \<Rightarrow> rule list \<Rightarrow> policy \<Rightarrow> (compile_error, policy) result" where
  "addAllow tools name [] pol = Inr pol"
| "addAllow tools name (r # rs) pol =
     (case validRule tools r of
        Inl e \<Rightarrow> Inl (AllowRule name e)
      | Inr _ \<Rightarrow>
          (if rule_Effect r = EffectRepair \<and> wildcard (rule_Resource r)
           then Inl (RepairNotExact name)
           else addAllow tools name rs
             (pol\<lparr>allow := (allow pol)(rule_key r := allow pol (rule_key r) @ [r])\<rparr>)))"

fun addDeny :: "tools \<Rightarrow> string \<Rightarrow> rule list \<Rightarrow> policy \<Rightarrow> (compile_error, policy) result" where
  "addDeny tools name [] pol = Inr pol"
| "addDeny tools name (r # rs) pol =
     (case validRule tools r of
        Inl e \<Rightarrow> Inl (DenyRule name e)
      | Inr _ \<Rightarrow> addDeny tools name rs
             (pol\<lparr>deny := (deny pol)(rule_key r := deny pol (rule_key r) @ [r])\<rparr>))"

definition addRules :: "tools \<Rightarrow> string \<Rightarrow> profile \<Rightarrow> policy \<Rightarrow> (compile_error, policy) result" where
  "addRules tools name p pol =
     (case addAllow tools name (Allow p) pol of
        Inl e \<Rightarrow> Inl e
      | Inr pol' \<Rightarrow> addDeny tools name (Deny p) pol')"

text \<open>
  The visit marks: the source's \<open>state\<close> map holds 0 (an absent name), 1 while a profile is being
  visited and 2 when it is done.
\<close>

datatype mark = Unvisited | Visiting | Done

type_synonym marks = "string \<Rightarrow> mark"

text \<open>
  \<open>visitAll\<close> is the loop that calls \<open>visit\<close> on each name in turn (the include loop inside
  \<open>visit\<close> and the loop over the active profiles in \<open>Compile\<close>), with the body of \<open>visit\<close> in
  place of the call.
\<close>

function visitAll :: "profiles \<Rightarrow> tools \<Rightarrow> string list \<Rightarrow> marks \<Rightarrow> policy
    \<Rightarrow> (compile_error, marks \<times> policy) result" where
  "visitAll ps tools [] state pol = Inr (state, pol)"
| "visitAll ps tools (name # names) state pol =
     (if \<not> ValidProfileName name then Inl (InvalidProfileName name)
      else
        (case state name of
           Visiting \<Rightarrow> Inl (IncludeCycle name)
         | Done \<Rightarrow> visitAll ps tools names state pol
         | Unvisited \<Rightarrow>
             (case map_of ps name of
                None \<Rightarrow> Inl (ProfileMissing name)
              | Some p \<Rightarrow>
                  (case visitAll ps tools (Includes p) (state(name := Visiting)) pol of
                     Inl e \<Rightarrow> Inl e
                   | Inr (state1, pol1) \<Rightarrow>
                       (case addRules tools name p pol1 of
                          Inl e \<Rightarrow> Inl e
                        | Inr pol2 \<Rightarrow> visitAll ps tools names (state1(name := Done)) pol2)))))"
  by pat_completeness auto

text \<open>No mark is ever cleared; with that, each nested visit leaves fewer unmarked profiles.\<close>

lemma visitAll_marks_dom:
  assumes "visitAll_dom (ps, tools, names, state, pol)"
  shows "visitAll ps tools names state pol = Inr (state', pol') \<Longrightarrow>
    state n \<noteq> Unvisited \<Longrightarrow> state' n \<noteq> Unvisited"
  using assms
proof (induction ps tools names state pol arbitrary: state' pol' rule: visitAll.pinduct)
  case (1 ps tools state pol)
  then show ?case by (auto simp: visitAll.psimps)
next
  case (2 ps tools name names state pol)
  then show ?case
    by (auto simp: visitAll.psimps fun_upd_def split: if_splits option.splits sum.splits mark.splits)
qed

definition unmarked :: "profiles \<Rightarrow> marks \<Rightarrow> nat" where
  "unmarked ps state = card {n \<in> fst ` set ps. state n = Unvisited}"

lemma unmarked_less:
  assumes "map_of ps name = Some p" "state name = Unvisited" "state' name \<noteq> Unvisited"
    and "\<And>n. state n \<noteq> Unvisited \<Longrightarrow> state' n \<noteq> Unvisited"
  shows "unmarked ps state' < unmarked ps state"
proof -
  have "name \<in> fst ` set ps" using assms(1) by (auto dest!: map_of_SomeD intro: rev_image_eqI)
  moreover have "{n \<in> fst ` set ps. state' n = Unvisited} \<subseteq> {n \<in> fst ` set ps. state n = Unvisited}"
    using assms(4) by blast
  ultimately have "{n \<in> fst ` set ps. state' n = Unvisited} \<subset> {n \<in> fst ` set ps. state n = Unvisited}"
    using assms(2,3) by blast
  then show ?thesis unfolding unmarked_def by (intro psubset_card_mono) auto
qed

termination visitAll
proof (relation "measures [\<lambda>(ps, tools, names, state, pol). unmarked ps state,
    \<lambda>(ps, tools, names, state, pol). length names]", goal_cases)
  case 1
  show ?case by simp
next
  case (2 ps tools name names state pol p)
  then have "unmarked ps (state(name := Visiting)) < unmarked ps state"
    by (intro unmarked_less) auto
  then show ?case by simp
next
  case (3 ps tools name names state pol p pair state1 pol1 pol2)
  then have "n \<noteq> name \<Longrightarrow> state n \<noteq> Unvisited \<Longrightarrow> state1 n \<noteq> Unvisited" for n
    using visitAll_marks_dom [of ps tools "Includes p" "state(name := Visiting)" pol state1 pol1 n]
    by auto
  with 3 have "unmarked ps (state1(name := Done)) < unmarked ps state"
    by (intro unmarked_less) auto
  then show ?case by simp
next
  case (4 ps tools name names state pol)
  then show ?case by simp
qed

definition empty_policy :: policy where
  "empty_policy = \<lparr>allow = (\<lambda>_. []), deny = (\<lambda>_. [])\<rparr>"

definition Compile :: "profiles \<Rightarrow> string list \<Rightarrow> tools \<Rightarrow> (compile_error, policy) result" where
  "Compile ps active tools =
     (case visitAll ps tools active (\<lambda>_. Unvisited) empty_policy of
        Inl e \<Rightarrow> Inl e
      | Inr (state, compiled) \<Rightarrow> Inr compiled)"

section \<open>Decisions\<close>

definition matches :: "rule \<Rightarrow> effect \<Rightarrow> string \<Rightarrow> string \<Rightarrow> bool" where
  "matches r eff tool resource =
     (if rule_Effect r \<noteq> eff \<or> rule_Tool r \<noteq> tool then False
      else if rule_Resource r = resource then True
      else if \<not> ContainsAny (rule_Resource r) ''*?['' then False
      else pathMatch (rule_Resource r) resource = Some True)"

definition Allows :: "policy \<Rightarrow> effect \<Rightarrow> string \<Rightarrow> string \<Rightarrow> bool" where
  "Allows p eff tool resource =
     (if resource = [] then False
      else if list_ex (\<lambda>r. matches r eff tool resource) (deny p (eff, tool)) then False
      else list_ex (\<lambda>r. matches r eff tool resource) (allow p (eff, tool)))"

definition Explain :: "policy \<Rightarrow> effect \<Rightarrow> string \<Rightarrow> string \<Rightarrow> explanation" where
  "Explain p eff tool resource =
     (let checks = [''token_identity'', ''token_role'', ''capability'']
                     @ (if eff = EffectRepair then [''read_only_mode''] else []);
          res = \<lparr>ex_Effect = eff, ex_Tool = tool, ex_Resource = resource, ex_Allowed = False,
                 ex_Scope = ''profile'', ex_AdditionalChecks = checks, ex_Grants = [], ex_Denials = []\<rparr>
      in if resource = [] then res
         else
           (let grants = filter (\<lambda>r. matches r eff tool resource) (allow p (eff, tool));
                denials = filter (\<lambda>r. matches r eff tool resource) (deny p (eff, tool))
            in res\<lparr>ex_Grants := grants, ex_Denials := denials,
                   ex_Allowed := 0 < length grants \<and> length denials = 0\<rparr>))"

definition Advertises :: "policy \<Rightarrow> effect \<Rightarrow> string \<Rightarrow> bool" where
  "Advertises p eff tool =
     list_ex
       (\<lambda>grant. \<not> list_ex
          (\<lambda>denial. rule_Resource denial = ''*'' \<or> rule_Resource denial = rule_Resource grant
             \<or> \<not> ContainsAny (rule_Resource grant) ''*?[''
                \<and> matches denial eff tool (rule_Resource grant))
          (deny p (eff, tool)))
       (allow p (eff, tool))"

end
