(* ===== verification/Policy_Correct.thy ===== *)
theory Policy_Correct
  imports Policy
begin

text \<open>
  Correctness of the policy component. The specification of \<open>Compile\<close> is relational: the include
  graph of a profile set, the profiles reachable from the active ones, and what makes such a set
  acceptable. \<open>Compile\<close> succeeds exactly on the acceptable sets and then holds exactly the rules
  of the reachable profiles.
\<close>

section \<open>Specification\<close>

text \<open>The include edges of a profile set.\<close>

definition edges :: "profiles \<Rightarrow> (string \<times> string) set" where
  "edges ps = {(n, m). \<exists>p. map_of ps n = Some p \<and> m \<in> set (Includes p)}"

definition reach :: "profiles \<Rightarrow> string list \<Rightarrow> string set" where
  "reach ps active = (edges ps)\<^sup>* `` set active"

definition rules_ok :: "tools \<Rightarrow> profile \<Rightarrow> bool" where
  "rules_ok tools p \<longleftrightarrow>
     (\<forall>r\<in>set (Allow p). validRule tools r = Inr ()
        \<and> \<not> (rule_Effect r = EffectRepair \<and> wildcard (rule_Resource r)))
     \<and> (\<forall>r\<in>set (Deny p). validRule tools r = Inr ())"

text \<open>A profile that may be visited: a valid name, present, with valid rules.\<close>

definition node_ok :: "profiles \<Rightarrow> tools \<Rightarrow> string \<Rightarrow> bool" where
  "node_ok ps tools n \<longleftrightarrow>
     ValidProfileName n \<and> (\<exists>p. map_of ps n = Some p \<and> rules_ok tools p)"

definition acceptable :: "profiles \<Rightarrow> tools \<Rightarrow> string list \<Rightarrow> bool" where
  "acceptable ps tools active \<longleftrightarrow>
     (\<forall>n\<in>reach ps active. node_ok ps tools n \<and> (n, n) \<notin> (edges ps)\<^sup>+)"

definition granted :: "profiles \<Rightarrow> string set \<Rightarrow> ruleKey \<Rightarrow> rule set" where
  "granted ps N k = {r. \<exists>n\<in>N. \<exists>p. map_of ps n = Some p \<and> r \<in> set (Allow p) \<and> rule_key r = k}"

definition denied :: "profiles \<Rightarrow> string set \<Rightarrow> ruleKey \<Rightarrow> rule set" where
  "denied ps N k = {r. \<exists>n\<in>N. \<exists>p. map_of ps n = Some p \<and> r \<in> set (Deny p) \<and> rule_key r = k}"

section \<open>The rule loops\<close>

lemma addAllow_Inr:
  "addAllow tools name rs pol = Inr pol' \<longleftrightarrow>
     (\<forall>r\<in>set rs. validRule tools r = Inr () \<and> \<not> (rule_Effect r = EffectRepair \<and> wildcard (rule_Resource r)))
     \<and> pol' = pol\<lparr>allow := \<lambda>k. allow pol k @ filter (\<lambda>r. rule_key r = k) rs\<rparr>"
proof (induction rs arbitrary: pol)
  case Nil
  then show ?case by auto
next
  case (Cons r rs)
  then show ?case by (auto split: sum.splits simp: fun_eq_iff intro!: policy.equality)
qed

lemma addDeny_Inr:
  "addDeny tools name rs pol = Inr pol' \<longleftrightarrow>
     (\<forall>r\<in>set rs. validRule tools r = Inr ())
     \<and> pol' = pol\<lparr>deny := \<lambda>k. deny pol k @ filter (\<lambda>r. rule_key r = k) rs\<rparr>"
proof (induction rs arbitrary: pol)
  case Nil
  then show ?case by auto
next
  case (Cons r rs)
  then show ?case by (auto split: sum.splits simp: fun_eq_iff intro!: policy.equality)
qed

lemma addRules_Inr:
  "addRules tools name p pol = Inr pol' \<longleftrightarrow>
     rules_ok tools p \<and>
     pol' = \<lparr>allow = \<lambda>k. allow pol k @ filter (\<lambda>r. rule_key r = k) (Allow p),
             deny = \<lambda>k. deny pol k @ filter (\<lambda>r. rule_key r = k) (Deny p)\<rparr>"
proof (cases "addAllow tools name (Allow p) pol")
  case (Inl e)
  then have "\<not> rules_ok tools p"
    using addAllow_Inr [of tools name "Allow p" pol] by (fastforce simp: rules_ok_def)
  then show ?thesis using Inl by (simp add: addRules_def)
next
  case (Inr pol1)
  then have "addRules tools name p pol = addDeny tools name (Deny p) pol1"
    by (simp add: addRules_def)
  with Inr show ?thesis by (auto simp: rules_ok_def addAllow_Inr addDeny_Inr)
qed

section \<open>The search\<close>

text \<open>One unfolding of a successful visit of a fresh name, used by each induction below.\<close>

lemma visitAll_Unvisited_Inr:
  assumes "visitAll ps tools (name # names) state pol = Inr res" and "state name = Unvisited"
  obtains p state1 pol1 pol2 where "ValidProfileName name" "map_of ps name = Some p"
    "visitAll ps tools (Includes p) (state(name := Visiting)) pol = Inr (state1, pol1)"
    "addRules tools name p pol1 = Inr pol2"
    "visitAll ps tools names (state1(name := Done)) pol2 = Inr res"
  using assms by (auto split: if_splits option.splits sum.splits)

text \<open>A successful search leaves the set of names being visited as it was.\<close>

lemma visitAll_Visiting:
  "visitAll ps tools names state pol = Inr (state', pol') \<Longrightarrow>
   state' n = Visiting \<longleftrightarrow> state n = Visiting"
proof (induction ps tools names state pol arbitrary: state' pol' rule: visitAll.induct)
  case (2 ps tools name names state pol)
  show ?case
  proof (cases "state name")
    case Unvisited
    from "2.prems" Unvisited obtain p state1 pol1 pol2 where
      ok: "ValidProfileName name" and p: "map_of ps name = Some p"
      and inc: "visitAll ps tools (Includes p) (state(name := Visiting)) pol = Inr (state1, pol1)"
      and rls: "addRules tools name p pol1 = Inr pol2"
      and rest: "visitAll ps tools names (state1(name := Done)) pol2 = Inr (state', pol')"
      by (rule visitAll_Unvisited_Inr)
    have "state1 n = Visiting \<longleftrightarrow> (state(name := Visiting)) n = Visiting"
      using "2.IH"(1) [OF _ Unvisited p inc] ok by simp
    moreover have "state' n = Visiting \<longleftrightarrow> (state1(name := Done)) n = Visiting"
      using "2.IH"(2) [OF _ Unvisited p inc refl rls rest] ok by simp
    ultimately show ?thesis using Unvisited by auto
  qed (use 2 in \<open>auto split: if_splits\<close>)
qed simp

definition done_names :: "marks \<Rightarrow> string set" where
  "done_names state = {n. state n = Done}"

text \<open>What holds of the done names and the policy at every point of the search.\<close>

definition search_inv :: "profiles \<Rightarrow> tools \<Rightarrow> marks \<Rightarrow> policy \<Rightarrow> bool" where
  "search_inv ps tools state pol \<longleftrightarrow>
     (\<forall>n\<in>done_names state. node_ok ps tools n \<and> (n, n) \<notin> (edges ps)\<^sup>+)
     \<and> edges ps `` done_names state \<subseteq> done_names state
     \<and> (\<forall>k. set (allow pol k) = granted ps (done_names state) k)
     \<and> (\<forall>k. set (deny pol k) = denied ps (done_names state) k)"

lemma done_names_upd: "done_names (state(n := Done)) = insert n (done_names state)"
  by (auto simp: done_names_def)

lemma Image_closed_rtrancl: "(x, y) \<in> r\<^sup>* \<Longrightarrow> r `` X \<subseteq> X \<Longrightarrow> x \<in> X \<Longrightarrow> y \<in> X"
  by (induction rule: rtrancl_induct) auto

lemma search_inv_finish:
  assumes inv: "search_inv ps tools state pol" and name: "state name = Visiting"
    and ok: "ValidProfileName name" "map_of ps name = Some p"
    and inc: "set (Includes p) \<subseteq> done_names state"
    and rls: "addRules tools name p pol = Inr pol'"
  shows "search_inv ps tools (state(name := Done)) pol'"
proof -
  let ?D = "done_names state"
  have closed: "edges ps `` ?D \<subseteq> ?D" using inv by (simp add: search_inv_def)
  have out: "(name, m) \<in> edges ps \<Longrightarrow> m \<in> ?D" for m
    using inc ok(2) by (auto simp: edges_def)
  have notin: "name \<notin> ?D" using name by (simp add: done_names_def)
  have "(name, name) \<notin> (edges ps)\<^sup>+"
  proof
    assume "(name, name) \<in> (edges ps)\<^sup>+"
    then obtain m where "(name, m) \<in> edges ps" "(m, name) \<in> (edges ps)\<^sup>*"
      by (auto dest: tranclD)
    with out Image_closed_rtrancl [OF _ closed] notin show False by blast
  qed
  moreover have "node_ok ps tools name"
    using ok rls by (auto simp: node_ok_def addRules_Inr)
  moreover have "granted ps (insert name ?D) k = granted ps ?D k \<union> {r \<in> set (Allow p). rule_key r = k}"
    and "denied ps (insert name ?D) k = denied ps ?D k \<union> {r \<in> set (Deny p). rule_key r = k}" for k
    using ok(2) by (auto simp: granted_def denied_def)
  ultimately show ?thesis
    using inv rls out by (auto simp: search_inv_def done_names_upd addRules_Inr)
qed

lemma visitAll_sound:
  "visitAll ps tools names state pol = Inr (state', pol') \<Longrightarrow> search_inv ps tools state pol \<Longrightarrow>
   search_inv ps tools state' pol' \<and> done_names state \<union> set names \<subseteq> done_names state'
   \<and> done_names state' \<subseteq> done_names state \<union> reach ps names"
proof (induction ps tools names state pol arbitrary: state' pol' rule: visitAll.induct)
  case (1 ps tools state pol)
  then show ?case by simp
next
  case (2 ps tools name names state pol)
  have mono: "reach ps names \<subseteq> reach ps (name # names)" by (auto simp: reach_def)
  show ?case
  proof (cases "state name")
    case Unvisited
    from "2.prems"(1) Unvisited obtain p state1 pol1 pol2 where
      ok: "ValidProfileName name" and p: "map_of ps name = Some p"
      and inc: "visitAll ps tools (Includes p) (state(name := Visiting)) pol = Inr (state1, pol1)"
      and rls: "addRules tools name p pol1 = Inr pol2"
      and rest: "visitAll ps tools names (state1(name := Done)) pol2 = Inr (state', pol')"
      by (rule visitAll_Unvisited_Inr)
    have same: "done_names (state(name := Visiting)) = done_names state"
      using Unvisited by (auto simp: done_names_def)
    have inv1: "search_inv ps tools (state(name := Visiting)) pol"
      using "2.prems"(2) by (simp add: search_inv_def same)
    have r1: "search_inv ps tools state1 pol1" "done_names state \<union> set (Includes p) \<subseteq> done_names state1"
      "done_names state1 \<subseteq> done_names state \<union> reach ps (Includes p)"
      using "2.IH"(1) [OF _ Unvisited p inc inv1] ok unfolding same by auto
    have "state1 name = Visiting" using visitAll_Visiting [OF inc, of name] by simp
    then have inv2: "search_inv ps tools (state1(name := Done)) pol2"
      using search_inv_finish [OF r1(1) _ ok p _ rls] r1(2) by simp
    have "\<not> \<not> ValidProfileName name" using ok by simp
    from "2.IH"(2) [OF this Unvisited p inc refl rls rest inv2] have r2: "search_inv ps tools state' pol'"
      "insert name (done_names state1) \<union> set names \<subseteq> done_names state'"
      "done_names state' \<subseteq> insert name (done_names state1) \<union> reach ps names"
      unfolding done_names_upd by auto
    have "reach ps (Includes p) \<subseteq> reach ps [name]"
      using p by (auto simp: reach_def edges_def intro: converse_rtrancl_into_rtrancl)
    moreover have "reach ps [name] \<subseteq> reach ps (name # names)" "name \<in> reach ps (name # names)"
      by (auto simp: reach_def)
    ultimately have "done_names state' \<subseteq> done_names state \<union> reach ps (name # names)"
      using r1(3) r2(3) mono by blast
    then show ?thesis using r1 r2 by auto
  next
    case Visiting
    with 2 show ?thesis by (simp split: if_splits)
  next
    case Done
    then have "name \<in> done_names state" by (simp add: done_names_def)
    with 2 Done mono show ?thesis by (auto split: if_splits)
  qed
qed

text \<open>
  A failed search names its culprit: what each error says of the profile it names.
\<close>

definition explains :: "profiles \<Rightarrow> tools \<Rightarrow> compile_error \<Rightarrow> string \<Rightarrow> bool" where
  "explains ps tools e n =
     (case e of
        InvalidProfileName m \<Rightarrow> m = n \<and> \<not> ValidProfileName n
      | IncludeCycle m \<Rightarrow> m = n \<and> (n, n) \<in> (edges ps)\<^sup>+
      | ProfileMissing m \<Rightarrow> m = n \<and> map_of ps n = None
      | AllowRule m re \<Rightarrow> m = n \<and> (\<exists>p. map_of ps n = Some p \<and> (\<exists>r\<in>set (Allow p). validRule tools r = Inl re))
      | RepairNotExact m \<Rightarrow> m = n \<and> (\<exists>p. map_of ps n = Some p
          \<and> (\<exists>r\<in>set (Allow p). rule_Effect r = EffectRepair \<and> wildcard (rule_Resource r)))
      | DenyRule m re \<Rightarrow> m = n \<and> (\<exists>p. map_of ps n = Some p \<and> (\<exists>r\<in>set (Deny p). validRule tools r = Inl re)))"

lemma explains_unacceptable:
  "explains ps tools e n \<Longrightarrow> \<not> (node_ok ps tools n \<and> (n, n) \<notin> (edges ps)\<^sup>+)"
  by (auto simp: explains_def node_ok_def rules_ok_def split: compile_error.splits)

lemma addAllow_Inl:
  "addAllow tools name rs pol = Inl e \<Longrightarrow>
   (\<exists>r\<in>set rs. \<exists>re. e = AllowRule name re \<and> validRule tools r = Inl re)
   \<or> e = RepairNotExact name \<and> (\<exists>r\<in>set rs. rule_Effect r = EffectRepair \<and> wildcard (rule_Resource r))"
proof (induction rs arbitrary: pol)
  case (Cons r rs)
  then show ?case by (fastforce split: sum.splits if_splits)
qed simp

lemma addDeny_Inl:
  "addDeny tools name rs pol = Inl e \<Longrightarrow> \<exists>r\<in>set rs. \<exists>re. e = DenyRule name re \<and> validRule tools r = Inl re"
proof (induction rs arbitrary: pol)
  case (Cons r rs)
  then show ?case by (fastforce split: sum.splits)
qed simp

lemma addRules_Inl:
  "addRules tools name p pol = Inl e \<Longrightarrow> map_of ps name = Some p \<Longrightarrow> explains ps tools e name"
  by (auto simp: addRules_def explains_def dest!: addAllow_Inl addDeny_Inl split: sum.splits)

text \<open>
  For the cycle error: the names being visited are, at every call, ancestors of the names still to
  visit, so meeting one of them again closes a cycle.
\<close>

lemma visitAll_error:
  "visitAll ps tools names state pol = Inl e \<Longrightarrow>
   \<forall>g x. state g = Visiting \<longrightarrow> x \<in> set names \<longrightarrow> (g, x) \<in> (edges ps)\<^sup>+ \<Longrightarrow>
   \<exists>n\<in>reach ps names. explains ps tools e n"
proof (induction ps tools names state pol rule: visitAll.induct)
  case (1 ps tools state pol)
  then show ?case by simp
next
  case (2 ps tools name names state pol)
  have here: "name \<in> reach ps (name # names)" by (auto simp: reach_def)
  have mono: "reach ps names \<subseteq> reach ps (name # names)" by (auto simp: reach_def)
  show ?case
  proof (cases "ValidProfileName name \<and> state name = Unvisited \<and> map_of ps name \<noteq> None")
    case False
    then have "explains ps tools e name \<or> visitAll ps tools names state pol = Inl e \<and> state name = Done
        \<and> ValidProfileName name"
      using "2.prems" by (auto simp: explains_def split: if_splits mark.splits option.splits)
    then show ?thesis using here mono "2.IH"(3) "2.prems"(2) by fastforce
  next
    case True
    then obtain p where ok: "ValidProfileName name" and unv: "state name = Unvisited"
      and p: "map_of ps name = Some p" by auto
    have edge: "x \<in> set (Includes p) \<Longrightarrow> (name, x) \<in> edges ps" for x
      using p by (auto simp: edges_def)
    show ?thesis
    proof (cases "visitAll ps tools (Includes p) (state(name := Visiting)) pol")
      case (Inl e')
      have "\<forall>g x. (state(name := Visiting)) g = Visiting \<longrightarrow> x \<in> set (Includes p) \<longrightarrow> (g, x) \<in> (edges ps)\<^sup>+"
        using "2.prems"(2) edge by (auto intro: trancl_into_trancl)
      moreover have "visitAll ps tools (Includes p) (state(name := Visiting)) pol = Inl e"
        using "2.prems"(1) ok unv p Inl by simp
      ultimately obtain n where n: "n \<in> reach ps (Includes p)" "explains ps tools e n"
        using "2.IH"(1) [OF _ unv p] ok by blast
      have "n \<in> reach ps (name # names)"
        using n(1) edge by (auto simp: reach_def intro: converse_rtrancl_into_rtrancl)
      with n show ?thesis by blast
    next
      case (Inr sp)
      obtain state1 pol1 where sp: "sp = (state1, pol1)" by fastforce
      show ?thesis
      proof (cases "addRules tools name p pol1")
        case (Inl e')
        then have "explains ps tools e name"
          using "2.prems"(1) ok unv p Inr sp addRules_Inl [OF Inl p] by simp
        with here show ?thesis by blast
      next
        case r: (Inr pol2)
        have rest: "visitAll ps tools names (state1(name := Done)) pol2 = Inl e"
          using "2.prems"(1) ok unv p Inr sp r by simp
        have "\<forall>g x. (state1(name := Done)) g = Visiting \<longrightarrow> x \<in> set names \<longrightarrow> (g, x) \<in> (edges ps)\<^sup>+"
          using "2.prems"(2) visitAll_Visiting [OF Inr [unfolded sp]] by (auto split: if_splits)
        with "2.IH"(2) [OF _ unv p Inr sp [symmetric] r rest] ok mono show ?thesis by blast
      qed
    qed
  qed
qed

section \<open>Correctness of Compile\<close>

lemma search_inv_start: "search_inv ps tools (\<lambda>_. Unvisited) empty_policy"
  by (simp add: search_inv_def done_names_def empty_policy_def granted_def denied_def)

lemma edges_reach_closed: "edges ps `` reach ps active \<subseteq> reach ps active"
  by (auto simp: reach_def intro: rtrancl_into_rtrancl)

lemma Compile_Inr:
  assumes "Compile ps active tools = Inr pol"
  shows "acceptable ps tools active"
    and "set (allow pol k) = granted ps (reach ps active) k"
    and "set (deny pol k) = denied ps (reach ps active) k"
proof -
  from assms obtain state where v: "visitAll ps tools active (\<lambda>_. Unvisited) empty_policy = Inr (state, pol)"
    by (auto simp: Compile_def split: sum.splits)
  from visitAll_sound [OF v search_inv_start]
  have inv: "search_inv ps tools state pol" and act: "set active \<subseteq> done_names state"
    and sub: "done_names state \<subseteq> reach ps active"
    by (auto simp: done_names_def)
  have closed: "edges ps `` done_names state \<subseteq> done_names state"
    using inv by (simp add: search_inv_def)
  have "reach ps active \<subseteq> done_names state"
    using Image_closed_rtrancl [OF _ closed] act by (auto simp: reach_def)
  with sub have "done_names state = reach ps active" by simp
  with inv show "acceptable ps tools active"
    and "set (allow pol k) = granted ps (reach ps active) k"
    and "set (deny pol k) = denied ps (reach ps active) k"
    by (simp_all add: search_inv_def acceptable_def del: split_paired_All)
qed

lemma Compile_Inl: "Compile ps active tools = Inl e \<Longrightarrow> \<exists>n\<in>reach ps active. explains ps tools e n"
  using visitAll_error [of ps tools active "\<lambda>_. Unvisited" empty_policy e]
  by (auto simp: Compile_def split: sum.splits)

lemma explains_not_acceptable: "\<exists>n\<in>reach ps active. explains ps tools e n \<Longrightarrow> \<not> acceptable ps tools active"
  using explains_unacceptable by (fastforce simp: acceptable_def)

text \<open>The rules stored under a key have that key.\<close>

lemma Compile_keys:
  assumes "Compile ps active tools = Inr pol" and "r \<in> set (allow pol k) \<union> set (deny pol k)"
  shows "rule_key r = k"
  using assms(2) Compile_Inr(2,3) [OF assms(1)] by (auto simp: granted_def denied_def)

section \<open>Decisions\<close>

lemma Allows_iff:
  "Allows p eff tool res \<longleftrightarrow>
     res \<noteq> [] \<and> (\<exists>g\<in>set (allow p (eff, tool)). matches g eff tool res)
     \<and> \<not> (\<exists>d\<in>set (deny p (eff, tool)). matches d eff tool res)"
  by (auto simp: Allows_def list_ex_iff)

lemma matches_exact: "\<not> wildcard (rule_Resource r) \<Longrightarrow>
    matches r eff tool res \<longleftrightarrow> rule_key r = (eff, tool) \<and> rule_Resource r = res"
  by (auto simp: matches_def rule_key_def wildcard_def)

lemma matches_star:
  assumes "rule_key r = (eff, tool)" and "rule_Resource r = ''*''" and "CHR ''/'' \<notin> set res"
  shows "matches r eff tool res"
  using assms by (auto simp: matches_def rule_key_def pathMatch_star ContainsAny_def)

text \<open>A grant that covers a target without a slash is not blocked by a denial that misses it.\<close>

lemma Advertises_if_Allows:
  assumes keys: "\<forall>r\<in>set (deny p (eff, tool)). rule_key r = (eff, tool)"
    and a: "Allows p eff tool res" and slash: "CHR ''/'' \<notin> set res"
  shows "Advertises p eff tool"
proof -
  from a obtain g where g: "g \<in> set (allow p (eff, tool))" "matches g eff tool res"
    and none: "\<forall>d\<in>set (deny p (eff, tool)). \<not> matches d eff tool res"
    by (auto simp: Allows_iff)
  have "rule_Resource d \<noteq> ''*'' \<and> rule_Resource d \<noteq> rule_Resource g
      \<and> (ContainsAny (rule_Resource g) ''*?['' \<or> \<not> matches d eff tool (rule_Resource g))"
    if d: "d \<in> set (deny p (eff, tool))" for d
  proof (intro conjI)
    have nm: "\<not> matches d eff tool res" and k: "rule_key d = (eff, tool)"
      using none keys d by auto
    show "rule_Resource d \<noteq> ''*''" using matches_star [OF k _ slash] nm by blast
    show "rule_Resource d \<noteq> rule_Resource g"
    proof
      assume "rule_Resource d = rule_Resource g"
      with g(2) k have "matches d eff tool res" by (auto simp: matches_def rule_key_def split: if_splits)
      with nm show False ..
    qed
    show "ContainsAny (rule_Resource g) ''*?['' \<or> \<not> matches d eff tool (rule_Resource g)"
      using g(2) nm matches_exact [of g eff tool res] by (auto simp: wildcard_def)
  qed
  with g(1) show ?thesis by (auto simp: Advertises_def list_ex_iff)
qed

section \<open>The interface of a policy decision\<close>

text \<open>
  What the gateway and the repair worker rely on: a decision per target, a discovery decision per
  tool, a well-formedness predicate, and for repairs the exact grant behind a positive decision.
\<close>

locale access_decider =
  fixes permits :: "'p \<Rightarrow> effect \<Rightarrow> string \<Rightarrow> string \<Rightarrow> bool"
    and lists :: "'p \<Rightarrow> effect \<Rightarrow> string \<Rightarrow> bool"
    and exact :: "'p \<Rightarrow> string \<Rightarrow> string \<Rightarrow> bool"
    and wf :: "'p \<Rightarrow> bool"
  assumes permits_nonempty: "permits p eff tool res \<Longrightarrow> res \<noteq> []"
    and permits_lists: "wf p \<Longrightarrow> permits p eff tool res \<Longrightarrow> CHR ''/'' \<notin> set res \<Longrightarrow> lists p eff tool"
    and repair_exact: "wf p \<Longrightarrow> permits p EffectRepair tool res \<Longrightarrow> exact p tool res"
begin

text \<open>A tool that is not listed cannot be called on any target without a slash.\<close>

lemma unlisted_denied: "wf p \<Longrightarrow> \<not> lists p eff tool \<Longrightarrow> CHR ''/'' \<notin> set res \<Longrightarrow> \<not> permits p eff tool res"
  using permits_lists by blast

end

text \<open>A compiled policy, and the exact repair grant: an allow rule that names the target.\<close>

definition compiled :: "policy \<Rightarrow> bool" where
  "compiled p \<longleftrightarrow> (\<exists>ps active tools. Compile ps active tools = Inr p)"

definition exact_grant :: "policy \<Rightarrow> string \<Rightarrow> string \<Rightarrow> bool" where
  "exact_grant p tool res \<longleftrightarrow>
     \<lparr>rule_Effect = EffectRepair, rule_Tool = tool, rule_Resource = res\<rparr> \<in> set (allow p (EffectRepair, tool))
     \<and> \<not> wildcard res"

lemma compiled_repair_exact:
  assumes "compiled p" and "Allows p EffectRepair tool res"
  shows "exact_grant p tool res"
proof -
  from assms(1) obtain ps active tools where c: "Compile ps active tools = Inr p"
    by (auto simp: compiled_def)
  from assms(2) obtain g where g: "g \<in> set (allow p (EffectRepair, tool))" "matches g EffectRepair tool res"
    by (auto simp: Allows_iff)
  from g(1) Compile_Inr(2) [OF c] obtain n q where n: "n \<in> reach ps active" "map_of ps n = Some q"
    "g \<in> set (Allow q)" and k: "rule_key g = (EffectRepair, tool)"
    by (auto simp: granted_def)
  from Compile_Inr(1) [OF c] n have "rules_ok tools q"
    by (fastforce simp: acceptable_def node_ok_def)
  with n(3) k have "\<not> wildcard (rule_Resource g)" by (auto simp: rules_ok_def rule_key_def)
  with g(2) matches_exact have res: "rule_Resource g = res" "\<not> wildcard res" by auto
  have "g = \<lparr>rule_Effect = EffectRepair, rule_Tool = tool, rule_Resource = res\<rparr>"
    using k res by (cases g) (auto simp: rule_key_def)
  with g(1) res show ?thesis by (simp add: exact_grant_def)
qed

interpretation decider: access_decider Allows Advertises exact_grant compiled
proof
  fix p :: policy and eff tool res
  show "Allows p eff tool res \<Longrightarrow> res \<noteq> []" by (simp add: Allows_iff)
  show "compiled p \<Longrightarrow> Allows p eff tool res \<Longrightarrow> CHR ''/'' \<notin> set res \<Longrightarrow> Advertises p eff tool"
    using Compile_keys by (fastforce simp: compiled_def intro: Advertises_if_Allows)
  show "compiled p \<Longrightarrow> Allows p EffectRepair tool res \<Longrightarrow> exact_grant p tool res"
    by (rule compiled_repair_exact)
qed

section \<open>Properties\<close>

text \<open>
  C2: \<open>Compile\<close> accepts exactly the profile sets whose include graph, followed from the active
  profiles, has valid names, present profiles, valid rules, exact repair grants and no cycle; an
  error names a reachable profile that really has the fault it reports; a compiled policy holds exactly the allow and deny rules of the reachable profiles, so an
  inactive profile never contributes a rule and a rejected set publishes none.
\<close>

theorem compile_correct:
  "case Compile ps active tools of
     Inl e \<Rightarrow> \<not> acceptable ps tools active \<and> (\<exists>n\<in>reach ps active. explains ps tools e n)
   | Inr pol \<Rightarrow> acceptable ps tools active
       \<and> (\<forall>k. set (allow pol k) = granted ps (reach ps active) k
             \<and> set (deny pol k) = denied ps (reach ps active) k)"
proof (cases "Compile ps active tools")
  case (Inl e)
  then show ?thesis using Compile_Inl [OF Inl] explains_not_acceptable by (simp del: bex_simps)
next
  case (Inr pol)
  then show ?thesis using Compile_Inr [OF Inr] by (simp del: split_paired_All)
qed

text \<open>The profile set of the source's own policy test, used by the witnesses.\<close>

definition example_tools :: tools where
  "example_tools = [''host_status'' \<mapsto> EffectObserve, ''restart_service'' \<mapsto> EffectRepair]"

definition example_profiles :: profiles where
  "example_profiles =
     [(''base'', \<lparr>Includes = [], Allow = [\<lparr>rule_Effect = EffectObserve, rule_Tool = ''host_status'',
         rule_Resource = ''host''\<rparr>], Deny = []\<rparr>),
      (''ops'', \<lparr>Includes = [''base''],
         Allow = [\<lparr>rule_Effect = EffectRepair, rule_Tool = ''restart_service'', rule_Resource = ''nginx.service''\<rparr>,
                  \<lparr>rule_Effect = EffectRepair, rule_Tool = ''restart_service'',
                    rule_Resource = ''hostlens-gateway.service''\<rparr>],
         Deny = [\<lparr>rule_Effect = EffectRepair, rule_Tool = ''restart_service'', rule_Resource = ''hostlens*.service''\<rparr>]\<rparr>)]"

definition example_policy :: policy where
  "example_policy = projr (Compile example_profiles [''ops''] example_tools)"

lemma example_compiles: "Compile example_profiles [''ops''] example_tools = Inr example_policy"
proof -
  have "\<not> isl (Compile example_profiles [''ops''] example_tools)" by code_simp
  then show ?thesis by (simp add: example_policy_def)
qed

lemma example_allows: "Allows example_policy EffectRepair ''restart_service'' ''nginx.service''"
  by code_simp

text \<open>
  C3: after a successful \<open>Compile\<close>, \<open>Allows\<close> says yes exactly when the target is not empty, some
  allow rule of a profile reachable from the active ones matches it, and no deny rule of any such
  profile does: denials win over grants wherever the two stand in the include graph.
\<close>

theorem allows_after_compile:
  assumes "Compile ps active tools = Inr pol"
  shows "Allows pol eff tool res \<longleftrightarrow>
     res \<noteq> [] \<and> (\<exists>g\<in>granted ps (reach ps active) (eff, tool). matches g eff tool res)
     \<and> \<not> (\<exists>d\<in>denied ps (reach ps active) (eff, tool). matches d eff tool res)"
  using Compile_Inr(2,3) [OF assms] by (simp add: Allows_iff)

theorem allows_after_compile_witness:
  "Allows example_policy EffectRepair ''restart_service'' ''nginx.service''
   \<and> (\<exists>g\<in>granted example_profiles (reach example_profiles [''ops'']) (EffectRepair, ''restart_service'').
        matches g EffectRepair ''restart_service'' ''nginx.service'')"
  using allows_after_compile [OF example_compiles, of EffectRepair "''restart_service''" "''nginx.service''"]
    example_allows by blast

text \<open>
  C4: a repair is only ever allowed on a target that an active allow rule names letter by letter:
  a repair grant is never a pattern, whatever the profiles contain.
\<close>

theorem repair_needs_exact_grant:
  assumes "Compile ps active tools = Inr pol" and "Allows pol EffectRepair tool res"
  shows "\<exists>n\<in>reach ps active. \<exists>p. map_of ps n = Some p
    \<and> \<lparr>rule_Effect = EffectRepair, rule_Tool = tool, rule_Resource = res\<rparr> \<in> set (Allow p) \<and> \<not> wildcard res"
proof -
  have "compiled pol" using assms(1) by (auto simp: compiled_def)
  from decider.repair_exact [OF this assms(2)] show ?thesis
    using Compile_Inr(2) [OF assms(1)] by (auto simp: exact_grant_def granted_def)
qed

theorem repair_needs_exact_grant_witness:
  "\<exists>n\<in>reach example_profiles [''ops'']. \<exists>p. map_of example_profiles n = Some p
    \<and> \<lparr>rule_Effect = EffectRepair, rule_Tool = ''restart_service'', rule_Resource = ''nginx.service''\<rparr>
         \<in> set (Allow p) \<and> \<not> wildcard ''nginx.service''"
  by (rule repair_needs_exact_grant [OF example_compiles example_allows])

text \<open>
  C13: \<open>Explain\<close> and \<open>Allows\<close> agree on every policy and every question, and the explanation lists
  exactly the stored rules that match.
\<close>

theorem explain_agrees_with_allows:
  "ex_Allowed (Explain p eff tool res) = Allows p eff tool res
   \<and> set (ex_Grants (Explain p eff tool res))
       = {g \<in> set (allow p (eff, tool)). res \<noteq> [] \<and> matches g eff tool res}
   \<and> set (ex_Denials (Explain p eff tool res))
       = {d \<in> set (deny p (eff, tool)). res \<noteq> [] \<and> matches d eff tool res}"
  by (auto simp: Explain_def Allows_iff Let_def filter_empty_conv)

text \<open>
  Discovery never hides a callable tool: if a compiled policy allows a tool on some target
  without a slash (every service name and container identifier), it advertises the tool.
\<close>

theorem discovery_complete:
  assumes "Compile ps active tools = Inr pol" and "Allows pol eff tool res" and "CHR ''/'' \<notin> set res"
  shows "Advertises pol eff tool"
proof -
  have "compiled pol" using assms(1) by (auto simp: compiled_def)
  then show ?thesis using assms(2,3) by (rule decider.permits_lists)
qed

theorem discovery_complete_witness: "Advertises example_policy EffectRepair ''restart_service''"
  by (rule discovery_complete [OF example_compiles example_allows]) simp

text \<open>
  The comment on \<open>Rule\<close> says that a star grants all targets. It does not reach a target with a
  slash, which an exact grant does; a star denial then hides the tool from discovery and leaves
  that target allowed.
\<close>

lemma star_misses_slash:
  "\<not> matches \<lparr>rule_Effect = EffectObserve, rule_Tool = t, rule_Resource = ''*''\<rparr> EffectObserve t ''a/b''"
  by (simp add: matches_def pathMatch_star ContainsAny_def)

end
