(* ===== verification/Tokens_Correct.thy ===== *)
theory Tokens_Correct
  imports Tokens
begin

unbundle bit_operations_syntax

text \<open>
  The correctness of the token store: the record checks decide a declarative validity, \<open>Verify\<close>
  is the search for the first accepting record of a protected valid store, \<open>update\<close> is atomic in
  every state a crash can leave, and the effects of \<open>Create\<close>, \<open>Revoke\<close> and \<open>Rotate\<close> on what
  \<open>Verify\<close> answers afterwards.
\<close>

section \<open>Specification\<close>

definition record_ok :: "token \<Rightarrow> bool" where
  "record_ok r \<longleftrightarrow> t_ID r \<noteq> [] \<and> t_Name r \<noteq> [] \<and> length (t_Hash r) = 64 \<and> hexValid (t_Hash r)
     \<and> (t_Revoked r \<or> t_Roles r \<noteq> []) \<and> (\<forall>role\<in>set (t_Roles r). roleValid role)"

definition valid_store :: "token list \<Rightarrow> bool" where
  "valid_store rs \<longleftrightarrow> (\<forall>r\<in>set rs. record_ok r) \<and> distinct (map t_ID rs) \<and> distinct (map t_Hash rs)"

text \<open>A record accepts a secret at an instant; the first accepting record of a list.\<close>

definition accepts :: "time \<Rightarrow> string \<Rightarrow> token \<Rightarrow> bool" where
  "accepts now secret r \<longleftrightarrow>
     t_Hash r = (if t_Legacy r then legacyDigest secret else digest secret) \<and> \<not> t_Revoked r
     \<and> (t_Expires r = 0 \<or> now < t_Expires r)"

definition first_accepting :: "(nat \<Rightarrow> time) \<Rightarrow> string \<Rightarrow> token list \<Rightarrow> nat \<Rightarrow> bool" where
  "first_accepting now secret rs i \<longleftrightarrow>
     i < length rs \<and> accepts (now i) secret (rs ! i) \<and> (\<forall>j<i. \<not> accepts (now j) secret (rs ! j))"

text \<open>
  The documented round trip of \<open>encoding/json\<close> on records whose text is ASCII (a valid store has
  ASCII roles and hashes): what is marshalled decodes, strictly and without trailing data, to the
  same records.
\<close>

definition ascii_text :: "string \<Rightarrow> bool" where
  "ascii_text s \<longleftrightarrow> (\<forall>c\<in>set s. of_char c < (128::nat))"

definition store_text :: "token list \<Rightarrow> bool" where
  "store_text rs \<longleftrightarrow> (\<forall>r\<in>set rs. ascii_text (t_ID r) \<and> ascii_text (t_Name r))"

definition json_codec_ok :: "json_codec \<Rightarrow> bool" where
  "json_codec_ok cd \<longleftrightarrow>
     (\<forall>rs data. valid_store rs \<and> store_text rs \<and> Marshal cd rs = Some data
        \<longrightarrow> DecodeTokens cd data = Inr rs \<and> DecodeEOF cd data)"

text \<open>A process that can read a store file written by a process of the host \<open>h\<close>.\<close>

definition reader_of :: "store \<Rightarrow> host \<Rightarrow> host \<Rightarrow> bool" where
  "reader_of s h h' \<longleftrightarrow> store_root s h' = Inr () \<and> h_Fault h' SysOpen = None \<and> h_Fault h' SysStat = None
     \<and> (h_Euid h = 0 \<or> h_Euid h = h_Euid h')"

section \<open>Reading\<close>

lemma checkRecords_iff:
  "checkRecords ids hashes rs = Inr () \<longleftrightarrow>
     valid_store rs \<and> set ids \<inter> t_ID ` set rs = {} \<and> set hashes \<inter> t_Hash ` set rs = {}"
proof (induction ids hashes rs rule: checkRecords.induct)
  case (1 ids hashes)
  then show ?case by (simp add: valid_store_def)
next
  case (2 ids hashes r rs)
  have "checkRecords ids hashes (r # rs) = Inr () \<longleftrightarrow>
      record_ok r \<and> t_ID r \<notin> set ids \<and> t_Hash r \<notin> set hashes
      \<and> checkRecords (t_ID r # ids) (t_Hash r # hashes) rs = Inr ()"
    by (auto simp: record_ok_def list_all_iff List.member_iff)
  moreover have "checkRecords (t_ID r # ids) (t_Hash r # hashes) rs = Inr () \<longleftrightarrow>
      valid_store rs \<and> set (t_ID r # ids) \<inter> t_ID ` set rs = {} \<and> set (t_Hash r # hashes) \<inter> t_Hash ` set rs = {}"
    if "record_ok r" "t_ID r \<notin> set ids" "t_Hash r \<notin> set hashes"
    using that by (intro 2) (auto simp: record_ok_def list_all_iff List.member_iff)
  ultimately show ?case by (auto simp: valid_store_def)
qed

lemma checkRecords_empty_iff: "checkRecords [] [] rs = Inr () \<longleftrightarrow> valid_store rs"
  by (simp add: checkRecords_iff)

lemma read_store_valid: "read_store s h cd d = Inr rs \<Longrightarrow> valid_store rs"
  by (auto simp: read_store_def Let_def checkRecords_empty_iff valid_store_def [of "[]"]
      split: sum.splits prod.splits if_splits)

lemma read_store_cong:
  "d (Base (s_Path s)) = d' (Base (s_Path s)) \<Longrightarrow> read_store s h cd d = read_store s h cd d'"
  by (auto simp: read_store_def split: option.split)

lemma new_stat_mode:
  "IsRegular (new_stat h gid data)" "Perm (new_stat h gid data) AND store_mask = 0"
proof -
  have reg: "(0x1A0 AND NOT u) AND 0xF000 = (0 :: 32 word)" for u
  proof -
    have "(0x1A0 AND NOT u) AND 0xF000 = (0x1A0 AND 0xF000) AND NOT u" for u :: "32 word"
      by (simp only: ac_simps)
    then show ?thesis by simp
  qed
  then show "IsRegular (new_stat h gid data)"
    by (simp add: IsRegular_def new_stat_def S_IFREG_def S_IFMT_def bit.conj_disj_distrib2)
  have "(0x8000 OR (0x1A0 AND NOT u)) AND 0x1FF AND 0x17 = (0 :: 32 word)" for u
  proof -
    have "(0x1A0 AND NOT u) AND 0x17 = (0x1A0 AND 0x17) AND NOT u" for u :: "32 word"
      by (simp only: ac_simps)
    then show ?thesis by (simp add: bit.conj_disj_distrib2)
  qed
  then show "Perm (new_stat h gid data) AND store_mask = 0"
    by (simp add: Perm_def new_stat_def S_IFREG_def store_mask_def and.assoc)
qed

text \<open>A published store is read back as the records that were marshalled.\<close>

lemma read_published:
  assumes "d (Base (s_Path s)) = Some (new_stat h gid data, data)" and "Marshal cd rs = Some data"
    and "int (length data) \<le> maxStoreBytes" and "json_codec_ok cd" and "valid_store rs" "store_text rs" and "reader_of s h h'"
  shows "read_store s h' cd d = Inr rs"
proof -
  have "limitReader (maxStoreBytes + 1) data = data" using assms(3) by (simp add: limitReader_def)
  moreover have "DecodeTokens cd data = Inr rs" "DecodeEOF cd data" using assms(2,4-6) by (auto simp: json_codec_ok_def)
  moreover have "ownerTrusted h' (new_stat h gid data)" using assms(7) by (auto simp: reader_of_def ownerTrusted_def new_stat_def)
  moreover have "st_Size (new_stat h gid data) = int (length data)" by (simp add: new_stat_def)
  moreover have "checkRecords [] [] rs = Inr ()" using assms(5) by (simp add: checkRecords_empty_iff)
  ultimately show ?thesis
    using assms(1,3,7) by (simp add: read_store_def reader_of_def new_stat_mode)
qed

section \<open>Verify\<close>

lemma findToken_Some_iff:
  "findToken now (digest secret) (legacyDigest secret) k rs = Some t \<longleftrightarrow>
     (\<exists>i<length rs. accepts (now (k + i)) secret (rs ! i) \<and> (\<forall>j<i. \<not> accepts (now (k + j)) secret (rs ! j))
        \<and> t = (rs ! i)\<lparr>t_Hash := []\<rparr>)"
proof (induction rs arbitrary: k)
  case (Cons r rs)
  have acc: "accepts (now k) secret r \<longleftrightarrow> (if t_Legacy r then legacyDigest secret else digest secret) = t_Hash r
      \<and> \<not> t_Revoked r \<and> (t_Expires r = 0 \<or> now k < t_Expires r)" by (auto simp: accepts_def)
  have "findToken now (digest secret) (legacyDigest secret) k (r # rs) =
      (if accepts (now k) secret r then Some (r\<lparr>t_Hash := []\<rparr>)
       else findToken now (digest secret) (legacyDigest secret) (Suc k) rs)"
    using acc by (simp add: Let_def)
  with Cons [of "Suc k"] show ?case by (auto simp: Ex_less_Suc2 All_less_Suc2)
qed simp

lemma Verify_Inr:
  assumes "Verify s h cd d secret = Inr t"
  obtains rs i where "32 \<le> length secret" "length secret \<le> 128" "store_root s h = Inr ()"
    "read_store s h cd d = Inr rs" "i < length rs" "accepts (h_Now h i) secret (rs ! i)" "t = (rs ! i)\<lparr>t_Hash := []\<rparr>"
  using assms by (fastforce simp: Verify_def findToken_Some_iff split: sum.splits option.splits)

lemma Verify_iff:
  "Verify s h cd d secret = Inr t \<longleftrightarrow>
     32 \<le> length secret \<and> length secret \<le> 128 \<and> store_root s h = Inr ()
     \<and> (\<exists>rs i. read_store s h cd d = Inr rs \<and> first_accepting (h_Now h) secret rs i \<and> t = (rs ! i)\<lparr>t_Hash := []\<rparr>)"
proof (cases "32 \<le> length secret \<and> length secret \<le> 128 \<and> store_root s h = Inr ()")
  case True
  have "findToken (h_Now h) (digest secret) (legacyDigest secret) 0 rs = Some t \<longleftrightarrow>
      (\<exists>i. first_accepting (h_Now h) secret rs i \<and> t = (rs ! i)\<lparr>t_Hash := []\<rparr>)" for rs
    unfolding findToken_Some_iff first_accepting_def by auto
  moreover have "Verify s h cd d secret = Inr t \<longleftrightarrow>
      (\<exists>rs. read_store s h cd d = Inr rs \<and> findToken (h_Now h) (digest secret) (legacyDigest secret) 0 rs = Some t)"
    using True by (auto simp: Verify_def split: sum.splits option.splits)
  ultimately show ?thesis using True by simp
next
  case False
  then show ?thesis by (cases "store_root s h") (auto simp: Verify_def)
qed

text \<open>
  What a client may rely on when a credential check answers with a token. The laws hold for the
  store in every directory state and on every host.
\<close>

locale credential_check =
  fixes verify :: "string \<Rightarrow> (store_error, token) result"
  assumes hash_hidden: "verify secret = Inr t \<Longrightarrow> t_Hash t = []"
    and not_revoked: "verify secret = Inr t \<Longrightarrow> \<not> t_Revoked t"
    and roles_known: "verify secret = Inr t \<Longrightarrow> t_Roles t \<noteq> [] \<and> set (t_Roles t) \<subseteq> {''observe'', ''repair''}"
    and length_bounds: "verify secret = Inr t \<Longrightarrow> 32 \<le> length secret \<and> length secret \<le> 128"
begin

lemma short_rejected: "length secret < 32 \<Longrightarrow> verify secret \<noteq> Inr t"
  using length_bounds by fastforce

lemma some_role: "verify secret = Inr t \<Longrightarrow> ''observe'' \<in> set (t_Roles t) \<or> ''repair'' \<in> set (t_Roles t)"
  using roles_known by (cases "t_Roles t") fastforce+

end

lemma Verify_record:
  assumes "Verify s h cd d secret = Inr t"
  shows "t_Hash t = []" "\<not> t_Revoked t" "t_Roles t \<noteq> []" "set (t_Roles t) \<subseteq> {''observe'', ''repair''}"
proof -
  from assms obtain rs i where r: "read_store s h cd d = Inr rs" "i < length rs"
    "accepts (h_Now h i) secret (rs ! i)" "t = (rs ! i)\<lparr>t_Hash := []\<rparr>" by (rule Verify_Inr)
  from read_store_valid [OF r(1)] r(2) have "record_ok (rs ! i)" by (simp add: valid_store_def)
  with r(3,4) show "t_Hash t = []" "\<not> t_Revoked t" "t_Roles t \<noteq> []" "set (t_Roles t) \<subseteq> {''observe'', ''repair''}"
    by (auto simp: record_ok_def accepts_def roleValid_def)
qed

interpretation store_check: credential_check "Verify s h cd d" for s h cd d
  by unfold_locales (auto simp: Verify_record elim: Verify_Inr dest: subsetD [OF Verify_record(4)])

section \<open>The atomic update\<close>

definition keeps_store :: "store \<Rightarrow> dir \<Rightarrow> dir \<Rightarrow> bool" where
  "keeps_store s d d' \<longleftrightarrow> d' (Base (s_Path s)) = d (Base (s_Path s))"

definition holds_store :: "store \<Rightarrow> host \<Rightarrow> bytes \<Rightarrow> dir \<Rightarrow> bool" where
  "holds_store s h data d' \<longleftrightarrow> (\<exists>gid. d' (Base (s_Path s)) = Some (new_stat h gid data, data))"

definition dir_sync_error :: "(store_error, 'a) result \<Rightarrow> bool" where
  "dir_sync_error r \<longleftrightarrow> (\<exists>e. r = Inl (DirSyncFailed e))"

text \<open>The directories that differ from a given one in the temporary file at most.\<close>

definition tmp_states :: "string \<Rightarrow> dir \<Rightarrow> dir set" where
  "tmp_states tmp d = range (\<lambda>x. d(tmp := x))"

lemma tmp_states_upd [simp]: "d(tmp := x) \<in> tmp_states tmp d"
  by (simp add: tmp_states_def)

lemma tmp_states_removeTmp [simp]: "d' \<in> tmp_states tmp d \<Longrightarrow> removeTmp h tmp d' \<in> tmp_states tmp d"
  by (auto simp: tmp_states_def removeTmp_def)

text \<open>The states of the publication, before and after the rename.\<close>

lemma publish_cases:
  assumes "publish s h data tmp d = (r, ds)" and "tmp \<noteq> Base (s_Path s)"
  obtains (failed) "isl r" "\<not> dir_sync_error r" "set ds \<subseteq> tmp_states tmp d"
  | (renamed) ds1 gid where "isl r \<Longrightarrow> dir_sync_error r" "set ds1 \<subseteq> tmp_states tmp d"
      "ds = ds1 @ replicate 2 (d(tmp := None, Base (s_Path s) \<mapsto> (new_stat h gid data, data)))"
proof -
  let ?chown = "0 < s_TokenGID s \<and> h_Euid h = 0"
  let ?gid = "if ?chown then word_of_int (s_TokenGID s) else h_Egid h"
  let ?content = "if h_Fault h SysWrite = None then data else take (h_Written h) data"
  let ?states = "[d(tmp \<mapsto> (new_stat h (h_Egid h) [], [])), d(tmp \<mapsto> (new_stat h ?gid [], [])),
    d(tmp \<mapsto> (new_stat h ?gid ?content, ?content))]"
  have rm: "removeTmp h tmp (d(tmp := None, Base (s_Path s) \<mapsto> f)) = d(tmp := None, Base (s_Path s) \<mapsto> f)" for f
    using assms(2) by (auto simp: removeTmp_def fun_upd_twist)
  consider (chown) e where "(if ?chown then h_Fault h SysChown else None) = Some e"
    | (written) e where "(if ?chown then h_Fault h SysChown else None) = None"
        "(case (case h_Fault h SysWrite of Some e \<Rightarrow> Some e | None \<Rightarrow> h_Fault h SysSync) of
            Some e \<Rightarrow> Some e | None \<Rightarrow> h_Fault h SysClose) = Some e"
    | (rename) e where "(if ?chown then h_Fault h SysChown else None) = None"
        "(case (case h_Fault h SysWrite of Some e \<Rightarrow> Some e | None \<Rightarrow> h_Fault h SysSync) of
            Some e \<Rightarrow> Some e | None \<Rightarrow> h_Fault h SysClose) = None" "h_Fault h SysRename = Some e"
    | (finished) "(if ?chown then h_Fault h SysChown else None) = None"
        "(case (case h_Fault h SysWrite of Some e \<Rightarrow> Some e | None \<Rightarrow> h_Fault h SysSync) of
            Some e \<Rightarrow> Some e | None \<Rightarrow> h_Fault h SysClose) = None" "h_Fault h SysRename = None"
    by fastforce
  then show thesis
  proof cases
    case finished
    have "ds = ?states @ replicate 2 (d(tmp := None, Base (s_Path s) \<mapsto> (new_stat h ?gid data, data)))"
      "isl r \<Longrightarrow> dir_sync_error r"
      using assms(1) finished unfolding publish_def Let_def
      by (auto simp: rm numeral_2_eq_2 dir_sync_error_def simp del: if_split split: option.splits)
    then show thesis by (intro renamed [of ?states]) simp_all
  qed (use assms(1) in \<open>auto simp: publish_def Let_def dir_sync_error_def intro!: failed\<close>)
qed

lemma update_cases:
  assumes "update s h cd k change d = (r, ds)"
  obtains (refused) e where "r = Inl e" "ds = []"
  | (published) rs rs' x data nonce r' where "store_root s h = Inr ()" "read_store s h cd d = Inr rs"
      "change rs = Inr (rs', x)" "Marshal cd rs' = Some data" "int (length data) \<le> maxStoreBytes"
      "random h k 12 = Inr nonce" "d (tmpName nonce) = None" "publish s h data (tmpName nonce) d = (r', ds)"
      "r = (case r' of Inl e \<Rightarrow> Inl e | Inr _ \<Rightarrow> Inr x)"
proof (cases "isl r \<and> ds = []")
  case True
  then show thesis by (auto simp: isl_def intro: refused)
next
  case False
  note run = assms [unfolded update_def]
  obtain u where root: "store_root s h = Inr ()" using run False by (cases "store_root s h") auto
  have lock: "h_Fault h SysLock = None" using run False root by (auto split: if_splits)
  obtain rs where rd: "read_store s h cd d = Inr rs" using run False root lock by (cases "read_store s h cd d") auto
  obtain rs' x where ch: "change rs = Inr (rs', x)" using run False root lock rd by (cases "change rs") auto
  obtain data where m: "Marshal cd rs' = Some data" using run False root lock rd ch by (cases "Marshal cd rs'") auto
  have sz: "\<not> maxStoreBytes < int (length data)" using run False root lock rd ch m by (auto split: if_splits)
  obtain nonce where n: "random h k 12 = Inr nonce"
    using run False root lock rd ch m sz by (cases "random h k 12") auto
  have c1: "h_Fault h SysCreate = None"
    using run False root lock rd ch m sz n by (cases "h_Fault h SysCreate") auto
  have c2: "d (tmpName nonce) = None"
    using run False root lock rd ch m sz n c1 by (cases "d (tmpName nonce)") auto
  obtain r' ds' where p: "publish s h data (tmpName nonce) d = (r', ds')" by fastforce
  have "ds' = ds" "r = (case r' of Inl e \<Rightarrow> Inl e | Inr _ \<Rightarrow> Inr x)"
    using run root lock rd ch m sz n c1 c2 p by (auto split: sum.splits)
  with root rd ch m sz n c1 c2 p show thesis by (intro published) auto
qed

lemma tmpName_neq: "\<not> HasPrefix b ''.tokens-'' \<Longrightarrow> tmpName nonce \<noteq> b"
  by (auto simp: HasPrefix_def tmpName_def)

text \<open>What each state of an update holds, and what a successful one leaves for a reader.\<close>

lemma update_states:
  assumes "update s h cd k change d = (r, ds)" and "\<not> HasPrefix (Base (s_Path s)) ''.tokens-''" and "d' \<in> set ds"
  shows "keeps_store s d d' \<or> (isl r \<longrightarrow> dir_sync_error r)
    \<and> (\<exists>rs rs' x data. read_store s h cd d = Inr rs \<and> change rs = Inr (rs', x) \<and> Marshal cd rs' = Some data
         \<and> int (length data) \<le> maxStoreBytes \<and> holds_store s h data d')"
  using assms(1)
proof (cases rule: update_cases)
  case refused
  then show ?thesis using assms(3) by simp
next
  case (published rs rs' x data nonce r')
  have tmp: "tmpName nonce \<noteq> Base (s_Path s)" using assms(2) tmpName_neq by blast
  have keep: "keeps_store s d e" if "e \<in> tmp_states (tmpName nonce) d" for e
    using that tmp by (auto simp: tmp_states_def keeps_store_def)
  from published(8) tmp show ?thesis
  proof (cases rule: publish_cases)
    case failed
    then show ?thesis using assms(3) keep by blast
  next
    case (renamed ds1 gid)
    have "isl r \<longrightarrow> dir_sync_error r" using renamed(1) published(9) by (cases r') (auto simp: dir_sync_error_def)
    moreover have "keeps_store s d d' \<or> holds_store s h data d'"
      using renamed(2,3) keep assms(3) by (auto simp: holds_store_def)
    ultimately show ?thesis using published(2-5) by blast
  qed
qed

lemma update_success:
  assumes "update s h cd k change d = (Inr x, ds)" and "\<not> HasPrefix (Base (s_Path s)) ''.tokens-''"
  obtains rs rs' data where "read_store s h cd d = Inr rs" "change rs = Inr (rs', x)" "Marshal cd rs' = Some data"
    "int (length data) \<le> maxStoreBytes" "holds_store s h data (last ds)"
  using assms(1)
proof (cases rule: update_cases)
  case (published rs rs' x' data nonce r')
  have tmp: "tmpName nonce \<noteq> Base (s_Path s)" using assms(2) tmpName_neq by blast
  have r': "\<not> isl r'" "x' = x" using published(9) by (cases r'; simp)+
  from published(8) tmp r'(1) have "holds_store s h data (last ds)"
    by (cases rule: publish_cases) (auto simp: holds_store_def numeral_2_eq_2)
  with published r' that show thesis by blast
qed simp

lemma read_holds_store:
  assumes "holds_store s h data d" and "Marshal cd rs = Some data" and "int (length data) \<le> maxStoreBytes"
    and "json_codec_ok cd" and "valid_store rs" "store_text rs" and "reader_of s h h'"
  shows "read_store s h' cd d = Inr rs"
  using assms read_published unfolding holds_store_def by blast

lemma update_read_back:
  assumes "update s h cd k change d = (Inr x, ds)" and "\<not> HasPrefix (Base (s_Path s)) ''.tokens-''"
    and "read_store s h cd d = Inr rs" and "change rs = Inr (rs', x)"
    and "json_codec_ok cd" and "valid_store rs'" "store_text rs'" and "reader_of s h h'"
  shows "read_store s h' cd (last ds) = Inr rs'"
  using update_success [OF assms(1,2)] read_holds_store [OF _ _ _ assms(5-8)] assms(3,4)
  by (metis Pair_inject sum.inject(2))

section \<open>The operations on the records\<close>

lemma is_hex_ascii: "is_hex c \<Longrightarrow> of_char c < (128::nat)"
proof -
  assume "is_hex c"
  then have "of_char c \<le> (of_char (CHR ''f'') :: nat)"
    unfolding is_hex_def less_eq_char_def by (elim disjE conjE) (erule order_trans, simp)+
  then show ?thesis by simp
qed

lemma ascii_HexEncode [simp]: "ascii_text (HexEncode bs)"
proof -
  have "\<forall>c\<in>set (HexEncode bs). is_hex c"
    using hexValid_HexEncode [of bs] by (simp add: hexValid_def list_all_iff)
  then show ?thesis using is_hex_ascii by (simp add: ascii_text_def)
qed

lemma record_ok_new:
  assumes "length i = 12" "name \<noteq> []" "roles \<noteq> []" "\<forall>role\<in>set roles. roleValid role"
  shows "record_ok \<lparr>t_ID = HexEncode i, t_Name = name, t_Roles = roles, t_Expires = e, t_Revoked = False,
    t_Hash = digest secret, t_Legacy = False\<rparr>"
proof -
  have "HexEncode i \<noteq> []" using assms(1) length_HexEncode [of i] by fastforce
  then show ?thesis using assms(2-4) by (simp add: record_ok_def digest_def)
qed

lemma valid_store_append:
  "valid_store (rs @ [r]) \<longleftrightarrow> valid_store rs \<and> record_ok r \<and> t_ID r \<notin> t_ID ` set rs \<and> t_Hash r \<notin> t_Hash ` set rs"
  by (auto simp: valid_store_def)

lemma valid_store_replace:
  assumes "valid_store (pre @ r # post)" "t_ID r' = t_ID r" "t_Hash r' = t_Hash r" "record_ok r'"
  shows "valid_store (pre @ r' # post)"
  using assms by (auto simp: valid_store_def)

lemma revokeRecord_Some:
  "revokeRecord i rs = Some rs' \<Longrightarrow>
   \<exists>pre r post. rs = pre @ r # post \<and> t_ID r = i \<and> rs' = pre @ r\<lparr>t_Revoked := True\<rparr> # post"
proof (induction i rs arbitrary: rs' rule: revokeRecord.induct)
  case (2 i r rs)
  show ?case
  proof (cases "t_ID r = i")
    case True
    with "2.prems" show ?thesis by (intro exI [of _ "[]"]) auto
  next
    case False
    with "2.prems" obtain rs1 where "revokeRecord i rs = Some rs1" "rs' = r # rs1" by (auto split: option.splits)
    with "2.IH" [OF False] show ?thesis by (metis append_Cons)
  qed
qed simp

lemma rotateRecord_Inr:
  "rotateRecord now i overlap new k rs = Inr (rs', new') \<Longrightarrow>
   \<exists>pre old post. rs = pre @ old # post \<and> t_ID old = i \<and> \<not> t_Revoked old
     \<and> (t_Expires old = 0 \<or> overlap \<le> t_Expires old)
     \<and> rs' = pre @ old\<lparr>t_Expires := overlap\<rparr> # post \<and> new' = new\<lparr>t_Name := t_Name old, t_Roles := t_Roles old\<rparr>"
proof (induction now i overlap new k rs arbitrary: rs' rule: rotateRecord.induct)
  case (2 now i overlap new k old rs)
  show ?case
  proof (cases "t_ID old \<noteq> i \<or> t_Revoked old \<or> t_Expires old \<noteq> 0 \<and> \<not> now k < t_Expires old")
    case True
    with "2.prems" obtain rs1 where "rotateRecord now i overlap new (Suc k) rs = Inr (rs1, new')" "rs' = old # rs1"
      by (auto split: sum.splits)
    with "2.IH" [OF True] show ?thesis by (metis append_Cons)
  next
    case False
    with "2.prems" show ?thesis by (intro exI [of _ "[]"]) (auto simp: Let_def split: if_splits)
  qed
qed simp

lemma Create_Inr:
  assumes "Create s h cd name roles expires d = (Inr (t, secret), ds)"
  obtains i v where "name \<noteq> []" "roles \<noteq> []" "\<forall>role\<in>set roles. roleValid role" "length i = 12" "length v = 32"
    "secret = Base64RawURL v" "expires = 0 \<or> h_Now h 0 < expires"
    "t = \<lparr>t_ID = HexEncode i, t_Name = name, t_Roles = roles, t_Expires = expires, t_Revoked = False,
      t_Hash = [], t_Legacy = False\<rparr>"
    "update s h cd 2 (\<lambda>rs. Inr (rs @ [t\<lparr>t_Hash := digest secret\<rparr>], ())) d = (Inr (), ds)"
proof -
  have len: "random h k n = Inr v \<Longrightarrow> length v = n" for k n v by (auto simp: random_def split: sum.splits)
  from assms show thesis
    by (auto simp: Create_def Let_def find_None_iff split: if_splits option.splits sum.splits prod.splits
        intro!: that dest: len)
qed

lemma Rotate_Inr:
  assumes "Rotate s h cd i expires overlap d = (Inr (t, secret), ds)"
  obtains nid v new new' where "length nid = 12" "length v = 32" "secret = Base64RawURL v"
    "h_Now h 0 < overlap" "new = \<lparr>t_ID = HexEncode nid, t_Name = [], t_Roles = [], t_Expires = expires,
      t_Revoked = False, t_Hash = digest secret, t_Legacy = False\<rparr>"
    "update s h cd 2 (\<lambda>rs. case rotateRecord (h_Now h) i overlap new 2 rs of
       Inl e \<Rightarrow> Inl e | Inr (rs', new') \<Rightarrow> Inr (rs' @ [new'], new')) d = (Inr new', ds)"
    "t = new'\<lparr>t_Hash := []\<rparr>"
proof -
  have len: "random h k n = Inr v \<Longrightarrow> length v = n" for k n v by (auto simp: random_def split: sum.splits)
  from assms show thesis
    by (auto simp: Rotate_def Let_def split: if_splits sum.splits prod.splits intro!: that dest: len)
qed

lemma Create_Verify:
  assumes "Create s h cd name roles expires d = (Inr (t, secret), ds)" and "\<not> HasPrefix (Base (s_Path s)) ''.tokens-''"
    and "read_store s h cd d = Inr rs" and "json_codec_ok cd" and "store_text rs" "ascii_text name"
    and "digest secret \<notin> t_Hash ` set rs" "legacyDigest secret \<notin> t_Hash ` set rs" "t_ID t \<notin> t_ID ` set rs"
    and "reader_of s h h'" and "expires = 0 \<or> h_Now h' (length rs) < expires"
  shows "read_store s h' cd (last ds) = Inr (rs @ [t\<lparr>t_Hash := digest secret\<rparr>])"
    and "Verify s h' cd (last ds) secret = Inr t"
proof -
  let ?new = "t\<lparr>t_Hash := digest secret\<rparr>"
  from assms(1) obtain i v where c: "name \<noteq> []" "roles \<noteq> []" "\<forall>role\<in>set roles. roleValid role" "length i = 12"
      "length v = 32" "secret = Base64RawURL v"
      "t = \<lparr>t_ID = HexEncode i, t_Name = name, t_Roles = roles, t_Expires = expires, t_Revoked = False,
        t_Hash = [], t_Legacy = False\<rparr>"
      "update s h cd 2 (\<lambda>rs. Inr (rs @ [?new], ())) d = (Inr (), ds)"
    by (rule Create_Inr)
  have "record_ok ?new" using record_ok_new [OF c(4,1-3)] c(7) by simp
  with assms(7,9) read_store_valid [OF assms(3)] have valid: "valid_store (rs @ [?new])"
    by (simp add: valid_store_append)
  have asc: "store_text (rs @ [?new])" using assms(5,6) c(7) by (simp add: store_text_def)
  show rd: "read_store s h' cd (last ds) = Inr (rs @ [?new])"
    by (rule update_read_back [OF c(8) assms(2,3) _ assms(4) valid asc assms(10)]) simp
  have "\<not> accepts now secret r" if "r \<in> set rs" for r now
    using that assms(7,8) unfolding accepts_def by (metis imageI)
  moreover have "accepts (h_Now h' (length rs)) secret ?new" using c(7) assms(11) by (simp add: accepts_def)
  ultimately have "first_accepting (h_Now h') secret (rs @ [?new]) (length rs)"
    by (auto simp: first_accepting_def nth_append)
  moreover have "length secret = 43" using c(5,6) length_Base64RawURL [of v] by simp
  moreover have "store_root s h' = Inr ()" using assms(10) by (simp add: reader_of_def)
  moreover have "t = ((rs @ [?new]) ! length rs)\<lparr>t_Hash := []\<rparr>" using c(7) by simp
  ultimately show "Verify s h' cd (last ds) secret = Inr t" using rd unfolding Verify_iff by auto
qed

text \<open>Whoever gets a token out of a published store is one of its readers.\<close>

lemma Verify_reader:
  assumes "holds_store s h data d" and "Verify s h' cd d secret = Inr t"
  shows "reader_of s h h'"
proof -
  from assms(2) obtain rs i where r: "store_root s h' = Inr ()" "read_store s h' cd d = Inr rs" "i < length rs"
    by (rule Verify_Inr)
  from assms(1) obtain gid where "d (Base (s_Path s)) = Some (new_stat h gid data, data)"
    by (auto simp: holds_store_def)
  with r(2,3) have "h_Fault h' SysOpen = None" "h_Fault h' SysStat = None" "ownerTrusted h' (new_stat h gid data)"
    by (auto simp: read_store_def Let_def split: sum.splits option.splits prod.splits if_splits)
  with r(1) show ?thesis by (auto simp: reader_of_def ownerTrusted_def new_stat_def word_uint_eq_iff)
qed

lemma Revoke_rejected:
  assumes "Revoke s h cd i d = (Inr (), ds)" and "\<not> HasPrefix (Base (s_Path s)) ''.tokens-''"
    and "read_store s h cd d = Inr rs" and "json_codec_ok cd" and "store_text rs"
  shows "Verify s h' cd (last ds) secret = Inr t \<Longrightarrow> t_ID t \<noteq> i"
    and "\<exists>pre r post. rs = pre @ r # post \<and> t_ID r = i
      \<and> (reader_of s h h' \<longrightarrow> read_store s h' cd (last ds) = Inr (pre @ r\<lparr>t_Revoked := True\<rparr> # post))"
proof -
  note upd = assms(1) [unfolded Revoke_def]
  from update_success [OF upd assms(2)] obtain rs0 rs' data where
    c: "read_store s h cd d = Inr rs0" "(case revokeRecord i rs0 of None \<Rightarrow> Inl TokenNotFound | Some rs \<Rightarrow> Inr (rs, ())) = Inr (rs', ())"
    and data: "Marshal cd rs' = Some data" "int (length data) \<le> maxStoreBytes" "holds_store s h data (last ds)"
    by metis
  then have ch: "revokeRecord i rs = Some rs'" using assms(3) by (auto split: option.splits)
  from revokeRecord_Some [OF ch] obtain pre r post where
    sp: "rs = pre @ r # post" "t_ID r = i" "rs' = pre @ r\<lparr>t_Revoked := True\<rparr> # post" by blast
  from read_store_valid [OF assms(3)] have v: "valid_store rs" .
  then have "record_ok (r\<lparr>t_Revoked := True\<rparr>)" using sp(1) by (auto simp: valid_store_def record_ok_def)
  then have v': "valid_store rs'" using valid_store_replace v sp by (metis token.select_convs token.surjective token.update_convs)
  have asc: "store_text rs'" using assms(5) sp by (auto simp: store_text_def)
  have rd: "read_store s h' cd (last ds) = Inr rs'" if "reader_of s h h'"
    using read_holds_store [OF data(3,1,2) assms(4) v' asc that] .
  show "\<exists>pre r post. rs = pre @ r # post \<and> t_ID r = i
      \<and> (reader_of s h h' \<longrightarrow> read_store s h' cd (last ds) = Inr (pre @ r\<lparr>t_Revoked := True\<rparr> # post))"
    using sp rd by blast
  show "t_ID t \<noteq> i" if ver: "Verify s h' cd (last ds) secret = Inr t"
  proof
    assume "t_ID t = i"
    from ver obtain rs2 k where r2: "read_store s h' cd (last ds) = Inr rs2" "k < length rs2"
      "accepts (h_Now h' k) secret (rs2 ! k)" "t = (rs2 ! k)\<lparr>t_Hash := []\<rparr>" by (rule Verify_Inr)
    have eq: "rs2 = rs'" using rd [OF Verify_reader [OF data(3) ver]] r2(1) by simp
    have "map t_ID rs' ! k = i" using r2(2,4) \<open>t_ID t = i\<close> eq by simp
    moreover have "map t_ID rs' ! length pre = i" using sp(2,3) by (simp add: nth_append)
    moreover have "length pre < length rs'" using sp(3) by simp
    ultimately have "k = length pre"
      using v' r2(2) eq nth_eq_iff_index_eq [of "map t_ID rs'" k "length pre"] by (simp add: valid_store_def)
    then show False using r2(3) eq sp(3) by (simp add: accepts_def)
  qed
qed

lemma Rotate_records:
  assumes "Rotate s h cd i expires overlap d = (Inr (t, secret), ds)" and "\<not> HasPrefix (Base (s_Path s)) ''.tokens-''"
    and "read_store s h cd d = Inr rs" and "json_codec_ok cd" and "store_text rs"
    and "digest secret \<notin> t_Hash ` set rs" "t_ID t \<notin> t_ID ` set rs" and "reader_of s h h'"
  obtains pre old post where "rs = pre @ old # post" "t_ID old = i" "\<not> t_Revoked old" "h_Now h 0 < overlap"
    "t_Expires old = 0 \<or> overlap \<le> t_Expires old" "t_Roles t = t_Roles old" "t_Name t = t_Name old"
    "t_Expires t = expires" "\<not> t_Revoked t" "\<not> t_Legacy t" "t_Hash t = []" "length secret = 43"
    "read_store s h' cd (last ds) = Inr (pre @ old\<lparr>t_Expires := overlap\<rparr> # post @ [t\<lparr>t_Hash := digest secret\<rparr>])"
proof -
  from assms(1) obtain nid v new new' where c: "length nid = 12" "length v = 32" "secret = Base64RawURL v"
    "h_Now h 0 < overlap"
    and new: "new = \<lparr>t_ID = HexEncode nid, t_Name = [], t_Roles = [], t_Expires = expires,
      t_Revoked = False, t_Hash = digest secret, t_Legacy = False\<rparr>"
    and upd: "update s h cd 2 (\<lambda>rs. case rotateRecord (h_Now h) i overlap new 2 rs of
       Inl e \<Rightarrow> Inl e | Inr (rs', new') \<Rightarrow> Inr (rs' @ [new'], new')) d = (Inr new', ds)"
    and t: "t = new'\<lparr>t_Hash := []\<rparr>"
    by (rule Rotate_Inr)
  obtain rs0 rs1 where "read_store s h cd d = Inr rs0"
    "(case rotateRecord (h_Now h) i overlap new 2 rs0 of
       Inl e \<Rightarrow> Inl e | Inr (rs', new') \<Rightarrow> Inr (rs' @ [new'], new')) = Inr (rs1, new')"
    by (rule update_success [OF upd assms(2)])
  then obtain rs2 where ch: "rotateRecord (h_Now h) i overlap new 2 rs = Inr (rs2, new')" "rs1 = rs2 @ [new']"
    using assms(3) by (auto split: sum.splits)
  from rotateRecord_Inr [OF ch(1)] obtain pre old post where sp: "rs = pre @ old # post" "t_ID old = i"
    "\<not> t_Revoked old" "t_Expires old = 0 \<or> overlap \<le> t_Expires old"
    "rs2 = pre @ old\<lparr>t_Expires := overlap\<rparr> # post" "new' = new\<lparr>t_Name := t_Name old, t_Roles := t_Roles old\<rparr>" by blast
  have t': "t\<lparr>t_Hash := digest secret\<rparr> = new'" using t new sp(6) by simp
  from read_store_valid [OF assms(3)] have v: "valid_store rs" .
  then have old: "record_ok old" using sp(1) by (simp add: valid_store_def)
  have "record_ok new'"
    using record_ok_new [OF c(1), of "t_Name old" "t_Roles old" expires secret] old sp(3,6) new by (simp add: record_ok_def)
  moreover have "record_ok (old\<lparr>t_Expires := overlap\<rparr>)" using old by (simp add: record_ok_def)
  then have "valid_store rs2"
    using valid_store_replace [of pre old post "old\<lparr>t_Expires := overlap\<rparr>"] v sp(1,5) by simp
  moreover have "t_ID ` set rs2 = t_ID ` set rs" "t_Hash ` set rs2 = t_Hash ` set rs" using sp(1,5) by auto
  ultimately have valid: "valid_store (rs2 @ [new'])"
    using assms(6,7) t new sp(6) by (simp add: valid_store_append)
  have asc: "store_text (rs2 @ [new'])" using assms(5) sp(1,5,6) new by (auto simp: store_text_def)
  have "read_store s h' cd (last ds) = Inr (rs2 @ [new'])"
    by (rule update_read_back [OF upd assms(2,3) _ assms(4) valid asc assms(8)]) (simp add: ch(1))
  moreover have "length secret = 43" using c(2,3) length_Base64RawURL [of v] by simp
  ultimately show thesis using that [OF sp(1-3) c(4) sp(4)] t' t sp(5,6) new by simp
qed

section \<open>Examples\<close>

lemma HexEncode_lower: "CHR ''A'' \<notin> set (HexEncode bs)"
proof -
  have "\<forall>n\<in>set [0..<16]. hex_char n \<noteq> CHR ''A''" by code_simp
  then have low: "CHR ''A'' \<noteq> hex_char n" if "n < 16" for n using that by fastforce
  have "CHR ''A'' \<noteq> hex_char (of_char c div 16)" "CHR ''A'' \<noteq> hex_char (of_char c mod 16)" for c
    by (rule low, simp add: of_char_div_16)+
  then show ?thesis by (induction bs) simp_all
qed

text \<open>A healthy host run by root, a store, and a codec that knows two lists of records.\<close>

definition example_store :: store where
  "example_store = \<lparr>s_Path = ''/etc/hostlens/secrets/tokens.json'', s_TokenGID = 1002\<rparr>"

definition example_machine :: host where
  "example_machine = \<lparr>h_DirInfo = (\<lambda>_. Inr root_dir), h_Euid = 0, h_Egid = 0, h_Umask = 0x12, h_Fault = (\<lambda>_. None),
     h_Written = 0, h_Now = (\<lambda>_. 1000), h_Random = (\<lambda>_. Inr (\<lambda>_. CHR ''r''))\<rparr>"

definition pair_codec :: "token list \<Rightarrow> token list \<Rightarrow> json_codec" where
  "pair_codec a b = \<lparr>Marshal = (\<lambda>rs. if rs = a then Some ''a'' else if rs = b then Some ''b'' else None),
     DecodeTokens = (\<lambda>data. Inr (if data = ''a'' then a else b)), DecodeEOF = (\<lambda>_. True)\<rparr>"

lemma pair_codec_ok: "json_codec_ok (pair_codec a b)"
  by (auto simp: json_codec_ok_def pair_codec_def)

definition example_secret :: string where
  "example_secret = Base64RawURL (replicate 32 (CHR ''r''))"

definition example_token :: token where
  "example_token = \<lparr>t_ID = HexEncode (replicate 12 (CHR ''r'')), t_Name = ''ops'', t_Roles = [''observe''],
     t_Expires = 0, t_Revoked = False, t_Hash = digest example_secret, t_Legacy = False\<rparr>"

lemma example_base: "Base (s_Path example_store) = ''tokens.json''" "\<not> HasPrefix (Base (s_Path example_store)) ''.tokens-''"
  by code_simp+

lemma example_root: "store_root example_store example_machine = Inr ()"
proof -
  have "IsDir root_dir" "Perm root_dir AND group_other_write = 0" by code_simp+
  then show ?thesis by (simp add: store_root_def example_machine_def ownerTrusted_def root_dir_def)
qed

lemma example_reader: "reader_of example_store example_machine example_machine"
  using example_root by (simp add: reader_of_def) (simp add: example_machine_def)

definition create_codec :: json_codec where
  "create_codec = pair_codec [] [example_token]"

definition created_states :: "dir list" where
  "created_states = snd (Create example_store example_machine create_codec ''ops'' [''observe''] 0 Map.empty)"

lemma publish_healthy: "(\<And>c. h_Fault h c = None) \<Longrightarrow> \<exists>ds. publish s h data tmp d = (Inr (), ds)"
  by (simp add: publish_def Let_def)

lemma example_random: "random example_machine k n = Inr (replicate n (CHR ''r''))"
  by (simp add: random_def example_machine_def map_replicate_const)

lemma example_Create:
  "Create example_store example_machine create_codec ''ops'' [''observe''] 0 Map.empty
     = (Inr (example_token\<lparr>t_Hash := []\<rparr>, example_secret), created_states)"
proof -
  have rd: "read_store example_store example_machine create_codec Map.empty = Inr []"
    by (simp add: read_store_def example_machine_def)
  have faults: "h_Fault example_machine c = None" for c by (simp add: example_machine_def)
  have m: "Marshal create_codec [example_token] = Some ''b''"
    by (simp add: create_codec_def pair_codec_def)
  obtain ds where pub: "publish example_store example_machine ''b'' (tmpName (replicate 12 (CHR ''r''))) Map.empty = (Inr (), ds)"
    using publish_healthy [OF faults] by blast
  have upd: "update example_store example_machine create_codec k (\<lambda>rs. Inr (rs @ [example_token], ())) Map.empty = (Inr (), ds)" for k
    by (simp add: update_def example_root faults rd m example_random maxStoreBytes_def pub)
  have "\<not> ContainsAny ''ops'' [byte_of 0, byte_of 10, byte_of 13]" "roleValid ''observe''" by code_simp+
  then have "fst (Create example_store example_machine create_codec ''ops'' [''observe''] 0 Map.empty)
      = Inr (example_token\<lparr>t_Hash := []\<rparr>, example_secret)"
    by (simp add: Create_def example_random Let_def example_secret_def [symmetric])
      (simp add: example_token_def [symmetric] upd)
  then show ?thesis by (simp add: created_states_def prod_eq_iff)
qed

lemma example_read_empty: "read_store example_store example_machine create_codec Map.empty = Inr []"
  by (simp add: read_store_def example_machine_def)

lemma create_codec_ok: "json_codec_ok create_codec"
  by (simp add: create_codec_def pair_codec_ok)

lemma example_Verify:
  "Verify example_store example_machine create_codec (last created_states) example_secret = Inr (example_token\<lparr>t_Hash := []\<rparr>)"
  by (intro Create_Verify(2) [OF example_Create example_base(2) example_read_empty create_codec_ok _ _ _ _ _ example_reader])
    (simp_all add: store_text_def ascii_text_def)

text \<open>A directory that already holds the first list of a codec, and a healthy update of it.\<close>

definition stored_dir :: dir where
  "stored_dir = [''tokens.json'' \<mapsto> (new_stat example_machine 0 ''a'', ''a'')]"

lemma example_valid: "valid_store [example_token]" "store_text [example_token]"
proof -
  have "HexEncode (replicate 12 (CHR ''r'')) \<noteq> []"
    using length_HexEncode [of "replicate 12 (CHR ''r'')"] by (metis length_0_conv length_replicate mult_is_0 zero_neq_numeral)
  moreover have "roleValid ''observe''" by code_simp
  ultimately show "valid_store [example_token]"
    by (simp add: valid_store_def record_ok_def example_token_def digest_def)
  show "store_text [example_token]" by (simp add: store_text_def example_token_def ascii_text_def [of "''ops''"])
qed

lemma read_stored:
  "valid_store a \<Longrightarrow> store_text a \<Longrightarrow> read_store example_store example_machine (pair_codec a b) stored_dir = Inr a"
  using read_published [OF _ _ _ pair_codec_ok _ _ example_reader, of stored_dir 0 "''a''" a b a] example_base(1)
  by (simp add: stored_dir_def maxStoreBytes_def pair_codec_def)

lemma update_stored:
  assumes "valid_store a" "store_text a" "change a = Inr (b, x)"
  shows "\<exists>ds. update example_store example_machine (pair_codec a b) k change stored_dir = (Inr x, ds)"
proof -
  have faults: "h_Fault example_machine c = None" for c by (simp add: example_machine_def)
  obtain data where m: "Marshal (pair_codec a b) b = Some data" "length data = 1"
    by (cases "b = a") (auto simp: pair_codec_def)
  have "stored_dir (tmpName nonce) = None" for nonce by (simp add: stored_dir_def tmpName_def)
  moreover obtain ds where "publish example_store example_machine data (tmpName (replicate 12 (CHR ''r''))) stored_dir = (Inr (), ds)"
    using publish_healthy [OF faults] by blast
  ultimately show ?thesis
    by (simp add: update_def example_root faults read_stored [OF assms(1,2)] assms(3) m example_random maxStoreBytes_def)
qed

section \<open>Properties\<close>

text \<open>
  C9: \<open>Verify\<close> accepts a secret exactly when its length is in bounds, the store directory and the
  store are acceptable, and some record accepts it: same digest under the record's own scheme, not
  revoked, not expired. It answers with the first such record without its hash.
\<close>

theorem verify_iff:
  "Verify s h cd d secret = Inr t \<longleftrightarrow>
     32 \<le> length secret \<and> length secret \<le> 128 \<and> store_root s h = Inr ()
     \<and> (\<exists>rs i. read_store s h cd d = Inr rs \<and> first_accepting (h_Now h) secret rs i \<and> t = (rs ! i)\<lparr>t_Hash := []\<rparr>)"
  by (rule Verify_iff)

text \<open>
  A credential is accepted only from a protected store: the directory is a directory without
  group or other write access, the store is a regular file closed to others and not writable by
  the group, both owned by root or the reader, of at most one mebibyte, and all its records pass
  the checks, with pairwise different identifiers and hashes.
\<close>

theorem verify_needs_protected_store:
  assumes "Verify s h cd d secret = Inr t"
  shows "\<exists>dinfo info content rs. h_DirInfo h (Dir (s_Path s)) = Inr dinfo \<and> IsDir dinfo
    \<and> Perm dinfo AND group_other_write = 0 \<and> ownerTrusted h dinfo
    \<and> d (Base (s_Path s)) = Some (info, content) \<and> IsRegular info \<and> Perm info AND store_mask = 0
    \<and> ownerTrusted h info \<and> st_Size info \<le> maxStoreBytes
    \<and> DecodeTokens cd (limitReader (maxStoreBytes + 1) content) = Inr rs \<and> valid_store rs
    \<and> (\<exists>r\<in>set rs. t = r\<lparr>t_Hash := []\<rparr>)"
proof -
  from assms obtain rs i where r: "store_root s h = Inr ()" "read_store s h cd d = Inr rs" "i < length rs"
    "t = (rs ! i)\<lparr>t_Hash := []\<rparr>" by (rule Verify_Inr)
  from r(1) obtain dinfo where d: "h_DirInfo h (Dir (s_Path s)) = Inr dinfo" "IsDir dinfo"
    "Perm dinfo AND group_other_write = 0" "ownerTrusted h dinfo"
    by (auto simp: store_root_def split: sum.splits option.splits)
  from r(2,3) obtain info content where "d (Base (s_Path s)) = Some (info, content)" "IsRegular info"
      "Perm info AND store_mask = 0" "ownerTrusted h info" "st_Size info \<le> maxStoreBytes"
      "DecodeTokens cd (limitReader (maxStoreBytes + 1) content) = Inr rs"
    by (auto simp: read_store_def Let_def split: sum.splits option.splits prod.splits if_splits)
  with d read_store_valid [OF r(2)] r(3,4) show ?thesis by (blast intro: nth_mem)
qed

theorem verify_needs_protected_store_witness:
  "\<exists>dinfo info content rs. h_DirInfo example_machine (Dir (s_Path example_store)) = Inr dinfo \<and> IsDir dinfo
    \<and> Perm dinfo AND group_other_write = 0 \<and> ownerTrusted example_machine dinfo
    \<and> last created_states (Base (s_Path example_store)) = Some (info, content) \<and> IsRegular info
    \<and> Perm info AND store_mask = 0 \<and> ownerTrusted example_machine info \<and> st_Size info \<le> maxStoreBytes
    \<and> DecodeTokens create_codec (limitReader (maxStoreBytes + 1) content) = Inr rs \<and> valid_store rs
    \<and> (\<exists>r\<in>set rs. example_token\<lparr>t_Hash := []\<rparr> = r\<lparr>t_Hash := []\<rparr>)"
  by (rule verify_needs_protected_store [OF example_Verify])

text \<open>
  C20: a token that \<open>Create\<close> returns is a credential: every process that may read the store accepts
  its secret until the expiry, with exactly the requested name, roles and expiry, and the store
  holds the earlier records unchanged. The random identifier and secret must not collide with a
  record already stored.
\<close>

theorem create_then_verify:
  assumes "Create s h cd name roles expires d = (Inr (t, secret), ds)" and "\<not> HasPrefix (Base (s_Path s)) ''.tokens-''"
    and "read_store s h cd d = Inr rs" and "json_codec_ok cd" and "store_text rs" "ascii_text name"
    and "digest secret \<notin> t_Hash ` set rs" "legacyDigest secret \<notin> t_Hash ` set rs" "t_ID t \<notin> t_ID ` set rs"
    and "reader_of s h h'" and "expires = 0 \<or> h_Now h' (length rs) < expires"
  shows "Verify s h' cd (last ds) secret = Inr t \<and> t_Name t = name \<and> t_Roles t = roles \<and> t_Expires t = expires
    \<and> read_store s h' cd (last ds) = Inr (rs @ [t\<lparr>t_Hash := digest secret\<rparr>])"
  using Create_Verify [OF assms] assms(1) by (auto elim: Create_Inr)

theorem create_then_verify_witness:
  "Verify example_store example_machine create_codec (last created_states) example_secret = Inr (example_token\<lparr>t_Hash := []\<rparr>)"
  by (intro create_then_verify [OF example_Create example_base(2) example_read_empty create_codec_ok _ _ _ _ _ example_reader,
        THEN conjunct1])
    (simp_all add: store_text_def ascii_text_def)

text \<open>
  C21: after \<open>Revoke\<close> has succeeded no process gets the revoked token from the store again, whatever
  secret it presents; the record is marked and all others are kept.
\<close>

theorem revoke_then_rejected:
  assumes "Revoke s h cd i d = (Inr (), ds)" and "\<not> HasPrefix (Base (s_Path s)) ''.tokens-''"
    and "read_store s h cd d = Inr rs" and "json_codec_ok cd" and "store_text rs"
  shows "(\<forall>secret t. Verify s h' cd (last ds) secret = Inr t \<longrightarrow> t_ID t \<noteq> i)
    \<and> (\<exists>pre r post. rs = pre @ r # post \<and> t_ID r = i
      \<and> (reader_of s h h' \<longrightarrow> read_store s h' cd (last ds) = Inr (pre @ r\<lparr>t_Revoked := True\<rparr> # post)))"
  using Revoke_rejected [OF assms] by blast

theorem revoke_then_rejected_witness:
  "\<exists>ds. \<forall>secret t. Verify example_store example_machine
      (pair_codec [example_token] [example_token\<lparr>t_Revoked := True\<rparr>]) (last ds) secret = Inr t
    \<longrightarrow> t_ID t \<noteq> t_ID example_token"
proof -
  let ?cd = "pair_codec [example_token] [example_token\<lparr>t_Revoked := True\<rparr>]"
  obtain ds where "Revoke example_store example_machine ?cd (t_ID example_token) stored_dir = (Inr (), ds)"
    unfolding Revoke_def using update_stored [OF example_valid, of _ "[example_token\<lparr>t_Revoked := True\<rparr>]" "()"] by fastforce
  from revoke_then_rejected [OF this example_base(2) read_stored [OF example_valid] pair_codec_ok example_valid(2)]
  show ?thesis by blast
qed

text \<open>
  C22: \<open>Rotate\<close> retires the old token at the overlap instant, which is in the future and never later
  than the expiry it had, and adds one record with the same name and roles and the requested
  expiry; nothing else in the store changes.
\<close>

theorem rotate_never_extends:
  assumes "Rotate s h cd i expires overlap d = (Inr (t, secret), ds)" and "\<not> HasPrefix (Base (s_Path s)) ''.tokens-''"
    and "read_store s h cd d = Inr rs" and "json_codec_ok cd" and "store_text rs"
    and "digest secret \<notin> t_Hash ` set rs" "t_ID t \<notin> t_ID ` set rs" and "reader_of s h h'"
  shows "\<exists>pre old post. rs = pre @ old # post \<and> t_ID old = i \<and> \<not> t_Revoked old \<and> h_Now h 0 < overlap
    \<and> (t_Expires old = 0 \<or> overlap \<le> t_Expires old)
    \<and> t_Roles t = t_Roles old \<and> t_Name t = t_Name old \<and> t_Expires t = expires \<and> t_Hash t = []
    \<and> read_store s h' cd (last ds) = Inr (pre @ old\<lparr>t_Expires := overlap\<rparr> # post @ [t\<lparr>t_Hash := digest secret\<rparr>])"
  by (rule Rotate_records [OF assms]) blast

definition old_token :: token where
  "old_token = \<lparr>t_ID = ''old'', t_Name = ''ops'', t_Roles = [''observe''], t_Expires = 9000, t_Revoked = False,
     t_Hash = replicate 64 (CHR ''A''), t_Legacy = False\<rparr>"

lemma old_valid: "valid_store [old_token]" "store_text [old_token]"
  by code_simp (simp add: store_text_def ascii_text_def old_token_def)

theorem rotate_never_extends_witness:
  "\<exists>ds. read_store example_store example_machine
      (pair_codec [old_token] [old_token\<lparr>t_Expires := 5000\<rparr>, example_token]) (last ds)
    = Inr [old_token\<lparr>t_Expires := 5000\<rparr>, example_token]"
proof -
  let ?cd = "pair_codec [old_token] [old_token\<lparr>t_Expires := 5000\<rparr>, example_token]"
  let ?new = "\<lparr>t_ID = HexEncode (replicate 12 (CHR ''r'')), t_Name = [], t_Roles = [], t_Expires = 0,
      t_Revoked = False, t_Hash = digest example_secret, t_Legacy = False\<rparr>"
  have new: "?new\<lparr>t_Name := t_Name old_token, t_Roles := t_Roles old_token\<rparr> = example_token"
    by (simp add: old_token_def example_token_def)
  have "rotateRecord (h_Now example_machine) ''old'' 5000 ?new 2 [old_token] = Inr ([old_token\<lparr>t_Expires := 5000\<rparr>], example_token)"
    using new by (simp add: old_token_def example_machine_def Let_def)
  then obtain ds where upd: "update example_store example_machine ?cd 2
      (\<lambda>records. case rotateRecord (h_Now example_machine) ''old'' 5000 ?new 2 records of
         Inl e \<Rightarrow> Inl e | Inr (rs, new) \<Rightarrow> Inr (rs @ [new], new)) stored_dir = (Inr example_token, ds)"
    using update_stored [OF old_valid, of _ "[old_token\<lparr>t_Expires := 5000\<rparr>, example_token]" example_token] by fastforce
  have rot: "Rotate example_store example_machine ?cd ''old'' 0 5000 stored_dir
      = (Inr (example_token\<lparr>t_Hash := []\<rparr>, example_secret), ds)"
    unfolding Rotate_def example_random Let_def sum.case example_secret_def [symmetric] upd
    by (simp add: example_machine_def)
  have "length (HexEncode (replicate 12 (CHR ''r''))) \<noteq> length ''old''" by simp
  then have "HexEncode (replicate 12 (CHR ''r'')) \<noteq> ''old''" by metis
  moreover have "digest example_secret \<noteq> replicate 64 (CHR ''A'')"
    using HexEncode_lower [of "Sum256 (''hostlens-token-v2'' @ byte_of 0 # example_secret)"] by (auto simp: digest_def)
  ultimately have "\<exists>pre old post. [old_token] = pre @ old # post
      \<and> read_store example_store example_machine ?cd (last ds)
        = Inr (pre @ old\<lparr>t_Expires := 5000\<rparr> # post @ [example_token\<lparr>t_Hash := [], t_Hash := digest example_secret\<rparr>])"
    using rotate_never_extends [OF rot example_base(2) read_stored [OF old_valid] pair_codec_ok old_valid(2) _ _ example_reader]
    by (fastforce simp: old_token_def example_token_def)
  moreover have "example_token\<lparr>t_Hash := [], t_Hash := digest example_secret\<rparr> = example_token"
    by (simp add: example_token_def)
  ultimately show ?thesis by (auto simp: Cons_eq_append_conv)
qed

text \<open>
  C10: a store update is atomic. In every directory state between two system calls, so also after a
  crash there, the store is either untouched or holds exactly the new records, complete; and when
  an update reports an error the store is untouched, unless the error is the final sync of the
  directory.
\<close>

theorem update_atomic:
  assumes "update s h cd k change d = (r, ds)" and "\<not> HasPrefix (Base (s_Path s)) ''.tokens-''"
    and "d' \<in> set ds" and "json_codec_ok cd" and "reader_of s h h'"
    and "\<And>rs rs' x. read_store s h cd d = Inr rs \<Longrightarrow> change rs = Inr (rs', x) \<Longrightarrow> valid_store rs' \<and> store_text rs'"
  shows "read_store s h' cd d' = read_store s h' cd d \<or>
    (isl r \<longrightarrow> dir_sync_error r) \<and>
    (\<exists>rs rs' x. read_store s h cd d = Inr rs \<and> change rs = Inr (rs', x) \<and> read_store s h' cd d' = Inr rs')"
  using update_states [OF assms(1-3)]
proof
  assume "keeps_store s d d'"
  then show ?thesis using read_store_cong [of d' s d] by (simp add: keeps_store_def)
next
  assume a: "(isl r \<longrightarrow> dir_sync_error r) \<and> (\<exists>rs rs' x data. read_store s h cd d = Inr rs \<and> change rs = Inr (rs', x)
      \<and> Marshal cd rs' = Some data \<and> int (length data) \<le> maxStoreBytes \<and> holds_store s h data d')"
  then obtain rs rs' x data where c: "read_store s h cd d = Inr rs" "change rs = Inr (rs', x)"
    "Marshal cd rs' = Some data" "int (length data) \<le> maxStoreBytes" "holds_store s h data d'" by blast
  have "read_store s h' cd d' = Inr rs'"
    using read_holds_store [OF c(5,3,4) assms(4)] assms(5,6) c(1,2) by blast
  with a c show ?thesis by blast
qed

theorem update_atomic_witness:
  "\<exists>r ds. update example_store example_machine (pair_codec [example_token] [])
      0 (\<lambda>_. Inr ([], ())) stored_dir = (r, ds) \<and>
     (\<forall>d'\<in>set ds. read_store example_store example_machine (pair_codec [example_token] []) d' \<in> {Inr [example_token], Inr []})"
proof -
  obtain ds where u: "update example_store example_machine (pair_codec [example_token] [])
      0 (\<lambda>_. Inr ([], ())) stored_dir = (Inr (), ds)"
    using update_stored [OF example_valid, of _ "[]" "()"] by fastforce
  have "valid_store []" "store_text []" by (simp_all add: valid_store_def store_text_def)
  then have "read_store example_store example_machine (pair_codec [example_token] []) d' \<in> {Inr [example_token], Inr []}"
    if "d' \<in> set ds" for d'
    using update_atomic [OF u example_base(2) that pair_codec_ok example_reader] read_stored [OF example_valid, of "[]"] by fastforce
  with u show ?thesis by blast
qed

end
