(* ===== verification/Slots.thy ===== *)
theory Slots
  imports Prelude
begin

text \<open>
  The admission slots of the three servers and of the systemd inventory: a buffered channel that a
  handler sends into without blocking on entry and receives from when it returns. The gateway has
  16 slots (\<open>server.go\<close>), the observer 8 (\<open>observer_linux.go\<close>), the repair worker 1
  (\<open>repair_linux.go\<close>) and the systemd inventory 1 (\<open>status/linux.go\<close>). Requests run concurrently:
  their admissions and completions interleave in any order, as the steps of a relation.
\<close>

section \<open>The channel\<close>

text \<open>The \<open>select\<close> with a default case: one more element in the channel, or refused when it is full.\<close>

definition tryAcquire :: "nat \<Rightarrow> nat \<Rightarrow> nat option" where
  "tryAcquire capacity used = (if used < capacity then Some (Suc used) else None)"

definition release :: "nat \<Rightarrow> nat" where
  "release used = used - 1"

definition gatewaySlots :: nat where "gatewaySlots = 16"
definition observerSlots :: nat where "observerSlots = 8"
definition repairSlots :: nat where "repairSlots = 1"
definition inventorySlots :: nat where "inventorySlots = 1"

section \<open>Interleaved requests\<close>

record 'r admission =
  ad_used :: nat
  ad_running :: "'r list"

datatype 'r event = Admit 'r | Refuse 'r | Finish 'r

definition idle :: "'r admission" where
  "idle = \<lparr>ad_used = 0, ad_running = []\<rparr>"

inductive admission_step :: "nat \<Rightarrow> 'r admission \<Rightarrow> 'r event \<Rightarrow> 'r admission \<Rightarrow> bool" for capacity where
  admit: "tryAcquire capacity (ad_used s) = Some n \<Longrightarrow>
    admission_step capacity s (Admit r) \<lparr>ad_used = n, ad_running = r # ad_running s\<rparr>"
| refuse: "tryAcquire capacity (ad_used s) = None \<Longrightarrow> admission_step capacity s (Refuse r) s"
| finish: "r \<in> set (ad_running s) \<Longrightarrow>
    admission_step capacity s (Finish r) \<lparr>ad_used = release (ad_used s), ad_running = remove1 r (ad_running s)\<rparr>"

inductive_cases admission_stepE: "admission_step capacity s e s'"

inductive admission_run :: "nat \<Rightarrow> 'r event list \<Rightarrow> 'r admission \<Rightarrow> bool" for capacity where
  start: "admission_run capacity [] idle"
| snoc: "admission_run capacity es s \<Longrightarrow> admission_step capacity s e s' \<Longrightarrow> admission_run capacity (es @ [e]) s'"

section \<open>The contract of a bounded server\<close>

text \<open>
  What every server with a positive number of slots promises, whatever the interleaving. The
  servers are interpretations with their own capacities.
\<close>

locale bounded_server =
  fixes capacity :: nat
  assumes capacity_pos: "0 < capacity"
begin

lemma step_inv:
  assumes "admission_step capacity s e s'" and "ad_used s = length (ad_running s)" "ad_used s \<le> capacity"
  shows "ad_used s' = length (ad_running s') \<and> ad_used s' \<le> capacity"
  using assms
  by (cases rule: admission_stepE)
    (auto simp: tryAcquire_def release_def length_remove1 split: if_splits)

lemma run_inv: "admission_run capacity es s \<Longrightarrow> ad_used s = length (ad_running s) \<and> ad_used s \<le> capacity"
proof (induction rule: admission_run.induct)
  case start
  then show ?case by (simp add: idle_def)
next
  case (snoc es s e s')
  then show ?case using step_inv by blast
qed

text \<open>A request is refused exactly when all slots are taken, so an idle server admits.\<close>

lemma refused_only_when_full:
  assumes "admission_run capacity es s" and "admission_step capacity s (Refuse r) s'"
  shows "length (ad_running s) = capacity"
proof -
  from assms(2) have "tryAcquire capacity (ad_used s) = None" by (cases rule: admission_stepE) auto
  then show ?thesis using run_inv [OF assms(1)] by (simp add: tryAcquire_def split: if_splits)
qed

lemma not_stuck:
  assumes "admission_run capacity es s"
  shows "\<exists>e s'. admission_step capacity s e s' \<and> e \<in> {Admit r, Refuse r}"
  by (cases "tryAcquire capacity (ad_used s)") (blast intro: admit refuse)+

end

interpretation gateway_slots: bounded_server gatewaySlots
  by unfold_locales (simp add: gatewaySlots_def)

interpretation observer_slots: bounded_server observerSlots
  by unfold_locales (simp add: observerSlots_def)

interpretation repair_slots: bounded_server repairSlots
  by unfold_locales (simp add: repairSlots_def)

interpretation inventory_slots: bounded_server inventorySlots
  by unfold_locales (simp add: inventorySlots_def)

section \<open>Repairs do not overlap\<close>

lemma admission_run_snocE:
  assumes "admission_run capacity (es @ [e]) s'"
  obtains s where "admission_run capacity es s" "admission_step capacity s e s'"
  using assms by (cases rule: admission_run.cases) auto

lemma admission_run_prefix:
  assumes "admission_run capacity (es @ fs) s"
  obtains s0 where "admission_run capacity es s0"
  using assms by (induction fs arbitrary: s rule: rev_induct) (auto simp flip: append_assoc elim: admission_run_snocE)

text \<open>After an admission the single slot stays taken until that request finishes.\<close>

lemma repair_held:
  "admission_run repairSlots (es @ Admit r # fs) s \<Longrightarrow> Finish r \<notin> set fs \<Longrightarrow> ad_running s = [r]"
proof (induction fs arbitrary: s rule: rev_induct)
  case Nil
  then obtain s0 where s0: "admission_run repairSlots es s0" "admission_step repairSlots s0 (Admit r) s"
    by (auto elim: admission_run_snocE)
  from s0(2) have "ad_used s0 = 0" "ad_running s = r # ad_running s0"
    by (auto simp: tryAcquire_def repairSlots_def elim!: admission_stepE split: if_splits)
  then show ?case using repair_slots.run_inv [OF s0(1)] by simp
next
  case (snoc e fs)
  then obtain s0 where s0: "admission_run repairSlots (es @ Admit r # fs) s0" "admission_step repairSlots s0 e s"
    by (auto simp flip: append_assoc append_Cons elim: admission_run_snocE)
  have run: "ad_running s0 = [r]" using snoc.IH [OF s0(1)] snoc.prems(2) by simp
  with repair_slots.run_inv [OF s0(1)] have used: "ad_used s0 = 1" by simp
  from s0(2) show ?case
    using run used snoc.prems(2) by (cases rule: admission_stepE) (auto simp: tryAcquire_def repairSlots_def)
qed

section \<open>Properties\<close>


lemma example_run: "admission_run gatewaySlots [Admit (1::nat)] \<lparr>ad_used = 1, ad_running = [1]\<rparr>"
proof -
  have "admission_step gatewaySlots idle (Admit (1::nat)) \<lparr>ad_used = 1, ad_running = 1 # ad_running idle\<rparr>"
    by (rule admit) (simp add: tryAcquire_def gatewaySlots_def idle_def)
  then show ?thesis using admission_run.snoc [OF admission_run.start] by (fastforce simp: idle_def)
qed


text \<open>
  Repairs never overlap: between the admission of a repair request and its completion no other
  repair request is admitted.
\<close>

theorem repairs_do_not_overlap:
  assumes "admission_run repairSlots (es @ Admit r # fs @ Admit r' # gs) s"
  shows "Finish r \<in> set fs"
proof (rule ccontr)
  assume nf: "Finish r \<notin> set fs"
  have "admission_run repairSlots (((es @ Admit r # fs) @ [Admit r']) @ gs) s" using assms by simp
  then obtain s1 where "admission_run repairSlots ((es @ Admit r # fs) @ [Admit r']) s1"
    by (rule admission_run_prefix)
  then obtain s0 where s0: "admission_run repairSlots (es @ Admit r # fs) s0" "admission_step repairSlots s0 (Admit r') s1"
    by (rule admission_run_snocE)
  have "ad_running s0 = [r]" by (rule repair_held [OF s0(1) nf])
  with repair_slots.run_inv [OF s0(1)] have "ad_used s0 = 1" by simp
  with s0(2) show False by (auto simp: tryAcquire_def repairSlots_def elim!: admission_stepE)
qed

lemma example_two_repairs:
  "admission_run repairSlots ([] @ Admit (1::nat) # [Finish 1] @ Admit 2 # []) \<lparr>ad_used = 1, ad_running = [2]\<rparr>"
proof -
  have a: "admission_run repairSlots ([] @ [Admit (1::nat)]) \<lparr>ad_used = 1, ad_running = 1 # ad_running idle\<rparr>"
    by (intro admission_run.snoc [OF admission_run.start] admit) (simp add: tryAcquire_def repairSlots_def idle_def)
  have b: "admission_step repairSlots \<lparr>ad_used = 1, ad_running = 1 # ad_running idle\<rparr> (Finish (1::nat)) idle"
    using finish [of "1 :: nat" "\<lparr>ad_used = 1, ad_running = 1 # ad_running idle\<rparr>" repairSlots] by (simp add: release_def idle_def)
  have c: "admission_step repairSlots idle (Admit (2::nat)) \<lparr>ad_used = 1, ad_running = 2 # ad_running idle\<rparr>"
    by (rule admit) (simp add: tryAcquire_def repairSlots_def idle_def)
  from admission_run.snoc [OF admission_run.snoc [OF a b] c] show ?thesis by (simp add: idle_def)
qed

theorem repairs_do_not_overlap_witness: "Finish (1::nat) \<in> set [Finish 1]"
  by (rule repairs_do_not_overlap [OF example_two_repairs])

end
