(* ===== verification/Gateway.thy ===== *)
theory Gateway
  imports Policy_Correct Tokens_Correct Docker Status Slots
begin

text \<open>
  The MCP gateway of \<open>internal/server/server.go\<close>: the tool catalog with its targets and handlers,
  authorization, the middleware around the MCP SDK, the registration of tools and the HTTP
  transport that authenticates each request. The SDK is third-party code: the rest of its pipeline
  is the parameter \<open>next\<close> of the middleware and \<open>serve\<close> of the transport. The adapters behind the
  interfaces \<open>status.Reader\<close>, \<open>containers.Reader\<close> and \<open>RepairService\<close> are records of functions;
  decoding the JSON arguments of a tool is the parameter \<open>unmarshal\<close>.
\<close>

section \<open>Data\<close>

record tool_args =
  ar_Name :: string
  ar_ID :: string
  ar_Limit :: int

datatype args_type =
    HostStatusArgs | DockerStatusArgs | ListContainersArgs | ListServicesArgs
  | ServiceStatusArgs | RestartServiceArgs | ServiceLogsArgs
  | ContainerStatusArgs | ContainerStatsArgs | ContainerLogsArgs | RestartContainerArgs

type_synonym unmarshal = "args_type \<Rightarrow> bytes \<Rightarrow> (string, tool_args) result"

record host_reader =
  rd_Host :: "(string \<Rightarrow> bool) option \<Rightarrow> host_status"
  rd_Service :: "string \<Rightarrow> (string, service) result"
  rd_Services :: "(string \<Rightarrow> bool) option \<Rightarrow> (string, service_inventory) result"
  rd_ServiceLogs :: "string \<Rightarrow> int \<Rightarrow> (string, service_log) result"

record docker_reader =
  dr_Engine :: "(string, engine) result"
  dr_Containers :: "(string, inventory) result"
  dr_Container :: "string \<Rightarrow> (string, container) result"
  dr_Stats :: "string \<Rightarrow> (string, container_stats) result"
  dr_Logs :: "string \<Rightarrow> int \<Rightarrow> (string, container_log) result"

record repair_service =
  rp_RestartService :: "string \<Rightarrow> string \<Rightarrow> (string, service_restart) result"
  rp_RestartContainer :: "string \<Rightarrow> string \<Rightarrow> (string, container_restart) result"

record app =
  ap_Policy :: policy
  ap_ReadOnly :: bool
  ap_Tokens :: store
  ap_Host :: host_reader
  ap_Docker :: "docker_reader option"
  ap_Repair :: "repair_service option"

record credential =
  cd_record :: token
  cd_secret :: string

text \<open>A target function: fixed, or a field of the decoded arguments.\<close>

datatype target_fn = FixedTarget string | TypedTarget args_type "tool_args \<Rightarrow> string"

datatype tool_handler =
    HostStatus | ListServices | ServiceStatus | ServiceLog | DockerStatus | ListContainers
  | ContainerStatus | ContainerStats | ContainerLog | RestartServiceTool | RestartContainerTool

record tool_definition =
  td_name :: string
  td_description :: string
  td_effect :: effect
  td_docker :: bool
  td_collection :: bool
  td_target :: target_fn
  td_validTarget :: "(string \<Rightarrow> bool) option"
  td_register :: tool_handler

datatype target_error = InvalidTargetArguments | EmptyTarget

datatype tool_result =
    HostStatusResult host_status
  | ServicesResult service_inventory
  | ServiceStatusResult service
  | ServiceLogResult service_log
  | DockerStatusResult "engine option" "issue list"
  | ContainersResult inventory
  | ContainerStatusResult container
  | ContainerStatsResult container_stats
  | ContainerLogResult container_log
  | RestartServiceResult service_restart
  | RestartContainerResult container_restart

text \<open>A request that a handler sends to the repair worker.\<close>

record repair_request =
  rq_Secret :: string
  rq_Tool :: string
  rq_Target :: string

section \<open>Targets and the catalog\<close>

definition toolTarget :: "unmarshal \<Rightarrow> target_fn \<Rightarrow> bytes \<Rightarrow> (target_error, string) result" where
  "toolTarget um spec raw =
     (case spec of
        FixedTarget v \<Rightarrow> Inr v
      | TypedTarget ty field \<Rightarrow>
          (case um ty raw of
             Inl e \<Rightarrow> Inl InvalidTargetArguments
           | Inr args \<Rightarrow> (let resource = field args in if resource = [] then Inl EmptyTarget else Inr resource)))"

definition tool :: "string \<Rightarrow> string \<Rightarrow> effect \<Rightarrow> bool \<Rightarrow> bool \<Rightarrow> target_fn \<Rightarrow> (string \<Rightarrow> bool) option \<Rightarrow> tool_handler
    \<Rightarrow> tool_definition" where
  "tool name desc eff docker coll target valid register =
     \<lparr>td_name = name, td_description = desc, td_effect = eff, td_docker = docker, td_collection = coll,
      td_target = target, td_validTarget = valid, td_register = register\<rparr>"

definition catalog :: "tool_definition list" where
  "catalog =
    [tool ''host_status'' ''Observe current host identity and resource status.'' EffectObserve False False
       (FixedTarget ''host'') None HostStatus,
     tool ''list_services'' ''List permitted native services within a fixed limit.'' EffectObserve False True
       (FixedTarget ''*'') None ListServices,
     tool ''service_status'' ''Observe one permitted native service.'' EffectObserve False False
       (TypedTarget ServiceStatusArgs ar_Name) None ServiceStatus,
     tool ''service_logs'' ''Read bounded recent journal entries for one permitted service.'' EffectObserve False False
       (TypedTarget ServiceLogsArgs ar_Name) None ServiceLog,
     tool ''docker_status'' ''Observe the configured local Docker Engine.'' EffectObserve True False
       (FixedTarget ''engine'') None DockerStatus,
     tool ''list_docker_containers'' ''Observe permitted current Docker container states.'' EffectObserve True True
       (FixedTarget ''*'') None ListContainers,
     tool ''container_status'' ''Observe one permitted Docker container by stable ID.'' EffectObserve True False
       (TypedTarget ContainerStatusArgs ar_ID) (Some validID) ContainerStatus,
     tool ''container_stats'' ''Observe one permitted Docker container resource sample.'' EffectObserve True False
       (TypedTarget ContainerStatsArgs ar_ID) (Some validID) ContainerStats,
     tool ''container_logs'' ''Read bounded recent logs for one permitted Docker container.'' EffectObserve True False
       (TypedTarget ContainerLogsArgs ar_ID) (Some validID) ContainerLog,
     tool ''restart_service'' ''Restart one explicitly permitted native service.'' EffectRepair False False
       (TypedTarget RestartServiceArgs ar_Name) None RestartServiceTool,
     tool ''restart_container'' ''Restart one explicitly permitted Docker container.'' EffectRepair True False
       (TypedTarget RestartContainerArgs ar_ID) (Some validID) RestartContainerTool]"

fun findIn :: "string \<Rightarrow> tool_definition list \<Rightarrow> tool_definition option" where
  "findIn name [] = None"
| "findIn name (item # items) = (if td_name item = name then Some item else findIn name items)"

definition findTool :: "string \<Rightarrow> tool_definition option" where
  "findTool name = findIn name catalog"

text \<open>\<open>ToolEffects\<close> panics on a duplicate name, which is \<open>None\<close>.\<close>

fun addEffects :: "tool_definition list \<Rightarrow> tools \<Rightarrow> tools option" where
  "addEffects [] effects = Some effects"
| "addEffects (item # items) effects =
     (if effects (td_name item) \<noteq> None then None
      else addEffects items (effects(td_name item \<mapsto> td_effect item)))"

definition ToolEffects :: "tools option" where
  "ToolEffects = addEffects catalog Map.empty"

section \<open>Authorization\<close>

definition hasRole :: "token \<Rightarrow> role \<Rightarrow> bool" where
  "hasRole record' role = list_ex (\<lambda>candidate. candidate = role) (t_Roles record')"

definition authorize :: "app \<Rightarrow> token \<Rightarrow> tool_definition \<Rightarrow> string \<Rightarrow> bool \<Rightarrow> bool" where
  "authorize a record' d resource discovery =
     (if td_effect d = EffectRepair \<and> ap_ReadOnly a then False
      else if \<not> discovery \<and> (case td_validTarget d of None \<Rightarrow> False | Some valid \<Rightarrow> \<not> valid resource) then False
      else
        (let role = (if td_effect d = EffectRepair then RoleRepair else RoleObserve) in
         if \<not> hasRole record' role \<or> td_docker d \<and> ap_Docker a = None
            \<or> td_effect d = EffectRepair \<and> ap_Repair a = None
         then False
         else if discovery \<or> td_collection d then Advertises (ap_Policy a) (td_effect d) (td_name d)
         else Allows (ap_Policy a) (td_effect d) (td_name d) resource))"

definition bearer :: "string \<Rightarrow> string \<times> bool" where
  "bearer header =
     (case Cut header (CHR '' '') of
        (scheme, secret, found) \<Rightarrow>
          (secret, found \<and> EqualFold scheme ''Bearer'' \<and> secret \<noteq> []
             \<and> \<not> ContainsAny secret [CHR '' '', CHR 0x09, CHR 0x0D, CHR 0x0A]))"

section \<open>Handlers\<close>

text \<open>
  The handlers that \<open>register\<close> binds to the catalog entries, for a request context with the given
  credential. The second result lists the requests sent to the repair worker. The Docker handlers
  are registered only when a Docker reader is configured, the restart handlers only with a repair
  service.
\<close>

definition runHandler :: "app \<Rightarrow> credential option \<Rightarrow> string \<Rightarrow> tool_handler \<Rightarrow> tool_args
    \<Rightarrow> (string, tool_result) result \<times> repair_request list" where
  "runHandler a ident name handler args =
     (case handler of
        HostStatus \<Rightarrow>
          (let permitted = (if Advertises (ap_Policy a) EffectObserve ''service_status''
                            then Some (\<lambda>n. Allows (ap_Policy a) EffectObserve ''service_status'' n) else None)
           in (Inr (HostStatusResult (rd_Host (ap_Host a) permitted)), []))
      | ListServices \<Rightarrow>
          (case rd_Services (ap_Host a) (Some (\<lambda>n. Allows (ap_Policy a) EffectObserve name n)) of
             Inl e \<Rightarrow> (Inl e, [])
           | Inr v \<Rightarrow> (Inr (ServicesResult v), []))
      | ServiceStatus \<Rightarrow>
          (case rd_Service (ap_Host a) (ar_Name args) of
             Inl e \<Rightarrow> (Inl e, []) | Inr v \<Rightarrow> (Inr (ServiceStatusResult v), []))
      | ServiceLog \<Rightarrow>
          (case rd_ServiceLogs (ap_Host a) (ar_Name args) (ar_Limit args) of
             Inl e \<Rightarrow> (Inl e, []) | Inr v \<Rightarrow> (Inr (ServiceLogResult v), []))
      | RestartServiceTool \<Rightarrow>
          (case (ident, ap_Repair a) of
             (Some c, Some r) \<Rightarrow>
               ((case rp_RestartService r (cd_secret c) (ar_Name args) of
                   Inl e \<Rightarrow> Inl e | Inr v \<Rightarrow> Inr (RestartServiceResult v)),
                [\<lparr>rq_Secret = cd_secret c, rq_Tool = ''restart_service'', rq_Target = ar_Name args\<rparr>])
           | _ \<Rightarrow> (Inl ''missing request authentication'', []))
      | RestartContainerTool \<Rightarrow>
          (case (ident, ap_Repair a) of
             (Some c, Some r) \<Rightarrow>
               ((case rp_RestartContainer r (cd_secret c) (ar_ID args) of
                   Inl e \<Rightarrow> Inl e | Inr v \<Rightarrow> Inr (RestartContainerResult v)),
                [\<lparr>rq_Secret = cd_secret c, rq_Tool = ''restart_container'', rq_Target = ar_ID args\<rparr>])
           | _ \<Rightarrow> (Inl ''missing request authentication'', []))
      | _ \<Rightarrow>
          (case ap_Docker a of
             None \<Rightarrow> (Inl ''docker not configured'', [])
           | Some docker \<Rightarrow>
               ((case handler of
                   DockerStatus \<Rightarrow>
                     (case dr_Engine docker of
                        Inl e \<Rightarrow> Inr (DockerStatusResult None [Issue ''docker'' ''unavailable''])
                      | Inr v \<Rightarrow> Inr (DockerStatusResult (Some v) []))
                 | ListContainers \<Rightarrow>
                     (case dr_Containers docker of
                        Inl e \<Rightarrow> Inl e
                      | Inr v \<Rightarrow> Inr (ContainersResult (v\<lparr>i_Containers :=
                          filter (\<lambda>item. Allows (ap_Policy a) EffectObserve name (c_ID item)) (i_Containers v)\<rparr>)))
                 | ContainerStatus \<Rightarrow>
                     (case dr_Container docker (ar_ID args) of Inl e \<Rightarrow> Inl e | Inr v \<Rightarrow> Inr (ContainerStatusResult v))
                 | ContainerStats \<Rightarrow>
                     (case dr_Stats docker (ar_ID args) of Inl e \<Rightarrow> Inl e | Inr v \<Rightarrow> Inr (ContainerStatsResult v))
                 | _ \<Rightarrow>
                     (case dr_Logs docker (ar_ID args) (ar_Limit args) of
                        Inl e \<Rightarrow> Inl e | Inr v \<Rightarrow> Inr (ContainerLogResult v))), [])))"

section \<open>Middleware, registration and transport\<close>

record call_params =
  cp_Name :: string
  cp_Arguments :: bytes

record mcp_tool =
  mt_Name :: string
  mt_Description :: string

datatype mcp_request = CallToolRequest "call_params option" | OtherRequest

datatype 'r mcp_result = ListToolsResult "mcp_tool list" | OtherResult 'r

datatype mcp_error =
    Unauthorized
  | InvalidToolRequest
  | UnknownTool
  | ToolDenied
  | UnexpectedListing
  | NextError string

type_synonym 'r method_handler = "string \<Rightarrow> mcp_request \<Rightarrow> (string, 'r mcp_result) result"

text \<open>The second result says whether the rest of the pipeline was invoked.\<close>

definition middleware :: "app \<Rightarrow> unmarshal \<Rightarrow> credential option \<Rightarrow> 'r method_handler \<Rightarrow> string \<Rightarrow> mcp_request
    \<Rightarrow> (mcp_error, 'r mcp_result) result \<times> bool" where
  "middleware a um ident next meth request =
     (let passed = (case next meth request of Inl e \<Rightarrow> Inl (NextError e) | Inr v \<Rightarrow> Inr v) in
      if meth \<noteq> ''tools/list'' \<and> meth \<noteq> ''tools/call'' then (passed, True)
      else
        (case ident of
           None \<Rightarrow> (Inl Unauthorized, False)
         | Some c \<Rightarrow>
             (if meth = ''tools/call''
              then
                (case request of
                   CallToolRequest (Some params) \<Rightarrow>
                     (case findTool (cp_Name params) of
                        None \<Rightarrow> (Inl UnknownTool, False)
                      | Some d \<Rightarrow>
                          (case toolTarget um (td_target d) (cp_Arguments params) of
                             Inl e \<Rightarrow> (Inl ToolDenied, False)
                           | Inr resource \<Rightarrow>
                               (if \<not> authorize a (cd_record c) d resource False then (Inl ToolDenied, False)
                                else (passed, True))))
                 | _ \<Rightarrow> (Inl InvalidToolRequest, False))
              else
                (case passed of
                   Inl e \<Rightarrow> (Inl e, True)
                 | Inr (ListToolsResult offered) \<Rightarrow>
                     (Inr (ListToolsResult (filter (\<lambda>t. case findTool (mt_Name t) of
                          None \<Rightarrow> False | Some d \<Rightarrow> authorize a (cd_record c) d [] True) offered)), True)
                 | Inr _ \<Rightarrow> (Inl UnexpectedListing, True)))))"

definition registered :: "app \<Rightarrow> tool_definition list" where
  "registered a =
     filter (\<lambda>d. \<not> (td_effect d = EffectRepair \<and> (ap_ReadOnly a \<or> ap_Repair a = None)
                    \<or> td_docker d \<and> ap_Docker a = None
                    \<or> \<not> Advertises (ap_Policy a) (td_effect d) (td_name d))) catalog"

datatype 'a gateway_reply = GatewayBusy | GatewayUnauthorized | GatewayServed 'a

definition gatewayTransport :: "bool \<Rightarrow> (string \<Rightarrow> (store_error, token) result) \<Rightarrow> string \<Rightarrow> (credential \<Rightarrow> 'a)
    \<Rightarrow> 'a gateway_reply" where
  "gatewayTransport slot verify header serve =
     (if \<not> slot then GatewayBusy
      else
        (case bearer header of
           (secret, ok) \<Rightarrow>
             (if \<not> ok then GatewayUnauthorized
              else
                (case verify secret of
                   Inl e \<Rightarrow> GatewayUnauthorized
                 | Inr record' \<Rightarrow> GatewayServed (serve \<lparr>cd_record = record', cd_secret = secret\<rparr>)))))"

end
