(* ===== verification/LocalIPC.thy ===== *)
theory LocalIPC
  imports Docker Trusted
begin

text \<open>
  What the two local workers share: the kernel's peer identity and the graceful stop of
  \<open>internal/localipc\<close>, and the life of the Unix socket in the \<open>Run\<close> methods of the observer and of
  the repair worker, which are the same code up to the serving itself.
\<close>

section \<open>Peer identity\<close>

text \<open>A connection: its dynamic type, and what the three system interfaces answer on it.\<close>

record connection =
  cn_IsUnix :: bool
  cn_SyscallConn :: "string option"
  cn_Control :: "string option"
  cn_Ucred :: "(string, uid) result"

definition PeerUID :: "connection \<Rightarrow> (string, uid) result" where
  "PeerUID conn =
     (if \<not> cn_IsUnix conn then Inl ''Unix connection required''
      else
        (case cn_SyscallConn conn of
           Some err \<Rightarrow> Inl err
         | None \<Rightarrow>
             (case cn_Control conn of
                Some err \<Rightarrow> Inl err
              | None \<Rightarrow> (case cn_Ucred conn of Inl socketErr \<Rightarrow> Inl socketErr | Inr identity \<Rightarrow> Inr identity))))"

text \<open>The connection context of the servers: the peer's user, or the largest one if it is unknown.\<close>

definition peerContext :: "connection \<Rightarrow> uid" where
  "peerContext conn = (case PeerUID conn of Inl err \<Rightarrow> NOT 0 | Inr u \<Rightarrow> u)"

text \<open>The dial of the clients: a connection whose peer is not the expected user is closed.\<close>

datatype dial_error = DialFailed string | PeerMismatch

definition dialPeer :: "uid \<Rightarrow> (string, connection) result \<Rightarrow> (dial_error, connection) result" where
  "dialPeer expectedUID dialed =
     (case dialed of
        Inl err \<Rightarrow> Inl (DialFailed err)
      | Inr conn \<Rightarrow>
          (case PeerUID conn of
             Inl err \<Rightarrow> Inl PeerMismatch
           | Inr u \<Rightarrow> if u \<noteq> expectedUID then Inl PeerMismatch else Inr conn))"

lemma dialPeer_Inr: "dialPeer u dialed = Inr conn \<longleftrightarrow> dialed = Inr conn \<and> PeerUID conn = Inr u"
  by (auto simp: dialPeer_def split: sum.splits if_splits)

lemma peerContext_known: "peerContext conn = u \<Longrightarrow> u \<noteq> NOT 0 \<Longrightarrow> PeerUID conn = Inr u"
  by (auto simp: peerContext_def split: sum.splits)

text \<open>A response as the clients see it: status, declared length and the body as a stream.\<close>

record http_reply =
  hr_Status :: int
  hr_ContentLength :: int
  hr_Body :: "bytes \<times> body_end"

section \<open>Serving until stopped\<close>

text \<open>
  \<open>server.Serve\<close> always returns an error, \<open>http.ErrServerClosed\<close> after a shutdown or close. The
  \<open>select\<close> takes one of its two cases; \<open>sv_Select\<close> tells which.
\<close>

datatype serve_error = ErrServerClosed | ServeFailed string

datatype serve_select = ServedFirst | DoneFirst

record serve_run =
  sv_Select :: serve_select
  sv_ServeErr :: serve_error
  sv_Cancelled :: bool
  sv_ShutdownErr :: "string option"

datatype serve_action = Shutdown int | CloseServer | ReceiveServed

datatype stop_error = ServeError serve_error | WorkerShutdown string

definition ServeUntilStopped :: "serve_run \<Rightarrow> int \<Rightarrow> stop_error option \<times> serve_action list" where
  "ServeUntilStopped run timeout =
     (let serveReturned = (sv_Select run = ServedFirst);
          first = (if serveReturned then [ReceiveServed] else [])
      in
      if serveReturned \<and> \<not> sv_Cancelled run then (Some (ServeError (sv_ServeErr run)), first)
      else
        (let shutdownErr = sv_ShutdownErr run;
             acts = first @ [Shutdown timeout]
               @ (if shutdownErr \<noteq> None then [CloseServer] else [])
               @ (if \<not> serveReturned then [ReceiveServed] else [])
         in
         (case shutdownErr of
            Some err \<Rightarrow> Some (WorkerShutdown err)
          | None \<Rightarrow> (if sv_ServeErr run = ErrServerClosed then None else Some (ServeError (sv_ServeErr run))),
          acts)))"

lemma ServeUntilStopped_received: "count_list (snd (ServeUntilStopped run timeout)) ReceiveServed = 1"
  by (simp add: ServeUntilStopped_def Let_def)

section \<open>The life of a worker's socket\<close>

text \<open>
  A socket file: the identity that \<open>os.SameFile\<close> compares, its permissions and its group. \<open>sk_Serve\<close>
  is what happens to the directory while the server runs, by other processes too: it gives the
  directory, whether the server closed the listener, and the error that serving returns. Closing a
  Unix listener unlinks its path, once. The mode \<open>0x1B0\<close> is octal 0660.
\<close>

record sock_node =
  sn_ID :: nat
  sn_Mode :: mode
  sn_GID :: int

type_synonym sock_dir = "string \<rightharpoonup> sock_node"

record socket_env =
  sk_Node :: sock_node
  sk_Listen :: "string option"
  sk_Lstat :: "string option"
  sk_Chmod :: "string option"
  sk_Chown :: "string option"
  sk_Serve :: "sock_dir \<Rightarrow> sock_dir \<times> bool \<times> string option"
  sk_LstatEnd :: "string option"

definition closeListener :: "string \<Rightarrow> bool \<Rightarrow> sock_dir \<Rightarrow> sock_dir" where
  "closeListener path closed d = (if closed then d else d(path := None))"

text \<open>The deferred function: the path is removed only if it still is the file created at the start.\<close>

definition removeCreated :: "socket_env \<Rightarrow> string \<Rightarrow> sock_node \<Rightarrow> sock_dir \<Rightarrow> sock_dir" where
  "removeCreated env path created d =
     (case d path of
        None \<Rightarrow> d
      | Some info \<Rightarrow>
          (if sk_LstatEnd env = None \<and> sn_ID created = sn_ID info then d(path := None) else d))"

definition runSocket :: "socket_env \<Rightarrow> string \<Rightarrow> int \<Rightarrow> sock_dir \<Rightarrow> string option \<times> sock_dir" where
  "runSocket env path sharedGID d =
     (if d path \<noteq> None then (Some ''address already in use'', d)
      else
        (case sk_Listen env of
           Some err \<Rightarrow> (Some err, d)
         | None \<Rightarrow>
             (let d = d(path \<mapsto> sk_Node env) in
              case sk_Lstat env of
                Some err \<Rightarrow> (Some err, closeListener path False d)
              | None \<Rightarrow>
                  (let created = sk_Node env;
                       finish = (\<lambda>closed d. closeListener path closed (removeCreated env path created d))
                   in
                   case sk_Chmod env of
                     Some err \<Rightarrow> (Some err, finish False d)
                   | None \<Rightarrow>
                       (let d = d(path \<mapsto> (sk_Node env)\<lparr>sn_Mode := 0x1B0\<rparr>) in
                        case (if sharedGID > 0 then sk_Chown env else None) of
                          Some err \<Rightarrow> (Some err, finish False d)
                        | None \<Rightarrow>
                            (let d = (if sharedGID > 0
                                      then d(path \<mapsto> (sk_Node env)\<lparr>sn_Mode := 0x1B0, sn_GID := sharedGID\<rparr>) else d);
                                 (d, closed, err) = sk_Serve env d
                             in (err, finish closed d)))))))"

text \<open>The directory that serving starts with, when it is reached.\<close>

definition served_dir :: "socket_env \<Rightarrow> string \<Rightarrow> int \<Rightarrow> sock_dir \<Rightarrow> sock_dir" where
  "served_dir env path sharedGID d = d(path \<mapsto> (sk_Node env)\<lparr>sn_Mode := 0x1B0,
     sn_GID := (if sharedGID > 0 then sharedGID else sn_GID (sk_Node env))\<rparr>)"

lemma removeCreated_other: "q \<noteq> path \<Longrightarrow> removeCreated env path created d q = d q"
  by (simp add: removeCreated_def split: option.split)

lemma runSocket_cases:
  obtains (failed) "fst (runSocket env path g d) \<noteq> None" "d path = None \<Longrightarrow> snd (runSocket env path g d) = d"
      "d path \<noteq> None \<Longrightarrow> snd (runSocket env path g d) = d"
  | (served) d' closed err where "d path = None" "sk_Serve env (served_dir env path g d) = (d', closed, err)"
      "runSocket env path g d = (err, closeListener path closed (removeCreated env path (sk_Node env) d'))"
proof (cases "d path = None \<and> sk_Listen env = None \<and> sk_Lstat env = None \<and> sk_Chmod env = None
    \<and> (g > 0 \<longrightarrow> sk_Chown env = None)")
  case True
  obtain d' closed err where s: "sk_Serve env (served_dir env path g d) = (d', closed, err)"
    by (cases "sk_Serve env (served_dir env path g d)") auto
  show thesis
    by (rule served [OF _ s]) (use True s in \<open>auto simp: runSocket_def served_dir_def Let_def split: option.splits if_splits\<close>)
next
  case False
  have id: "d path = None \<Longrightarrow> (removeCreated env path c (d(path \<mapsto> n)))(path := None) = d" for c n
    by (auto simp: removeCreated_def fun_eq_iff split: option.splits)
  have upd: "d path = None \<Longrightarrow> d(path := None) = d" by auto
  show thesis
    by (rule failed) (use False in \<open>auto simp: runSocket_def Let_def closeListener_def id upd split: option.splits if_splits\<close>)
qed

section \<open>Properties\<close>

text \<open>
  The life of a worker's socket. Either the set-up fails with an error and leaves the directory
  as it was (a file already at the path included), or the server runs with a socket of mode 0660 in
  the shared group at the path. When it has returned, no other path was changed; if the server had
  not closed its listener the path is gone, and if it had, the path is removed only if it still is
  the file created at the start: a socket that another process put there meanwhile stays.
\<close>

theorem worker_socket_lifecycle:
  "(fst (runSocket env path g d) \<noteq> None \<and> snd (runSocket env path g d) = d)
   \<or> (d path = None \<and> (\<exists>d' closed err. sk_Serve env (served_dir env path g d) = (d', closed, err)
        \<and> fst (runSocket env path g d) = err
        \<and> snd (runSocket env path g d) = d'(path :=
             (if \<not> closed then None
              else if sk_LstatEnd env = None \<and> map_option sn_ID (d' path) = Some (sn_ID (sk_Node env)) then None
              else d' path))))"
proof (cases rule: runSocket_cases [where env = env and path = path and g = g and d = d])
  case failed
  then show ?thesis by blast
next
  case (served d' closed err)
  have "closeListener path closed (removeCreated env path (sk_Node env) d') = d'(path :=
             (if \<not> closed then None
              else if sk_LstatEnd env = None \<and> map_option sn_ID (d' path) = Some (sn_ID (sk_Node env)) then None
              else d' path))"
    by (auto simp: closeListener_def removeCreated_def fun_eq_iff split: option.split)
  with served show ?thesis by simp
qed

text \<open>
  CN: a worker returns from serving only after \<open>Serve\<close> has returned, exactly once received. It returns
  without error exactly when it was asked to stop, the shutdown waited for the handlers in time and
  \<open>Serve\<close> ended by it; a shutdown that fails is followed by a close, which cancels the handlers that
  remain, before \<open>Serve\<close> is waited for.
\<close>

theorem stop_waits_for_serve:
  "count_list (snd (ServeUntilStopped run timeout)) ReceiveServed = 1
   \<and> (fst (ServeUntilStopped run timeout) = None \<longleftrightarrow>
        (sv_Select run = DoneFirst \<or> sv_Cancelled run) \<and> sv_ShutdownErr run = None \<and> sv_ServeErr run = ErrServerClosed)
   \<and> (CloseServer \<in> set (snd (ServeUntilStopped run timeout)) \<longleftrightarrow>
        (sv_Select run = DoneFirst \<or> sv_Cancelled run) \<and> sv_ShutdownErr run \<noteq> None)
   \<and> (sv_Select run = DoneFirst \<longleftrightarrow> last (snd (ServeUntilStopped run timeout)) = ReceiveServed \<and> Shutdown timeout \<in> set (snd (ServeUntilStopped run timeout)))"
proof (cases "sv_Select run")
  case ServedFirst
  then show ?thesis by (cases "sv_Cancelled run"; cases "sv_ShutdownErr run") (simp_all add: ServeUntilStopped_def Let_def)
next
  case DoneFirst
  then show ?thesis by (cases "sv_ShutdownErr run") (simp_all add: ServeUntilStopped_def Let_def)
qed

end
