(* ===== verification/Observer.thy ===== *)
theory Observer
  imports Gateway LocalIPC
begin

text \<open>
  The Docker observer of \<open>internal/observer/observer_linux.go\<close>: the HTTP handler that serves a
  Docker reader on a local socket, and the client that gives the gateway a Docker reader again. JSON
  is a parameter: an encoder of the five observations and a strict decoder for each.
\<close>

section \<open>URLs\<close>

text \<open>
  What \<open>net/url\<close> does with the request targets: the path up to the question mark and the query
  values, with percent escapes decoded; in a query a plus sign is a space.
\<close>

definition unhex :: "char \<Rightarrow> nat option" where
  "unhex c =
     (if is_digit c then Some (of_char c - 48)
      else if CHR ''a'' \<le> c \<and> c \<le> CHR ''f'' then Some (of_char c - 87)
      else if CHR ''A'' \<le> c \<and> c \<le> CHR ''F'' then Some (of_char c - 55)
      else None)"

fun unescape :: "bool \<Rightarrow> string \<Rightarrow> string option" where
  "unescape query [] = Some []"
| "unescape query (c # s) =
     (if c = CHR ''%'' then
        (case s of
           h # l # rest \<Rightarrow>
             (case (unhex h, unhex l) of
                (Some a, Some b) \<Rightarrow> map_option (\<lambda>r. char_of (16 * a + b) # r) (unescape query rest)
              | _ \<Rightarrow> None)
         | _ \<Rightarrow> None)
      else map_option (\<lambda>r. (if query \<and> c = CHR ''+'' then CHR '' '' else c) # r) (unescape query s))"

definition parseRequestURI :: "string \<Rightarrow> (string \<times> string) option" where
  "parseRequestURI uri =
     (case Cut uri (CHR ''?'') of (path, query, _) \<Rightarrow> map_option (\<lambda>p. (p, query)) (unescape False path))"

definition queryPair :: "string \<Rightarrow> (string \<times> string) option" where
  "queryPair field =
     (if contains_char field (CHR '';'') \<or> field = [] then None
      else
        (case Cut field (CHR ''='') of
           (key, v, _) \<Rightarrow>
             (case (unescape True key, unescape True v) of (Some k, Some w) \<Rightarrow> Some (k, w) | _ \<Rightarrow> None)))"

definition queryGet :: "string \<Rightarrow> string \<Rightarrow> string" where
  "queryGet key query =
     (case filter (\<lambda>(k, v). k = key) (List.map_filter queryPair (Split query (CHR ''&''))) of
        [] \<Rightarrow> [] | (k, v) # _ \<Rightarrow> v)"

section \<open>The server\<close>

definition maxMessageBytes :: int where
  "maxMessageBytes = 1048576"

record observer_server =
  ob_Socket :: string
  ob_GatewayUID :: uid
  ob_SharedGID :: int
  ob_Docker :: "docker_reader option"

datatype observation =
    EngineValue engine
  | InventoryValue inventory
  | ContainerValue container
  | StatsValue container_stats
  | LogsValue container_log

record obs_codec =
  oc_Marshal :: "observation \<Rightarrow> (string, bytes) result"
  oc_Engine :: "bytes \<Rightarrow> (string, engine) result"
  oc_Inventory :: "bytes \<Rightarrow> (string, inventory) result"
  oc_Container :: "bytes \<Rightarrow> (string, container) result"
  oc_Stats :: "bytes \<Rightarrow> (string, container_stats) result"
  oc_Logs :: "bytes \<Rightarrow> (string, container_log) result"
  oc_EOF :: "bytes \<Rightarrow> bool"

record obs_request =
  oq_Method :: string
  oq_ContentLength :: int
  oq_Path :: string
  oq_Query :: string

datatype obs_reply = ObsError int string | ObsData bytes

abbreviation notFound :: "(obs_reply, 'a) result" where
  "notFound \<equiv> Inl (ObsError 404 ''404 page not found'')"

text \<open>The \<open>switch\<close> on the path: an answer at once, or what the reader gave.\<close>

definition observe :: "docker_reader \<Rightarrow> string \<Rightarrow> string \<Rightarrow> (obs_reply, (string, observation) result) result" where
  "observe docker path query =
     (if path = ''/engine'' then Inr (map_sum id EngineValue (dr_Engine docker))
      else if path = ''/containers'' then Inr (map_sum id InventoryValue (dr_Containers docker))
      else if HasPrefix path ''/container/'' then
        (case Cut (TrimPrefix path ''/container/'') (CHR ''/'') of
           (i, operation, extended) \<Rightarrow>
             (if \<not> validID i then notFound
              else if \<not> extended then Inr (map_sum id ContainerValue (dr_Container docker i))
              else if operation = ''stats'' then Inr (map_sum id StatsValue (dr_Stats docker i))
              else if operation = ''logs'' then
                (case Atoi (queryGet ''limit'' query) of
                   None \<Rightarrow> Inl (ObsError 400 ''invalid log limit'')
                 | Some limit \<Rightarrow>
                     (if limit < 1 \<or> limit > 100 then Inl (ObsError 400 ''invalid log limit'')
                      else Inr (map_sum id LogsValue (dr_Logs docker i limit))))
              else notFound))
      else notFound)"

definition serveObserver :: "bool \<Rightarrow> uid \<Rightarrow> docker_reader \<Rightarrow> obs_codec \<Rightarrow> connection \<Rightarrow> obs_request \<Rightarrow> obs_reply" where
  "serveObserver slot gatewayUID docker codec conn req =
     (if \<not> slot then ObsError 503 ''busy''
      else if peerContext conn \<noteq> gatewayUID then ObsError 403 ''forbidden''
      else if oq_Method req \<noteq> ''GET'' \<or> oq_ContentLength req \<noteq> 0 then ObsError 405 ''method denied''
      else
        (case observe docker (oq_Path req) (oq_Query req) of
           Inl reply \<Rightarrow> reply
         | Inr (Inl err) \<Rightarrow> ObsError 503 ''Docker observation unavailable''
         | Inr (Inr v) \<Rightarrow>
             (case oc_Marshal codec v of
                Inl err \<Rightarrow> ObsError 503 ''observation exceeds limit''
              | Inr data \<Rightarrow>
                  (if int (length data) > maxMessageBytes then ObsError 503 ''observation exceeds limit''
                   else ObsData data))))"

definition runObserver :: "socket_env \<Rightarrow> observer_server \<Rightarrow> sock_dir \<Rightarrow> string option \<times> sock_dir" where
  "runObserver env s d =
     (if ob_Socket s = [] \<or> ob_Docker s = None then (Some ''observer socket and Docker reader required'', d)
      else runSocket env (ob_Socket s) (ob_SharedGID s) d)"

section \<open>The client\<close>

datatype observer_error =
    ObsUnavailable dial_error
  | ObsTransport string
  | ObsRefused int
  | ObsExceedsLimit
  | ObsInvalid string
  | ObsTrailing
  | InvalidContainerID
  | InvalidIDOrLimit

record obs_link =
  ol_UID :: uid
  ol_Dialed :: "(string, connection) result"
  ol_HTTP :: "connection \<Rightarrow> string \<Rightarrow> (string, http_reply) result"

definition observerGet :: "obs_link \<Rightarrow> (bytes \<Rightarrow> bool) \<Rightarrow> (bytes \<Rightarrow> (string, 'a) result) \<Rightarrow> string
    \<Rightarrow> (observer_error, 'a) result" where
  "observerGet link atEOF decode endpoint =
     (case dialPeer (ol_UID link) (ol_Dialed link) of
        Inl e \<Rightarrow> Inl (ObsUnavailable e)
      | Inr conn \<Rightarrow>
          (case ol_HTTP link conn endpoint of
             Inl e \<Rightarrow> Inl (ObsTransport e)
           | Inr response \<Rightarrow>
               (if hr_Status response \<noteq> 200 \<or> hr_ContentLength response > maxMessageBytes
                then Inl (ObsRefused (hr_Status response))
                else
                  (case readAllLimit (maxMessageBytes + 1) (hr_Body response) of
                     (data, err) \<Rightarrow>
                       (if err \<noteq> BodyEOF \<or> int (length data) > maxMessageBytes then Inl ObsExceedsLimit
                        else
                          (case decode data of
                             Inl e \<Rightarrow> Inl (ObsInvalid e)
                           | Inr r \<Rightarrow> if \<not> atEOF data then Inl ObsTrailing else Inr r))))))"

definition clientEngine :: "obs_link \<Rightarrow> obs_codec \<Rightarrow> (observer_error, engine) result" where
  "clientEngine link codec = observerGet link (oc_EOF codec) (oc_Engine codec) ''/engine''"

definition clientContainers :: "obs_link \<Rightarrow> obs_codec \<Rightarrow> (observer_error, inventory) result" where
  "clientContainers link codec = observerGet link (oc_EOF codec) (oc_Inventory codec) ''/containers''"

definition clientContainer :: "obs_link \<Rightarrow> obs_codec \<Rightarrow> string \<Rightarrow> (observer_error, container) result" where
  "clientContainer link codec i =
     (if \<not> validID i then Inl InvalidContainerID
      else observerGet link (oc_EOF codec) (oc_Container codec) (''/container/'' @ i))"

definition clientStats :: "obs_link \<Rightarrow> obs_codec \<Rightarrow> string \<Rightarrow> (observer_error, container_stats) result" where
  "clientStats link codec i =
     (if \<not> validID i then Inl InvalidContainerID
      else observerGet link (oc_EOF codec) (oc_Stats codec) (''/container/'' @ i @ ''/stats''))"

definition clientLogs :: "obs_link \<Rightarrow> obs_codec \<Rightarrow> string \<Rightarrow> int \<Rightarrow> (observer_error, container_log) result" where
  "clientLogs link codec i limit =
     (if \<not> validID i \<or> limit < 1 \<or> limit > 100 then Inl InvalidIDOrLimit
      else observerGet link (oc_EOF codec) (oc_Logs codec) (''/container/'' @ i @ ''/logs?limit='' @ Itoa limit))"

text \<open>
  The two ends joined: the request that \<open>get\<close> sends for an endpoint, and the response that the
  handler writes. A target that does not parse is answered by \<open>net/http\<close> itself.
\<close>

definition writeObservation :: "obs_reply \<Rightarrow> http_reply" where
  "writeObservation reply =
     (case reply of
        ObsError code message \<Rightarrow>
          \<lparr>hr_Status = code, hr_ContentLength = int (length message) + 1, hr_Body = (message @ [CHR 0x0A], BodyEOF)\<rparr>
      | ObsData data \<Rightarrow> \<lparr>hr_Status = 200, hr_ContentLength = int (length data), hr_Body = (data, BodyEOF)\<rparr>)"

definition sendObservation :: "bool \<Rightarrow> uid \<Rightarrow> docker_reader \<Rightarrow> obs_codec \<Rightarrow> connection \<Rightarrow> connection \<Rightarrow> string
    \<Rightarrow> (string, http_reply) result" where
  "sendObservation slot gatewayUID docker codec peer conn endpoint =
     (case parseRequestURI endpoint of
        None \<Rightarrow> Inr (writeObservation (ObsError 400 ''400 Bad Request''))
      | Some (path, query) \<Rightarrow>
          Inr (writeObservation (serveObserver slot gatewayUID docker codec peer
            \<lparr>oq_Method = ''GET'', oq_ContentLength = 0, oq_Path = path, oq_Query = query\<rparr>)))"

section \<open>Readers for full identifiers\<close>

text \<open>
  What the gateway relies on in a Docker reader, whether it is the engine's adapter or the observer's
  client: an observation of one container is only ever given for a full identifier, and logs only for
  a limit from 1 to 100.
\<close>

locale exact_reader =
  fixes container :: "string \<Rightarrow> ('e, container) result"
    and stats :: "string \<Rightarrow> ('e, container_stats) result"
    and logs :: "string \<Rightarrow> int \<Rightarrow> ('e, container_log) result"
  assumes container_id: "container i = Inr c \<Longrightarrow> validID i"
    and stats_id: "stats i = Inr st \<Longrightarrow> validID i"
    and logs_id: "logs i n = Inr l \<Longrightarrow> validID i \<and> 1 \<le> n \<and> n \<le> 100"
begin

lemma short_id_no_data: "length i \<noteq> 64 \<Longrightarrow> container i \<noteq> Inr c \<and> stats i \<noteq> Inr st \<and> logs i n \<noteq> Inr l"
  using container_id stats_id logs_id by (fastforce simp: validID_def)

end

interpretation engine_reader: exact_reader "\<lambda>i. fst (dockerContainer api k i)" "dockerStats api" "dockerLogs api" for api k
  by unfold_locales (auto simp: dockerContainer_def dockerStats_def dockerLogs_def split: if_splits)

interpretation observer_reader: exact_reader "clientContainer link codec" "clientStats link codec" "clientLogs link codec" for link codec
  by unfold_locales (auto simp: clientContainer_def clientStats_def clientLogs_def split: if_splits)

end
