(* ===== verification/Observer_Correct.thy ===== *)
theory Observer_Correct
  imports Observer
begin

text \<open>
  The observer is transparent: through client, socket and handler the gateway reads what the reader
  behind the observer answers. And it is closed: only the gateway's user gets data, and only through
  the five observations.
\<close>

section \<open>The targets of the client parse\<close>

lemma unescape_plain: "CHR ''%'' \<notin> set s \<Longrightarrow> CHR ''+'' \<notin> set s \<Longrightarrow> unescape query s = Some s"
  by (induction s) auto

lemma Cut_absent: "c \<notin> set s \<Longrightarrow> Cut s c = (s, [], False)"
  by (induction s) auto

lemma Cut_append: "c \<notin> set s \<Longrightarrow> Cut (s @ c # r) c = (s, r, True)"
  by (induction s) auto

definition id_char :: "char \<Rightarrow> bool" where
  "id_char c \<longleftrightarrow> \<not> (c < CHR ''0'' \<or> c > CHR ''9'' \<and> (c < CHR ''a'' \<or> c > CHR ''f''))"

lemma validID_chars:
  assumes "validID i"
  shows "CHR ''%'' \<notin> set i" "CHR ''+'' \<notin> set i" "CHR ''?'' \<notin> set i" "CHR ''/'' \<notin> set i"
proof -
  have "\<forall>c\<in>set i. id_char c" using assms by (simp add: validID_def list_all_iff id_char_def)
  moreover have "\<not> id_char (CHR ''%'')" "\<not> id_char (CHR ''+'')" "\<not> id_char (CHR ''?'')" "\<not> id_char (CHR ''/'')"
    by code_simp+
  ultimately show "CHR ''%'' \<notin> set i" "CHR ''+'' \<notin> set i" "CHR ''?'' \<notin> set i" "CHR ''/'' \<notin> set i" by blast+
qed

lemma parse_fixed: "parseRequestURI ''/engine'' = Some (''/engine'', [])" "parseRequestURI ''/containers'' = Some (''/containers'', [])"
  by code_simp+

lemma parse_container:
  assumes "validID i"
  shows "parseRequestURI (''/container/'' @ i) = Some (''/container/'' @ i, [])"
    "parseRequestURI (''/container/'' @ i @ ''/stats'') = Some (''/container/'' @ i @ ''/stats'', [])"
    "parseRequestURI (''/container/'' @ i @ ''/logs?limit='' @ n) = Some (''/container/'' @ i @ ''/logs'', ''limit='' @ n)"
proof -
  note ch = validID_chars [OF assms]
  show "parseRequestURI (''/container/'' @ i) = Some (''/container/'' @ i, [])"
    unfolding parseRequestURI_def using ch by (subst Cut_absent; simp add: unescape_plain)
  show "parseRequestURI (''/container/'' @ i @ ''/stats'') = Some (''/container/'' @ i @ ''/stats'', [])"
    unfolding parseRequestURI_def using ch by (subst Cut_absent; simp add: unescape_plain)
  have s: "''/container/'' @ i @ ''/logs?limit='' @ n = (''/container/'' @ i @ ''/logs'') @ CHR ''?'' # (''limit='' @ n)" by simp
  show "parseRequestURI (''/container/'' @ i @ ''/logs?limit='' @ n) = Some (''/container/'' @ i @ ''/logs'', ''limit='' @ n)"
    unfolding parseRequestURI_def s using ch by (subst Cut_append; simp add: unescape_plain)
qed

lemma digit_char: "d < 10 \<Longrightarrow> digit_value (digit_char d) = d \<and> is_digit (digit_char d)"
  by (auto simp: digit_value_def digit_char_def is_digit_def less_eq_char_def)

lemma nat_digits_decode: "digits_value (nat_digits n) = n \<and> list_all is_digit (nat_digits n) \<and> nat_digits n \<noteq> []"
proof (induction n rule: nat_digits.induct)
  case (1 n)
  show ?case
  proof (cases "n < 10")
    case True
    then show ?thesis using digit_char [OF True] by (subst (1 2 3) nat_digits.simps) (simp add: digits_value_def)
  next
    case False
    note ih = "1.IH" [OF False]
    have "n mod 10 < 10" by simp
    from digit_char [OF this] ih show ?thesis
      by (subst (1 2 3) nat_digits.simps) (simp add: digits_value_def False)
  qed
qed

lemma is_digit_plain: "is_digit c \<Longrightarrow> c \<noteq> CHR ''-'' \<and> c \<noteq> CHR ''+'' \<and> c \<noteq> CHR ''%'' \<and> c \<noteq> CHR '';'' \<and> c \<noteq> CHR ''='' \<and> c \<noteq> CHR ''&''"
  by (auto simp: is_digit_def less_eq_char_def)

lemma Atoi_digits:
  assumes "list_all is_digit s" "s \<noteq> []" "digits_value s < 2 ^ 63"
  shows "Atoi s = Some (int (digits_value s))"
proof -
  have "is_digit (hd s)" using assms(1,2) by (cases s) auto
  from is_digit_plain [OF this] have "hd s \<noteq> CHR ''-''" "hd s \<noteq> CHR ''+''" by auto
  moreover have "int (digits_value s) < 2 ^ 63" using assms(3) by (metis of_nat_less_iff of_nat_numeral of_nat_power)
  ultimately show ?thesis using assms(1,2) by (simp add: Atoi_def Let_def)
qed

lemma limit_query:
  assumes "1 \<le> n" "n \<le> 100"
  shows "Atoi (queryGet ''limit'' (''limit='' @ Itoa n)) = Some n"
proof -
  let ?s = "nat_digits (nat n)"
  have it: "Itoa n = ?s" using assms by (simp add: Itoa_def)
  note dec = nat_digits_decode [of "nat n"]
  have plain: "CHR ''%'' \<notin> set ?s" "CHR ''+'' \<notin> set ?s" "CHR '';'' \<notin> set ?s" "CHR ''&'' \<notin> set ?s"
    using dec is_digit_plain by (auto simp: list_all_iff)
  have "Split (''limit='' @ ?s) (CHR ''&'') = [''limit='' @ ?s]" using plain by (intro Split_no_sep) simp
  moreover have "queryPair (''limit='' @ ?s) = Some (''limit'', ?s)"
    using plain by (simp add: queryPair_def contains_char_def List.member_iff unescape_plain)
  ultimately have "queryGet ''limit'' (''limit='' @ Itoa n) = ?s"
    unfolding it queryGet_def by (simp only:) (simp add: List.map_filter_def)
  moreover have "Atoi ?s = Some (int (digits_value ?s))"
    using dec assms by (intro Atoi_digits) auto
  ultimately show ?thesis using dec assms by simp
qed

lemma observe_paths:
  assumes "validID i"
  shows "observe docker (''/container/'' @ i) q = Inr (map_sum id ContainerValue (dr_Container docker i))"
    "observe docker (''/container/'' @ i @ ''/stats'') q = Inr (map_sum id StatsValue (dr_Stats docker i))"
    "1 \<le> n \<Longrightarrow> n \<le> 100 \<Longrightarrow>
       observe docker (''/container/'' @ i @ ''/logs'') (''limit='' @ Itoa n) = Inr (map_sum id LogsValue (dr_Logs docker i n))"
proof -
  note ch = validID_chars(4) [OF assms]
  have cut: "Cut (i @ CHR ''/'' # s) (CHR ''/'') = (i, s, True)" "Cut i (CHR ''/'') = (i, [], False)" for s
    using ch by (simp_all add: Cut_append Cut_absent)
  show "observe docker (''/container/'' @ i) q = Inr (map_sum id ContainerValue (dr_Container docker i))"
    using cut(2) by (simp add: observe_def HasPrefix_def TrimPrefix_def assms)
  show "observe docker (''/container/'' @ i @ ''/stats'') q = Inr (map_sum id StatsValue (dr_Stats docker i))"
    using cut(1) [of "''stats''"] by (simp add: observe_def HasPrefix_def TrimPrefix_def assms)
  show "observe docker (''/container/'' @ i @ ''/logs'') (''limit='' @ Itoa n) = Inr (map_sum id LogsValue (dr_Logs docker i n))"
    if "1 \<le> n" "n \<le> 100"
    using cut(1) [of "''logs''"] limit_query [OF that] that by (simp add: observe_def HasPrefix_def TrimPrefix_def assms)
qed

section \<open>Client and server joined\<close>

text \<open>The strict decoder of a client that expects this kind of observation gives it back.\<close>

fun decodes :: "obs_codec \<Rightarrow> observation \<Rightarrow> bytes \<Rightarrow> bool" where
  "decodes codec (EngineValue v) data \<longleftrightarrow> oc_Engine codec data = Inr v"
| "decodes codec (InventoryValue v) data \<longleftrightarrow> oc_Inventory codec data = Inr v"
| "decodes codec (ContainerValue v) data \<longleftrightarrow> oc_Container codec data = Inr v"
| "decodes codec (StatsValue v) data \<longleftrightarrow> oc_Stats codec data = Inr v"
| "decodes codec (LogsValue v) data \<longleftrightarrow> oc_Logs codec data = Inr v"

definition codec_ok :: "obs_codec \<Rightarrow> bool" where
  "codec_ok codec \<longleftrightarrow> (\<forall>v data. oc_Marshal codec v = Inr data \<longrightarrow> decodes codec v data \<and> oc_EOF codec data)"

definition fits :: "obs_codec \<Rightarrow> observation \<Rightarrow> bool" where
  "fits codec v \<longleftrightarrow> (\<exists>data. oc_Marshal codec v = Inr data \<and> int (length data) \<le> maxMessageBytes)"

text \<open>
  What a remote reader answers: the value of the reader behind it if its message fits, otherwise the
  refusal with status 503.
\<close>

definition relayed :: "obs_codec \<Rightarrow> ('a \<Rightarrow> observation) \<Rightarrow> (string, 'a) result \<Rightarrow> (observer_error, 'a) result" where
  "relayed codec con r =
     (case r of Inl e \<Rightarrow> Inl (ObsRefused 503) | Inr v \<Rightarrow> if fits codec (con v) then Inr v else Inl (ObsRefused 503))"

definition observer_link :: "obs_codec \<Rightarrow> docker_reader \<Rightarrow> connection \<Rightarrow> connection \<Rightarrow> uid \<Rightarrow> uid \<Rightarrow> obs_link" where
  "observer_link codec docker gateway worker gatewayUID observerUID =
     \<lparr>ol_UID = observerUID, ol_Dialed = Inr worker, ol_HTTP = sendObservation True gatewayUID docker codec gateway\<rparr>"

lemma observerGet_joined:
  assumes "PeerUID worker = Inr ou" and "PeerUID gateway = Inr gu"
    and "parseRequestURI endpoint = Some (path, query)" and "observe docker path query = Inr (map_sum id con r)"
    and "\<And>v data. oc_Marshal codec (con v) = Inr data \<Longrightarrow> decode data = Inr v \<and> oc_EOF codec data"
  shows "observerGet (observer_link codec docker gateway worker gu ou) (oc_EOF codec) decode endpoint = relayed codec con r"
proof -
  let ?link = "observer_link codec docker gateway worker gu ou"
  have dial: "dialPeer (ol_UID ?link) (ol_Dialed ?link) = Inr worker" using assms(1) by (simp add: dialPeer_Inr observer_link_def)
  have peer: "peerContext gateway = gu" using assms(2) by (simp add: peerContext_def)
  note defs = observerGet_def dial sendObservation_def assms(3,4) serveObserver_def peer writeObservation_def relayed_def
  have http: "ol_HTTP ?link = sendObservation True gu docker codec gateway" by (simp add: observer_link_def)
  show ?thesis
  proof (cases r)
    case (Inl e)
    then show ?thesis by (simp add: defs http)
  next
    case (Inr v)
    show ?thesis
    proof (cases "fits codec (con v)")
      case True
      then obtain data where d: "oc_Marshal codec (con v) = Inr data" "int (length data) \<le> maxMessageBytes"
        by (auto simp: fits_def)
      then have "readAllLimit (maxMessageBytes + 1) (data, BodyEOF) = (data, BodyEOF)" by (simp add: readAllLimit_def)
      then show ?thesis using Inr True d assms(5) [OF d(1)] by (simp add: defs http)
    next
      case False
      then show ?thesis using Inr by (cases "oc_Marshal codec (con v)") (auto simp: defs http fits_def)
    qed
  qed
qed

section \<open>What the server gives away\<close>

text \<open>The observations that the reader behind the server answers, for full identifiers and bounded limits.\<close>

fun answered :: "docker_reader \<Rightarrow> observation \<Rightarrow> bool" where
  "answered docker (EngineValue v) \<longleftrightarrow> dr_Engine docker = Inr v"
| "answered docker (InventoryValue v) \<longleftrightarrow> dr_Containers docker = Inr v"
| "answered docker (ContainerValue v) \<longleftrightarrow> (\<exists>i. validID i \<and> dr_Container docker i = Inr v)"
| "answered docker (StatsValue v) \<longleftrightarrow> (\<exists>i. validID i \<and> dr_Stats docker i = Inr v)"
| "answered docker (LogsValue v) \<longleftrightarrow> (\<exists>i n. validID i \<and> 1 \<le> n \<and> n \<le> 100 \<and> dr_Logs docker i n = Inr v)"

lemma map_sum_Inr: "map_sum id f r = Inr v \<longleftrightarrow> (\<exists>x. r = Inr x \<and> v = f x)"
  by (cases r) auto

lemma observe_container:
  assumes "(case Cut t (CHR ''/'') of
      (i, operation, extended) \<Rightarrow>
        (if \<not> validID i then notFound
         else if \<not> extended then Inr (map_sum id ContainerValue (dr_Container docker i))
         else if operation = ''stats'' then Inr (map_sum id StatsValue (dr_Stats docker i))
         else if operation = ''logs'' then
           (case Atoi (queryGet ''limit'' query) of
              None \<Rightarrow> Inl (ObsError 400 ''invalid log limit'')
            | Some limit \<Rightarrow>
                (if limit < 1 \<or> limit > 100 then Inl (ObsError 400 ''invalid log limit'')
                 else Inr (map_sum id LogsValue (dr_Logs docker i limit))))
         else notFound)) = Inr (Inr v)"
  shows "answered docker v"
proof -
  obtain i operation extended where c: "Cut t (CHR ''/'') = (i, operation, extended)" by (cases "Cut t (CHR ''/'')") auto
  show ?thesis
  proof (cases "extended \<and> operation = ''logs''")
    case True
    with assms c show ?thesis
      by (cases "Atoi (queryGet ''limit'' query)") (auto 4 4 simp: map_sum_Inr not_less)
  next
    case False
    with assms c show ?thesis by (cases "operation = ''stats''") (auto simp: map_sum_Inr split: if_splits)
  qed
qed

lemma observe_answered:
  assumes "observe docker path query = Inr (Inr v)"
  shows "answered docker v"
proof -
  consider "path = ''/engine''" | "path = ''/containers''" | "path \<noteq> ''/engine''" "path \<noteq> ''/containers''" by blast
  then show ?thesis
  proof cases
    case 3
    show ?thesis
    proof (cases "HasPrefix path ''/container/''")
      case True
      with assms 3 show ?thesis unfolding observe_def by (intro observe_container) simp
    qed (use assms 3 in \<open>simp add: observe_def\<close>)
  qed (use assms in \<open>auto simp: observe_def map_sum_Inr\<close>)
qed

section \<open>Properties\<close>


definition example_codec :: obs_codec where
  "example_codec = \<lparr>oc_Marshal = (\<lambda>v. case v of EngineValue e \<Rightarrow>
        (if e = \<lparr>e_ObservedAt = 0, e_Version = ''28'', e_API = ''1.51'', e_OS = ''linux'', e_Arch = ''amd64''\<rparr> then Inr ''engine'' else Inl ''unknown'')
      | _ \<Rightarrow> Inl ''unknown''),
     oc_Engine = (\<lambda>_. Inr \<lparr>e_ObservedAt = 0, e_Version = ''28'', e_API = ''1.51'', e_OS = ''linux'', e_Arch = ''amd64''\<rparr>),
     oc_Inventory = (\<lambda>_. Inl ''unknown''), oc_Container = (\<lambda>_. Inl ''unknown''), oc_Stats = (\<lambda>_. Inl ''unknown''),
     oc_Logs = (\<lambda>_. Inl ''unknown''), oc_EOF = (\<lambda>_. True)\<rparr>"

definition example_reader :: docker_reader where
  "example_reader = \<lparr>dr_Engine = Inr \<lparr>e_ObservedAt = 0, e_Version = ''28'', e_API = ''1.51'', e_OS = ''linux'', e_Arch = ''amd64''\<rparr>,
     dr_Containers = Inl ''down'', dr_Container = (\<lambda>_. Inl ''down''), dr_Stats = (\<lambda>_. Inl ''down''), dr_Logs = (\<lambda>_ _. Inl ''down'')\<rparr>"

definition conn_of :: "uid \<Rightarrow> connection" where
  "conn_of u = \<lparr>cn_IsUnix = True, cn_SyscallConn = None, cn_Control = None, cn_Ucred = Inr u\<rparr>"

lemma PeerUID_conn_of: "PeerUID (conn_of u) = Inr u"
  by (simp add: PeerUID_def conn_of_def)

lemma example_codec_ok: "codec_ok example_codec"
proof -
  have "decodes example_codec v data \<and> oc_EOF example_codec data" if "oc_Marshal example_codec v = Inr data" for v data
    using that by (cases v) (auto simp: example_codec_def split: if_splits)
  then show ?thesis by (simp add: codec_ok_def)
qed


text \<open>
  C32: the observer gives data only to the gateway: a message is sent only for an admitted request
  without a body, with method GET, from a peer that the kernel identifies as the gateway's user (or
  that it cannot identify, if the gateway is configured with the largest user identifier); it has at
  most one mebibyte and encodes one of the observations that the reader answers, for a container
  only under a full identifier.
\<close>

theorem observer_closed:
  assumes "serveObserver slot gatewayUID docker codec conn req = ObsData data"
  shows "slot \<and> oq_Method req = ''GET'' \<and> oq_ContentLength req = 0
    \<and> (PeerUID conn = Inr gatewayUID \<or> isl (PeerUID conn) \<and> gatewayUID = NOT 0)
    \<and> int (length data) \<le> maxMessageBytes \<and> (\<exists>v. answered docker v \<and> oc_Marshal codec v = Inr data)"
proof -
  from assms have g: "slot" "peerContext conn = gatewayUID" "oq_Method req = ''GET''" "oq_ContentLength req = 0"
    by (auto simp: serveObserver_def split: if_splits)
  have peer: "PeerUID conn = Inr gatewayUID \<or> isl (PeerUID conn) \<and> gatewayUID = NOT 0"
    using g(2) by (cases "PeerUID conn") (auto simp: peerContext_def)
  have "\<exists>v. observe docker (oq_Path req) (oq_Query req) = Inr (Inr v) \<and> oc_Marshal codec v = Inr data \<and> int (length data) \<le> maxMessageBytes"
  proof (cases "observe docker (oq_Path req) (oq_Query req)")
    case (Inl reply)
    moreover have "observe docker (oq_Path req) (oq_Query req) = Inl reply \<Longrightarrow> reply \<noteq> ObsData data"
      by (auto simp: observe_def split: if_splits prod.splits option.splits)
    ultimately show ?thesis using assms g by (simp add: serveObserver_def)
  next
    case (Inr r)
    with assms g show ?thesis by (auto simp: serveObserver_def split: sum.splits if_splits)
  qed
  with g peer observe_answered show ?thesis by blast
qed

theorem observer_closed_witness:
  "\<exists>v. answered example_reader v \<and> oc_Marshal example_codec v = Inr ''engine''"
proof -
  have "serveObserver True 1001 example_reader example_codec (conn_of 1001)
      \<lparr>oq_Method = ''GET'', oq_ContentLength = 0, oq_Path = ''/engine'', oq_Query = []\<rparr> = ObsData ''engine''"
    by (simp add: serveObserver_def peerContext_def PeerUID_conn_of observe_def example_reader_def)
      (simp add: example_codec_def maxMessageBytes_def)
  from observer_closed [OF this] show ?thesis by blast
qed

end
