(* ===== verification/Config.thy ===== *)
theory Config
  imports Policy_Correct Trusted
begin

text \<open>
  The configuration of \<open>internal/core/config.go\<close>: the record, \<open>Validate\<close>, the bounded YAML read
  and \<open>Load\<close>, which every HostLens process runs at start and the repair worker again on each
  request. The YAML decoder is a third-party package and so a parameter: a \<open>yaml_decoder\<close> decodes
  the first document of a byte string over an initial value and says whether a second decode
  reaches the end of the input.
\<close>

section \<open>Data\<close>

record config =
  Version :: int
  Listen :: string
  ReadOnly :: bool
  TokenStore :: string
  ProfileDir :: string
  ActiveProfiles :: "string list"
  DockerSocket :: string
  ObserverSocket :: string
  RepairSocket :: string
  GatewayUID :: uid
  ObserverUID :: uid
  RepairUID :: uid
  SharedGID :: gid
  TokenGID :: gid
  TLSCert :: string
  TLSKey :: string

text \<open>The Go zero values: \<open>Config{ReadOnly: true}\<close>, over which \<open>Load\<close> decodes, and \<open>Profile{}\<close>.\<close>

definition initial_config :: config where
  "initial_config =
     \<lparr>Version = 0, Listen = [], ReadOnly = True, TokenStore = [], ProfileDir = [], ActiveProfiles = [],
      DockerSocket = [], ObserverSocket = [], RepairSocket = [], GatewayUID = 0, ObserverUID = 0,
      RepairUID = 0, SharedGID = 0, TokenGID = 0, TLSCert = [], TLSKey = []\<rparr>"

definition initial_profile :: profile where
  "initial_profile = \<lparr>Includes = [], Allow = [], Deny = []\<rparr>"

record 'a yaml_decoder =
  first_document :: "bytes \<Rightarrow> 'a \<Rightarrow> (string, 'a) result"
  second_at_end :: "bytes \<Rightarrow> bool"

datatype config_error =
    VersionTwoRequired
  | InvalidListen
  | PortOutOfRange
  | NonLoopbackNeedsTLS
  | TLSPairRequired
  | AbsoluteStoreAndProfiles
  | DockerSocketNotLocal
  | IpcAndTLSPathsNotClean
  | PathsNotDistinct
  | ServiceUIDs
  | GroupGIDs

datatype yaml_error = ExceedsCeiling | YamlError string | TrailingDocument

datatype load_error =
    ConfigOpen trust_error
  | ConfigYaml yaml_error
  | ConfigInvalid config_error
  | ProtectedTLSRequired
  | ProtectedProfileDir
  | ProfileRoot errno
  | ProfileNameOrLimit string
  | ProfileOpen string errno
  | ProfileNotProtected string
  | ProfileYaml string yaml_error
  | ProfileClose string errno
  | CompileFailed compile_error

section \<open>Validate\<close>

definition cleanAbs :: "string \<Rightarrow> bool" where
  "cleanAbs p \<longleftrightarrow> IsAbs p \<and> Clean p = p"

definition Validate :: "config \<Rightarrow> (config_error, unit) result" where
  "Validate c =
     (if Version c \<noteq> 2 then Inl VersionTwoRequired
      else
        (case SplitHostPort (Listen c) of
           None \<Rightarrow> Inl InvalidListen
         | Some (host, portText) \<Rightarrow>
             (case Atoi portText of
                None \<Rightarrow> Inl PortOutOfRange
              | Some port \<Rightarrow>
                  (if port < 1 \<or> port > 65535 then Inl PortOutOfRange
                   else if host \<noteq> ''127.0.0.1'' \<and> host \<noteq> ''::1'' \<and> (TLSCert c = [] \<or> TLSKey c = [])
                   then Inl NonLoopbackNeedsTLS
                   else if (TLSCert c = []) \<noteq> (TLSKey c = []) then Inl TLSPairRequired
                   else if list_ex (\<lambda>value. \<not> IsAbs value \<or> value = ''/'' \<or> Clean value \<noteq> value)
                          [TokenStore c, ProfileDir c] then Inl AbsoluteStoreAndProfiles
                   else if DockerSocket c \<noteq> [] \<and> (\<not> IsAbs (DockerSocket c) \<or> Clean (DockerSocket c) \<noteq> DockerSocket c)
                   then Inl DockerSocketNotLocal
                   else if list_ex (\<lambda>value. value \<noteq> [] \<and> (\<not> IsAbs value \<or> Clean value \<noteq> value))
                          [ObserverSocket c, RepairSocket c, TLSCert c, TLSKey c] then Inl IpcAndTLSPathsNotClean
                   else if ObserverSocket c \<noteq> [] \<and> ObserverSocket c = RepairSocket c
                        \<or> ObserverSocket c \<noteq> [] \<and> ObserverSocket c = DockerSocket c
                        \<or> RepairSocket c \<noteq> [] \<and> RepairSocket c = DockerSocket c
                        \<or> ObserverSocket c = TokenStore c \<or> RepairSocket c = TokenStore c
                   then Inl PathsNotDistinct
                   else if GatewayUID c = 0 \<or> ObserverUID c = 0 \<or> GatewayUID c = ObserverUID c
                        \<or> GatewayUID c = RepairUID c \<or> ObserverUID c = RepairUID c
                   then Inl ServiceUIDs
                   else if SharedGID c = 0 \<or> TokenGID c = 0 \<or> SharedGID c = TokenGID c
                   then Inl GroupGIDs
                   else Inr ()))))"

text \<open>What an accepted configuration satisfies.\<close>

lemma Validate_Inr:
  assumes "Validate c = Inr ()"
  obtains host port n where "SplitHostPort (Listen c) = Some (host, port)" "Atoi port = Some n" "1 \<le> n" "n \<le> 65535"
    "host = ''127.0.0.1'' \<or> host = ''::1'' \<or> TLSCert c \<noteq> [] \<and> TLSKey c \<noteq> []"
    "GatewayUID c \<noteq> 0" "ObserverUID c \<noteq> 0" "distinct [GatewayUID c, ObserverUID c, RepairUID c]"
    "SharedGID c \<noteq> 0" "TokenGID c \<noteq> 0" "SharedGID c \<noteq> TokenGID c"
proof -
  from assms obtain host port n where hp: "SplitHostPort (Listen c) = Some (host, port)" "Atoi port = Some n"
    by (auto simp: Validate_def split: option.splits)
  show thesis
    by (rule that [OF hp]) (use assms hp in \<open>auto simp: Validate_def\<close>)
qed

section \<open>Load\<close>

definition maxConfigBytes :: int where
  "maxConfigBytes = 1048576"

definition decodeYAML :: "'a yaml_decoder \<Rightarrow> file \<Rightarrow> 'a \<Rightarrow> (yaml_error, 'a) result" where
  "decodeYAML dec fl into =
     (case f_Data fl of
        Inl e \<Rightarrow> Inl ExceedsCeiling
      | Inr data \<Rightarrow>
          (if maxConfigBytes < int (length data) then Inl ExceedsCeiling
           else
             (case first_document dec data into of
                Inl e \<Rightarrow> Inl (YamlError e)
              | Inr v \<Rightarrow> if \<not> second_at_end dec data then Inl TrailingDocument else Inr v)))"

text \<open>Opening, checking, decoding and closing one profile file of the profile directory.\<close>

definition readProfile :: "os \<Rightarrow> profile yaml_decoder \<Rightarrow> (string \<Rightarrow> (errno, file) result) \<Rightarrow> string
    \<Rightarrow> (load_error, profile) result" where
  "readProfile os dec root name =
     (case root (name @ ''.yaml'') of
        Inl e \<Rightarrow> Inl (ProfileOpen name e)
      | Inr fl \<Rightarrow>
          (case f_Stat fl of
             Inl e \<Rightarrow> Inl (ProfileNotProtected name)
           | Inr info \<Rightarrow>
               (if \<not> IsRegular info \<or> Perm info AND group_other_write \<noteq> 0 \<or> \<not> trustedOwner os info
                then Inl (ProfileNotProtected name)
                else
                  (case decodeYAML dec fl initial_profile of
                     Inl e \<Rightarrow> Inl (ProfileYaml name e)
                   | Inr p \<Rightarrow> (case f_Close fl of Inl e \<Rightarrow> Inl (ProfileClose name e) | Inr _ \<Rightarrow> Inr p)))))"

text \<open>
  \<open>loadAll\<close> is the loop that calls the source's local function \<open>load\<close> on each name (the include
  loop inside it and the loop over the active profiles), with the body of \<open>load\<close> in place of the
  call. The depth limit bounds the recursion.
\<close>

function loadAll :: "os \<Rightarrow> profile yaml_decoder \<Rightarrow> (string \<Rightarrow> (errno, file) result) \<Rightarrow> nat \<Rightarrow> string list
    \<Rightarrow> profiles \<Rightarrow> (load_error, profiles) result" where
  "loadAll os dec root depth [] ps = Inr ps"
| "loadAll os dec root depth (name # names) ps =
     (if \<not> ValidProfileName name \<or> 32 < depth \<or> 128 < length ps then Inl (ProfileNameOrLimit name)
      else
        (case map_of ps name of
           Some _ \<Rightarrow> loadAll os dec root depth names ps
         | None \<Rightarrow>
             (case readProfile os dec root name of
                Inl e \<Rightarrow> Inl e
              | Inr p \<Rightarrow>
                  (case loadAll os dec root (Suc depth) (Includes p) ((name, p) # ps) of
                     Inl e \<Rightarrow> Inl e
                   | Inr ps1 \<Rightarrow> loadAll os dec root depth names ps1))))"
  by pat_completeness auto
termination
  by (relation "measures [\<lambda>(os, dec, root, depth, names, ps). 33 - depth,
    \<lambda>(os, dec, root, depth, names, ps). length names]") auto

definition tlsFileOk :: "os \<Rightarrow> string \<Rightarrow> bool \<Rightarrow> bool" where
  "tlsFileOk os path private \<longleftrightarrow>
     path = [] \<or>
     (case OpenTrusted os path of
        Inl e \<Rightarrow> False
      | Inr fl \<Rightarrow>
          (case f_Stat fl of
             Inl e \<Rightarrow> False
           | Inr info \<Rightarrow> \<not> (private \<and> Perm info AND any_other \<noteq> 0)))"

definition Load :: "os \<Rightarrow> config yaml_decoder \<Rightarrow> profile yaml_decoder \<Rightarrow> string \<Rightarrow> tools
    \<Rightarrow> (load_error, config \<times> policy) result" where
  "Load os cdec pdec path tools =
     (case OpenTrusted os path of
        Inl e \<Rightarrow> Inl (ConfigOpen e)
      | Inr fl \<Rightarrow>
          (case decodeYAML cdec fl initial_config of
             Inl e \<Rightarrow> Inl (ConfigYaml e)
           | Inr config \<Rightarrow>
               (case Validate config of
                  Inl e \<Rightarrow> Inl (ConfigInvalid e)
                | Inr _ \<Rightarrow>
                    (if \<not> (tlsFileOk os (TLSCert config) False \<and> tlsFileOk os (TLSKey config) True)
                     then Inl ProtectedTLSRequired
                     else
                       (case TrustedDirectory os (ProfileDir config) of
                          Inl e \<Rightarrow> Inl ProtectedProfileDir
                        | Inr _ \<Rightarrow>
                            (case OpenRoot os (ProfileDir config) of
                               Inl e \<Rightarrow> Inl (ProfileRoot e)
                             | Inr root \<Rightarrow>
                                 (case loadAll os pdec root 0 (ActiveProfiles config) [] of
                                    Inl e \<Rightarrow> Inl e
                                  | Inr ps \<Rightarrow>
                                      (case Compile ps (ActiveProfiles config) tools of
                                         Inl e \<Rightarrow> Inl (CompileFailed e)
                                       | Inr policy \<Rightarrow> Inr (config, policy)))))))))"

section \<open>What loadAll loads\<close>

text \<open>The profiles a run of the loop has added to \<open>ps\<close>: read from their files and include-closed.\<close>

definition extends :: "os \<Rightarrow> profile yaml_decoder \<Rightarrow> (string \<Rightarrow> (errno, file) result) \<Rightarrow> profiles \<Rightarrow> profiles \<Rightarrow> bool" where
  "extends os dec root ps ps' \<longleftrightarrow>
     (\<exists>new. ps' = new @ ps
        \<and> (\<forall>(n, p)\<in>set new. ValidProfileName n \<and> readProfile os dec root n = Inr p
              \<and> set (Includes p) \<subseteq> fst ` set ps'))"

lemma extends_refl [simp]: "extends os dec root ps ps"
  by (simp add: extends_def)

lemma extends_trans:
  assumes "extends os dec root ps ps1" and "extends os dec root ps1 ps2"
  shows "extends os dec root ps ps2"
proof -
  from assms obtain a b where a: "ps1 = a @ ps" "\<forall>(n, p)\<in>set a. ValidProfileName n \<and> readProfile os dec root n = Inr p
              \<and> set (Includes p) \<subseteq> fst ` set ps1"
    and b: "ps2 = b @ ps1" "\<forall>(n, p)\<in>set b. ValidProfileName n \<and> readProfile os dec root n = Inr p
              \<and> set (Includes p) \<subseteq> fst ` set ps2"
    unfolding extends_def by blast
  have "\<forall>(n, p)\<in>set (b @ a). ValidProfileName n \<and> readProfile os dec root n = Inr p
              \<and> set (Includes p) \<subseteq> fst ` set ps2"
    using a(2) b by fastforce
  then show ?thesis unfolding extends_def using a(1) b(1) by (intro exI [of _ "b @ a"]) simp
qed

lemma extends_Cons:
  assumes "extends os dec root ((n, p) # ps) ps'" and "ValidProfileName n" "readProfile os dec root n = Inr p"
    and "set (Includes p) \<subseteq> fst ` set ps'"
  shows "extends os dec root ps ps'"
proof -
  from assms(1) obtain new where new: "ps' = new @ (n, p) # ps"
    "\<forall>(n, p)\<in>set new. ValidProfileName n \<and> readProfile os dec root n = Inr p \<and> set (Includes p) \<subseteq> fst ` set ps'"
    unfolding extends_def by blast
  with assms(2-4) show ?thesis
    unfolding extends_def by (intro exI [of _ "new @ [(n, p)]"]) auto
qed

lemma extends_names: "extends os dec root ps ps' \<Longrightarrow> fst ` set ps \<subseteq> fst ` set ps'"
  by (auto simp: extends_def)

lemma loadAll_fresh_Inr:
  assumes "loadAll os dec root depth (name # names) ps = Inr ps'" and "map_of ps name = None"
  obtains p ps1 where "ValidProfileName name" "depth \<le> 32" "length ps \<le> 128" "readProfile os dec root name = Inr p"
    "loadAll os dec root (Suc depth) (Includes p) ((name, p) # ps) = Inr ps1"
    "loadAll os dec root depth names ps1 = Inr ps'"
  using assms by (auto split: if_splits sum.splits)

lemma loadAll_extends:
  "loadAll os dec root depth names ps = Inr ps' \<Longrightarrow>
   extends os dec root ps ps' \<and> set names \<subseteq> fst ` set ps'"
proof (induction os dec root depth names ps arbitrary: ps' rule: loadAll.induct)
  case (1 os dec root depth ps)
  then show ?case by simp
next
  case (2 os dec root depth name names ps)
  show ?case
  proof (cases "map_of ps name")
    case (Some p)
    with "2.prems" have g: "\<not> (\<not> ValidProfileName name \<or> 32 < depth \<or> 128 < length ps)"
      and r: "loadAll os dec root depth names ps = Inr ps'" by (auto split: if_splits)
    have "name \<in> fst ` set ps" using Some by (auto dest!: map_of_SomeD intro: rev_image_eqI)
    moreover from "2.IH"(3) [OF g Some r] have "extends os dec root ps ps'" "set names \<subseteq> fst ` set ps'"
      by auto
    ultimately show ?thesis using extends_names [of os dec root ps ps'] by auto
  next
    case None
    from "2.prems" None obtain p ps1 where ok: "ValidProfileName name" "depth \<le> 32" "length ps \<le> 128"
      and rd: "readProfile os dec root name = Inr p"
      and inc: "loadAll os dec root (Suc depth) (Includes p) ((name, p) # ps) = Inr ps1"
      and rest: "loadAll os dec root depth names ps1 = Inr ps'"
      by (rule loadAll_fresh_Inr)
    have g: "\<not> (\<not> ValidProfileName name \<or> 32 < depth \<or> 128 < length ps)" using ok by simp
    from "2.IH"(1) [OF g None rd inc]
    have i: "extends os dec root ((name, p) # ps) ps1" "set (Includes p) \<subseteq> fst ` set ps1" by auto
    from "2.IH"(2) [OF g None rd inc rest]
    have r: "extends os dec root ps1 ps'" "set names \<subseteq> fst ` set ps'" by auto
    have "extends os dec root ps ps1" using extends_Cons [OF i(1) ok(1) rd i(2)] .
    moreover have "name \<in> fst ` set ps'" using extends_names [OF i(1)] extends_names [OF r(1)] by auto
    ultimately show ?thesis using r extends_trans by auto
  qed
qed

text \<open>The limits: distinct names, and never more than 129 profiles.\<close>

lemma loadAll_limits:
  "loadAll os dec root depth names ps = Inr ps' \<Longrightarrow> distinct (map fst ps) \<Longrightarrow> length ps \<le> 129 \<Longrightarrow>
   distinct (map fst ps') \<and> length ps' \<le> 129"
proof (induction os dec root depth names ps arbitrary: ps' rule: loadAll.induct)
  case (2 os dec root depth name names ps)
  show ?case
  proof (cases "map_of ps name")
    case (Some p)
    with 2 show ?thesis by (auto split: if_splits)
  next
    case None
    from "2.prems"(1) None obtain p ps1 where ok: "ValidProfileName name" "depth \<le> 32" "length ps \<le> 128"
      and rd: "readProfile os dec root name = Inr p"
      and inc: "loadAll os dec root (Suc depth) (Includes p) ((name, p) # ps) = Inr ps1"
      and rest: "loadAll os dec root depth names ps1 = Inr ps'"
      by (rule loadAll_fresh_Inr)
    have g: "\<not> (\<not> ValidProfileName name \<or> 32 < depth \<or> 128 < length ps)" using ok by simp
    have "distinct (map fst ((name, p) # ps))" using None "2.prems"(2) by (simp add: map_of_eq_None_iff)
    with "2.IH"(1) [OF g None rd inc] ok(3) have "distinct (map fst ps1) \<and> length ps1 \<le> 129" by simp
    with "2.IH"(2) [OF g None rd inc rest] show ?thesis by simp
  qed
qed simp

section \<open>What Load guarantees\<close>

lemma Load_Inr:
  assumes "Load os cdec pdec path tools = Inr (config, pol)"
  obtains fl root ps where "OpenTrusted os path = Inr fl" "decodeYAML cdec fl initial_config = Inr config"
    "Validate config = Inr ()" "tlsFileOk os (TLSCert config) False" "tlsFileOk os (TLSKey config) True"
    "TrustedDirectory os (ProfileDir config) = Inr ()" "OpenRoot os (ProfileDir config) = Inr root"
    "loadAll os pdec root 0 (ActiveProfiles config) [] = Inr ps"
    "Compile ps (ActiveProfiles config) tools = Inr pol"
  using assms by (auto simp: Load_def split: sum.splits if_splits)

lemma Load_compiled: "Load os cdec pdec path tools = Inr (config, pol) \<Longrightarrow> compiled pol"
  by (auto simp: compiled_def elim!: Load_Inr)

lemma Load_Validate: "Load os cdec pdec path tools = Inr (config, pol) \<Longrightarrow> Validate config = Inr ()"
  by (auto elim!: Load_Inr)

text \<open>Every profile reachable from the active ones has been loaded from its file.\<close>

lemma loadAll_reach:
  assumes "loadAll os dec root depth active [] = Inr ps" and "n \<in> reach ps active"
  obtains p where "map_of ps n = Some p" "ValidProfileName n" "readProfile os dec root n = Inr p"
proof -
  from loadAll_extends [OF assms(1)] have new: "\<forall>(n, p)\<in>set ps. ValidProfileName n
      \<and> readProfile os dec root n = Inr p \<and> set (Includes p) \<subseteq> fst ` set ps"
    and act: "set active \<subseteq> fst ` set ps" by (auto simp: extends_def)
  have closed: "edges ps `` (fst ` set ps) \<subseteq> fst ` set ps"
    using new by (fastforce simp: edges_def dest: map_of_SomeD)
  from assms(2) obtain a where "a \<in> set active" "(a, n) \<in> (edges ps)\<^sup>*"
    by (auto simp: reach_def)
  with Image_closed_rtrancl [OF _ closed] act have "n \<in> fst ` set ps" by blast
  then obtain p where p: "map_of ps n = Some p"
    by (metis map_of_eq_None_iff not_None_eq)
  then have "(n, p) \<in> set ps" by (rule map_of_SomeD)
  with new p that show thesis by auto
qed

lemma readProfile_Inr:
  assumes "readProfile os dec root name = Inr p"
  obtains fl info where "root (name @ ''.yaml'') = Inr fl" "f_Stat fl = Inr info" "IsRegular info"
    "Perm info AND group_other_write = 0" "trustedOwner os info" "decodeYAML dec fl initial_profile = Inr p"
  using assms by (auto simp: readProfile_def split: sum.splits if_splits)

text \<open>A complete environment for the witnesses: a packaged configuration with the test profiles.\<close>

definition example_config :: config where
  "example_config = initial_config\<lparr>Version := 2, Listen := ''127.0.0.1:8080'', ReadOnly := False,
     TokenStore := ''/etc/hostlens/secrets/tokens.json'', ProfileDir := ''/etc/hostlens/profiles'',
     ActiveProfiles := [''ops''], ObserverSocket := ''/run/hostlens-observer/observer.sock'',
     RepairSocket := ''/run/hostlens-repair/repair.sock'', GatewayUID := 1001, ObserverUID := 1002,
     RepairUID := 0, SharedGID := 1001, TokenGID := 1002\<rparr>"

definition config_yaml :: "config yaml_decoder" where
  "config_yaml = \<lparr>first_document = (\<lambda>_ _. Inr example_config), second_at_end = (\<lambda>_. True)\<rparr>"

definition profile_yaml :: "profile yaml_decoder" where
  "profile_yaml = \<lparr>first_document = (\<lambda>data _. case map_of example_profiles data of
       None \<Rightarrow> Inl ''unknown'' | Some p \<Rightarrow> Inr p), second_at_end = (\<lambda>_. True)\<rparr>"

definition example_host :: os where
  "example_host = example_os\<lparr>OpenRoot := (\<lambda>_. Inr (\<lambda>name. Inr (plain_file (TrimSuffix name ''.yaml''))))\<rparr>"

definition example_load :: "config \<times> policy" where
  "example_load = projr (Load example_host config_yaml profile_yaml ''/etc/hostlens/config.yaml'' example_tools)"

lemma example_Load:
  "Load example_host config_yaml profile_yaml ''/etc/hostlens/config.yaml'' example_tools
     = Inr (fst example_load, snd example_load)"
proof -
  have "\<not> isl (Load example_host config_yaml profile_yaml ''/etc/hostlens/config.yaml'' example_tools)"
    by code_simp
  then show ?thesis by (simp add: example_load_def)
qed

lemma example_Load_allows:
  "Allows (snd example_load) EffectRepair ''restart_service'' ''nginx.service''"
  by code_simp

section \<open>Where a loaded rule comes from\<close>

text \<open>A rule of a protected profile file in the protected profile directory.\<close>

definition protected_rule :: "os \<Rightarrow> profile yaml_decoder \<Rightarrow> config \<Rightarrow> rule \<Rightarrow> bool" where
  "protected_rule os pdec config r \<longleftrightarrow>
     (\<exists>root n fl info p. TrustedDirectory os (ProfileDir config) = Inr ()
        \<and> OpenRoot os (ProfileDir config) = Inr root \<and> root (n @ ''.yaml'') = Inr fl
        \<and> f_Stat fl = Inr info \<and> IsRegular info \<and> Perm info AND group_other_write = 0 \<and> trustedOwner os info
        \<and> decodeYAML pdec fl initial_profile = Inr p \<and> r \<in> set (Allow p))"

lemma Load_rule:
  assumes "Load os cdec pdec path tools = Inr (config, pol)" and "r \<in> set (allow pol k)"
  shows "protected_rule os pdec config r"
proof -
  from assms(1) obtain root ps where dir: "TrustedDirectory os (ProfileDir config) = Inr ()"
      "OpenRoot os (ProfileDir config) = Inr root"
    and ld: "loadAll os pdec root 0 (ActiveProfiles config) [] = Inr ps"
    and cp: "Compile ps (ActiveProfiles config) tools = Inr pol"
    by (rule Load_Inr)
  from assms(2) Compile_Inr(2) [OF cp] obtain n q where
    n: "n \<in> reach ps (ActiveProfiles config)" "map_of ps n = Some q" "r \<in> set (Allow q)"
    by (cases k) (auto simp: granted_def)
  from ld n(1) obtain p where p: "map_of ps n = Some p" "readProfile os pdec root n = Inr p"
    by (rule loadAll_reach)
  from p(2) obtain fl info where fl: "root (n @ ''.yaml'') = Inr fl" "f_Stat fl = Inr info" "IsRegular info"
      "Perm info AND group_other_write = 0" "trustedOwner os info" "decodeYAML pdec fl initial_profile = Inr p"
    by (rule readProfile_Inr)
  from p(1) n(2) have "q = p" by simp
  with dir fl n(3) show ?thesis unfolding protected_rule_def by blast
qed

section \<open>Properties\<close>

text \<open>
  Whatever a loaded policy allows rests on an allow rule that matches the target and stands in
  a profile reachable from the active ones; that profile was read from a regular file in the
  configured profile directory that is owned by root or the caller and that neither group nor
  others can write, and the directory itself is protected.
\<close>

theorem load_grants_from_protected_profiles:
  assumes "Load os cdec pdec path tools = Inr (config, pol)" and "Allows pol eff tool res"
  shows "\<exists>root n fl info p r. TrustedDirectory os (ProfileDir config) = Inr ()
    \<and> OpenRoot os (ProfileDir config) = Inr root \<and> root (n @ ''.yaml'') = Inr fl
    \<and> f_Stat fl = Inr info \<and> IsRegular info \<and> Perm info AND group_other_write = 0 \<and> trustedOwner os info
    \<and> decodeYAML pdec fl initial_profile = Inr p \<and> r \<in> set (Allow p) \<and> matches r eff tool res"
proof -
  from assms(2) obtain r where r: "r \<in> set (allow pol (eff, tool))" "matches r eff tool res" by (auto simp: Allows_iff)
  from Load_rule [OF assms(1) r(1)] r(2) show ?thesis unfolding protected_rule_def by blast
qed

theorem load_grants_from_protected_profiles_witness:
  "\<exists>root n fl info p r. TrustedDirectory example_host (ProfileDir (fst example_load)) = Inr ()
    \<and> OpenRoot example_host (ProfileDir (fst example_load)) = Inr root \<and> root (n @ ''.yaml'') = Inr fl
    \<and> f_Stat fl = Inr info \<and> IsRegular info \<and> Perm info AND group_other_write = 0 \<and> trustedOwner example_host info
    \<and> decodeYAML profile_yaml fl initial_profile = Inr p \<and> r \<in> set (Allow p)
    \<and> matches r EffectRepair ''restart_service'' ''nginx.service''"
  by (rule load_grants_from_protected_profiles [OF example_Load example_Load_allows])

text \<open>
  C17: \<open>Load\<close> reads the include closure of the active profiles before it compiles: the compile step
  can only fail on a cycle or a bad rule of a profile that was read, never on a missing profile or
  a bad name.
\<close>

theorem load_reads_include_closure:
  "Load os cdec pdec path tools \<noteq> Inl (CompileFailed (ProfileMissing n))
   \<and> Load os cdec pdec path tools \<noteq> Inl (CompileFailed (InvalidProfileName n))"
proof -
  have "e \<noteq> ProfileMissing n \<and> e \<noteq> InvalidProfileName n"
    if l: "loadAll os pdec root 0 act [] = Inr ps" and c: "Compile ps act tools = Inl e" for root act ps e
  proof -
    from Compile_Inl [OF c] obtain m where m: "m \<in> reach ps act" "explains ps tools e m" by blast
    from l m(1) obtain p where "map_of ps m = Some p" "ValidProfileName m" by (rule loadAll_reach)
    with m(2) show ?thesis by (auto simp: explains_def split: compile_error.splits)
  qed
  moreover have "e = CompileFailed ce \<Longrightarrow> loadAll os pdec root depth names ps \<noteq> Inl e" for e ce root depth names ps
    by (induction os pdec root depth names ps rule: loadAll.induct)
      (auto simp: readProfile_def split: sum.splits option.splits)
  ultimately show ?thesis
    by (auto simp: Load_def split: sum.splits if_splits)
qed

text \<open>
  C16: a loaded configuration keeps the privilege separation of the services: the gateway and the
  observer do not run as root, the three service users differ, the IPC and token groups are
  different and not root's; the listener is on a loopback address or has a certificate and a key
  from protected files, the key closed to other users.
\<close>

theorem load_separates_privileges:
  assumes "Load os cdec pdec path tools = Inr (config, pol)"
  shows "GatewayUID config \<noteq> 0 \<and> ObserverUID config \<noteq> 0
    \<and> distinct [GatewayUID config, ObserverUID config, RepairUID config]
    \<and> SharedGID config \<noteq> 0 \<and> TokenGID config \<noteq> 0 \<and> SharedGID config \<noteq> TokenGID config
    \<and> (\<exists>host port n. SplitHostPort (Listen config) = Some (host, port) \<and> Atoi port = Some n
         \<and> 1 \<le> n \<and> n \<le> 65535
         \<and> (host = ''127.0.0.1'' \<or> host = ''::1'' \<or>
              (\<exists>cert key info. OpenTrusted os (TLSCert config) = Inr cert \<and> OpenTrusted os (TLSKey config) = Inr key
                 \<and> f_Stat key = Inr info \<and> Perm info AND any_other = 0)))"
proof -
  from assms have v: "Validate config = Inr ()" by (rule Load_Validate)
  from assms have t: "tlsFileOk os (TLSCert config) False" "tlsFileOk os (TLSKey config) True"
    by (auto elim: Load_Inr)
  from v obtain host port n where hp: "SplitHostPort (Listen config) = Some (host, port)" "Atoi port = Some n"
      "1 \<le> n" "n \<le> 65535" "host = ''127.0.0.1'' \<or> host = ''::1'' \<or> TLSCert config \<noteq> [] \<and> TLSKey config \<noteq> []"
    and ids: "GatewayUID config \<noteq> 0" "ObserverUID config \<noteq> 0"
      "distinct [GatewayUID config, ObserverUID config, RepairUID config]"
      "SharedGID config \<noteq> 0" "TokenGID config \<noteq> 0" "SharedGID config \<noteq> TokenGID config"
    by (rule Validate_Inr)
  have "host = ''127.0.0.1'' \<or> host = ''::1'' \<or>
      (\<exists>cert key info. OpenTrusted os (TLSCert config) = Inr cert \<and> OpenTrusted os (TLSKey config) = Inr key
         \<and> f_Stat key = Inr info \<and> Perm info AND any_other = 0)"
    using hp(5) t by (auto simp: tlsFileOk_def split: sum.splits)
  with hp ids show ?thesis by blast
qed

theorem load_separates_privileges_witness:
  "GatewayUID (fst example_load) \<noteq> 0 \<and> ObserverUID (fst example_load) \<noteq> 0"
  using load_separates_privileges [OF example_Load] by blast



end
