(* ===== verification/Gateway_Correct.thy ===== *)
theory Gateway_Correct
  imports Gateway
begin

text \<open>
  The security of the gateway: a tool call reaches its handler exactly under the conditions of
  \<open>call_allowed\<close>, discovery shows the tools a token can use, read-only mode removes every repair,
  inventories are filtered by the policy, and only a verified bearer token gets past the transport.
\<close>

section \<open>Specification\<close>

text \<open>When a call of a catalog entry on a target is allowed for a token.\<close>

definition call_allowed :: "app \<Rightarrow> token \<Rightarrow> tool_definition \<Rightarrow> string \<Rightarrow> bool" where
  "call_allowed a t d res \<longleftrightarrow>
     td_effect d \<in> set (t_Roles t)
     \<and> (td_effect d = EffectRepair \<longrightarrow> \<not> ap_ReadOnly a \<and> ap_Repair a \<noteq> None)
     \<and> (td_docker d \<longrightarrow> ap_Docker a \<noteq> None)
     \<and> (\<forall>valid. td_validTarget d = Some valid \<longrightarrow> valid res)
     \<and> (if td_collection d then Advertises (ap_Policy a) (td_effect d) (td_name d)
        else Allows (ap_Policy a) (td_effect d) (td_name d) res)"

definition lists_tool :: "app \<Rightarrow> token \<Rightarrow> tool_definition \<Rightarrow> bool" where
  "lists_tool a t d \<longleftrightarrow>
     td_effect d \<in> set (t_Roles t)
     \<and> (td_effect d = EffectRepair \<longrightarrow> \<not> ap_ReadOnly a \<and> ap_Repair a \<noteq> None)
     \<and> (td_docker d \<longrightarrow> ap_Docker a \<noteq> None) \<and> Advertises (ap_Policy a) (td_effect d) (td_name d)"

section \<open>The catalog\<close>

lemma findIn_Some: "findIn name ds = Some d \<Longrightarrow> d \<in> set ds \<and> td_name d = name"
  by (induction ds) (auto split: if_splits)

lemma findIn_None: "name \<notin> td_name ` set ds \<Longrightarrow> findIn name ds = None"
  by (induction ds) auto

lemma findIn_distinct: "distinct (map td_name ds) \<Longrightarrow> d \<in> set ds \<Longrightarrow> findIn (td_name d) ds = Some d"
  by (induction ds) (auto simp: rev_image_eqI)

lemma catalog_distinct: "distinct (map td_name catalog)"
  by code_simp

lemma catalog_effects: "d \<in> set catalog \<Longrightarrow> td_effect d = EffectObserve \<or> td_effect d = EffectRepair"
  by (auto simp: catalog_def tool_def)

lemma catalog_collections: "d \<in> set catalog \<Longrightarrow> td_collection d \<Longrightarrow> td_effect d = EffectObserve"
  by (auto simp: catalog_def tool_def)

lemma findTool_iff: "findTool name = Some d \<longleftrightarrow> d \<in> set catalog \<and> td_name d = name"
  using findIn_Some [of name catalog d] findIn_distinct [OF catalog_distinct, of d] by (auto simp: findTool_def)

lemma addEffects_map:
  "distinct (map td_name ds) \<Longrightarrow> (\<forall>d\<in>set ds. m (td_name d) = None) \<Longrightarrow>
   \<exists>eff. addEffects ds m = Some eff \<and> (\<forall>n. eff n = (case findIn n ds of None \<Rightarrow> m n | Some d \<Rightarrow> Some (td_effect d)))"
proof (induction ds arbitrary: m)
  case (Cons d ds)
  let ?m = "m(td_name d \<mapsto> td_effect d)"
  have upd: "\<forall>e\<in>set ds. ?m (td_name e) = None" using Cons.prems by (auto simp: rev_image_eqI)
  have "distinct (map td_name ds)" using Cons.prems(1) by simp
  from Cons.IH [OF this upd] obtain eff where e: "addEffects ds ?m = Some eff"
    "\<forall>n. eff n = (case findIn n ds of None \<Rightarrow> ?m n | Some d \<Rightarrow> Some (td_effect d))" by blast
  have "findIn (td_name d) ds = None"
    using Cons.prems(1) by (simp add: findIn_None)
  with e Cons.prems(2) show ?case by (auto split: option.split)
qed simp

section \<open>Authorization\<close>

lemma effects_roles: "EffectRepair = RoleRepair" "EffectObserve = RoleObserve" "EffectObserve \<noteq> EffectRepair"
  by (simp_all add: EffectRepair_def RoleRepair_def EffectObserve_def RoleObserve_def)

lemma authorize_call:
  assumes "d \<in> set catalog"
  shows "authorize a t d res False \<longleftrightarrow> call_allowed a t d res"
proof -
  have "hasRole t (if td_effect d = EffectRepair then RoleRepair else RoleObserve) \<longleftrightarrow> td_effect d \<in> set (t_Roles t)"
    using catalog_effects [OF assms] effects_roles by (auto simp: hasRole_def list_ex_iff)
  then show ?thesis by (auto simp: authorize_def call_allowed_def Let_def split: option.splits)
qed

lemma authorize_list:
  assumes "d \<in> set catalog"
  shows "authorize a t d res True \<longleftrightarrow> lists_tool a t d"
proof -
  have "hasRole t (if td_effect d = EffectRepair then RoleRepair else RoleObserve) \<longleftrightarrow> td_effect d \<in> set (t_Roles t)"
    using catalog_effects [OF assms] effects_roles by (auto simp: hasRole_def list_ex_iff)
  then show ?thesis by (auto simp: authorize_def lists_tool_def Let_def)
qed

lemma middleware_call:
  "snd (middleware a um ident next ''tools/call'' req) \<longleftrightarrow>
     (\<exists>c params d res. ident = Some c \<and> req = CallToolRequest (Some params) \<and> findTool (cp_Name params) = Some d
        \<and> toolTarget um (td_target d) (cp_Arguments params) = Inr res \<and> call_allowed a (cd_record c) d res)"
proof -
  have "authorize a t d res False \<longleftrightarrow> call_allowed a t d res" if "findTool n = Some d" for n d t res
    using that authorize_call by (simp add: findTool_iff)
  then show ?thesis
    by (auto simp: middleware_def Let_def split: option.splits mcp_request.splits sum.splits)
qed

lemma call_listed:
  assumes "compiled (ap_Policy a)" and "call_allowed a t d res" and "CHR ''/'' \<notin> set res"
  shows "lists_tool a t d"
  using assms decider.permits_lists [OF assms(1)]
  by (auto simp: call_allowed_def lists_tool_def split: if_splits)

lemma lists_registered: "d \<in> set catalog \<Longrightarrow> lists_tool a t d \<Longrightarrow> d \<in> set (registered a)"
  by (auto simp: registered_def lists_tool_def)

section \<open>Repairs need an exact grant, in both processes\<close>

text \<open>
  A gate for repairs: whatever it admits is permitted by the policy it was given, for a token with
  the repair role. The gateway's authorization and the check of the repair worker are two such
  gates; what follows from the policy contract is proved once, for both.
\<close>

locale repair_gate = access_decider permits lists exact wf
  for permits :: "'p \<Rightarrow> effect \<Rightarrow> string \<Rightarrow> string \<Rightarrow> bool"
    and lists :: "'p \<Rightarrow> effect \<Rightarrow> string \<Rightarrow> bool"
    and exact :: "'p \<Rightarrow> string \<Rightarrow> string \<Rightarrow> bool"
    and wf :: "'p \<Rightarrow> bool" +
  fixes admits :: "'p \<Rightarrow> token \<Rightarrow> string \<Rightarrow> string \<Rightarrow> bool"
  assumes admits_permits: "admits p t tn res \<Longrightarrow> permits p EffectRepair tn res"
    and admits_role: "admits p t tn res \<Longrightarrow> ''repair'' \<in> set (t_Roles t)"
begin

lemma admitted_exactly: "wf p \<Longrightarrow> admits p t tn res \<Longrightarrow> exact p tn res \<and> ''repair'' \<in> set (t_Roles t) \<and> res \<noteq> []"
  using admits_permits admits_role repair_exact permits_nonempty by blast

lemma observer_token_never_repairs: "''repair'' \<notin> set (t_Roles t) \<Longrightarrow> \<not> admits p t tn res"
  using admits_role by blast

end

definition gateway_admits :: "app \<Rightarrow> policy \<Rightarrow> token \<Rightarrow> string \<Rightarrow> string \<Rightarrow> bool" where
  "gateway_admits a p t name res \<longleftrightarrow>
     (\<exists>d. findTool name = Some d \<and> td_effect d = EffectRepair \<and> authorize (a\<lparr>ap_Policy := p\<rparr>) t d res False)"

interpretation gateway_gate: repair_gate Allows Advertises exact_grant compiled "gateway_admits a" for a
proof unfold_locales
  fix p t name res
  assume "gateway_admits a p t name res"
  then obtain d where d: "d \<in> set catalog" "td_name d = name" "td_effect d = EffectRepair"
    "call_allowed (a\<lparr>ap_Policy := p\<rparr>) t d res"
    by (auto simp: gateway_admits_def findTool_iff authorize_call)
  have "\<not> td_collection d" using d(3) catalog_collections [OF d(1)] effects_roles(3) by auto
  then show "Allows p EffectRepair name res" using d by (simp add: call_allowed_def)
  show "''repair'' \<in> set (t_Roles t)" using d by (auto simp: call_allowed_def EffectRepair_def)
qed

section \<open>Examples\<close>

definition repair_token :: token where
  "repair_token = \<lparr>t_ID = ''r'', t_Name = ''ops'', t_Roles = [''observe'', ''repair''], t_Expires = 0, t_Revoked = False,
     t_Hash = [], t_Legacy = False\<rparr>"

definition example_reader_host :: host_reader where
  "example_reader_host = \<lparr>rd_Host = (\<lambda>_. empty_host 0 ''amd64''), rd_Service = (\<lambda>_. Inl ''none''),
     rd_Services = (\<lambda>_. Inl ''none''), rd_ServiceLogs = (\<lambda>_ _. Inl ''none'')\<rparr>"

definition example_app :: app where
  "example_app = \<lparr>ap_Policy = example_policy, ap_ReadOnly = False, ap_Tokens = example_store,
     ap_Host = example_reader_host, ap_Docker = None,
     ap_Repair = Some \<lparr>rp_RestartService = (\<lambda>_ _. Inl ''none''), rp_RestartContainer = (\<lambda>_ _. Inl ''none'')\<rparr>\<rparr>"

definition restart_tool :: tool_definition where
  "restart_tool = tool ''restart_service'' ''Restart one explicitly permitted native service.'' EffectRepair False False
       (TypedTarget RestartServiceArgs ar_Name) None RestartServiceTool"

lemma example_call_allowed:
  "restart_tool \<in> set catalog" "call_allowed example_app repair_token restart_tool ''nginx.service''"
  "compiled (ap_Policy example_app)"
proof -
  show "restart_tool \<in> set catalog" by (simp add: catalog_def restart_tool_def)
  show "call_allowed example_app repair_token restart_tool ''nginx.service''"
    using example_allows
    by (simp add: call_allowed_def example_app_def repair_token_def restart_tool_def tool_def) (simp add: EffectRepair_def)
  show "compiled (ap_Policy example_app)"
    using example_compiles by (auto simp: compiled_def example_app_def)
qed

section \<open>Properties\<close>

text \<open>
  C8: a tool call reaches the rest of the pipeline, and so its handler, exactly when the request
  carries an authenticated credential, names a catalog entry, gives it a target, and the call is
  allowed: the token has the role of the effect, a repair is not in read-only mode and has a repair
  service, a Docker tool has a Docker reader, the target is well-formed, and the policy allows the
  tool on the target (for an inventory: advertises the tool).
\<close>

theorem call_reaches_handler_iff:
  "snd (middleware a um ident next ''tools/call'' req) \<longleftrightarrow>
     (\<exists>c params d res. ident = Some c \<and> req = CallToolRequest (Some params) \<and> findTool (cp_Name params) = Some d
        \<and> toolTarget um (td_target d) (cp_Arguments params) = Inr res \<and> call_allowed a (cd_record c) d res)"
  by (rule middleware_call)



text \<open>
  In read-only mode no repair tool is registered and no call of one reaches its handler, and
  the handlers that remain never send a request to the repair worker.
\<close>

theorem read_only_blocks_repairs:
  assumes "ap_ReadOnly a"
  shows "(\<forall>d\<in>set (registered a). td_effect d = EffectObserve \<and> snd (runHandler a ident (td_name d) (td_register d) args) = [])
    \<and> (\<forall>params d. findTool (cp_Name params) = Some d \<and> td_effect d = EffectRepair
         \<longrightarrow> \<not> snd (middleware a um ident next ''tools/call'' (CallToolRequest (Some params))))"
proof -
  have "td_effect d = EffectObserve \<and> snd (runHandler a ident (td_name d) (td_register d) args) = []"
    if "d \<in> set (registered a)" for d
  proof -
    have d: "d \<in> set catalog" "td_effect d \<noteq> EffectRepair" using that assms by (auto simp: registered_def)
    then have obs: "td_effect d = EffectObserve" using catalog_effects by blast
    have "td_register d \<noteq> RestartServiceTool \<and> td_register d \<noteq> RestartContainerTool"
      using d by (auto simp: catalog_def tool_def)
    then have "snd (runHandler a ident (td_name d) (td_register d) args) = []"
      by (simp add: runHandler_def Let_def split: tool_handler.split sum.split option.split)
    with obs show ?thesis by simp
  qed
  moreover have "\<not> call_allowed a t d res" if "td_effect d = EffectRepair" for t d res
    using that assms by (simp add: call_allowed_def)
  ultimately show ?thesis unfolding middleware_call by auto
qed

theorem read_only_blocks_repairs_witness:
  "list_all (\<lambda>d. td_effect d = EffectObserve) (registered (example_app\<lparr>ap_ReadOnly := True\<rparr>))"
proof -
  have "ap_ReadOnly (example_app\<lparr>ap_ReadOnly := True\<rparr>)" by simp
  from read_only_blocks_repairs [OF this, THEN conjunct1] show ?thesis unfolding list_all_iff by blast
qed


text \<open>
  Every container in a listed inventory is one that the policy allows for that tool; what the
  Docker reader answers beyond that is dropped.
\<close>

theorem container_inventory_filtered:
  assumes "runHandler a ident name ListContainers args = (Inr (ContainersResult v), reqs)"
  shows "(\<forall>c\<in>set (i_Containers v). Allows (ap_Policy a) EffectObserve name (c_ID c))
    \<and> (\<exists>docker w. ap_Docker a = Some docker \<and> dr_Containers docker = Inr w \<and> set (i_Containers v) \<subseteq> set (i_Containers w))
    \<and> reqs = []"
  using assms by (auto simp: runHandler_def split: option.splits sum.splits)

theorem container_inventory_filtered_witness:
  "\<exists>v. fst (runHandler (example_app\<lparr>ap_Docker := Some \<lparr>dr_Engine = Inl ''none'',
      dr_Containers = Inr \<lparr>i_ObservedAt = 0, i_Containers = [], i_Limit = 500\<rparr>, dr_Container = (\<lambda>_. Inl ''none''),
      dr_Stats = (\<lambda>_. Inl ''none''), dr_Logs = (\<lambda>_ _. Inl ''none'')\<rparr>\<rparr>) None ''list_docker_containers''
      ListContainers \<lparr>ar_Name = [], ar_ID = [], ar_Limit = 0\<rparr>) = Inr (ContainersResult v)
    \<and> list_all (\<lambda>c. Allows example_policy EffectObserve ''list_docker_containers'' (c_ID c)) (i_Containers v)"
proof -
  let ?a = "example_app\<lparr>ap_Docker := Some \<lparr>dr_Engine = Inl ''none'',
      dr_Containers = Inr \<lparr>i_ObservedAt = 0, i_Containers = [], i_Limit = 500\<rparr>, dr_Container = (\<lambda>_. Inl ''none''),
      dr_Stats = (\<lambda>_. Inl ''none''), dr_Logs = (\<lambda>_ _. Inl ''none'')\<rparr>\<rparr>"
  obtain v reqs where r: "runHandler ?a None ''list_docker_containers'' ListContainers \<lparr>ar_Name = [], ar_ID = [], ar_Limit = 0\<rparr>
      = (Inr (ContainersResult v), reqs)"
    by (simp add: runHandler_def example_app_def)
  with container_inventory_filtered [OF r] show ?thesis by (auto simp: example_app_def list_all_iff)
qed

text \<open>
  Only a verified bearer token gets past the transport: a request is served exactly when a
  slot is free, the header is a well-formed bearer header and its secret verifies; the served
  context carries that token and secret. When the check is that of the token store, the token is
  not revoked and has at least one of the two roles.
\<close>

theorem transport_authenticates:
  "gatewayTransport slot (Verify s h cd d) header serve = GatewayServed x \<longleftrightarrow>
     slot \<and> (\<exists>secret t. bearer header = (secret, True) \<and> Verify s h cd d secret = Inr t
        \<and> x = serve \<lparr>cd_record = t, cd_secret = secret\<rparr> \<and> \<not> t_Revoked t
        \<and> (''observe'' \<in> set (t_Roles t) \<or> ''repair'' \<in> set (t_Roles t)) \<and> secret \<noteq> [] \<and> t_Hash t = [])"
proof -
  have ne: "bearer header = (secret, True) \<Longrightarrow> secret \<noteq> []" for secret
    by (auto simp: bearer_def split: prod.splits)
  show ?thesis
    using store_check.not_revoked [of s h cd d] store_check.some_role [of s h cd d] store_check.hash_hidden [of s h cd d] ne
    by (auto simp: gatewayTransport_def split: prod.splits sum.splits if_splits)
qed

end
