(* ===== verification/Repair.thy ===== *)
theory Repair
  imports Config Gateway_Correct LocalIPC
begin

text \<open>
  The repair worker of \<open>internal/repair/repair_linux.go\<close>: the request handler with its audit
  records, and the client the gateway uses. The worker checks the kernel's peer identity, then
  reloads the configuration and verifies the token itself, so it does not rely on the gateway. What
  it does is a trace of actions: audit records written or failed, and restarts invoked.
\<close>

section \<open>Data\<close>

record repair_response =
  rr_Service :: "service option"
  rr_Container :: "container option"
  rr_Invoked :: "bool option"
  rr_Completed :: "bool option"
  rr_Issue :: string

record repair_server =
  rs_Socket :: string
  rs_ConfigPath :: string
  rs_GatewayUID :: uid
  rs_SharedGID :: int
  rs_Tokens :: store
  rs_Services :: "(string \<Rightarrow> (string, service_restart) result) option"
  rs_Containers :: "(string \<Rightarrow> (string, container_restart) result) option"

record audit_event =
  au_RequestID :: string
  au_TokenID :: string
  au_Tool :: string
  au_Target :: string
  au_Decision :: string
  au_Outcome :: string

datatype repair_action =
    Audited audit_event
  | AuditFailed audit_event
  | InvokeService string
  | InvokeContainer string

datatype repair_reply = RepairError int string | RepairOutput repair_response

text \<open>
  An HTTP request on the repair socket, with the peer's user identifier that the connection context
  carries, and its body as a stream.
\<close>

record repair_http =
  ht_Peer :: uid
  ht_Method :: string
  ht_Path :: string
  ht_Body :: "bytes \<times> body_end"

text \<open>
  What the handler asks of its surroundings: the configuration load and the token verification at
  this moment, its own user, the strict JSON decoder and its end-of-input test, the random request
  identifier, and whether the next audit record can be written.
\<close>

record repair_env =
  re_Load :: "(load_error, config \<times> policy) result"
  re_Verify :: "string \<Rightarrow> (store_error, token) result"
  re_Euid :: uid
  re_Decode :: "bytes \<Rightarrow> (string, repair_request) result"
  re_DecodeEOF :: "bytes \<Rightarrow> bool"
  re_RequestID :: string
  re_AuditOk :: "nat \<Rightarrow> bool"

definition maxFrame :: int where
  "maxFrame = 65536"

section \<open>The handler\<close>

text \<open>The \<open>k\<close>-th audit record of a request.\<close>

definition recordAudit :: "repair_env \<Rightarrow> nat \<Rightarrow> audit_event \<Rightarrow> bool \<times> repair_action" where
  "recordAudit env k event = (if re_AuditOk env k then (True, Audited event) else (False, AuditFailed event))"

definition denyRequest :: "repair_env \<Rightarrow> audit_event \<Rightarrow> int \<Rightarrow> string \<Rightarrow> repair_reply \<times> repair_action list" where
  "denyRequest env event code message =
     (case recordAudit env 0 event of
        (False, act) \<Rightarrow> (RepairError 503 ''repair audit unavailable'', [act])
      | (True, act) \<Rightarrow> (RepairError code message, [act]))"

text \<open>The \<open>switch\<close> on the tool: the restart, its result and the actions taken.\<close>

definition invokeRepair :: "repair_server \<Rightarrow> repair_request \<Rightarrow> (string, repair_response) result \<times> repair_action list" where
  "invokeRepair s input =
     (if rq_Tool input = ''restart_service'' then
        (case rs_Services s of
           None \<Rightarrow> (Inl ''service repair unavailable'', [])
         | Some restart \<Rightarrow>
             ((case restart (rq_Target input) of
                 Inl e \<Rightarrow> Inl e
               | Inr r \<Rightarrow> Inr \<lparr>rr_Service = sr_Service r, rr_Container = None, rr_Invoked = sr_Invoked r,
                              rr_Completed = sr_Completed r, rr_Issue = sr_Issue r\<rparr>),
              [InvokeService (rq_Target input)]))
      else if rq_Tool input = ''restart_container'' then
        (case rs_Containers s of
           None \<Rightarrow> (Inl ''container repair unavailable'', [])
         | Some restart \<Rightarrow>
             ((case restart (rq_Target input) of
                 Inl e \<Rightarrow> Inl e
               | Inr r \<Rightarrow> Inr \<lparr>rr_Service = None, rr_Container = cr_Container r, rr_Invoked = cr_Invoked r,
                              rr_Completed = cr_Completed r, rr_Issue = cr_Issue r\<rparr>),
              [InvokeContainer (rq_Target input)]))
      else (Inl ''unknown repair'', []))"

text \<open>After the decision: the started record, the restart, and the record of its outcome.\<close>

definition performRepair :: "repair_server \<Rightarrow> repair_env \<Rightarrow> audit_event \<Rightarrow> repair_request
    \<Rightarrow> repair_reply \<times> repair_action list" where
  "performRepair s env event input =
     (let event = event\<lparr>au_Tool := rq_Tool input, au_Target := rq_Target input, au_Decision := ''allowed'',
                        au_Outcome := ''started''\<rparr> in
      case recordAudit env 0 event of
        (False, act) \<Rightarrow> (RepairError 503 ''repair audit unavailable'', [act])
      | (True, act) \<Rightarrow>
          (let (result, invoked) = invokeRepair s input in
           case result of
             Inl e \<Rightarrow>
               (case recordAudit env 1 (event\<lparr>au_Outcome := ''failed''\<rparr>) of
                  (False, act2) \<Rightarrow> (RepairError 503 ''repair audit unavailable; outcome unknown'', act # invoked @ [act2])
                | (True, act2) \<Rightarrow> (RepairError 503 ''repair failed'', act # invoked @ [act2]))
           | Inr output \<Rightarrow>
               (let outcome = (if rr_Issue output \<noteq> [] then rr_Issue output else ''completed'') in
                case recordAudit env 1 (event\<lparr>au_Outcome := outcome\<rparr>) of
                  (False, act2) \<Rightarrow> (RepairError 503 ''repair audit unavailable; outcome unknown'', act # invoked @ [act2])
                | (True, act2) \<Rightarrow> (RepairOutput output, act # invoked @ [act2]))))"

definition workerRole :: "token \<Rightarrow> bool" where
  "workerRole t = list_ex (\<lambda>role. role = RoleRepair) (t_Roles t)"

definition handleRepair :: "repair_server \<Rightarrow> repair_env \<Rightarrow> repair_http \<Rightarrow> repair_reply \<times> repair_action list" where
  "handleRepair s env req =
     (let event = \<lparr>au_RequestID = re_RequestID env, au_TokenID = [], au_Tool = [], au_Target = [],
                   au_Decision = ''denied'', au_Outcome = ''denied''\<rparr> in
      if ht_Peer req \<noteq> rs_GatewayUID s \<or> ht_Method req \<noteq> ''POST'' \<or> ht_Path req \<noteq> ''/restart''
      then denyRequest env event 403 ''denied''
      else
        (case readAllLimit (maxFrame + 1) (ht_Body req) of
           (data, err) \<Rightarrow>
             (if err \<noteq> BodyEOF \<or> int (length data) > maxFrame then denyRequest env event 400 ''request exceeds limit''
              else
                (case re_Decode env data of
                   Inl e \<Rightarrow> denyRequest env event 400 ''invalid request''
                 | Inr input \<Rightarrow>
                     (if \<not> re_DecodeEOF env data then denyRequest env event 400 ''invalid request''
                      else
                        (case re_Load env of
                           Inl e \<Rightarrow> denyRequest env event 403 ''repair disabled''
                         | Inr (config, policy) \<Rightarrow>
                             (if ReadOnly config \<or> GatewayUID config \<noteq> rs_GatewayUID s \<or> RepairUID config \<noteq> re_Euid env
                                 \<or> TokenStore config \<noteq> s_Path (rs_Tokens s) \<or> RepairSocket config \<noteq> rs_Socket s
                              then denyRequest env event 403 ''repair disabled''
                              else
                                (case re_Verify env (rq_Secret input) of
                                   Inl e \<Rightarrow> denyRequest env event 403 ''identity denied''
                                 | Inr t \<Rightarrow>
                                     (let event = event\<lparr>au_TokenID := t_ID t\<rparr> in
                                      if \<not> workerRole t \<or> \<not> Allows policy EffectRepair (rq_Tool input) (rq_Target input)
                                      then denyRequest env event 403 ''repair denied''
                                      else performRepair s env event input)))))))))"

text \<open>
  The two calls the handler makes on each request, on the real components: \<open>core.Load\<close> with the
  effects of the catalog (which \<open>ToolEffects\<close> always gives), and \<open>Verify\<close> of its own store.
\<close>

definition workerCalls :: "os \<Rightarrow> config yaml_decoder \<Rightarrow> profile yaml_decoder \<Rightarrow> host \<Rightarrow> json_codec \<Rightarrow> dir
    \<Rightarrow> repair_server \<Rightarrow> repair_env \<Rightarrow> repair_env" where
  "workerCalls os cdec pdec h cd d s env =
     env\<lparr>re_Load := Load os cdec pdec (rs_ConfigPath s) (the ToolEffects),
         re_Verify := Verify (rs_Tokens s) h cd d\<rparr>"

text \<open>The handler behind the single slot, for a connection whose peer the kernel identifies.\<close>

definition serveRepair :: "bool \<Rightarrow> repair_server \<Rightarrow> repair_env \<Rightarrow> connection \<Rightarrow> repair_http
    \<Rightarrow> repair_reply \<times> repair_action list" where
  "serveRepair slot s env conn req =
     (if \<not> slot then (RepairError 503 ''busy'', [])
      else handleRepair s env (req\<lparr>ht_Peer := peerContext conn\<rparr>))"

definition runRepair :: "socket_env \<Rightarrow> repair_server \<Rightarrow> sock_dir \<Rightarrow> string option \<times> sock_dir" where
  "runRepair env s d =
     (if rs_Socket s = [] \<or> rs_ConfigPath s = [] then (Some ''repair socket and configuration required'', d)
      else runSocket env (rs_Socket s) (rs_SharedGID s) d)"

section \<open>The client\<close>

text \<open>
  One call over the socket: the dial with the kernel's peer identity, the request, the status and
  the declared length of the response, and the bounded body decoded strictly. \<open>http\<close> sends a
  request over a connection and gives the response or the transport's error.
\<close>

datatype client_error =
    Unavailable dial_error
  | TransportFailed string
  | Refused int
  | ResponseExceedsLimit
  | ResponseInvalid string
  | TrailingResponse
  | MissingResult

definition repairCall :: "uid \<Rightarrow> (string, connection) result \<Rightarrow> (connection \<Rightarrow> repair_request \<Rightarrow> (string, http_reply) result)
    \<Rightarrow> (bytes \<Rightarrow> (string, repair_response) result) \<Rightarrow> (bytes \<Rightarrow> bool) \<Rightarrow> repair_request
    \<Rightarrow> (client_error, repair_response) result" where
  "repairCall expectedUID dialed http decode atEOF request =
     (case dialPeer expectedUID dialed of
        Inl e \<Rightarrow> Inl (Unavailable e)
      | Inr conn \<Rightarrow>
          (case http conn request of
             Inl e \<Rightarrow> Inl (TransportFailed e)
           | Inr resp \<Rightarrow>
               (if hr_Status resp \<noteq> 200 \<or> hr_ContentLength resp > maxFrame then Inl (Refused (hr_Status resp))
                else
                  (case readAllLimit (maxFrame + 1) (hr_Body resp) of
                     (data, err) \<Rightarrow>
                       (if err \<noteq> BodyEOF \<or> int (length data) > maxFrame then Inl ResponseExceedsLimit
                        else
                          (case decode data of
                             Inl e \<Rightarrow> Inl (ResponseInvalid e)
                           | Inr r \<Rightarrow> if \<not> atEOF data then Inl TrailingResponse else Inr r))))))"

definition clientRestartService :: "(repair_request \<Rightarrow> (client_error, repair_response) result) \<Rightarrow> string \<Rightarrow> string
    \<Rightarrow> (client_error, service_restart) result" where
  "clientRestartService call secret target =
     (case call \<lparr>rq_Secret = secret, rq_Tool = ''restart_service'', rq_Target = target\<rparr> of
        Inl e \<Rightarrow> Inl e
      | Inr r \<Rightarrow>
          (if rr_Completed r = Some True \<and> rr_Issue r = [] \<and> rr_Service r = None then Inl MissingResult
           else Inr \<lparr>sr_Service = rr_Service r, sr_Invoked = rr_Invoked r, sr_Completed = rr_Completed r,
                  sr_Issue = rr_Issue r\<rparr>))"

definition clientRestartContainer :: "(repair_request \<Rightarrow> (client_error, repair_response) result) \<Rightarrow> string \<Rightarrow> string
    \<Rightarrow> (client_error, container_restart) result" where
  "clientRestartContainer call secret target =
     (case call \<lparr>rq_Secret = secret, rq_Tool = ''restart_container'', rq_Target = target\<rparr> of
        Inl e \<Rightarrow> Inl e
      | Inr r \<Rightarrow>
          (if rr_Completed r = Some True \<and> rr_Issue r = [] \<and> rr_Container r = None then Inl MissingResult
           else Inr \<lparr>cr_Container = rr_Container r, cr_Invoked = rr_Invoked r, cr_Completed = rr_Completed r,
                  cr_Issue = rr_Issue r\<rparr>))"

text \<open>
  The two ends joined: the request that \<open>call\<close> posts and the response that the handler writes, for
  JSON encoders of the two messages. \<open>http.Error\<close> writes the code and the message.
\<close>

definition postRepair :: "(repair_request \<Rightarrow> bytes) \<Rightarrow> repair_request \<Rightarrow> repair_http" where
  "postRepair encRequest request =
     \<lparr>ht_Peer = NOT 0, ht_Method = ''POST'', ht_Path = ''/restart'', ht_Body = (encRequest request, BodyEOF)\<rparr>"

definition writeReply :: "(repair_response \<Rightarrow> bytes) \<Rightarrow> repair_reply \<Rightarrow> http_reply" where
  "writeReply encResponse reply =
     (case reply of
        RepairError code message \<Rightarrow>
          \<lparr>hr_Status = code, hr_ContentLength = int (length message) + 1, hr_Body = (message @ [CHR 0x0A], BodyEOF)\<rparr>
      | RepairOutput out \<Rightarrow>
          \<lparr>hr_Status = 200, hr_ContentLength = int (length (encResponse out)), hr_Body = (encResponse out, BodyEOF)\<rparr>)"

section \<open>What an invocation implies\<close>

definition is_invoke :: "repair_action \<Rightarrow> bool" where
  "is_invoke act \<longleftrightarrow> (\<exists>t. act = InvokeService t \<or> act = InvokeContainer t)"

lemma denyRequest_actions:
  "\<exists>act. snd (denyRequest env event code message) = [act] \<and> act \<in> {Audited event, AuditFailed event}"
  by (simp add: denyRequest_def recordAudit_def)

lemma denyRequest_no_invoke: "act \<in> set (snd (denyRequest env event code message)) \<Longrightarrow> \<not> is_invoke act"
  by (auto simp: denyRequest_def recordAudit_def is_invoke_def split: if_splits)

lemma invokeRepair_actions:
  "snd (invokeRepair s input) \<in> {[], [InvokeService (rq_Target input)], [InvokeContainer (rq_Target input)]}"
  "InvokeService t \<in> set (snd (invokeRepair s input)) \<Longrightarrow> rq_Tool input = ''restart_service'' \<and> t = rq_Target input"
  "InvokeContainer t \<in> set (snd (invokeRepair s input)) \<Longrightarrow> rq_Tool input = ''restart_container'' \<and> t = rq_Target input"
  by (auto simp: invokeRepair_def split: option.splits if_splits)

definition started_event :: "audit_event \<Rightarrow> repair_request \<Rightarrow> audit_event" where
  "started_event event input = event\<lparr>au_Tool := rq_Tool input, au_Target := rq_Target input,
     au_Decision := ''allowed'', au_Outcome := ''started''\<rparr>"

lemma performRepair_actions:
  "snd (performRepair s env event input) = [AuditFailed (started_event event input)]
   \<or> (\<exists>act2 fin. snd (performRepair s env event input) =
        Audited (started_event event input) # snd (invokeRepair s input) @ [act2]
        \<and> act2 \<in> {Audited fin, AuditFailed fin} \<and> au_Decision fin = ''allowed'' \<and> au_Target fin = rq_Target input)"
proof (cases "re_AuditOk env 0")
  case False
  then show ?thesis by (simp add: performRepair_def recordAudit_def started_event_def Let_def)
next
  case True
  then show ?thesis
    by (cases "fst (invokeRepair s input)")
      (auto simp: performRepair_def recordAudit_def started_event_def Let_def split: prod.splits)
qed

text \<open>The worker's own gate, a second instance of the contract that the gateway's satisfies.\<close>

definition worker_admits :: "policy \<Rightarrow> token \<Rightarrow> string \<Rightarrow> string \<Rightarrow> bool" where
  "worker_admits p t name res \<longleftrightarrow> workerRole t \<and> Allows p EffectRepair name res"

interpretation worker_gate: repair_gate Allows Advertises exact_grant compiled worker_admits
  by unfold_locales (auto simp: worker_admits_def workerRole_def list_ex_iff RoleRepair_def)

text \<open>Every check that a request has passed when the worker acts on it.\<close>

definition request_checked :: "repair_server \<Rightarrow> repair_env \<Rightarrow> repair_http \<Rightarrow> repair_request \<Rightarrow> config \<Rightarrow> policy \<Rightarrow> token \<Rightarrow> bool" where
  "request_checked s env req input config policy t \<longleftrightarrow>
     ht_Peer req = rs_GatewayUID s \<and> ht_Method req = ''POST'' \<and> ht_Path req = ''/restart''
     \<and> (\<exists>data. readAllLimit (maxFrame + 1) (ht_Body req) = (data, BodyEOF) \<and> int (length data) \<le> maxFrame \<and> re_Decode env data = Inr input \<and> re_DecodeEOF env data)
     \<and> re_Load env = Inr (config, policy) \<and> \<not> ReadOnly config \<and> GatewayUID config = rs_GatewayUID s
     \<and> RepairUID config = re_Euid env \<and> TokenStore config = s_Path (rs_Tokens s) \<and> RepairSocket config = rs_Socket s
     \<and> re_Verify env (rq_Secret input) = Inr t \<and> worker_admits policy t (rq_Tool input) (rq_Target input)"

definition event_for :: "repair_env \<Rightarrow> token \<Rightarrow> audit_event" where
  "event_for env t = \<lparr>au_RequestID = re_RequestID env, au_TokenID = t_ID t, au_Tool = [], au_Target = [],
     au_Decision = ''denied'', au_Outcome = ''denied''\<rparr>"

text \<open>The decision on a well-formed request: denied, or every check passed.\<close>

lemma repair_decision_cases:
  assumes "x = (case re_Load env of
            Inl e \<Rightarrow> no1
          | Inr (config, policy) \<Rightarrow>
              (if bad config then no1
               else (case re_Verify env secret of
                       Inl e \<Rightarrow> no2
                     | Inr t \<Rightarrow> (if \<not> ok policy t then no3 t else go t))))"
  obtains "x = no1" | "x = no2" | t where "x = no3 t"
  | config policy t where "re_Load env = Inr (config, policy)" "\<not> bad config" "re_Verify env secret = Inr t" "ok policy t" "x = go t"
  using assms by (cases "re_Load env"; cases "re_Verify env secret") (auto split: prod.splits if_splits)

lemma handleRepair_cases:
  obtains (denied) event code message where "handleRepair s env req = denyRequest env event code message"
      "au_Decision event = ''denied''"
  | (checked) input config policy t where "request_checked s env req input config policy t"
      "handleRepair s env req = performRepair s env (event_for env t) input"
proof -
  let ?event = "\<lparr>au_RequestID = re_RequestID env, au_TokenID = [], au_Tool = [], au_Target = [],
     au_Decision = ''denied'', au_Outcome = ''denied''\<rparr>"
  have deny: thesis if "handleRepair s env req = denyRequest env ?event code message" for code message
    using that by (rule denied) simp
  note def = handleRepair_def [of s env req, unfolded Let_def]
  show thesis
  proof (cases "ht_Peer req \<noteq> rs_GatewayUID s \<or> ht_Method req \<noteq> ''POST'' \<or> ht_Path req \<noteq> ''/restart''")
    case True
    then show thesis by (intro deny) (simp add: def)
  next
    case http: False
    obtain data err where rd: "readAllLimit (maxFrame + 1) (ht_Body req) = (data, err)" by fastforce
    show thesis
    proof (cases "err = BodyEOF \<and> int (length data) \<le> maxFrame \<and> (\<exists>input. re_Decode env data = Inr input) \<and> re_DecodeEOF env data")
      case False
      then have "\<exists>code message. handleRepair s env req = denyRequest env ?event code message"
        using http rd
        by (cases "re_Decode env data"; cases "err \<noteq> BodyEOF \<or> maxFrame < int (length data)") (simp_all add: def, blast+)
      then show thesis using deny by blast
    next
      case True
      then obtain input where body: "readAllLimit (maxFrame + 1) (ht_Body req) = (data, BodyEOF)" "int (length data) \<le> maxFrame"
        "re_Decode env data = Inr input" "re_DecodeEOF env data" using rd by blast
      have step: "handleRepair s env req = (case re_Load env of
            Inl e \<Rightarrow> denyRequest env ?event 403 ''repair disabled''
          | Inr (config, policy) \<Rightarrow>
              (if ReadOnly config \<or> GatewayUID config \<noteq> rs_GatewayUID s \<or> RepairUID config \<noteq> re_Euid env
                  \<or> TokenStore config \<noteq> s_Path (rs_Tokens s) \<or> RepairSocket config \<noteq> rs_Socket s
               then denyRequest env ?event 403 ''repair disabled''
               else (case re_Verify env (rq_Secret input) of
                       Inl e \<Rightarrow> denyRequest env ?event 403 ''identity denied''
                     | Inr t \<Rightarrow> (if \<not> worker_admits policy t (rq_Tool input) (rq_Target input)
                          then denyRequest env (event_for env t) 403 ''repair denied''
                          else performRepair s env (event_for env t) input))))"
        using http body by (simp add: def worker_admits_def event_for_def split: sum.split)
      show thesis
        by (rule repair_decision_cases [OF step]) (use http body in \<open>auto simp: request_checked_def event_for_def intro: denied checked\<close>)
    qed
  qed
qed

end
