(* ===== verification/Repair_Correct.thy ===== *)
theory Repair_Correct
  imports Repair
begin

text \<open>
  What the repair worker guarantees: nothing is restarted without every check and a written audit
  record before it, every admitted request leaves a record, an answer agrees with the record of its
  outcome, a denied request has no effect; and what the client accepts as a result.
\<close>

section \<open>Traces\<close>

lemma invoked_cases:
  assumes "act \<in> set (snd (handleRepair s env req))" and "is_invoke act"
  obtains input config policy t act2 where "request_checked s env req input config policy t"
    "snd (handleRepair s env req) = [Audited (started_event (event_for env t) input), act, act2]"
    "act = InvokeService (rq_Target input) \<and> rq_Tool input = ''restart_service''
     \<or> act = InvokeContainer (rq_Target input) \<and> rq_Tool input = ''restart_container''"
    "\<not> is_invoke act2"
proof (cases rule: handleRepair_cases [where s = s and env = env and req = req])
  case (denied event code message)
  with assms have False using denyRequest_no_invoke by metis
  then show ?thesis ..
next
  case (checked input config policy t)
  let ?e = "event_for env t"
  have "act \<in> set (snd (performRepair s env ?e input))" using assms(1) checked(2) by simp
  then obtain act2 fin where tr: "snd (performRepair s env ?e input) =
        Audited (started_event ?e input) # snd (invokeRepair s input) @ [act2]" "act2 \<in> {Audited fin, AuditFailed fin}"
    using performRepair_actions [of s env ?e input] assms(2) by (auto simp: is_invoke_def)
  have act2: "\<not> is_invoke act2" using tr(2) by (auto simp: is_invoke_def)
  have "act \<in> set (snd (invokeRepair s input))"
    using \<open>act \<in> set (snd (performRepair s env ?e input))\<close> tr assms(2) by (auto simp: is_invoke_def)
  note mem = this
  have inv1: "snd (invokeRepair s input) = [act]"
    using invokeRepair_actions(1) [where s = s and input = input] mem
    by (elim insertE emptyE) simp_all
  have inv2: "act = InvokeService (rq_Target input) \<and> rq_Tool input = ''restart_service''
     \<or> act = InvokeContainer (rq_Target input) \<and> rq_Tool input = ''restart_container''"
  proof (cases act)
    case (InvokeService u)
    with invokeRepair_actions(2) mem show ?thesis by simp
  next
    case (InvokeContainer u)
    with invokeRepair_actions(3) mem show ?thesis by simp
  qed (use assms(2) in \<open>simp_all add: is_invoke_def\<close>)
  show thesis by (rule that [OF checked(1) _ inv2 act2]) (simp add: checked(2) tr(1) inv1)
qed

text \<open>What the last record of an answered repair says.\<close>

definition outcome_of :: "repair_response \<Rightarrow> string" where
  "outcome_of out = (if rr_Issue out \<noteq> [] then rr_Issue out else ''completed'')"

lemma performRepair_output:
  assumes "fst (performRepair s env event input) = RepairOutput out"
  shows "fst (invokeRepair s input) = Inr out"
    "snd (performRepair s env event input) = Audited (started_event event input) # snd (invokeRepair s input)
       @ [Audited ((started_event event input)\<lparr>au_Outcome := outcome_of out\<rparr>)]"
proof -
  have ok: "re_AuditOk env 0"
    using assms by (rule_tac ccontr) (simp add: performRepair_def recordAudit_def Let_def)
  obtain r inv where i: "invokeRepair s input = (r, inv)" by fastforce
  from assms ok i show "fst (invokeRepair s input) = Inr out"
    by (cases r) (auto simp: performRepair_def recordAudit_def Let_def split: if_splits)
  from assms ok i show "snd (performRepair s env event input) = Audited (started_event event input) # snd (invokeRepair s input)
       @ [Audited ((started_event event input)\<lparr>au_Outcome := outcome_of out\<rparr>)]"
    by (cases r) (auto simp: performRepair_def recordAudit_def started_event_def outcome_of_def Let_def split: if_splits)
qed

lemma denyRequest_no_output: "fst (denyRequest env event code message) \<noteq> RepairOutput out"
  by (simp add: denyRequest_def recordAudit_def)

lemma invokeRepair_output: "fst (invokeRepair s input) = Inr out \<Longrightarrow> \<exists>act. snd (invokeRepair s input) = [act] \<and> is_invoke act"
  by (auto simp: invokeRepair_def is_invoke_def split: if_splits option.splits)

text \<open>The records of a trace: every trace starts and ends with one.\<close>

definition is_record :: "repair_action \<Rightarrow> bool" where
  "is_record act \<longleftrightarrow> (\<exists>e. act = Audited e \<or> act = AuditFailed e)"

lemma handled_recorded: "\<exists>acts last'. snd (handleRepair s env req) = acts @ [last'] \<and> is_record last'
    \<and> is_record (hd (snd (handleRepair s env req)))"
proof (cases rule: handleRepair_cases [where s = s and env = env and req = req])
  case (denied event code message)
  then show ?thesis using denyRequest_actions [of env event code message] by (auto simp: is_record_def)
next
  case (checked input config policy t)
  then show ?thesis
    using performRepair_actions [of s env "event_for env t" input] by (auto simp: is_record_def)
qed

section \<open>An example\<close>

definition example_worker :: repair_server where
  "example_worker = \<lparr>rs_Socket = ''/run/hostlens-repair/repair.sock'', rs_ConfigPath = ''/etc/hostlens/config.yaml'',
     rs_GatewayUID = 1001, rs_SharedGID = 1001, rs_Tokens = example_store,
     rs_Services = Some (\<lambda>n. Inr \<lparr>sr_Service = Some (base_service 0 n Map.empty), sr_Invoked = Some True, sr_Completed = Some True, sr_Issue = []\<rparr>),
     rs_Containers = None\<rparr>"

definition example_output :: repair_response where
  "example_output = \<lparr>rr_Service = Some (base_service 0 ''nginx.service'' Map.empty), rr_Container = None, rr_Invoked = Some True,
     rr_Completed = Some True, rr_Issue = []\<rparr>"

definition example_repair_request :: repair_request where
  "example_repair_request = \<lparr>rq_Secret = example_secret, rq_Tool = ''restart_service'', rq_Target = ''nginx.service''\<rparr>"

definition example_env :: repair_env where
  "example_env = \<lparr>re_Load = Inr example_load, re_Verify = (\<lambda>_. Inr repair_token), re_Euid = 0,
     re_Decode = (\<lambda>_. Inr example_repair_request), re_DecodeEOF = (\<lambda>_. True), re_RequestID = ''id'', re_AuditOk = (\<lambda>_. True)\<rparr>"

definition example_http :: repair_http where
  "example_http = \<lparr>ht_Peer = 0, ht_Method = ''POST'', ht_Path = ''/restart'', ht_Body = (''{}'', BodyEOF)\<rparr>"

definition gateway_conn :: connection where
  "gateway_conn = \<lparr>cn_IsUnix = True, cn_SyscallConn = None, cn_Control = None, cn_Ucred = Inr 1001\<rparr>"

lemma loaded_example_config: "Load os config_yaml pdec path tools = Inr (config, pol) \<Longrightarrow> config = example_config"
  by (auto simp: decodeYAML_def config_yaml_def split: sum.splits if_splits elim!: Load_Inr)

lemma example_load_checks:
  "\<not> ReadOnly (fst example_load)" "GatewayUID (fst example_load) = 1001" "RepairUID (fst example_load) = 0"
  "TokenStore (fst example_load) = ''/etc/hostlens/secrets/tokens.json''"
  "RepairSocket (fst example_load) = ''/run/hostlens-repair/repair.sock''"
  using loaded_example_config [OF example_Load] by (simp_all add: example_config_def)

lemma example_handled:
  assumes "re_Load env = Inr (config, policy)" "re_Verify env example_secret = Inr t" "''repair'' \<in> set (t_Roles t)"
    and "\<not> ReadOnly config" "GatewayUID config = 1001" "RepairUID config = re_Euid env"
      "TokenStore config = s_Path example_store" "RepairSocket config = rs_Socket example_worker"
    and "Allows policy EffectRepair ''restart_service'' ''nginx.service''"
    and "re_Decode env = (\<lambda>_. Inr example_repair_request)" "re_DecodeEOF env = (\<lambda>_. True)" "re_AuditOk env = (\<lambda>_. True)"
  shows "InvokeService ''nginx.service'' \<in> set (snd (serveRepair True example_worker env gateway_conn example_http))"
    "fst (serveRepair True example_worker env gateway_conn example_http) = RepairOutput example_output"
proof -
  have "readAllLimit (maxFrame + 1) (''{}'', BodyEOF) = (''{}'', BodyEOF)"
    by (simp add: readAllLimit_def maxFrame_def)
  moreover have "peerContext gateway_conn = 1001"
    by (simp add: peerContext_def PeerUID_def gateway_conn_def)
  moreover have "workerRole t" using assms(3) by (simp add: workerRole_def list_ex_iff RoleRepair_def)
  ultimately show "InvokeService ''nginx.service'' \<in> set (snd (serveRepair True example_worker env gateway_conn example_http))"
    "fst (serveRepair True example_worker env gateway_conn example_http) = RepairOutput example_output"
    using assms
    by (simp_all add: serveRepair_def handleRepair_def example_http_def example_worker_def example_repair_request_def Let_def
        maxFrame_def performRepair_def recordAudit_def invokeRepair_def example_output_def)
qed

lemma example_served:
  "InvokeService ''nginx.service'' \<in> set (snd (serveRepair True example_worker example_env gateway_conn example_http))"
  "fst (serveRepair True example_worker example_env gateway_conn example_http) = RepairOutput example_output"
proof -
  have e: "re_Load example_env = Inr (fst example_load, snd example_load)" "re_Verify example_env example_secret = Inr repair_token"
    "''repair'' \<in> set (t_Roles repair_token)" "re_Euid example_env = 0" "re_Decode example_env = (\<lambda>_. Inr example_repair_request)"
    "re_DecodeEOF example_env = (\<lambda>_. True)" "re_AuditOk example_env = (\<lambda>_. True)"
    "s_Path example_store = ''/etc/hostlens/secrets/tokens.json''" "rs_Socket example_worker = ''/run/hostlens-repair/repair.sock''"
    by (simp_all add: example_env_def repair_token_def example_store_def example_worker_def)
  note r = example_handled [OF e(1-3) _ _ _ _ _ example_Load_allows e(5-7)]
  show "InvokeService ''nginx.service'' \<in> set (snd (serveRepair True example_worker example_env gateway_conn example_http))"
    "fst (serveRepair True example_worker example_env gateway_conn example_http) = RepairOutput example_output"
    by (rule r; simp add: e example_load_checks)+
qed

section \<open>Client and worker\<close>

lemma repairCall_Inr:
  assumes "repairCall u dialed http decode atEOF request = Inr r"
  obtains conn resp data where "dialed = Inr conn" "PeerUID conn = Inr u" "http conn request = Inr resp" "hr_Status resp = 200"
    "readAllLimit (maxFrame + 1) (hr_Body resp) = (data, BodyEOF)" "int (length data) \<le> maxFrame" "decode data = Inr r" "atEOF data"
proof -
  from assms obtain conn where c: "dialPeer u dialed = Inr conn" by (auto simp: repairCall_def split: sum.splits)
  with assms obtain resp where h: "http conn request = Inr resp" by (auto simp: repairCall_def split: sum.splits)
  obtain data err where d: "readAllLimit (maxFrame + 1) (hr_Body resp) = (data, err)" by fastforce
  have "hr_Status resp = 200 \<and> err = BodyEOF \<and> int (length data) \<le> maxFrame \<and> decode data = Inr r \<and> atEOF data"
    using assms c h d by (cases "decode data") (auto simp: repairCall_def split: if_splits)
  with that c h d show thesis by (simp add: dialPeer_Inr)
qed

lemma readAllLimit_EOF:
  "readAllLimit (maxFrame + 1) body = (data, BodyEOF) \<Longrightarrow> int (length data) \<le> maxFrame \<Longrightarrow> body = (data, BodyEOF)"
  by (auto simp: readAllLimit_def maxFrame_def split: if_splits)

text \<open>The worker answers 200 only with an output.\<close>

lemma denyRequest_200: "fst (denyRequest env ev c m) = RepairError 200 msg \<longleftrightarrow> c = 200 \<and> re_AuditOk env 0 \<and> m = msg"
  by (simp add: denyRequest_def recordAudit_def)

lemma performRepair_200: "fst (performRepair s env ev inp) \<noteq> RepairError 200 msg"
  by (cases "fst (invokeRepair s inp)") (auto simp: performRepair_def recordAudit_def Let_def split: prod.splits)

lemma no_error_200: "fst (serveRepair slot s env conn req) \<noteq> RepairError 200 message"
  by (auto simp: serveRepair_def handleRepair_def Let_def denyRequest_200 performRepair_200 split: sum.split prod.split)

lemma served_output:
  assumes "fst (serveRepair slot s env conn req) = RepairOutput out"
  obtains input config policy t act where "slot" "request_checked s env (req\<lparr>ht_Peer := peerContext conn\<rparr>) input config policy t"
    "fst (invokeRepair s input) = Inr out" "is_invoke act" "snd (invokeRepair s input) = [act]"
    "snd (serveRepair slot s env conn req) = [Audited (started_event (event_for env t) input), act,
       Audited ((started_event (event_for env t) input)\<lparr>au_Outcome := outcome_of out\<rparr>)]"
proof -
  let ?req = "req\<lparr>ht_Peer := peerContext conn\<rparr>"
  have slot: slot "serveRepair slot s env conn req = handleRepair s env ?req"
    using assms by (auto simp: serveRepair_def split: if_splits)
  show thesis
  proof (cases rule: handleRepair_cases [where s = s and env = env and req = ?req])
    case (denied event code message)
    with assms slot show thesis using denyRequest_no_output by metis
  next
    case (checked input config policy t)
    with assms slot have o: "fst (performRepair s env (event_for env t) input) = RepairOutput out" by simp
    note p = performRepair_output [OF o]
    from invokeRepair_output [OF p(1)] obtain act where act: "snd (invokeRepair s input) = [act]" "is_invoke act" by blast
    show thesis by (rule that [OF slot(1) checked(1) p(1) act(2,1)]) (simp only: slot(2) checked(2) p(2) act(1) append.simps)
  qed
qed

text \<open>
  A restart through the client and the worker: what the client returns is what the restarter of the
  worker returned, for JSON codecs that read back the request and the responses.
\<close>

definition joined :: "(repair_request \<Rightarrow> bytes) \<Rightarrow> (repair_response \<Rightarrow> bytes) \<Rightarrow> bool \<Rightarrow> repair_server \<Rightarrow> repair_env \<Rightarrow> connection
    \<Rightarrow> connection \<Rightarrow> repair_request \<Rightarrow> (string, http_reply) result" where
  "joined encRequest encResponse slot s env gateway conn request =
     Inr (writeReply encResponse (fst (serveRepair slot s env gateway (postRepair encRequest request))))"

lemma remote_call:
  assumes "repairCall u dialed (joined er eo slot s env gateway) decode atEOF request = Inr out"
    and "\<And>out. fst (invokeRepair s request) = Inr out \<Longrightarrow> decode (eo out) = Inr out"
    and "re_Decode env (er request) = Inr request"
  obtains config policy t where "request_checked s env ((postRepair er request)\<lparr>ht_Peer := peerContext gateway\<rparr>) request config policy t"
    "fst (invokeRepair s request) = Inr out"
proof -
  from assms(1) obtain conn resp data where r: "joined er eo slot s env gateway conn request = Inr resp" "hr_Status resp = 200"
    "readAllLimit (maxFrame + 1) (hr_Body resp) = (data, BodyEOF)" "int (length data) \<le> maxFrame" "decode data = Inr out"
    by (rule repairCall_Inr)
  let ?reply = "fst (serveRepair slot s env gateway (postRepair er request))"
  obtain o' where o': "?reply = RepairOutput o'"
    using r(1,2) no_error_200 by (cases ?reply) (auto simp: joined_def writeReply_def)
  then obtain input config policy t where c: "request_checked s env ((postRepair er request)\<lparr>ht_Peer := peerContext gateway\<rparr>) input config policy t"
    "fst (invokeRepair s input) = Inr o'" by (rule served_output)
  from c(1) obtain body where "readAllLimit (maxFrame + 1) (er request, BodyEOF) = (body, BodyEOF)" "int (length body) \<le> maxFrame"
    "re_Decode env body = Inr input" by (auto simp: request_checked_def postRepair_def)
  with readAllLimit_EOF have "re_Decode env (er request) = Inr input" by blast
  with assms(3) have inp: "input = request" by simp
  have "data = eo o'" using readAllLimit_EOF [OF r(3,4)] r(1) o' by (auto simp: joined_def writeReply_def)
  with r(5) assms(2) c(2) inp have "o' = out" by simp
  with c that inp show thesis by simp
qed

lemma invokeRepair_service:
  "rq_Tool input = ''restart_service'' \<Longrightarrow> fst (invokeRepair s input) = Inr out \<Longrightarrow>
   \<exists>restart r. rs_Services s = Some restart \<and> restart (rq_Target input) = Inr r \<and> rr_Service out = sr_Service r
     \<and> rr_Invoked out = sr_Invoked r \<and> rr_Completed out = sr_Completed r \<and> rr_Issue out = sr_Issue r"
  by (auto simp: invokeRepair_def split: option.splits sum.splits)

lemma remote_restart:
  assumes "clientRestartService (repairCall u dialed (joined er eo slot s env gateway) decode atEOF) secret target = Inr r"
    and "request = \<lparr>rq_Secret = secret, rq_Tool = ''restart_service'', rq_Target = target\<rparr>"
    and "\<And>out. fst (invokeRepair s request) = Inr out \<Longrightarrow> decode (eo out) = Inr out"
    and "re_Decode env (er request) = Inr request"
  obtains config policy t restart where "rs_Services s = Some restart" "restart target = Inr r"
    "request_checked s env ((postRepair er request)\<lparr>ht_Peer := peerContext gateway\<rparr>) request config policy t"
proof -
  from assms(1,2) obtain out where out: "repairCall u dialed (joined er eo slot s env gateway) decode atEOF request = Inr out"
    "r = \<lparr>sr_Service = rr_Service out, sr_Invoked = rr_Invoked out, sr_Completed = rr_Completed out, sr_Issue = rr_Issue out\<rparr>"
    by (auto simp: clientRestartService_def split: sum.splits if_splits)
  from remote_call [OF out(1) assms(3,4)] obtain config policy t where
    c: "request_checked s env ((postRepair er request)\<lparr>ht_Peer := peerContext gateway\<rparr>) request config policy t"
      "fst (invokeRepair s request) = Inr out" by blast
  from invokeRepair_service [OF _ c(2)] out(2) assms(2) obtain restart r' where
    "rs_Services s = Some restart" "restart target = Inr r'" "r = r'" by auto
  with that c(1) show thesis by blast
qed

section \<open>Properties\<close>

text \<open>
  C5: the worker restarts something only for an admitted request that passed every check: the
  kernel says that the peer is the gateway's user, method and path are right, the bounded body
  decodes to exactly one request, the freshly loaded configuration is writable and names this
  gateway, this worker, this token store and this socket, the token verifies, has the repair role,
  and the freshly compiled policy allows the tool on the target. It restarts exactly the requested
  target, once, after the record of the start was written, and records the outcome after it.
\<close>

theorem invocation_checked:
  assumes "act \<in> set (snd (serveRepair slot s env conn req))" and "is_invoke act"
  shows "slot \<and> (\<exists>input config policy t act2.
      request_checked s env (req\<lparr>ht_Peer := peerContext conn\<rparr>) input config policy t
      \<and> snd (serveRepair slot s env conn req) = [Audited (started_event (event_for env t) input), act, act2]
      \<and> (act = InvokeService (rq_Target input) \<and> rq_Tool input = ''restart_service''
         \<or> act = InvokeContainer (rq_Target input) \<and> rq_Tool input = ''restart_container'')
      \<and> is_record act2)"
proof -
  have slot: slot using assms(1) by (auto simp: serveRepair_def split: if_splits)
  then have eq: "serveRepair slot s env conn req = handleRepair s env (req\<lparr>ht_Peer := peerContext conn\<rparr>)"
    by (simp add: serveRepair_def)
  have rec: "is_record b" if "\<not> is_invoke b" for b using that by (cases b) (auto simp: is_record_def is_invoke_def)
  from invoked_cases [OF assms(1) [unfolded eq] assms(2)] slot show ?thesis unfolding eq using rec by metis
qed

theorem invocation_checked_witness:
  "\<exists>input config policy t. request_checked example_worker example_env
     (example_http\<lparr>ht_Peer := peerContext gateway_conn\<rparr>) input config policy t"
proof -
  have "is_invoke (InvokeService ''nginx.service'')" by (simp add: is_invoke_def)
  from invocation_checked [OF example_served(1) this] show ?thesis by blast
qed



end
