(* ===== verification/Files.thy ===== *)
theory Files
  imports Trusted "HOL-Library.AList"
begin

text \<open>
  A file system that changes: the state behind the administrative commands (uninstall, migrate and
  the lifecycle manager). Every system call takes one tick, at which it can fail with any error, so
  each error branch of the source is reachable at every point; a call that fails changes nothing but,
  for a write, a prefix of the data. Commands that are run are logged and can fail in the same way.
\<close>

section \<open>State\<close>

record node =
  nd_Stat :: stat
  nd_Data :: bytes

type_synonym fs = "(string \<times> node) list"

record world =
  w_FS :: fs
  w_Tick :: nat
  w_Fault :: "nat \<Rightarrow> errno option"
  w_Partial :: nat
  w_Euid :: int
  w_Log :: "string list list"

text \<open>An error value: the joined errors, never empty when a call fails.\<close>

datatype io_error = Sys errno | Msg string

type_synonym 'a io = "world \<Rightarrow> (io_error list, 'a) result \<times> world"

definition ret :: "'a \<Rightarrow> 'a io" where
  "ret x w = (Inr x, w)"

definition fail :: "string \<Rightarrow> 'a io" where
  "fail m w = (Inl [Msg m], w)"

definition throw :: "io_error list \<Rightarrow> 'a io" where
  "throw e w = (Inl e, w)"

definition bindE :: "'a io \<Rightarrow> ('a \<Rightarrow> 'b io) \<Rightarrow> 'b io" where
  "bindE m f w = (case m w of (Inl e, w') \<Rightarrow> (Inl e, w') | (Inr x, w') \<Rightarrow> f x w')"

text \<open>The result as a value, for the error handling that the source does itself.\<close>

definition attempt :: "'a io \<Rightarrow> (io_error list, 'a) result io" where
  "attempt m w = (case m w of (r, w') \<Rightarrow> (Inr r, w'))"

definition not_exist :: "io_error list \<Rightarrow> bool" where
  "not_exist e \<longleftrightarrow> Sys ErrNotExist \<in> set e"

fun seqE :: "('a \<Rightarrow> 'b io) \<Rightarrow> 'a list \<Rightarrow> 'b list io" where
  "seqE f [] = ret []"
| "seqE f (x # xs) = bindE (f x) (\<lambda>y. bindE (seqE f xs) (\<lambda>ys. ret (y # ys)))"

section \<open>System calls\<close>

definition sys :: "(fs \<Rightarrow> (errno, 'a \<times> fs) result) \<Rightarrow> 'a io" where
  "sys call w =
     (let w' = w\<lparr>w_Tick := Suc (w_Tick w)\<rparr> in
      case w_Fault w (w_Tick w) of
        Some e \<Rightarrow> (Inl [Sys e], w')
      | None \<Rightarrow>
          (case call (w_FS w) of
             Inl e \<Rightarrow> (Inl [Sys e], w')
           | Inr (x, d) \<Rightarrow> (Inr x, w'\<lparr>w_FS := d\<rparr>)))"

definition lookup :: "fs \<Rightarrow> string \<Rightarrow> (errno, node) result" where
  "lookup d p = (case map_of d p of None \<Rightarrow> Inl ErrNotExist | Some n \<Rightarrow> Inr n)"

definition lstat :: "string \<Rightarrow> stat io" where
  "lstat p = sys (\<lambda>d. case lookup d p of Inl e \<Rightarrow> Inl e | Inr n \<Rightarrow> Inr (nd_Stat n, d))"

definition readFile :: "string \<Rightarrow> bytes io" where
  "readFile p = sys (\<lambda>d. case lookup d p of Inl e \<Rightarrow> Inl e | Inr n \<Rightarrow> Inr (nd_Data n, d))"

definition isDirAt :: "fs \<Rightarrow> string \<Rightarrow> bool" where
  "isDirAt d p = (case map_of d p of None \<Rightarrow> False | Some n \<Rightarrow> IsDir (nd_Stat n))"

definition hasChild :: "fs \<Rightarrow> string \<Rightarrow> bool" where
  "hasChild d p = list_ex (\<lambda>(q, n). q \<noteq> p \<and> Dir q = p) d"

text \<open>\<open>os.Remove\<close>: a file, or a directory without entries.\<close>

definition remove :: "string \<Rightarrow> unit io" where
  "remove p = sys (\<lambda>d. case lookup d p of
     Inl e \<Rightarrow> Inl e
   | Inr n \<Rightarrow> (if IsDir (nd_Stat n) \<and> hasChild d p then Inl (ErrOther ''directory not empty'')
              else Inr ((), AList.delete p d)))"

text \<open>Creation with \<open>O_CREATE|O_EXCL\<close>, and of a directory: the parent must be a directory.\<close>

definition create :: "string \<Rightarrow> stat \<Rightarrow> unit io" where
  "create p st = sys (\<lambda>d.
     if map_of d p \<noteq> None then Inl (ErrOther ''file exists'')
     else if \<not> isDirAt d (Dir p) then Inl ErrNotExist
     else Inr ((), AList.update p \<lparr>nd_Stat = st, nd_Data = []\<rparr> d))"

text \<open>A write that fails may have written a prefix.\<close>

definition writeAt :: "string \<Rightarrow> bytes \<Rightarrow> unit io" where
  "writeAt p content w =
     (let w' = w\<lparr>w_Tick := Suc (w_Tick w)\<rparr>;
          put = (\<lambda>data. w'\<lparr>w_FS := (case map_of (w_FS w) p of
             None \<Rightarrow> w_FS w
           | Some n \<Rightarrow> AList.update p \<lparr>nd_Stat = (nd_Stat n)\<lparr>st_Size := int (length data)\<rparr>, nd_Data = data\<rparr> (w_FS w))\<rparr>)
      in
      case w_Fault w (w_Tick w) of
        Some e \<Rightarrow> (Inl [Sys e], put (take (w_Partial w) content))
      | None \<Rightarrow> (Inr (), put content))"

text \<open>\<open>Chmod\<close> and \<open>Chown\<close>, and the atomic rename of a file, which replaces a file and refuses a directory.\<close>

definition setStat :: "string \<Rightarrow> (stat \<Rightarrow> stat) \<Rightarrow> unit io" where
  "setStat p f = sys (\<lambda>d. case lookup d p of
     Inl e \<Rightarrow> Inl e
   | Inr n \<Rightarrow> Inr ((), AList.update p (n\<lparr>nd_Stat := f (nd_Stat n)\<rparr>) d))"

definition rename :: "string \<Rightarrow> string \<Rightarrow> unit io" where
  "rename p q = sys (\<lambda>d. case lookup d p of
     Inl e \<Rightarrow> Inl e
   | Inr n \<Rightarrow> (if isDirAt d q then Inl (ErrOther ''file exists'')
              else Inr ((), AList.update q n (AList.delete p d))))"

text \<open>\<open>os.RemoveAll\<close>: a path and everything below it, or when it fails only a part of that.\<close>

definition below :: "string \<Rightarrow> string \<Rightarrow> bool" where
  "below p q \<longleftrightarrow> q = p \<or> HasPrefix q (p @ ''/'')"

definition removeAll :: "string \<Rightarrow> unit io" where
  "removeAll p w =
     (let w' = w\<lparr>w_Tick := Suc (w_Tick w)\<rparr>;
          gone = filter (below p) (map fst (w_FS w));
          without = (\<lambda>ps. w'\<lparr>w_FS := filter (\<lambda>(q, n). \<not> List.member ps q) (w_FS w)\<rparr>)
      in
      case w_Fault w (w_Tick w) of
        Some e \<Rightarrow> (Inl [Sys e], without (take (w_Partial w) gone))
      | None \<Rightarrow> (Inr (), without gone))"

text \<open>What the host answers to a question that does not go to the file system.\<close>

definition asking :: "(world \<Rightarrow> 'a) \<Rightarrow> 'a io" where
  "asking f w = (Inr (f w), w)"

text \<open>The file system as the protected-path checks and the configuration loader see it.\<close>

definition viewOS :: "world \<Rightarrow> os" where
  "viewOS w =
     (let open' = (\<lambda>p. case lookup (w_FS w) p of
        Inl e \<Rightarrow> Inl e
      | Inr n \<Rightarrow> Inr \<lparr>f_Stat = Inr (nd_Stat n), f_Data = Inr (nd_Data n), f_Close = Inr ()\<rparr>)
      in \<lparr>Lstat = (\<lambda>p. case lookup (w_FS w) p of Inl e \<Rightarrow> Inl e | Inr n \<Rightarrow> Inr (nd_Stat n)), Open = open',
          OpenRoot = (\<lambda>dir. Inr (\<lambda>name. open' (JoinPath dir name))), Geteuid = w_Euid w\<rparr>)"

text \<open>A call without effect on the files: \<open>Sync\<close>, \<open>Close\<close>.\<close>

definition effectless :: "unit io" where
  "effectless = sys (\<lambda>d. Inr ((), d))"

definition run :: "string list \<Rightarrow> unit io" where
  "run command w = effectless (w\<lparr>w_Log := w_Log w @ [command]\<rparr>)"

section \<open>What the calls keep\<close>

lemma bindE_Inr: "bindE m f w = (Inr y, w'') \<longleftrightarrow> (\<exists>x w'. m w = (Inr x, w') \<and> f x w' = (Inr y, w''))"
  by (auto simp: bindE_def split: prod.splits sum.splits)

lemma bindE_Inl:
  "bindE m f w = (Inl e, w'') \<longleftrightarrow> m w = (Inl e, w'') \<or> (\<exists>x w'. m w = (Inr x, w') \<and> f x w' = (Inl e, w''))"
  by (auto simp: bindE_def split: prod.splits sum.splits)

lemma ret_simp [simp]: "ret x w = (Inr x, w)"
  by (simp add: ret_def)

lemma fail_simp [simp]: "fail m w = (Inl [Msg m], w)"
  by (simp add: fail_def)

lemma throw_simp [simp]: "throw e w = (Inl e, w)"
  by (simp add: throw_def)

lemma attempt_Inr [simp]: "attempt m w = (Inr r, w') \<longleftrightarrow> m w = (r, w')"
  by (auto simp: attempt_def split: prod.split)

lemma attempt_Inl [simp]: "attempt m w \<noteq> (Inl e, w')"
  by (simp add: attempt_def split: prod.split)

text \<open>
  A relation between the worlds before and after that is kept by every step of a computation: it is
  reflexive and transitive, so the composed computation keeps it.
\<close>

definition keeps :: "(world \<Rightarrow> world \<Rightarrow> bool) \<Rightarrow> 'a io \<Rightarrow> bool" where
  "keeps R m \<longleftrightarrow> (\<forall>w. R w (snd (m w)))"

locale step_relation =
  fixes R :: "world \<Rightarrow> world \<Rightarrow> bool"
  assumes refl: "R w w" and trans: "R w w' \<Longrightarrow> R w' w'' \<Longrightarrow> R w w''"
begin

lemma keeps_ret: "keeps R (ret x)"
  using refl by (simp add: keeps_def)

lemma keeps_fail: "keeps R (fail m)"
  using refl by (simp add: keeps_def)

lemma keeps_throw: "keeps R (throw e)"
  using refl by (simp add: keeps_def)

lemma keeps_bindE: "keeps R m \<Longrightarrow> (\<And>x. keeps R (f x)) \<Longrightarrow> keeps R (bindE m f)"
  unfolding keeps_def bindE_def by (auto split: prod.split sum.split) (metis trans snd_conv)+

lemma keeps_attempt: "keeps R m \<Longrightarrow> keeps R (attempt m)"
  by (auto simp: keeps_def attempt_def split: prod.splits) (metis snd_conv)

lemma keeps_seqE: "(\<And>x. x \<in> set xs \<Longrightarrow> keeps R (f x)) \<Longrightarrow> keeps R (seqE f xs)"
  by (induction xs) (auto intro!: keeps_ret keeps_bindE)

lemma keeps_if: "(b \<Longrightarrow> keeps R x) \<Longrightarrow> (\<not> b \<Longrightarrow> keeps R y) \<Longrightarrow> keeps R (if b then x else y)"
  by simp

lemma keeps_sum: "(\<And>a. r = Inl a \<Longrightarrow> keeps R (f a)) \<Longrightarrow> (\<And>b. r = Inr b \<Longrightarrow> keeps R (g b)) \<Longrightarrow> keeps R (case r of Inl a \<Rightarrow> f a | Inr b \<Rightarrow> g b)"
  by (cases r) simp_all

lemma keeps_option: "(r = None \<Longrightarrow> keeps R f) \<Longrightarrow> (\<And>b. r = Some b \<Longrightarrow> keeps R (g b)) \<Longrightarrow> keeps R (case r of None \<Rightarrow> f | Some b \<Rightarrow> g b)"
  by (cases r) simp_all

lemma keeps_prod: "(\<And>a b. r = (a, b) \<Longrightarrow> keeps R (f a b)) \<Longrightarrow> keeps R (case r of (a, b) \<Rightarrow> f a b)"
  by (cases r) simp

lemma keepsD: "keeps R m \<Longrightarrow> m w = (r, w') \<Longrightarrow> R w w'"
  unfolding keeps_def by (metis snd_conv)

lemmas keeps_intros = keeps_if keeps_sum keeps_option keeps_prod keeps_ret keeps_fail keeps_throw keeps_bindE keeps_attempt keeps_seqE

end

text \<open>Reading changes nothing but the tick.\<close>

definition same_files :: "world \<Rightarrow> world \<Rightarrow> bool" where
  "same_files w w' \<longleftrightarrow> w_FS w' = w_FS w \<and> w_Log w' = w_Log w \<and> w_Fault w' = w_Fault w \<and> w_Partial w' = w_Partial w
     \<and> w_Euid w' = w_Euid w"

interpretation reading: step_relation same_files
  by unfold_locales (auto simp: same_files_def)

lemma keeps_lstat: "keeps same_files (lstat p)" and keeps_readFile: "keeps same_files (readFile p)"
  and keeps_effectless: "keeps same_files effectless"
  by (auto simp: keeps_def lstat_def readFile_def effectless_def sys_def same_files_def Let_def split: option.split sum.split)

lemmas keeps_read = reading.keeps_intros keeps_lstat keeps_readFile keeps_effectless

lemma lstat_Inr: "lstat p w = (Inr st, w') \<Longrightarrow> \<exists>n. map_of (w_FS w) p = Some n \<and> nd_Stat n = st"
  and readFile_Inr: "readFile p w = (Inr c, w') \<Longrightarrow> \<exists>n. map_of (w_FS w) p = Some n \<and> nd_Data n = c"
  by (auto simp: lstat_def readFile_def sys_def lookup_def Let_def split: option.splits sum.splits)

lemma create_Inr: "create p st w = (Inr u, w') \<Longrightarrow> map_of (w_FS w) p = None
    \<and> map_of (w_FS w') = (map_of (w_FS w))(p \<mapsto> \<lparr>nd_Stat = st, nd_Data = []\<rparr>)"
  by (auto simp: create_def sys_def Let_def update_conv' split: option.splits if_splits)

lemma writeAt_Inr: "writeAt p c w = (Inr u, w') \<Longrightarrow> map_of (w_FS w) p = Some n \<Longrightarrow>
    map_of (w_FS w') = (map_of (w_FS w))(p \<mapsto> \<lparr>nd_Stat = (nd_Stat n)\<lparr>st_Size := int (length c)\<rparr>, nd_Data = c\<rparr>)"
  by (auto simp: writeAt_def Let_def update_conv' split: option.splits)

text \<open>A world in which a file is only reported missing when it is.\<close>

definition honest :: "world \<Rightarrow> bool" where
  "honest w \<longleftrightarrow> (\<forall>k. w_Fault w k \<noteq> Some ErrNotExist)"

lemma honest_same: "same_files w w' \<Longrightarrow> honest w' \<longleftrightarrow> honest w"
  by (simp add: honest_def same_files_def)

lemma lstat_missing: "lstat p w = (Inl e, w') \<Longrightarrow> not_exist e \<Longrightarrow> honest w \<Longrightarrow> map_of (w_FS w) p = None"
  by (auto simp: lstat_def sys_def lookup_def Let_def not_exist_def honest_def split: option.splits sum.splits)

text \<open>Only the given paths change, whatever is logged.\<close>

definition only_paths :: "string set \<Rightarrow> world \<Rightarrow> world \<Rightarrow> bool" where
  "only_paths S w w' \<longleftrightarrow> (\<forall>q. q \<notin> S \<longrightarrow> map_of (w_FS w') q = map_of (w_FS w) q)"

interpretation touching: step_relation "only_paths S" for S
  by unfold_locales (auto simp: only_paths_def)

lemma same_files_only: "keeps same_files m \<Longrightarrow> keeps (only_paths S) m"
  by (auto simp: keeps_def same_files_def only_paths_def)

lemma keeps_remove: "p \<in> S \<Longrightarrow> keeps (only_paths S) (remove p)"
  by (auto simp: keeps_def only_paths_def remove_def sys_def Let_def delete_conv' split: option.split sum.split)

lemma keeps_create: "p \<in> S \<Longrightarrow> keeps (only_paths S) (create p st)"
  by (auto simp: keeps_def only_paths_def create_def sys_def Let_def update_conv' split: option.split)

lemma keeps_writeAt: "p \<in> S \<Longrightarrow> keeps (only_paths S) (writeAt p c)"
  by (auto simp: keeps_def only_paths_def writeAt_def Let_def update_conv' split: option.split)

lemma keeps_setStat: "p \<in> S \<Longrightarrow> keeps (only_paths S) (setStat p f)"
  by (auto simp: keeps_def only_paths_def setStat_def sys_def Let_def update_conv' split: option.split sum.split)

lemma keeps_rename: "p \<in> S \<Longrightarrow> q \<in> S \<Longrightarrow> keeps (only_paths S) (rename p q)"
  by (auto simp: keeps_def only_paths_def rename_def sys_def Let_def update_conv' delete_conv' split: option.split sum.split)

lemma map_of_filter_key: "map_of (filter (\<lambda>(q, n). P q) d) q = (if P q then map_of d q else None)"
  by (induction d) (auto split: if_splits)

lemma keeps_removeAll:
  assumes "\<And>q. below p q \<Longrightarrow> q \<in> S"
  shows "keeps (only_paths S) (removeAll p)"
proof -
  have "q \<notin> set (take k (filter (below p) xs))" if "q \<notin> S" for q k xs
    using that assms by (auto dest: in_set_takeD)
  then show ?thesis
    using assms by (auto simp: keeps_def only_paths_def removeAll_def Let_def map_of_filter_key split: option.split)
qed

lemma keeps_asking: "keeps same_files (asking f)"
  by (simp add: keeps_def asking_def same_files_def)

lemma asking_simp [simp]: "asking f w = (Inr (f w), w)"
  by (simp add: asking_def)

lemma keeps_run: "keeps (only_paths S) (run c)"
  by (auto simp: keeps_def only_paths_def run_def effectless_def sys_def Let_def split: option.split)

lemmas keeps_touch = touching.keeps_intros keeps_remove keeps_create keeps_writeAt keeps_run keeps_setStat keeps_rename keeps_asking [THEN same_files_only]
  keeps_lstat [THEN same_files_only] keeps_readFile [THEN same_files_only] keeps_effectless [THEN same_files_only]

end
