(* ===== verification/Uninstall.thy ===== *)
theory Uninstall
  imports Files
begin

text \<open>
  The uninstaller of \<open>internal/uninstall/uninstall_linux.go\<close>. The unit files embedded in the binary
  are the parameter \<open>units\<close>, the main package recorded in an executable is what \<open>buildinfo\<close> reads
  from its bytes. Commands go to the log of the world.
\<close>

section \<open>Data\<close>

record uninstall_manager =
  um_UnitDir :: string
  um_Binary :: string
  um_ExpectedMain :: string

record uninstall_report =
  ur_Action :: string
  ur_Remove :: "string list"
  ur_Retain :: "string list"
  ur_Message :: string

definition names :: "string list" where
  "names = [''hostlens-gateway.service'', ''hostlens-observer.service'', ''hostlens-repair.service'']"

type_synonym unit_files = "string \<Rightarrow> (string, bytes) result"
type_synonym build_info = "bytes \<Rightarrow> (string, string) result"

definition PackagedUnit :: "unit_files \<Rightarrow> string \<Rightarrow> (string, bytes) result" where
  "PackagedUnit units name =
     (if List.member names name then units (''systemd/'' @ name) else Inl ''unknown HostLens unit'')"

definition defaults :: "uninstall_manager \<Rightarrow> uninstall_manager" where
  "defaults m =
     \<lparr>um_UnitDir = (if um_UnitDir m = [] then ''/etc/systemd/system'' else um_UnitDir m),
      um_Binary = (if um_Binary m = [] then ''/usr/local/bin/hostlens'' else um_Binary m),
      um_ExpectedMain = (if um_ExpectedMain m = [] then ''github.com/Monska85/hostlens/cmd/hostlens'' else um_ExpectedMain m)\<rparr>"

section \<open>Inspection\<close>

definition rootControlled :: "stat \<Rightarrow> bool" where
  "rootControlled info \<longleftrightarrow> st_Uid info = 0 \<and> Perm info AND group_other_write = 0"

definition regular :: "string \<Rightarrow> bool io" where
  "regular path =
     bindE (lstat (Dir path)) (\<lambda>parent.
     if \<not> IsDir parent \<or> \<not> rootControlled parent then fail ''refusing untrusted directory''
     else
       bindE (attempt (lstat path)) (\<lambda>r.
       case r of
         Inl err \<Rightarrow> (if not_exist err then ret False else throw err)
       | Inr info \<Rightarrow>
           (if \<not> IsRegular info then fail ''refusing unexpected file type''
            else if \<not> rootControlled info then fail ''refusing untrusted ownership or mode''
            else ret True)))"

text \<open>The body of the loop over the unit names: the path and name to remove, if the unit is there.\<close>

definition inspectUnit :: "uninstall_manager \<Rightarrow> unit_files \<Rightarrow> string \<Rightarrow> (string \<times> string) option io" where
  "inspectUnit m units name =
     (let path = JoinPath (um_UnitDir m) name in
      bindE (regular path) (\<lambda>exists.
      if \<not> exists then ret None
      else
        (case units (''systemd/'' @ name) of
           Inl err \<Rightarrow> fail err
         | Inr wanted \<Rightarrow>
             bindE (lstat path) (\<lambda>info.
             if st_Size info \<noteq> int (length wanted) then fail ''refusing modified unit''
             else
               bindE (readFile path) (\<lambda>installed.
               if installed \<noteq> wanted then fail ''refusing modified unit'' else ret (Some (path, name)))))))"

definition inspect :: "uninstall_manager \<Rightarrow> unit_files \<Rightarrow> build_info \<Rightarrow> (string list \<times> string list) io" where
  "inspect m' units buildinfo =
     (let m = defaults m' in
      bindE (seqE (inspectUnit m units) names) (\<lambda>found.
      (let found = List.map_filter (\<lambda>x. x) found; paths = map fst found; active = map snd found in
       bindE (regular (um_Binary m)) (\<lambda>exists.
       if \<not> exists then ret (paths, active)
       else
         bindE (attempt (readFile (um_Binary m))) (\<lambda>r.
         case r of
           Inl err \<Rightarrow> fail ''refusing unrecognized executable''
         | Inr content \<Rightarrow>
             (case buildinfo content of
                Inl err \<Rightarrow> fail ''refusing unrecognized executable''
              | Inr build \<Rightarrow>
                  (if build \<noteq> um_ExpectedMain m then fail ''refusing unrecognized executable''
                   else ret (paths @ [um_Binary m], active))))))))"

section \<open>Execution\<close>

text \<open>The file that \<open>os.OpenFile\<close> creates for root with mode 0644 under the usual umask.\<close>

definition unit_stat :: stat where
  "unit_stat = \<lparr>st_Mode = 0x81A4, st_Uid = 0, st_Gid = 0, st_Size = 0\<rparr>"

text \<open>Restoring goes on after an error and joins the errors; the empty list is no error.\<close>

definition restoreUnit :: "uninstall_manager \<Rightarrow> unit_files \<Rightarrow> string \<Rightarrow> world \<Rightarrow> io_error list \<times> world" where
  "restoreUnit m units name w =
     (case units (''systemd/'' @ name) of
        Inl err \<Rightarrow> ([Msg err], w)
      | Inr content \<Rightarrow>
          (let path = JoinPath (um_UnitDir m) name in
           case create path unit_stat w of
             (Inl err, w) \<Rightarrow> (err, w)
           | (Inr _, w) \<Rightarrow>
               (let (wr, w) = writeAt path content w; (cl, w) = effectless w
                in ((case wr of Inl e \<Rightarrow> e | Inr _ \<Rightarrow> []) @ (case cl of Inl e \<Rightarrow> e | Inr _ \<Rightarrow> []), w))))"

fun restoreUnits :: "uninstall_manager \<Rightarrow> unit_files \<Rightarrow> string list \<Rightarrow> world \<Rightarrow> io_error list \<times> world" where
  "restoreUnits m units [] w = ([], w)"
| "restoreUnits m units (name # ns) w =
     (let (e, w) = restoreUnit m units name w; (es, w) = restoreUnits m units ns w in (e @ es, w))"

definition failRestoring :: "uninstall_manager \<Rightarrow> unit_files \<Rightarrow> string list \<Rightarrow> io_error list \<Rightarrow> 'a io" where
  "failRestoring m units removed err w = (case restoreUnits m units removed w of (es, w) \<Rightarrow> (Inl (err @ es), w))"

text \<open>\<open>os.Remove\<close> where a missing file is no error.\<close>

definition removeIfThere :: "string \<Rightarrow> io_error list option io" where
  "removeIfThere path =
     bindE (attempt (remove path)) (\<lambda>r. case r of
        Inl err \<Rightarrow> ret (if not_exist err then None else Some err)
      | Inr _ \<Rightarrow> ret None)"

fun removeUnits :: "uninstall_manager \<Rightarrow> unit_files \<Rightarrow> string list \<Rightarrow> string list \<Rightarrow> string list io" where
  "removeUnits m units removed [] = ret removed"
| "removeUnits m units removed (name # active) =
     bindE (removeIfThere (JoinPath (um_UnitDir m) name)) (\<lambda>r.
     case r of
       Some err \<Rightarrow> failRestoring m units removed err
     | None \<Rightarrow> removeUnits m units (removed @ [name]) active)"

definition stopUnit :: "string \<Rightarrow> unit io" where
  "stopUnit name = run [''systemctl'', ''disable'', ''--now'', name]"

definition reloadSystemd :: "uninstall_manager \<Rightarrow> unit_files \<Rightarrow> string list \<Rightarrow> unit io" where
  "reloadSystemd m units removed =
     bindE (attempt (run [''systemctl'', ''daemon-reload''])) (\<lambda>r.
     case r of
       Inl err \<Rightarrow> failRestoring m units removed err
     | Inr _ \<Rightarrow> ret ())"

definition executeReport :: "string list \<Rightarrow> uninstall_report" where
  "executeReport paths =
     \<lparr>ur_Action = ''preview'', ur_Remove = paths,
      ur_Retain = [''/etc/hostlens configuration, profiles, and tokens'', ''HostLens service users and groups'',
        ''shared system journals'', ''administrator-granted permissions''],
      ur_Message = ''Service identities remain because HostLens cannot prove they own no files elsewhere. Review them separately after removal.''\<rparr>"

text \<open>
  Writing the report to the output can fail too. The report is the result; it is what has been
  printed if the call succeeds.
\<close>

definition Execute :: "uninstall_manager \<Rightarrow> unit_files \<Rightarrow> build_info \<Rightarrow> bool \<Rightarrow> uninstall_report io" where
  "Execute m' units buildinfo apply' w =
     (let m = defaults m' in
      if apply' \<and> w_Euid w \<noteq> 0 then fail ''uninstall --apply requires root'' w
      else
        bindE (inspect m units buildinfo) (\<lambda>(paths, active).
        (let report = executeReport paths in
         if \<not> apply' then bindE effectless (\<lambda>_. ret report)
         else
           bindE (seqE stopUnit active) (\<lambda>_.
           bindE (removeUnits m units [] active) (\<lambda>removed.
           bindE (if active \<noteq> [] then reloadSystemd m units removed else ret ()) (\<lambda>_.
           bindE (if paths \<noteq> [] \<and> last paths = um_Binary m then removeIfThere (um_Binary m) else ret None) (\<lambda>r.
           case r of
             Some err \<Rightarrow> throw err
           | None \<Rightarrow> bindE effectless (\<lambda>_. ret (report\<lparr>ur_Action := ''removed''\<rparr>)))))))) w)"

end
