(* ===== verification/Uninstall_Correct.thy ===== *)
theory Uninstall_Correct
  imports Uninstall
begin

text \<open>
  What the uninstaller may touch: only unit files that are byte for byte the packaged ones and an
  executable with HostLens's main package, all controlled by root; and what it has done when it
  succeeds.
\<close>

section \<open>Inspection\<close>

lemma keeps_regular: "keeps same_files (regular p)"
  unfolding regular_def by (intro keeps_read)

lemma keeps_inspectUnit: "keeps same_files (inspectUnit m units name)"
  unfolding inspectUnit_def Let_def by (intro keeps_read keeps_regular)

lemma keeps_inspect: "keeps same_files (inspect m units bi)"
  unfolding inspect_def Let_def by (intro keeps_read keeps_regular keeps_inspectUnit)

definition rootFile :: "fs \<Rightarrow> string \<Rightarrow> node \<Rightarrow> bool" where
  "rootFile d p n \<longleftrightarrow> map_of d p = Some n \<and> IsRegular (nd_Stat n) \<and> rootControlled (nd_Stat n)"

lemma regular_Inr:
  assumes "regular p w = (Inr exists, w')"
  shows "exists \<and> (\<exists>n. rootFile (w_FS w) p n) \<or> \<not> exists \<and> (honest w \<longrightarrow> map_of (w_FS w) p = None)"
proof -
  from assms obtain parent w1 r w2 where s: "lstat (Dir p) w = (Inr parent, w1)" "lstat p w1 = (r, w2)"
    "(case r of Inl err \<Rightarrow> (if not_exist err then ret False else throw err)
       | Inr info \<Rightarrow>
           (if \<not> IsRegular info then fail ''refusing unexpected file type''
            else if \<not> rootControlled info then fail ''refusing untrusted ownership or mode''
            else ret True)) w2 = (Inr exists, w')"
    by (auto simp: regular_def bindE_Inr split: if_splits)
  have k: "same_files w w1" by (rule reading.keepsD [OF keeps_lstat s(1)])
  show ?thesis
  proof (cases r)
    case (Inl e)
    with s(3) have "\<not> exists" "not_exist e" by (auto split: if_splits)
    moreover have "map_of (w_FS w1) p = None" if "honest w"
      using lstat_missing [OF s(2) [unfolded Inl] \<open>not_exist e\<close>] that honest_same [OF k] by simp
    ultimately show ?thesis using k by (simp add: same_files_def)
  next
    case (Inr info)
    with s(3) have "exists" "IsRegular info" "rootControlled info" by (auto split: if_splits)
    with lstat_Inr [OF s(2) [unfolded Inr]] k show ?thesis by (auto simp: same_files_def rootFile_def)
  qed
qed

definition verifiedUnit :: "uninstall_manager \<Rightarrow> unit_files \<Rightarrow> fs \<Rightarrow> string \<Rightarrow> bool" where
  "verifiedUnit m units d name \<longleftrightarrow>
     (\<exists>n. rootFile d (JoinPath (um_UnitDir m) name) n \<and> units (''systemd/'' @ name) = Inr (nd_Data n))"

definition verifiedBinary :: "uninstall_manager \<Rightarrow> build_info \<Rightarrow> fs \<Rightarrow> bool" where
  "verifiedBinary m bi d \<longleftrightarrow> (\<exists>n. rootFile d (um_Binary m) n \<and> bi (nd_Data n) = Inr (um_ExpectedMain m))"

lemma inspectUnit_Inr:
  assumes "inspectUnit m units name w = (Inr r, w')"
  shows "r = None \<and> (honest w \<longrightarrow> map_of (w_FS w) (JoinPath (um_UnitDir m) name) = None)
    \<or> r = Some (JoinPath (um_UnitDir m) name, name) \<and> verifiedUnit m units (w_FS w) name"
proof -
  let ?p = "JoinPath (um_UnitDir m) name"
  from assms obtain ex w1 where s: "regular ?p w = (Inr ex, w1)"
    by (auto simp: inspectUnit_def Let_def bindE_Inr)
  have k: "same_files w w1" by (rule reading.keepsD [OF keeps_regular s])
  show ?thesis
  proof (cases ex)
    case False
    with assms s have "r = None" by (auto simp: inspectUnit_def Let_def bindE_Inr)
    with regular_Inr [OF s] False show ?thesis by simp
  next
    case True
    with assms s obtain wanted info w2 installed w3 where
      t: "units (''systemd/'' @ name) = Inr wanted" "lstat ?p w1 = (Inr info, w2)" "readFile ?p w2 = (Inr installed, w3)"
        "installed = wanted" "r = Some (?p, name)"
      by (auto simp: inspectUnit_def Let_def bindE_Inr split: sum.splits if_splits)
    have "same_files w1 w2" by (rule reading.keepsD [OF keeps_lstat t(2)])
    with k have "same_files w w2" by (rule reading.trans)
    from readFile_Inr [OF t(3)] this obtain n where n: "map_of (w_FS w) ?p = Some n" "nd_Data n = installed"
      by (auto simp: same_files_def)
    from regular_Inr [OF s] True obtain n' where "rootFile (w_FS w) ?p n'" by blast
    with n have "rootFile (w_FS w) ?p n" by (auto simp: rootFile_def)
    with n t show ?thesis by (auto simp: verifiedUnit_def)
  qed
qed

lemma inspectUnits_Inr:
  assumes "seqE (inspectUnit m units) ns w = (Inr found, w')"
  shows "\<exists>active. List.map_filter (\<lambda>x. x) found = map (\<lambda>n. (JoinPath (um_UnitDir m) n, n)) active
    \<and> set active \<subseteq> set ns \<and> (\<forall>n\<in>set active. verifiedUnit m units (w_FS w) n)
    \<and> (honest w \<longrightarrow> (\<forall>n\<in>set ns. n \<notin> set active \<longrightarrow> map_of (w_FS w) (JoinPath (um_UnitDir m) n) = None))"
  using assms
proof (induction ns arbitrary: found w)
  case (Cons n ns)
  then obtain r w1 rs where s: "inspectUnit m units n w = (Inr r, w1)" "seqE (inspectUnit m units) ns w1 = (Inr rs, w')" "found = r # rs"
    by (auto simp: bindE_Inr)
  have k: "same_files w w1" by (rule reading.keepsD [OF keeps_inspectUnit s(1)])
  have f: "w_FS w1 = w_FS w" "honest w1 \<longleftrightarrow> honest w" using k honest_same [OF k] by (auto simp: same_files_def)
  from Cons.IH [OF s(2), unfolded f] obtain active where a: "List.map_filter (\<lambda>x. x) rs = map (\<lambda>n. (JoinPath (um_UnitDir m) n, n)) active"
    "set active \<subseteq> set ns" "\<forall>n\<in>set active. verifiedUnit m units (w_FS w) n"
    "honest w \<longrightarrow> (\<forall>n\<in>set ns. n \<notin> set active \<longrightarrow> map_of (w_FS w) (JoinPath (um_UnitDir m) n) = None)"
    by (elim exE conjE) (rule that)
  from inspectUnit_Inr [OF s(1)] show ?case
  proof (elim disjE conjE)
    assume "r = None" "honest w \<longrightarrow> map_of (w_FS w) (JoinPath (um_UnitDir m) n) = None"
    with a s(3) show ?thesis by (intro exI [of _ active]) (auto simp: List.map_filter_simps)
  next
    assume "r = Some (JoinPath (um_UnitDir m) n, n)" "verifiedUnit m units (w_FS w) n"
    with a s(3) show ?thesis by (intro exI [of _ "n # active"]) (auto simp: List.map_filter_simps)
  qed
qed (simp add: List.map_filter_simps)

lemma defaults_idem [simp]: "defaults (defaults m) = defaults m"
  by (simp add: defaults_def)

text \<open>What a successful inspection says, with the paths and names it returns.\<close>

definition inspected :: "uninstall_manager \<Rightarrow> unit_files \<Rightarrow> build_info \<Rightarrow> world \<Rightarrow> string list \<Rightarrow> string list \<Rightarrow> bool" where
  "inspected m units bi w paths active \<longleftrightarrow>
     set active \<subseteq> set names \<and> (\<forall>n\<in>set active. verifiedUnit m units (w_FS w) n)
     \<and> (honest w \<longrightarrow> (\<forall>n\<in>set names. n \<notin> set active \<longrightarrow> map_of (w_FS w) (JoinPath (um_UnitDir m) n) = None))
     \<and> (paths = map (JoinPath (um_UnitDir m)) active @ [um_Binary m] \<and> verifiedBinary m bi (w_FS w)
        \<or> paths = map (JoinPath (um_UnitDir m)) active \<and> (honest w \<longrightarrow> map_of (w_FS w) (um_Binary m) = None))"

lemma inspect_Inr:
  assumes "inspect m units bi w = (Inr (paths, active), w')"
  shows "inspected (defaults m) units bi w paths active"
proof -
  let ?m = "defaults m"
  from assms obtain found w1 ex w2 where s: "seqE (inspectUnit ?m units) names w = (Inr found, w1)"
    "regular (um_Binary ?m) w1 = (Inr ex, w2)"
    by (auto simp: inspect_def Let_def bindE_Inr)
  from inspectUnits_Inr [OF s(1)] obtain act where a: "List.map_filter (\<lambda>x. x) found = map (\<lambda>n. (JoinPath (um_UnitDir ?m) n, n)) act"
    "set act \<subseteq> set names" "\<forall>n\<in>set act. verifiedUnit ?m units (w_FS w) n"
    "honest w \<longrightarrow> (\<forall>n\<in>set names. n \<notin> set act \<longrightarrow> map_of (w_FS w) (JoinPath (um_UnitDir ?m) n) = None)"
    by (elim exE conjE) (rule that)
  have k: "same_files w w1"
    using reading.keepsD [OF reading.keeps_seqE [OF keeps_inspectUnit] s(1)] .
  have f: "w_FS w1 = w_FS w" "honest w1 \<longleftrightarrow> honest w" using k honest_same [OF k] by (auto simp: same_files_def)
  have m: "map fst (map (\<lambda>n. (JoinPath (um_UnitDir ?m) n, n)) act) = map (JoinPath (um_UnitDir ?m)) act"
    "map snd (map (\<lambda>n. (JoinPath (um_UnitDir ?m) n, n)) act) = act" by (simp_all add: comp_def)
  show ?thesis
  proof (cases ex)
    case False
    with assms s a(1) m have "paths = map (JoinPath (um_UnitDir ?m)) act" "active = act"
      by (auto simp: inspect_def Let_def bindE_def)
    with a(2-4) regular_Inr [OF s(2)] False f show ?thesis by (simp add: inspected_def)
  next
    case True
    let ?paths = "map fst (List.map_filter (\<lambda>x. x) found)"
    from True assms s have "bindE (attempt (readFile (um_Binary ?m))) (\<lambda>r. case r of
           Inl err \<Rightarrow> fail ''refusing unrecognized executable''
         | Inr content \<Rightarrow>
             (case bi content of
                Inl err \<Rightarrow> fail ''refusing unrecognized executable''
              | Inr build \<Rightarrow>
                  (if build \<noteq> um_ExpectedMain ?m then fail ''refusing unrecognized executable''
                   else ret (?paths @ [um_Binary ?m], map snd (List.map_filter (\<lambda>x. x) found))))) w2 = (Inr (paths, active), w')"
      by (simp add: inspect_def Let_def bindE_def [of "seqE (inspectUnit ?m units) names"] bindE_def [of "regular (um_Binary ?m)"])
    then obtain r w3 where r: "readFile (um_Binary ?m) w2 = (r, w3)" "(case r of
           Inl err \<Rightarrow> fail ''refusing unrecognized executable''
         | Inr content \<Rightarrow>
             (case bi content of
                Inl err \<Rightarrow> fail ''refusing unrecognized executable''
              | Inr build \<Rightarrow>
                  (if build \<noteq> um_ExpectedMain ?m then fail ''refusing unrecognized executable''
                   else ret (?paths @ [um_Binary ?m], map snd (List.map_filter (\<lambda>x. x) found))))) w3 = (Inr (paths, active), w')"
      by (auto simp: bindE_Inr)
    then obtain content where b: "readFile (um_Binary ?m) w2 = (Inr content, w3)" "bi content = Inr (um_ExpectedMain ?m)"
      "paths = ?paths @ [um_Binary ?m]" "active = map snd (List.map_filter (\<lambda>x. x) found)"
      by (auto split: sum.splits if_splits)
    have "same_files w1 w2" by (rule reading.keepsD [OF keeps_regular s(2)])
    with readFile_Inr [OF b(1)] f obtain n where n: "map_of (w_FS w) (um_Binary ?m) = Some n" "nd_Data n = content"
      by (auto simp: same_files_def)
    from regular_Inr [OF s(2)] True f n have "rootFile (w_FS w) (um_Binary ?m) n" by (auto simp: rootFile_def)
    with n b(2) have "verifiedBinary ?m bi (w_FS w)" by (auto simp: verifiedBinary_def)
    with a b(3,4) m show ?thesis by (simp add: inspected_def)
  qed
qed

section \<open>What the execution touches\<close>

lemma restoreUnit_touches:
  assumes "JoinPath (um_UnitDir m) name \<in> S"
  shows "only_paths S w (snd (restoreUnit m units name w))"
proof (cases "units (''systemd/'' @ name)")
  case (Inl e)
  then show ?thesis by (simp add: restoreUnit_def touching.refl)
next
  case (Inr content)
  let ?p = "JoinPath (um_UnitDir m) name"
  obtain r w1 where c: "create ?p unit_stat w = (r, w1)" by fastforce
  obtain r2 w2 where wr: "writeAt ?p content w1 = (r2, w2)" by fastforce
  obtain r3 w3 where e: "effectless w2 = (r3, w3)" by fastforce
  have "only_paths S w w1" by (rule touching.keepsD [OF keeps_create [OF assms] c])
  moreover have "only_paths S w1 w2" by (rule touching.keepsD [OF keeps_writeAt [OF assms] wr])
  moreover have "only_paths S w2 w3" by (rule touching.keepsD [OF same_files_only [OF keeps_effectless] e])
  ultimately have "only_paths S w w1" "only_paths S w w3" using touching.trans by blast+
  then show ?thesis using Inr c wr e by (cases r) (simp_all add: restoreUnit_def)
qed

lemma restoreUnits_touches:
  "JoinPath (um_UnitDir m) ` set ns \<subseteq> S \<Longrightarrow> only_paths S w (snd (restoreUnits m units ns w))"
proof (induction ns arbitrary: w)
  case (Cons n ns)
  obtain e w1 where r: "restoreUnit m units n w = (e, w1)" by fastforce
  with Cons.prems restoreUnit_touches have "only_paths S w w1" by (metis image_subset_iff list.set_intros(1) snd_conv)
  moreover have "only_paths S w1 (snd (restoreUnits m units ns w1))" using Cons by simp
  ultimately show ?case using r touching.trans by (auto split: prod.split)
qed (simp add: touching.refl)

lemma failRestoring_touches:
  assumes "JoinPath (um_UnitDir m) ` set ns \<subseteq> S"
  shows "keeps (only_paths S) (failRestoring m units ns err)"
proof (unfold keeps_def, rule allI)
  fix w
  show "only_paths S w (snd (failRestoring m units ns err w))"
    using restoreUnits_touches [OF assms, of w units]
    by (cases "restoreUnits m units ns w") (simp add: failRestoring_def)
qed

lemma removeIfThere_touches: "p \<in> S \<Longrightarrow> keeps (only_paths S) (removeIfThere p)"
  unfolding removeIfThere_def by (intro keeps_touch)

lemma removeUnits_touches:
  "JoinPath (um_UnitDir m) ` set (removed @ active) \<subseteq> S \<Longrightarrow> keeps (only_paths S) (removeUnits m units removed active)"
proof (induction active arbitrary: removed)
  case (Cons n active)
  have "keeps (only_paths S) (removeUnits m units (removed @ [n]) active)" by (rule Cons.IH) (use Cons.prems in auto)
  then show ?case using Cons.prems
    by (auto intro!: keeps_touch removeIfThere_touches failRestoring_touches)
qed (simp add: touching.keeps_ret)

lemma failRestoring_Inr [simp]: "failRestoring m units removed err w \<noteq> (Inr x, w')"
  by (simp add: failRestoring_def split: prod.split)

lemma removeUnits_Cons:
  "removeUnits m units removed (n # active) w = (Inr r, w') \<longleftrightarrow>
     (\<exists>w1. removeIfThere (JoinPath (um_UnitDir m) n) w = (Inr None, w1) \<and> removeUnits m units (removed @ [n]) active w1 = (Inr r, w'))"
  by (auto simp: bindE_Inr split: option.splits)

lemma removeUnits_removed: "removeUnits m units removed active w = (Inr r, w') \<Longrightarrow> r = removed @ active"
proof (induction active arbitrary: removed w)
  case (Cons n active)
  from Cons.prems obtain w1 where "removeUnits m units (removed @ [n]) active w1 = (Inr r, w')"
    unfolding removeUnits_Cons by blast
  from Cons.IH [OF this] show ?case by simp
qed simp

lemma reload_touches: "JoinPath (um_UnitDir m) ` set removed \<subseteq> S \<Longrightarrow> keeps (only_paths S) (reloadSystemd m units removed)"
  unfolding reloadSystemd_def by (intro keeps_touch failRestoring_touches)

text \<open>The steps of a successful removal only remove, and log nothing.\<close>

definition shrinks :: "world \<Rightarrow> world \<Rightarrow> bool" where
  "shrinks w w' \<longleftrightarrow> (\<forall>q. map_of (w_FS w) q = None \<longrightarrow> map_of (w_FS w') q = None) \<and> w_Log w' = w_Log w \<and> w_Fault w' = w_Fault w"

interpretation shrinking: step_relation shrinks
  by unfold_locales (auto simp: shrinks_def)

lemma keeps_shrinks_remove: "keeps shrinks (remove p)"
  by (auto simp: keeps_def shrinks_def remove_def sys_def Let_def delete_conv' split: option.split sum.split)

lemma same_files_shrinks: "same_files w w' \<Longrightarrow> shrinks w w'"
  by (simp add: same_files_def shrinks_def)

lemma removeIfThere_shrinks: "keeps shrinks (removeIfThere p)"
  unfolding removeIfThere_def by (intro shrinking.keeps_intros keeps_shrinks_remove)

lemma removeIfThere_Inr:
  assumes "removeIfThere p w = (Inr None, w')" and "honest w"
  shows "map_of (w_FS w') p = None"
proof -
  obtain r w1 where r1: "remove p w = (r, w1)" by fastforce
  with assms(1) have r: "remove p w = (r, w')" "r = Inr () \<or> (\<exists>e. r = Inl e \<and> not_exist e)"
    by (cases r; simp add: removeIfThere_def bindE_def attempt_def split: if_splits)+
  with assms(2) show ?thesis
    by (auto simp: remove_def sys_def lookup_def Let_def not_exist_def honest_def delete_conv' split: option.splits sum.splits if_splits)
qed

lemma shrinks_honest: "shrinks w w' \<Longrightarrow> honest w \<Longrightarrow> honest w'"
  by (simp add: shrinks_def honest_def)

lemma removeUnits_gone:
  assumes "removeUnits m units removed active w = (Inr r, w')" and "honest w"
  shows "shrinks w w' \<and> (\<forall>n\<in>set active. map_of (w_FS w') (JoinPath (um_UnitDir m) n) = None)"
  using assms
proof (induction active arbitrary: removed w)
  case Nil
  then show ?case by (simp add: shrinking.refl)
next
  case (Cons n active)
  from Cons.prems(1) obtain w1 where s: "removeIfThere (JoinPath (um_UnitDir m) n) w = (Inr None, w1)"
    "removeUnits m units (removed @ [n]) active w1 = (Inr r, w')" unfolding removeUnits_Cons by blast
  have k: "shrinks w w1" by (rule shrinking.keepsD [OF removeIfThere_shrinks s(1)])
  have h: "honest w1" by (rule shrinks_honest [OF k Cons.prems(2)])
  note ih = Cons.IH [OF s(2) h]
  have "map_of (w_FS w1) (JoinPath (um_UnitDir m) n) = None" by (rule removeIfThere_Inr [OF s(1) Cons.prems(2)])
  with ih k show ?case using shrinking.trans [OF k] by (auto simp: shrinks_def)
qed

lemma stopUnits_log:
  "seqE stopUnit ns w = (Inr r, w') \<Longrightarrow> w_FS w' = w_FS w \<and> w_Fault w' = w_Fault w
     \<and> w_Log w' = w_Log w @ map (\<lambda>n. [''systemctl'', ''disable'', ''--now'', n]) ns"
proof (induction ns arbitrary: w r)
  case (Cons n ns)
  then obtain w1 r1 where s: "stopUnit n w = (Inr (), w1)" "seqE stopUnit ns w1 = (Inr r1, w')" by (auto simp: bindE_Inr)
  from s(1) have "w_FS w1 = w_FS w \<and> w_Fault w1 = w_Fault w \<and> w_Log w1 = w_Log w @ [[''systemctl'', ''disable'', ''--now'', n]]"
    by (auto simp: stopUnit_def run_def effectless_def sys_def Let_def split: option.splits)
  with Cons.IH [OF s(2)] show ?case by simp
qed simp

lemma reload_log:
  "reloadSystemd m units removed w = (Inr x, w') \<Longrightarrow> w_FS w' = w_FS w \<and> w_Fault w' = w_Fault w
     \<and> w_Log w' = w_Log w @ [[''systemctl'', ''daemon-reload'']]"
  by (auto simp: reloadSystemd_def bindE_Inr run_def effectless_def sys_def Let_def split: option.splits sum.splits)

section \<open>The stages of an execution\<close>

definition binaryStage :: "uninstall_manager \<Rightarrow> string list \<Rightarrow> io_error list option io" where
  "binaryStage m paths = (if paths \<noteq> [] \<and> last paths = um_Binary m then removeIfThere (um_Binary m) else ret None)"

definition applyStages :: "uninstall_manager \<Rightarrow> unit_files \<Rightarrow> string list \<Rightarrow> string list \<Rightarrow> uninstall_report io" where
  "applyStages m units paths active =
     bindE (seqE stopUnit active) (\<lambda>_.
     bindE (removeUnits m units [] active) (\<lambda>removed.
     bindE (if active \<noteq> [] then reloadSystemd m units removed else ret ()) (\<lambda>_.
     bindE (binaryStage m paths) (\<lambda>r.
     case r of
       Some err \<Rightarrow> throw err
     | None \<Rightarrow> bindE effectless (\<lambda>_. ret ((executeReport paths)\<lparr>ur_Action := ''removed''\<rparr>))))))"

lemma Execute_stages:
  "Execute m units bi apply' w =
     (if apply' \<and> w_Euid w \<noteq> 0 then fail ''uninstall --apply requires root'' w
      else bindE (inspect (defaults m) units bi) (\<lambda>(paths, active).
        if \<not> apply' then bindE effectless (\<lambda>_. ret (executeReport paths))
        else applyStages (defaults m) units paths active) w)"
  unfolding Execute_def applyStages_def binaryStage_def Let_def by (rule refl)

lemma applyStages_touches:
  assumes "JoinPath (um_UnitDir m) ` set active \<subseteq> S" and "paths \<noteq> [] \<Longrightarrow> last paths = um_Binary m \<Longrightarrow> um_Binary m \<in> S"
  shows "only_paths S w (snd (applyStages m units paths active w))"
proof -
  have stop: "keeps (only_paths S) (seqE stopUnit active)"
    unfolding stopUnit_def by (intro keeps_touch)
  have bin: "keeps (only_paths S) (binaryStage m paths)"
    unfolding binaryStage_def using assms(2) by (intro keeps_touch removeIfThere_touches) auto
  obtain r w1 where s1: "seqE stopUnit active w = (r, w1)" by fastforce
  have k1: "only_paths S w w1" by (rule touching.keepsD [OF stop s1])
  obtain r2 w2 where s2: "removeUnits m units [] active w1 = (r2, w2)" by fastforce
  have k2: "only_paths S w1 w2" by (rule touching.keepsD [OF removeUnits_touches s2]) (use assms in auto)
  have rest: "keeps (only_paths S) (bindE (if active \<noteq> [] then reloadSystemd m units removed else ret ()) (\<lambda>_.
     bindE (binaryStage m paths) (\<lambda>r.
     case r of
       Some err \<Rightarrow> throw err
     | None \<Rightarrow> bindE effectless (\<lambda>_. ret ((executeReport paths)\<lparr>ur_Action := ''removed''\<rparr>)))))"
    if "removed = active" for removed
    using that assms(1) by (intro keeps_touch reload_touches bin) auto
  show ?thesis
  proof (cases r)
    case (Inl e)
    then show ?thesis using s1 k1 by (simp add: applyStages_def bindE_def)
  next
    case (Inr x)
    note r = Inr
    show ?thesis
    proof (cases r2)
      case (Inl e)
      then show ?thesis using s1 s2 r touching.trans [OF k1 k2] by (simp add: applyStages_def bindE_def)
    next
      case (Inr removed)
      from removeUnits_removed [OF s2 [unfolded Inr]] have "removed = active" by simp
      from rest [OF this] have "only_paths S w2 (snd (applyStages m units paths active w))"
        unfolding keeps_def applyStages_def bindE_def [of "seqE stopUnit active"] s1 r prod.case sum.case
          bindE_def [of "removeUnits m units [] active"] s2 Inr by blast
      then show ?thesis using touching.trans [OF touching.trans [OF k1 k2]] by blast
    qed
  qed
qed

lemma Execute_unprivileged:
  assumes "\<not> apply' \<or> w_Euid w \<noteq> 0" "Execute m units bi apply' w = (r, w')"
  shows "same_files w w'"
proof (cases apply')
  case True
  with assms show ?thesis by (auto simp: Execute_def reading.refl)
next
  case False
  have "keeps same_files (bindE (inspect (defaults m) units bi) (\<lambda>(paths, active). bindE effectless (\<lambda>_. ret (executeReport paths))))"
    by (intro keeps_read keeps_inspect)
  from reading.keepsD [OF this] assms(2) False show ?thesis by (simp add: Execute_def Let_def)
qed

text \<open>The paths that an application may touch, once the inspection has succeeded.\<close>

lemma inspected_touches:
  assumes "inspected m units bi w paths active" "same_files w w1"
  shows "only_paths (JoinPath (um_UnitDir m) ` set active \<union> (if verifiedBinary m bi (w_FS w) then {um_Binary m} else {})) w
    (snd (applyStages m units paths active w1))" (is "only_paths ?S _ _")
proof -
  have "um_Binary m \<in> ?S" if "paths \<noteq> []" "last paths = um_Binary m"
  proof (cases "verifiedBinary m bi (w_FS w)")
    case False
    then have "paths = map (JoinPath (um_UnitDir m)) active" using assms(1) by (auto simp: inspected_def)
    then have "last paths \<in> JoinPath (um_UnitDir m) ` set active" using last_in_set [OF that(1)] by simp
    with that(2) show ?thesis by simp
  qed simp
  then have "only_paths ?S w1 (snd (applyStages m units paths active w1))" by (intro applyStages_touches) auto
  with assms(2) show ?thesis by (simp add: only_paths_def same_files_def)
qed

text \<open>The stages of a successful removal, from the inspected world on.\<close>

lemma applyStages_success:
  assumes "applyStages m units paths active w1 = (Inr report, w')" and "honest w1"
  shows "ur_Action report = ''removed''" "\<And>q. map_of (w_FS w1) q = None \<Longrightarrow> map_of (w_FS w') q = None"
    "\<And>n. n \<in> set active \<Longrightarrow> map_of (w_FS w') (JoinPath (um_UnitDir m) n) = None"
    "paths \<noteq> [] \<and> last paths = um_Binary m \<Longrightarrow> map_of (w_FS w') (um_Binary m) = None"
    "w_Log w' = w_Log w1 @ map (\<lambda>n. [''systemctl'', ''disable'', ''--now'', n]) active
       @ (if active = [] then [] else [[''systemctl'', ''daemon-reload'']])"
proof -
  from assms(1) obtain u w2 removed w3 v w4 w5 where s: "seqE stopUnit active w1 = (Inr u, w2)" "removeUnits m units [] active w2 = (Inr removed, w3)"
    "(if active \<noteq> [] then reloadSystemd m units removed else ret ()) w3 = (Inr v, w4)" "binaryStage m paths w4 = (Inr None, w5)"
    "bindE effectless (\<lambda>_. ret ((executeReport paths)\<lparr>ur_Action := ''removed''\<rparr>)) w5 = (Inr report, w')"
    by (auto simp: applyStages_def bindE_Inr split: option.splits)
  note a = stopUnits_log [OF s(1)]
  have h2: "honest w2" using assms(2) a by (simp add: honest_def)
  note g = removeUnits_gone [OF s(2) h2]
  have b: "w_FS w4 = w_FS w3" "w_Fault w4 = w_Fault w3" "w_Log w4 = w_Log w3 @ (if active = [] then [] else [[''systemctl'', ''daemon-reload'']])"
    using s(3) reload_log [of m units removed w3 v w4] by (auto split: if_splits)
  have h4: "honest w4" using h2 g b by (simp add: shrinks_def honest_def)
  have e: "same_files w5 w'" and act: "ur_Action report = ''removed''"
    using s(5) reading.keepsD [OF keeps_effectless, of w5] by (auto simp: bindE_Inr)
  have c: "shrinks w4 w5"
    using s(4) shrinking.keepsD [OF removeIfThere_shrinks, of "um_Binary m" w4] shrinking.refl by (auto simp: binaryStage_def split: if_splits)
  have fs: "map_of (w_FS w3) q = None \<Longrightarrow> map_of (w_FS w') q = None" for q
    using c b(1) e by (auto simp: shrinks_def same_files_def)
  have log: "w_Log w' = w_Log w4" using c e by (simp add: shrinks_def same_files_def)
  show "ur_Action report = ''removed''" by (fact act)
  show "map_of (w_FS w1) q = None \<Longrightarrow> map_of (w_FS w') q = None" for q using a g fs [of q] by (auto simp: shrinks_def)
  show "n \<in> set active \<Longrightarrow> map_of (w_FS w') (JoinPath (um_UnitDir m) n) = None" for n using g fs by auto
  show "map_of (w_FS w') (um_Binary m) = None" if "paths \<noteq> [] \<and> last paths = um_Binary m"
  proof -
    have "removeIfThere (um_Binary m) w4 = (Inr None, w5)" using s(4) that by (simp add: binaryStage_def)
    from removeIfThere_Inr [OF this h4] e show ?thesis by (simp add: same_files_def)
  qed
  show "w_Log w' = w_Log w1 @ map (\<lambda>n. [''systemctl'', ''disable'', ''--now'', n]) active
       @ (if active = [] then [] else [[''systemctl'', ''daemon-reload'']])"
    using log b(3) g a by (simp add: shrinks_def)
qed

section \<open>Properties\<close>

text \<open>
  C33: the uninstaller changes nothing but what it has verified. A preview, or an application by
  anyone but root, leaves all files alone and runs no command. With every possible failure of a
  system call or command, each file that an application changes was, when it started, one of the
  three unit files with exactly the packaged content, or the executable with HostLens's main package,
  in both cases a regular file of root that nobody else can write.
\<close>

theorem uninstall_touches_only_verified:
  "(\<not> apply' \<or> w_Euid w \<noteq> 0 \<longrightarrow> same_files w (snd (Execute m units bi apply' w)))
   \<and> (map_of (w_FS (snd (Execute m units bi apply' w))) q \<noteq> map_of (w_FS w) q \<longrightarrow>
        (\<exists>n\<in>set names. q = JoinPath (um_UnitDir (defaults m)) n \<and> verifiedUnit (defaults m) units (w_FS w) n)
        \<or> q = um_Binary (defaults m) \<and> verifiedBinary (defaults m) bi (w_FS w))"
proof (intro conjI impI)
  assume "\<not> apply' \<or> w_Euid w \<noteq> 0"
  then show "same_files w (snd (Execute m units bi apply' w))" by (rule Execute_unprivileged [OF _ prod.collapse [symmetric]])
next
  let ?m = "defaults m"
  assume changed: "map_of (w_FS (snd (Execute m units bi apply' w))) q \<noteq> map_of (w_FS w) q"
  have "\<not> (\<not> apply' \<or> w_Euid w \<noteq> 0)"
  proof
    assume "\<not> apply' \<or> w_Euid w \<noteq> 0"
    from Execute_unprivileged [OF this prod.collapse [symmetric]] changed show False by (simp add: same_files_def)
  qed
  then have root: "apply'" "w_Euid w = 0" by simp_all
  obtain r w1 where i: "inspect ?m units bi w = (r, w1)" by fastforce
  have k: "same_files w w1" by (rule reading.keepsD [OF keeps_inspect i])
  obtain paths active where r: "r = Inr (paths, active)"
    using changed root i k by (cases r) (auto simp: Execute_stages bindE_def same_files_def)
  from inspect_Inr [OF i [unfolded r]] have insp: "inspected ?m units bi w paths active" by simp
  have "Execute m units bi apply' w = applyStages ?m units paths active w1" using root i r by (simp add: Execute_stages bindE_def)
  with inspected_touches [OF insp k] changed
  have "q \<in> JoinPath (um_UnitDir ?m) ` set active \<union> (if verifiedBinary ?m bi (w_FS w) then {um_Binary ?m} else {})"
    unfolding only_paths_def by metis
  moreover have "set active \<subseteq> set names" "\<forall>n\<in>set active. verifiedUnit ?m units (w_FS w) n"
    using insp by (auto simp: inspected_def)
  ultimately show "(\<exists>n\<in>set names. q = JoinPath (um_UnitDir ?m) n \<and> verifiedUnit ?m units (w_FS w) n)
      \<or> q = um_Binary ?m \<and> verifiedBinary ?m bi (w_FS w)"
    by (auto split: if_splits)
qed

definition example_units :: unit_files where
  "example_units name = Inr name"

definition example_node :: "bytes \<Rightarrow> node" where
  "example_node data = \<lparr>nd_Stat = \<lparr>st_Mode = 0x81A4, st_Uid = 0, st_Gid = 0, st_Size = int (length data)\<rparr>, nd_Data = data\<rparr>"

definition example_world :: world where
  "example_world = \<lparr>w_FS = [(''/etc/systemd/system'', \<lparr>nd_Stat = root_dir, nd_Data = []\<rparr>),
      (''/usr/local/bin'', \<lparr>nd_Stat = root_dir, nd_Data = []\<rparr>),
      (''/usr/local/bin/hostlens'', example_node ''elf''),
      (''/etc/systemd/system/hostlens-gateway.service'', example_node ''systemd/hostlens-gateway.service'')],
     w_Tick = 0, w_Fault = (\<lambda>_. None), w_Partial = 0, w_Euid = 0, w_Log = []\<rparr>"

definition example_manager :: uninstall_manager where
  "example_manager = \<lparr>um_UnitDir = [], um_Binary = [], um_ExpectedMain = []\<rparr>"

definition example_buildinfo :: build_info where
  "example_buildinfo data = Inr ''github.com/Monska85/hostlens/cmd/hostlens''"

lemma example_execute: "map_of (w_FS (snd (Execute example_manager example_units example_buildinfo True example_world))) ''/usr/local/bin/hostlens''
    \<noteq> map_of (w_FS example_world) ''/usr/local/bin/hostlens''"
  by code_simp

theorem uninstall_touches_only_verified_witness:
  "verifiedBinary (defaults example_manager) example_buildinfo (w_FS example_world)"
proof -
  have l: "list_all (\<lambda>n. JoinPath (um_UnitDir (defaults example_manager)) n \<noteq> ''/usr/local/bin/hostlens'') names" by code_simp
  from uninstall_touches_only_verified [THEN conjunct2, THEN mp, OF example_execute] show ?thesis
  proof (elim disjE bexE conjE)
    fix n
    assume n: "n \<in> set names" and eq: "''/usr/local/bin/hostlens'' = JoinPath (um_UnitDir (defaults example_manager)) n"
    from l [unfolded list_all_iff] n have "JoinPath (um_UnitDir (defaults example_manager)) n \<noteq> ''/usr/local/bin/hostlens''" by (rule bspec)
    from this eq [symmetric] show ?thesis by (rule notE)
  qed
qed



end
