(* ===== verification/Migrate.thy ===== *)
theory Migrate
  imports Config Tokens_Correct Files "HOL-Library.List_Lexorder"
begin

text \<open>
  The migration of a version 1 installation, \<open>internal/migrate/migrate_linux.go\<close>: reading and
  checking the old configuration, profiles and tokens, and writing a separate candidate. YAML and
  JSON are parameters, as is the pattern check of the third-party package \<open>doublestar\<close>. The old
  settings that the migration decodes and does not look at (limits, health, logging and the like) are
  left out of the record.
\<close>

section \<open>Data\<close>

record migrate_options =
  mo_From :: string
  mo_Output :: string
  mo_GatewayUID :: uid
  mo_ObserverUID :: uid
  mo_RepairUID :: uid
  mo_SharedGID :: gid
  mo_TokenGID :: gid

record migrate_report =
  mr_SourceVersion :: int
  mr_TokensPreserved :: int
  mr_ProfilesUnmapped :: "string list"
  mr_Actions :: "string list"

record old_rules =
  or_Audit :: "string list"
  or_Files :: "string list"
  or_Journal :: "string list"
  or_Docker :: "string list"

record old_config =
  oc_Version :: int
  oc_Mode :: string
  oc_Privilege :: string
  oc_Allow :: old_rules
  oc_Deny :: old_rules
  oc_ProfileDirs :: "string list"
  oc_RemediationEnabled :: bool
  oc_Bind :: "string list"
  oc_Port :: int
  oc_TLSEnabled :: bool
  oc_CertFile :: string
  oc_KeyFile :: string
  oc_TokenStore :: string
  oc_Profiles :: "string list"
  oc_DockerEnabled :: bool
  oc_DaemonSocket :: string

record old_profile =
  op_Profiles :: "string list"
  op_Allow :: old_rules
  op_Deny :: old_rules

record old_token =
  ot_ID :: string
  ot_Name :: string
  ot_Roles :: "string list"
  ot_Expires :: time
  ot_Status :: string
  ot_Hash :: string

definition no_rules :: old_rules where
  "no_rules = \<lparr>or_Audit = [], or_Files = [], or_Journal = [], or_Docker = []\<rparr>"

definition zero_old_config :: old_config where
  "zero_old_config = \<lparr>oc_Version = 0, oc_Mode = [], oc_Privilege = [], oc_Allow = no_rules, oc_Deny = no_rules,
     oc_ProfileDirs = [], oc_RemediationEnabled = False, oc_Bind = [], oc_Port = 0, oc_TLSEnabled = False, oc_CertFile = [],
     oc_KeyFile = [], oc_TokenStore = [], oc_Profiles = [], oc_DockerEnabled = False, oc_DaemonSocket = []\<rparr>"

definition zero_old_profile :: old_profile where
  "zero_old_profile = \<lparr>op_Profiles = [], op_Allow = no_rules, op_Deny = no_rules\<rparr>"

datatype migrate_error =
    SourceOpen trust_error
  | UnsafeSource
  | SourceExceedsLimit
  | InvalidPattern string string
  | LegacyNameOrLimit
  | LegacyCycle
  | LegacyLimit
  | InvalidLegacyDirectory
  | LegacyMissing string migrate_error
  | AggregateLimit
  | LegacyYaml string
  | TrailingLegacy
  | TokensDecode string
  | TrailingTokens
  | InvalidLegacyToken
  | InvalidLegacyHash
  | DuplicateLegacyID
  | DuplicateLegacyHash
  | UnknownLegacyRole
  | AbsolutePathsRequired
  | OnlySystemMode
  | InvalidPrivilege
  | UnsupportedRemediation
  | VersionOneRequired
  | AbsoluteStoreRequired
  | ConvertedExceedsLimit
  | CandidateInvalid config_error

record migrate_env =
  me_OS :: os
  me_ValidatePattern :: "string \<Rightarrow> bool"
  me_Config :: "old_config yaml_decoder"
  me_Profile :: "old_profile yaml_decoder"
  me_Tokens :: "bytes \<Rightarrow> (string, old_token list) result"
  me_TokensEOF :: "bytes \<Rightarrow> bool"
  me_MarshalTokens :: "token list \<Rightarrow> (string, bytes) result"
  me_MarshalConfig :: "config \<Rightarrow> (string, bytes) result"
  me_MarshalReport :: "migrate_report \<Rightarrow> (string, bytes) result"

section \<open>Patterns and profiles\<close>

definition contains_dots :: "string \<Rightarrow> bool" where
  "contains_dots s = list_ex (\<lambda>k. take 2 (drop k s) = ''..'') [0..<length s]"

definition validLegacyPattern :: "(string \<Rightarrow> bool) \<Rightarrow> string \<Rightarrow> string \<Rightarrow> bool" where
  "validLegacyPattern valid category v =
     (if length v > 4096 then False
      else if category = ''audit'' then
        List.member [''*'', ''processes'', ''network'', ''accounts'', ''storage'', ''updates'', ''security'', ''services'', ''hostlens'', ''paths''] v
      else if category = ''files'' then HasPrefix v ''/'' \<and> Clean v = v \<and> valid v
      else if category = ''docker'' then
        (if v = ''*'' then True
         else if List.member [''daemon'', ''containers'', ''images'', ''volumes'', ''networks'', ''disk_usage''] v then True
         else
           (case Cut v (CHR ''/'') of
              (kind, selector, ok) \<Rightarrow>
                (if \<not> ok \<or> selector = [] \<or> contains_char selector (CHR ''/'') \<or> contains_dots selector
                    \<or> ContainsAny selector [CHR '' '', CHR ''='', CHR 0x0A, CHR 0x0D] then False
                 else if List.member [''container'', ''stats'', ''logs'', ''image'', ''volume'', ''network''] kind then valid selector
                 else False)))
      else v \<noteq> [] \<and> \<not> ContainsAny v [CHR ''/'', CHR '' '', CHR ''='', CHR 0x0A, CHR 0x0D] \<and> valid v)"

fun checkPatterns :: "(string \<Rightarrow> bool) \<Rightarrow> string \<Rightarrow> string list \<Rightarrow> (migrate_error, unit) result" where
  "checkPatterns valid category [] = Inr ()"
| "checkPatterns valid category (v # vs) =
     (if \<not> validLegacyPattern valid category v then Inl (InvalidPattern category v) else checkPatterns valid category vs)"

fun checkSets :: "(string \<Rightarrow> bool) \<Rightarrow> (string \<times> string list) list \<Rightarrow> (migrate_error, unit) result" where
  "checkSets valid [] = Inr ()"
| "checkSets valid ((category, vs) # sets) =
     (case checkPatterns valid category vs of Inl e \<Rightarrow> Inl e | Inr _ \<Rightarrow> checkSets valid sets)"

definition validateLegacyRules :: "(string \<Rightarrow> bool) \<Rightarrow> old_rules \<Rightarrow> (migrate_error, unit) result" where
  "validateLegacyRules valid rules =
     checkSets valid [(''audit'', or_Audit rules), (''files'', or_Files rules), (''journal'', or_Journal rules), (''docker'', or_Docker rules)]"

definition alnum :: "char \<Rightarrow> bool" where
  "alnum c \<longleftrightarrow> CHR ''A'' \<le> c \<and> c \<le> CHR ''Z'' \<or> CHR ''a'' \<le> c \<and> c \<le> CHR ''z'' \<or> is_digit c"

text \<open>The regular expression of profile names: an alphanumeric, then at most 63 of them, dashes or underscores.\<close>

definition legacyProfileName :: "string \<Rightarrow> bool" where
  "legacyProfileName s =
     (case s of [] \<Rightarrow> False
      | c # r \<Rightarrow> alnum c \<and> length r \<le> 63 \<and> list_all (\<lambda>d. alnum d \<or> d = CHR ''_'' \<or> d = CHR ''-'') r)"

definition maxInput :: int where
  "maxInput = 4194304"

definition readProtected :: "os \<Rightarrow> string \<Rightarrow> (migrate_error, bytes) result" where
  "readProtected os path =
     (case OpenTrusted os path of
        Inl e \<Rightarrow> Inl (SourceOpen e)
      | Inr fl \<Rightarrow>
          (case f_Stat fl of
             Inl e \<Rightarrow> Inl UnsafeSource
           | Inr info \<Rightarrow>
               (if st_Size info > maxInput \<or> st_Size info < 0 then Inl UnsafeSource
                else
                  (case f_Data fl of
                     Inl e \<Rightarrow> Inl SourceExceedsLimit
                   | Inr content \<Rightarrow>
                       (let data = limitReader (maxInput + 1) content in
                        if int (length data) > maxInput then Inl SourceExceedsLimit else Inr data)))))"

text \<open>\<open>errors.Is(err, os.ErrNotExist)\<close>: a parent or the file itself is missing.\<close>

definition sourceMissing :: "migrate_error \<Rightarrow> bool" where
  "sourceMissing e \<longleftrightarrow> e = SourceOpen (OpenFailed ErrNotExist) \<or> e = SourceOpen (LstatFailed ErrNotExist)"

text \<open>The loop over the profile directories; the last argument is the error of the previous turn.\<close>

fun findLegacy :: "os \<Rightarrow> string \<Rightarrow> string list \<Rightarrow> (migrate_error, bytes) result \<Rightarrow> (migrate_error, bytes) result" where
  "findLegacy os name [] r = (case r of Inl e \<Rightarrow> Inl (LegacyMissing name e) | Inr data \<Rightarrow> Inr data)"
| "findLegacy os name (directory # ds) r =
     (if \<not> IsAbs directory \<or> Clean directory \<noteq> directory then Inl InvalidLegacyDirectory
      else
        (case readProtected os (JoinPath directory (name @ ''.yaml'')) of
           Inr data \<Rightarrow> Inr data
         | Inl e \<Rightarrow> if \<not> sourceMissing e then Inl e else findLegacy os name ds (Inl e)))"

definition decodeLegacy :: "migrate_env \<Rightarrow> bytes \<Rightarrow> (migrate_error, old_profile) result" where
  "decodeLegacy env data =
     (case first_document (me_Profile env) data zero_old_profile of
        Inl e \<Rightarrow> Inl (LegacyYaml e)
      | Inr p \<Rightarrow>
          (if \<not> second_at_end (me_Profile env) data then Inl TrailingLegacy
           else
             (case validateLegacyRules (me_ValidatePattern env) (op_Allow p) of
                Inl e \<Rightarrow> Inl e
              | Inr _ \<Rightarrow>
                  (case validateLegacyRules (me_ValidatePattern env) (op_Deny p) of Inl e \<Rightarrow> Inl e | Inr _ \<Rightarrow> Inr p))))"

record legacy_state =
  ls_seen :: "string list"
  ls_visiting :: "string list"
  ls_bytes :: int

text \<open>
  \<open>visit\<close> on each name of a list at one depth. The recursion ends because the depth is checked
  against 64 before a profile's includes are visited one level deeper.
\<close>

function visitLegacy :: "migrate_env \<Rightarrow> string list \<Rightarrow> nat \<Rightarrow> string list \<Rightarrow> legacy_state \<Rightarrow> (migrate_error, legacy_state) result" where
  "visitLegacy env dirs depth [] st = Inr st"
| "visitLegacy env dirs depth (name # ns) st =
     (if \<not> legacyProfileName name \<or> depth > 64 then Inl LegacyNameOrLimit
      else if List.member (ls_visiting st) name then Inl LegacyCycle
      else if List.member (ls_seen st) name then visitLegacy env dirs depth ns st
      else if length (ls_seen st) \<ge> 128 then Inl LegacyLimit
      else
        (case findLegacy (me_OS env) name dirs (Inr []) of
           Inl e \<Rightarrow> Inl e
         | Inr data \<Rightarrow>
             (let bytes = ls_bytes st + int (length data) in
              if bytes > 8388608 then Inl AggregateLimit
              else
                (case decodeLegacy env data of
                   Inl e \<Rightarrow> Inl e
                 | Inr p \<Rightarrow>
                     (case visitLegacy env dirs (Suc depth) (op_Profiles p)
                             (st\<lparr>ls_visiting := name # ls_visiting st, ls_bytes := bytes\<rparr>) of
                        Inl e \<Rightarrow> Inl e
                      | Inr st' \<Rightarrow>
                          visitLegacy env dirs depth ns
                            (st'\<lparr>ls_visiting := remove1 name (ls_visiting st'), ls_seen := name # ls_seen st'\<rparr>))))))"
  by pat_completeness auto
termination
  by (relation "measures [\<lambda>(env, dirs, depth, ns, st). 65 - depth, \<lambda>(env, dirs, depth, ns, st). length ns]") auto

definition activeLegacyProfiles :: "migrate_env \<Rightarrow> string list \<Rightarrow> string list \<Rightarrow> (migrate_error, string list) result" where
  "activeLegacyProfiles env ns directories =
     (if ns = [] then Inr []
      else
        (case visitLegacy env (if directories = [] then [''/etc/hostlens/profiles''] else directories) 0 ns
                \<lparr>ls_seen = [], ls_visiting = [], ls_bytes = 0\<rparr> of
           Inl e \<Rightarrow> Inl e
         | Inr st \<Rightarrow> Inr (sort (ls_seen st))))"

section \<open>Tokens\<close>

fun legacyObserve :: "string list \<Rightarrow> bool \<Rightarrow> bool option" where
  "legacyObserve [] observe = Some observe"
| "legacyObserve (role # roles) observe =
     (if List.member [''health'', ''inspect'', ''diagnostics''] role then legacyObserve roles True
      else if role = ''metrics'' then legacyObserve roles observe
      else None)"

fun convertItems :: "string list \<Rightarrow> string list \<Rightarrow> old_token list \<Rightarrow> (migrate_error, token list) result" where
  "convertItems ids hashes [] = Inr []"
| "convertItems ids hashes (item # old) =
     (if ot_ID item = [] \<or> ot_Name item = [] \<or> length (ot_Hash item) \<noteq> 64 \<or> ot_Status item \<noteq> ''active'' \<and> ot_Status item \<noteq> ''revoked''
      then Inl InvalidLegacyToken
      else if \<not> hexValid (ot_Hash item) then Inl InvalidLegacyHash
      else if List.member ids (ot_ID item) then Inl DuplicateLegacyID
      else if List.member hashes (ot_Hash item) then Inl DuplicateLegacyHash
      else
        (case legacyObserve (ot_Roles item) False of
           None \<Rightarrow> Inl UnknownLegacyRole
         | Some observe \<Rightarrow>
             (case convertItems (ot_ID item # ids) (ot_Hash item # hashes) old of
                Inl e \<Rightarrow> Inl e
              | Inr result \<Rightarrow>
                  Inr (\<lparr>t_ID = ot_ID item, t_Name = ot_Name item, t_Roles = (if observe then [''observe''] else []),
                        t_Expires = ot_Expires item, t_Revoked = (ot_Status item \<noteq> ''active'' \<or> \<not> observe),
                        t_Hash = ot_Hash item, t_Legacy = True\<rparr> # result))))"

definition convertTokens :: "migrate_env \<Rightarrow> bytes \<Rightarrow> (migrate_error, token list) result" where
  "convertTokens env data =
     (case me_Tokens env data of
        Inl e \<Rightarrow> Inl (TokensDecode e)
      | Inr old \<Rightarrow> if \<not> me_TokensEOF env data then Inl TrailingTokens else convertItems [] [] old)"

section \<open>Prepare\<close>

definition JoinHostPort :: "string \<Rightarrow> string \<Rightarrow> string" where
  "JoinHostPort host port =
     (if contains_char host (CHR '':'') then CHR ''['' # host @ '']:'' @ port else host @ CHR '':'' # port)"

definition migrateActions :: "string list" where
  "migrateActions =
    [''Only the listener, TLS paths, local Docker socket, and token metadata are mapped; review all other version 1 settings.'',
     ''Review old profile grants and create new per-tool profiles before activation.'',
     ''Install the candidate under administrator-owned paths, update token_store and profile_dir to final locations, and set service identities and group access.'',
     ''Stop old services before switching binaries; retain old state and binaries for rollback.'']"

definition readOldConfig :: "migrate_env \<Rightarrow> string \<Rightarrow> (migrate_error, old_config) result" where
  "readOldConfig env from =
     (case readProtected (me_OS env) from of
        Inl e \<Rightarrow> Inl e
      | Inr data \<Rightarrow>
          (case first_document (me_Config env) data zero_old_config of
             Inl e \<Rightarrow> Inl (LegacyYaml e)
           | Inr old \<Rightarrow> if \<not> second_at_end (me_Config env) data then Inl TrailingLegacy else Inr old))"

text \<open>The checks on the old configuration and the defaults that the code fills in.\<close>

definition checkOldConfig :: "migrate_env \<Rightarrow> old_config \<Rightarrow> (migrate_error, old_config) result" where
  "checkOldConfig env old =
     (if oc_Mode old \<noteq> ''system'' then Inl OnlySystemMode
      else if oc_Privilege old \<noteq> [] \<and> oc_Privilege old \<noteq> ''standard'' \<and> oc_Privilege old \<noteq> ''restricted'' then Inl InvalidPrivilege
      else if oc_RemediationEnabled old then Inl UnsupportedRemediation
      else
        (case validateLegacyRules (me_ValidatePattern env) (oc_Allow old) of
           Inl e \<Rightarrow> Inl e
         | Inr _ \<Rightarrow>
             (case validateLegacyRules (me_ValidatePattern env) (oc_Deny old) of
                Inl e \<Rightarrow> Inl e
              | Inr _ \<Rightarrow>
                  (let old = (if oc_Bind old = [] then old\<lparr>oc_Bind := [''127.0.0.1'']\<rparr> else old);
                       old = (if oc_Port old = 0 then old\<lparr>oc_Port := 8080\<rparr> else old)
                   in
                   if oc_Version old \<noteq> 1 \<or> length (oc_Bind old) \<noteq> 1 \<or> oc_Port old < 1 \<or> oc_Port old > 65535
                   then Inl VersionOneRequired else Inr old))))"

definition readOldTokens :: "migrate_env \<Rightarrow> old_config \<Rightarrow> (migrate_error, bytes) result" where
  "readOldTokens env old =
     (let explicitStore = (oc_TokenStore old \<noteq> []);
          store = (if explicitStore then oc_TokenStore old else ''/etc/hostlens/secrets/tokens.json'')
      in
      if \<not> IsAbs store then Inl AbsoluteStoreRequired
      else
        (case readProtected (me_OS env) store of
           Inl e \<Rightarrow> if sourceMissing e \<and> \<not> explicitStore then Inr ''[]'' else Inl e
         | Inr data \<Rightarrow> Inr data))"

definition candidateConfig :: "migrate_options \<Rightarrow> old_config \<Rightarrow> config" where
  "candidateConfig opts old =
     \<lparr>Version = 2, Listen = JoinHostPort (hd (oc_Bind old)) (Itoa (oc_Port old)), ReadOnly = True,
      TokenStore = JoinPath (mo_Output opts) ''tokens.json'', ProfileDir = JoinPath (mo_Output opts) ''profiles'',
      ActiveProfiles = [],
      DockerSocket = (if oc_DockerEnabled old
                      then (if oc_DaemonSocket old = [] then ''/var/run/docker.sock'' else oc_DaemonSocket old) else []),
      ObserverSocket = ''/run/hostlens-observer/observer.sock'', RepairSocket = ''/run/hostlens-repair/repair.sock'',
      GatewayUID = mo_GatewayUID opts, ObserverUID = mo_ObserverUID opts, RepairUID = mo_RepairUID opts,
      SharedGID = mo_SharedGID opts, TokenGID = mo_TokenGID opts,
      TLSCert = (if oc_TLSEnabled old then oc_CertFile old else []),
      TLSKey = (if oc_TLSEnabled old then oc_KeyFile old else [])\<rparr>"

record candidate =
  cn_Config :: config
  cn_Tokens :: "token list"
  cn_Converted :: bytes
  cn_Report :: migrate_report

text \<open>Everything before the first change: the candidate, or why there is none.\<close>

definition planMigration :: "migrate_env \<Rightarrow> migrate_options \<Rightarrow> (migrate_error, candidate) result" where
  "planMigration env opts =
     (if mo_From opts = [] \<or> mo_Output opts = [] \<or> \<not> IsAbs (mo_From opts) \<or> \<not> IsAbs (mo_Output opts)
      then Inl AbsolutePathsRequired
      else
        (case readOldConfig env (mo_From opts) of
           Inl e \<Rightarrow> Inl e
         | Inr old0 \<Rightarrow>
             (case checkOldConfig env old0 of
                Inl e \<Rightarrow> Inl e
              | Inr old \<Rightarrow>
                  (case activeLegacyProfiles env (oc_Profiles old) (oc_ProfileDirs old) of
                     Inl e \<Rightarrow> Inl e
                   | Inr unmapped \<Rightarrow>
                       (case readOldTokens env old of
                          Inl e \<Rightarrow> Inl e
                        | Inr tokenData \<Rightarrow>
                            (case convertTokens env tokenData of
                               Inl e \<Rightarrow> Inl e
                             | Inr tokens \<Rightarrow>
                                 (case me_MarshalTokens env tokens of
                                    Inl e \<Rightarrow> Inl ConvertedExceedsLimit
                                  | Inr converted \<Rightarrow>
                                      (if int (length converted) > 1048576 then Inl ConvertedExceedsLimit
                                       else
                                         (let config = candidateConfig opts old in
                                          case Validate config of
                                            Inl e \<Rightarrow> Inl (CandidateInvalid e)
                                          | Inr _ \<Rightarrow>
                                              Inr \<lparr>cn_Config = config, cn_Tokens = tokens, cn_Converted = converted,
                                                   cn_Report = \<lparr>mr_SourceVersion = 1, mr_TokensPreserved = int (length tokens),
                                                     mr_ProfilesUnmapped = unmapped, mr_Actions = migrateActions\<rparr>\<rparr>)))))))))"

definition dir_stat :: stat where
  "dir_stat = \<lparr>st_Mode = 0x41C0, st_Uid = 0, st_Gid = 0, st_Size = 0\<rparr>"

definition private_stat :: stat where
  "private_stat = \<lparr>st_Mode = 0x8180, st_Uid = 0, st_Gid = 0, st_Size = 0\<rparr>"

definition candidateContent :: "migrate_env \<Rightarrow> candidate \<Rightarrow> string \<Rightarrow> (string, bytes) result" where
  "candidateContent env c name =
     (if name = ''tokens.json'' then Inr (cn_Converted c)
      else if name = ''config.candidate.yaml'' then me_MarshalConfig env (cn_Config c)
      else me_MarshalReport env (cn_Report c))"

text \<open>One file of the candidate: created exclusively, written, synced and closed.\<close>

definition writeCandidateFile :: "migrate_env \<Rightarrow> string \<Rightarrow> candidate \<Rightarrow> string \<Rightarrow> unit io" where
  "writeCandidateFile env output c name =
     (case candidateContent env c name of
        Inl e \<Rightarrow> fail e
      | Inr content \<Rightarrow>
          (let path = JoinPath output name in
           bindE (create path private_stat) (\<lambda>_.
           bindE (attempt (bindE (writeAt path content) (\<lambda>_. effectless))) (\<lambda>r.
           bindE (attempt effectless) (\<lambda>cl.
           case (r, cl) of
             (Inr _, Inr _) \<Rightarrow> ret ()
           | _ \<Rightarrow> throw ((case r of Inl e \<Rightarrow> e | Inr _ \<Rightarrow> []) @ (case cl of Inl e \<Rightarrow> e | Inr _ \<Rightarrow> [])))))))"

text \<open>The three files are a Go map: their order is not determined and so an argument.\<close>

definition writeCandidate :: "migrate_env \<Rightarrow> string list \<Rightarrow> string \<Rightarrow> candidate \<Rightarrow> migrate_report io" where
  "writeCandidate env order output c =
     bindE (create output dir_stat) (\<lambda>_.
     bindE effectless (\<lambda>_.
     bindE (create (JoinPath output ''profiles'') dir_stat) (\<lambda>_.
     bindE (seqE (writeCandidateFile env output c) order) (\<lambda>_. ret (cn_Report c)))))"

datatype migrate_failure = MigrationRefused migrate_error | CandidateFailed "io_error list"

definition Prepare :: "migrate_env \<Rightarrow> string list \<Rightarrow> migrate_options \<Rightarrow> world \<Rightarrow> (migrate_failure, migrate_report) result \<times> world" where
  "Prepare env order opts w =
     (case planMigration env opts of
        Inl e \<Rightarrow> (Inl (MigrationRefused e), w)
      | Inr c \<Rightarrow>
          (case writeCandidate env order (mo_Output opts) c w of
             (Inl e, w) \<Rightarrow> (Inl (CandidateFailed e), w)
           | (Inr r, w) \<Rightarrow> (Inr r, w)))"

end
