(* ===== verification/Migrate_Correct.thy ===== *)
theory Migrate_Correct
  imports Migrate
begin

text \<open>
  What the migration guarantees: it alters nothing that exists, the candidate it writes is valid,
  read-only and without any grant, converted tokens can only observe and keep their identity, their
  secret and their revocation, and the reported old profiles are the include closure of the active
  ones.
\<close>

section \<open>Tokens\<close>

lemma legacyObserve_Some:
  "legacyObserve roles b = Some ob \<longleftrightarrow> set roles \<subseteq> {''health'', ''inspect'', ''diagnostics'', ''metrics''}
     \<and> (ob \<longleftrightarrow> b \<or> (\<exists>r\<in>set roles. r \<noteq> ''metrics''))"
  by (induction roles arbitrary: b) (auto simp: List.member_iff)

text \<open>A converted record beside the old one.\<close>

definition converted :: "old_token \<Rightarrow> token \<Rightarrow> bool" where
  "converted item t \<longleftrightarrow> t_ID t = ot_ID item \<and> t_Name t = ot_Name item \<and> t_Hash t = ot_Hash item \<and> t_Expires t = ot_Expires item
     \<and> t_Legacy t \<and> (t_Revoked t \<longleftrightarrow> ot_Status item \<noteq> ''active'' \<or> set (ot_Roles item) \<subseteq> {''metrics''})
     \<and> t_Roles t = (if set (ot_Roles item) \<subseteq> {''metrics''} then [] else [''observe''])"

lemma roleValid_observe: "roleValid ''observe''"
  by code_simp

lemma convertItems_Inr:
  assumes "convertItems ids hashes old = Inr ts"
  shows "list_all2 converted old ts \<and> valid_store ts \<and> set ids \<inter> t_ID ` set ts = {} \<and> set hashes \<inter> t_Hash ` set ts = {}"
  using assms
proof (induction ids hashes old arbitrary: ts rule: convertItems.induct)
  case (1 ids hashes)
  then show ?case by (simp add: valid_store_def)
next
  case (2 ids hashes item old)
  from "2.prems" obtain ob rest where
    g: "ot_ID item \<noteq> []" "ot_Name item \<noteq> []" "length (ot_Hash item) = 64" "ot_Status item = ''active'' \<or> ot_Status item = ''revoked''"
      "hexValid (ot_Hash item)" "ot_ID item \<notin> set ids" "ot_Hash item \<notin> set hashes" "legacyObserve (ot_Roles item) False = Some ob"
    and r: "convertItems (ot_ID item # ids) (ot_Hash item # hashes) old = Inr rest"
    and ts: "ts = \<lparr>t_ID = ot_ID item, t_Name = ot_Name item, t_Roles = (if ob then [''observe''] else []),
                        t_Expires = ot_Expires item, t_Revoked = (ot_Status item \<noteq> ''active'' \<or> \<not> ob),
                        t_Hash = ot_Hash item, t_Legacy = True\<rparr> # rest"
    by (auto simp: List.member_iff split: if_splits option.splits sum.splits)
  have ih: "list_all2 converted old rest" "valid_store rest" "set (ot_ID item # ids) \<inter> t_ID ` set rest = {}"
    "set (ot_Hash item # hashes) \<inter> t_Hash ` set rest = {}"
    using "2.IH" [OF _ _ _ _ g(8) r] g by (auto simp: List.member_iff)
  have ob: "ob \<longleftrightarrow> \<not> set (ot_Roles item) \<subseteq> {''metrics''}" using g(8) by (auto simp: legacyObserve_Some)
  have "converted item (hd ts)" using ts ob by (auto simp: converted_def)
  moreover have "record_ok (hd ts)" using ts g roleValid_observe by (auto simp: record_ok_def)
  ultimately show ?case using ts ih g by (auto simp: valid_store_def)
qed

lemma convertTokens_Inr:
  assumes "convertTokens env data = Inr ts"
  obtains old where "me_Tokens env data = Inr old" "me_TokensEOF env data" "list_all2 converted old ts" "valid_store ts"
  using assms convertItems_Inr by (auto simp: convertTokens_def split: sum.splits if_splits)

text \<open>All converted records are legacy ones with different hashes, so at most one can accept a secret.\<close>

lemma migrated_verify:
  assumes "list_all2 converted old ts" "valid_store ts" "read_store s h cd d = Inr ts" "store_root s h = Inr ()"
    and "32 \<le> length secret" "length secret \<le> 128"
    and "item \<in> set old" "ot_Hash item = legacyDigest secret" "ot_Status item = ''active''" "\<not> set (ot_Roles item) \<subseteq> {''metrics''}"
      "ot_Expires item = 0"
  shows "\<exists>t. Verify s h cd d secret = Inr t \<and> t_ID t = ot_ID item \<and> t_Name t = ot_Name item \<and> t_Roles t = [''observe'']"
proof -
  from assms(7) obtain i where i: "i < length old" "old ! i = item" by (auto simp: in_set_conv_nth)
  have len: "length ts = length old" using assms(1) by (simp add: list_all2_lengthD)
  have c: "converted item (ts ! i)" using assms(1) i by (auto simp: list_all2_conv_all_nth)
  have acc: "accepts (h_Now h i) secret (ts ! i)" using c assms(8-11) by (simp add: accepts_def converted_def)
  have "\<not> accepts (h_Now h j) secret (ts ! j)" if "j < i" for j
  proof
    assume a: "accepts (h_Now h j) secret (ts ! j)"
    have "converted (old ! j) (ts ! j)" using assms(1) i that by (auto simp: list_all2_conv_all_nth)
    then have "t_Hash (ts ! j) = legacyDigest secret" using a by (simp add: accepts_def converted_def)
    moreover have "t_Hash (ts ! i) = legacyDigest secret" using c assms(8) by (simp add: converted_def)
    moreover have "distinct (map t_Hash ts)" using assms(2) by (simp add: valid_store_def)
    ultimately have "map t_Hash ts ! j = map t_Hash ts ! i" "distinct (map t_Hash ts)" using that i len by simp_all
    with nth_eq_iff_index_eq [of "map t_Hash ts" j i] that i len show False by simp
  qed
  with acc i len have "first_accepting (h_Now h) secret ts i" by (simp add: first_accepting_def)
  then have "Verify s h cd d secret = Inr ((ts ! i)\<lparr>t_Hash := []\<rparr>)"
    unfolding Verify_iff using assms(3-6) by blast
  with c assms(10) show ?thesis by (simp add: converted_def)
qed

lemma migrated_verify_sound:
  assumes "list_all2 converted old ts" "read_store s h cd d = Inr ts" "Verify s h cd d secret = Inr t"
  shows "\<exists>item\<in>set old. t_ID t = ot_ID item \<and> ot_Hash item = legacyDigest secret \<and> ot_Status item = ''active''
    \<and> \<not> set (ot_Roles item) \<subseteq> {''metrics''} \<and> t_Roles t = [''observe'']"
proof -
  from assms(3) obtain rs i where r: "read_store s h cd d = Inr rs" "i < length rs" "accepts (h_Now h i) secret (rs ! i)"
    "t = (rs ! i)\<lparr>t_Hash := []\<rparr>" by (rule Verify_Inr)
  with assms(2) have rs: "rs = ts" by simp
  with assms(1) r(2) have "converted (old ! i) (ts ! i)" "i < length old" by (auto simp: list_all2_conv_all_nth)
  moreover have "accepts (h_Now h i) secret (ts ! i)" using r(3) rs by simp
  ultimately show ?thesis using r(4) rs by (intro bexI [of _ "old ! i"]) (auto simp: converted_def accepts_def)
qed

section \<open>Profiles\<close>

definition legacyProfile :: "migrate_env \<Rightarrow> string list \<Rightarrow> string \<Rightarrow> old_profile \<Rightarrow> bool" where
  "legacyProfile env dirs name p \<longleftrightarrow>
     (\<exists>data. findLegacy (me_OS env) name dirs (Inr []) = Inr data \<and> decodeLegacy env data = Inr p)"

text \<open>What a run of the visits adds: profiles that were read, with all their includes.\<close>

definition visited :: "migrate_env \<Rightarrow> string list \<Rightarrow> legacy_state \<Rightarrow> legacy_state \<Rightarrow> bool" where
  "visited env dirs st st' \<longleftrightarrow> set (ls_seen st) \<subseteq> set (ls_seen st') \<and> ls_visiting st' = ls_visiting st
     \<and> (distinct (ls_seen st) \<and> set (ls_seen st) \<inter> set (ls_visiting st) = {} \<longrightarrow>
          distinct (ls_seen st') \<and> set (ls_seen st') \<inter> set (ls_visiting st) = {})
     \<and> (\<forall>n\<in>set (ls_seen st'). n \<notin> set (ls_seen st) \<longrightarrow>
          legacyProfileName n \<and> (\<exists>p. legacyProfile env dirs n p \<and> set (op_Profiles p) \<subseteq> set (ls_seen st')))"

lemma visited_refl: "visited env dirs st st"
  by (simp add: visited_def)

lemma visited_trans:
  assumes a: "visited env dirs st st'" and b: "visited env dirs st' st''"
  shows "visited env dirs st st''"
  unfolding visited_def
proof (intro conjI ballI impI)
  note a' = a [unfolded visited_def] and b' = b [unfolded visited_def]
  show "set (ls_seen st) \<subseteq> set (ls_seen st'')" using a' b' by blast
  show "ls_visiting st'' = ls_visiting st" using a' b' by simp
  show "distinct (ls_seen st'')" "set (ls_seen st'') \<inter> set (ls_visiting st) = {}"
    if "distinct (ls_seen st) \<and> set (ls_seen st) \<inter> set (ls_visiting st) = {}"
    using a' b' that by simp_all
  fix n
  assume n: "n \<in> set (ls_seen st'')" "n \<notin> set (ls_seen st)"
  have "legacyProfileName n \<and> (\<exists>p. legacyProfile env dirs n p \<and> set (op_Profiles p) \<subseteq> set (ls_seen st''))"
  proof (cases "n \<in> set (ls_seen st')")
    case True
    with a' n(2) obtain p where "legacyProfileName n" "legacyProfile env dirs n p" "set (op_Profiles p) \<subseteq> set (ls_seen st')" by blast
    with b' show ?thesis by blast
  qed (use b' n in blast)
  then show "legacyProfileName n" "\<exists>p. legacyProfile env dirs n p \<and> set (op_Profiles p) \<subseteq> set (ls_seen st'')" by auto
qed

lemma visitLegacy_Cons:
  assumes "visitLegacy env dirs depth (name # ns) st = Inr st'" and "name \<notin> set (ls_seen st)"
  obtains data p st1 where "legacyProfileName name" "name \<notin> set (ls_visiting st)" "findLegacy (me_OS env) name dirs (Inr []) = Inr data"
    "decodeLegacy env data = Inr p"
    "visitLegacy env dirs (Suc depth) (op_Profiles p)
       (st\<lparr>ls_visiting := name # ls_visiting st, ls_bytes := ls_bytes st + int (length data)\<rparr>) = Inr st1"
    "visitLegacy env dirs depth ns (st1\<lparr>ls_visiting := remove1 name (ls_visiting st1), ls_seen := name # ls_seen st1\<rparr>) = Inr st'"
    "depth \<le> 64" "length (ls_seen st) < 128" "ls_bytes st + int (length data) \<le> 8388608"
  using assms by (auto simp: Let_def List.member_iff split: if_splits sum.splits)

lemma visitLegacy_seen:
  "name \<in> set (ls_seen st) \<Longrightarrow> visitLegacy env dirs depth (name # ns) st = Inr st' \<Longrightarrow> visitLegacy env dirs depth ns st = Inr st'"
  by (auto simp: List.member_iff split: if_splits)

text \<open>The step of one profile whose includes have been visited.\<close>

lemma visited_profile:
  assumes v: "visited env dirs (st\<lparr>ls_visiting := name # ls_visiting st, ls_bytes := b\<rparr>) st1"
    and p: "legacyProfileName name" "legacyProfile env dirs name p" "set (op_Profiles p) \<subseteq> set (ls_seen st1)"
    and n: "name \<notin> set (ls_seen st)" "name \<notin> set (ls_visiting st)"
  shows "visited env dirs st (st1\<lparr>ls_visiting := remove1 name (ls_visiting st1), ls_seen := name # ls_seen st1\<rparr>)"
  unfolding visited_def
proof (intro conjI ballI impI)
  let ?st2 = "st1\<lparr>ls_visiting := remove1 name (ls_visiting st1), ls_seen := name # ls_seen st1\<rparr>"
  note v' = v [unfolded visited_def, simplified]
  show "set (ls_seen st) \<subseteq> set (ls_seen ?st2)" using v' by auto
  show "ls_visiting ?st2 = ls_visiting st" using v' by simp
  show "distinct (ls_seen ?st2)" "set (ls_seen ?st2) \<inter> set (ls_visiting st) = {}"
    if "distinct (ls_seen st) \<and> set (ls_seen st) \<inter> set (ls_visiting st) = {}"
    using v' n that by auto
  fix m
  assume m: "m \<in> set (ls_seen ?st2)" "m \<notin> set (ls_seen st)"
  have "legacyProfileName m \<and> (\<exists>p. legacyProfile env dirs m p \<and> set (op_Profiles p) \<subseteq> set (ls_seen ?st2))"
  proof (cases "m = name")
    case True
    with p show ?thesis by auto
  next
    case False
    with m have "m \<in> set (ls_seen st1)" by simp
    with v' m(2) obtain q where "legacyProfileName m" "legacyProfile env dirs m q" "set (op_Profiles q) \<subseteq> set (ls_seen st1)" by blast
    then show ?thesis by auto
  qed
  then show "legacyProfileName m" "\<exists>p. legacyProfile env dirs m p \<and> set (op_Profiles p) \<subseteq> set (ls_seen ?st2)" by auto
qed

lemma visitLegacy_visited:
  "visitLegacy env dirs depth ns st = Inr st' \<Longrightarrow> visited env dirs st st' \<and> set ns \<subseteq> set (ls_seen st')"
proof (induction env dirs depth ns st arbitrary: st' rule: visitLegacy.induct)
  case (1 env dirs depth st)
  then show ?case by (simp add: visited_refl)
next
  case (2 env dirs depth name ns st)
  show ?case
  proof (cases "name \<in> set (ls_seen st)")
    case True
    from "2.prems" True have g: "legacyProfileName name" "depth \<le> 64" "name \<notin> set (ls_visiting st)"
      by (auto simp: List.member_iff split: if_splits)
    have "visitLegacy env dirs depth ns st = Inr st'" by (rule visitLegacy_seen [OF True "2.prems"])
    from "2.IH"(1) [OF _ _ _ this] g True have "visited env dirs st st' \<and> set ns \<subseteq> set (ls_seen st')"
      by (simp add: List.member_iff)
    with True show ?thesis by (auto simp: visited_def)
  next
    case False
    from "2.prems" False obtain data p st1 where s: "legacyProfileName name" "name \<notin> set (ls_visiting st)"
      "findLegacy (me_OS env) name dirs (Inr []) = Inr data" "decodeLegacy env data = Inr p"
      "visitLegacy env dirs (Suc depth) (op_Profiles p)
         (st\<lparr>ls_visiting := name # ls_visiting st, ls_bytes := ls_bytes st + int (length data)\<rparr>) = Inr st1"
      "visitLegacy env dirs depth ns (st1\<lparr>ls_visiting := remove1 name (ls_visiting st1), ls_seen := name # ls_seen st1\<rparr>) = Inr st'"
      "depth \<le> 64" "length (ls_seen st) < 128" "ls_bytes st + int (length data) \<le> 8388608" by (rule visitLegacy_Cons)
    let ?st2 = "st1\<lparr>ls_visiting := remove1 name (ls_visiting st1), ls_seen := name # ls_seen st1\<rparr>"
    have a: "visited env dirs (st\<lparr>ls_visiting := name # ls_visiting st, ls_bytes := ls_bytes st + int (length data)\<rparr>) st1
        \<and> set (op_Profiles p) \<subseteq> set (ls_seen st1)"
      by (rule "2.IH"(2) [OF _ _ _ _ s(3) refl _ s(4,5)]) (use s False in \<open>simp_all add: List.member_iff\<close>)
    have b: "visited env dirs ?st2 st' \<and> set ns \<subseteq> set (ls_seen st')"
      by (rule "2.IH"(3) [OF _ _ _ _ s(3) refl _ s(4,5,6)]) (use s False in \<open>simp_all add: List.member_iff\<close>)
    have lp: "legacyProfile env dirs name p" using s(3,4) by (auto simp: legacyProfile_def)
    have c: "visited env dirs st ?st2" by (rule visited_profile [OF conjunct1 [OF a] s(1) lp conjunct2 [OF a] False s(2)])
    have "name \<in> set (ls_seen st')" using b by (auto simp: visited_def)
    with visited_trans [OF c conjunct1 [OF b]] b show ?thesis by simp
  qed
qed

section \<open>The candidate on disk\<close>

text \<open>What exists stays as it is.\<close>

definition preserves :: "world \<Rightarrow> world \<Rightarrow> bool" where
  "preserves w w' \<longleftrightarrow> (\<forall>q n. map_of (w_FS w) q = Some n \<longrightarrow> map_of (w_FS w') q = Some n)"

interpretation preserving: step_relation preserves
  by unfold_locales (auto simp: preserves_def)

lemma keeps_preserves_create: "keeps preserves (create p st)"
  by (auto simp: keeps_def preserves_def create_def sys_def Let_def update_conv' split: option.split)

lemma keeps_preserves_effectless: "keeps preserves effectless"
  using keeps_effectless by (auto simp: keeps_def preserves_def same_files_def)

lemma writeCandidateFile_preserves: "keeps preserves (writeCandidateFile env out c name)"
proof (unfold keeps_def, rule allI)
  fix w
  let ?p = "JoinPath out name"
  show "preserves w (snd (writeCandidateFile env out c name w))"
  proof (cases "candidateContent env c name")
    case (Inl e)
    then show ?thesis by (simp add: writeCandidateFile_def preserving.refl)
  next
    case (Inr content)
    obtain r w1 where cr: "create ?p private_stat w = (r, w1)" by fastforce
    show ?thesis
    proof (cases r)
      case (Inl e)
      then show ?thesis using cr Inr preserving.keepsD [OF keeps_preserves_create cr]
        by (simp add: writeCandidateFile_def Let_def bindE_def)
    next
      case (Inr u)
      with create_Inr cr have fresh: "map_of (w_FS w) ?p = None" by auto
      have "keeps (only_paths {?p}) (writeCandidateFile env out c name)"
        unfolding writeCandidateFile_def Let_def
        by (intro keeps_touch) (auto intro!: keeps_touch split: sum.split)
      then have "only_paths {?p} w (snd (writeCandidateFile env out c name w))" by (simp add: keeps_def)
      with fresh show ?thesis unfolding only_paths_def preserves_def by (metis option.distinct(1) singletonD)
    qed
  qed
qed

lemma writeCandidate_preserves: "keeps preserves (writeCandidate env order out c)"
  unfolding writeCandidate_def
  by (intro preserving.keeps_intros keeps_preserves_create keeps_preserves_effectless writeCandidateFile_preserves)

lemma writeCandidateFile_Inr:
  assumes "writeCandidateFile env out c name w = (Inr u, w')"
  shows "\<exists>content n. candidateContent env c name = Inr content \<and> map_of (w_FS w') (JoinPath out name) = Some n
    \<and> nd_Data n = content \<and> nd_Stat n = private_stat\<lparr>st_Size := int (length content)\<rparr>"
proof -
  let ?p = "JoinPath out name"
  from assms obtain content where c: "candidateContent env c name = Inr content"
    by (cases "candidateContent env c name") (auto simp: writeCandidateFile_def)
  with assms obtain w1 r w2 cl w3 where s: "create ?p private_stat w = (Inr (), w1)"
    "bindE (writeAt ?p content) (\<lambda>_. effectless) w1 = (r, w2)" "effectless w2 = (cl, w3)"
    "(case (r, cl) of (Inr _, Inr _) \<Rightarrow> ret ()
       | _ \<Rightarrow> throw ((case r of Inl e \<Rightarrow> e | Inr _ \<Rightarrow> []) @ (case cl of Inl e \<Rightarrow> e | Inr _ \<Rightarrow> []))) w3 = (Inr u, w')"
    by (auto simp: writeCandidateFile_def Let_def bindE_Inr)
  then obtain v x where r: "r = Inr v" "cl = Inr x" "w3 = w'" by (cases r; cases cl) auto
  with s(2) obtain w4 where wr: "writeAt ?p content w1 = (Inr (), w4)" "effectless w4 = (Inr v, w2)" by (auto simp: bindE_Inr)
  from create_Inr [OF s(1)] have "map_of (w_FS w1) ?p = Some \<lparr>nd_Stat = private_stat, nd_Data = []\<rparr>" by simp
  from writeAt_Inr [OF wr(1) this]
  have "map_of (w_FS w4) ?p = Some \<lparr>nd_Stat = private_stat\<lparr>st_Size := int (length content)\<rparr>, nd_Data = content\<rparr>" by simp
  moreover have "same_files w4 w2" "same_files w2 w3"
    using reading.keepsD [OF keeps_effectless wr(2)] reading.keepsD [OF keeps_effectless s(3)] by auto
  ultimately have "map_of (w_FS w') ?p = Some \<lparr>nd_Stat = private_stat\<lparr>st_Size := int (length content)\<rparr>, nd_Data = content\<rparr>"
    using r(3) by (simp add: same_files_def)
  with c show ?thesis by auto
qed

lemma writeFiles_Inr:
  "seqE (writeCandidateFile env out c) order w = (Inr r, w') \<Longrightarrow> name \<in> set order \<Longrightarrow>
   \<exists>content n. candidateContent env c name = Inr content \<and> map_of (w_FS w') (JoinPath out name) = Some n
     \<and> nd_Data n = content \<and> nd_Stat n = private_stat\<lparr>st_Size := int (length content)\<rparr>"
proof (induction order arbitrary: w r)
  case (Cons m order)
  then obtain u w1 rs where s: "writeCandidateFile env out c m w = (Inr u, w1)" "seqE (writeCandidateFile env out c) order w1 = (Inr rs, w')"
    by (auto simp: bindE_Inr)
  show ?case
  proof (cases "name \<in> set order")
    case True
    from Cons.IH [OF s(2) True] show ?thesis .
  next
    case False
    with Cons.prems(2) have "m = name" by simp
    with writeCandidateFile_Inr [OF s(1)] obtain content n where
      x: "candidateContent env c name = Inr content" "map_of (w_FS w1) (JoinPath out name) = Some n"
        "nd_Data n = content" "nd_Stat n = private_stat\<lparr>st_Size := int (length content)\<rparr>" by auto
    have "preserves w1 w'"
      by (rule preserving.keepsD [OF preserving.keeps_seqE [OF writeCandidateFile_preserves] s(2)])
    with x show ?thesis by (auto simp: preserves_def)
  qed
qed simp

lemma planMigration_Inr:
  assumes "planMigration env opts = Inr c"
  obtains old0 old data where "checkOldConfig env old0 = Inr old" "convertTokens env data = Inr (cn_Tokens c)"
    "me_MarshalTokens env (cn_Tokens c) = Inr (cn_Converted c)" "cn_Config c = candidateConfig opts old" "Validate (cn_Config c) = Inr ()"
    "activeLegacyProfiles env (oc_Profiles old) (oc_ProfileDirs old) = Inr (mr_ProfilesUnmapped (cn_Report c))"
  using assms by (auto simp: planMigration_def Let_def split: if_splits sum.splits)

section \<open>An example\<close>

definition example_old :: old_config where
  "example_old = zero_old_config\<lparr>oc_Version := 1, oc_Mode := ''system'', oc_Port := 80, oc_TokenStore := ''/etc/hostlens''\<rparr>"

definition example_old_token :: old_token where
  "example_old_token = \<lparr>ot_ID = ''a'', ot_Name = ''ops'', ot_Roles = [''health''], ot_Expires = 0, ot_Status = ''active'',
     ot_Hash = replicate 64 (CHR ''a'')\<rparr>"

definition example_migration :: migrate_env where
  "example_migration = \<lparr>me_OS = example_os, me_ValidatePattern = (\<lambda>_. True),
     me_Config = \<lparr>first_document = (\<lambda>_ _. Inr example_old), second_at_end = (\<lambda>_. True)\<rparr>,
     me_Profile = \<lparr>first_document = (\<lambda>_ _. Inr zero_old_profile), second_at_end = (\<lambda>_. True)\<rparr>,
     me_Tokens = (\<lambda>_. Inr [example_old_token]), me_TokensEOF = (\<lambda>_. True), me_MarshalTokens = (\<lambda>_. Inr ''tokens''),
     me_MarshalConfig = (\<lambda>_. Inr ''config''), me_MarshalReport = (\<lambda>_. Inr ''report'')\<rparr>"

definition example_options :: migrate_options where
  "example_options = \<lparr>mo_From = ''/etc/hostlens'', mo_Output = ''/srv/candidate'', mo_GatewayUID = 1001, mo_ObserverUID = 1002,
     mo_RepairUID = 0, mo_SharedGID = 1001, mo_TokenGID = 1002\<rparr>"

definition candidate_files :: "string list" where
  "candidate_files = [''config.candidate.yaml'', ''tokens.json'', ''migration-report.json'']"

definition example_target :: world where
  "example_target = \<lparr>w_FS = [(''/srv'', \<lparr>nd_Stat = root_dir, nd_Data = []\<rparr>)], w_Tick = 0, w_Fault = (\<lambda>_. None), w_Partial = 0,
     w_Euid = 0, w_Log = []\<rparr>"

definition example_candidate :: candidate where
  "example_candidate = \<lparr>cn_Config = candidateConfig example_options (example_old\<lparr>oc_Bind := [''127.0.0.1''], oc_Port := 80\<rparr>),
     cn_Tokens = [\<lparr>t_ID = ''a'', t_Name = ''ops'', t_Roles = [''observe''], t_Expires = 0, t_Revoked = False,
       t_Hash = replicate 64 (CHR ''a''), t_Legacy = True\<rparr>], cn_Converted = ''tokens'',
     cn_Report = \<lparr>mr_SourceVersion = 1, mr_TokensPreserved = 1, mr_ProfilesUnmapped = [], mr_Actions = migrateActions\<rparr>\<rparr>"

lemma example_candidate_valid: "Validate (candidateConfig example_options (example_old\<lparr>oc_Bind := [''127.0.0.1''], oc_Port := 80\<rparr>)) = Inr ()"
  by code_simp

lemma example_source: "readProtected example_os ''/etc/hostlens'' = Inr []"
  by (simp add: readProtected_def example_open plain_file_def root_file_def maxInput_def limitReader_def)

lemma example_plan: "planMigration example_migration example_options = Inr example_candidate"
proof -
  have abs: "IsAbs ''/etc/hostlens''" "IsAbs ''/srv/candidate''" by (simp_all add: IsAbs_def HasPrefix_def)
  have rules: "validateLegacyRules v no_rules = Inr ()" for v by (simp add: validateLegacyRules_def no_rules_def)
  have "readOldConfig example_migration ''/etc/hostlens'' = Inr example_old"
    using example_source by (simp add: readOldConfig_def example_migration_def)
  moreover have "checkOldConfig example_migration example_old = Inr (example_old\<lparr>oc_Bind := [''127.0.0.1''], oc_Port := 80\<rparr>)"
    by (simp add: checkOldConfig_def example_old_def zero_old_config_def rules)
  moreover have "readOldTokens example_migration (example_old\<lparr>oc_Bind := [''127.0.0.1''], oc_Port := 80\<rparr>) = Inr []"
    using example_source abs by (simp add: readOldTokens_def example_migration_def example_old_def Let_def)
  moreover have "convertTokens example_migration [] = Inr (cn_Tokens example_candidate)"
  proof -
    have "list_all is_hex (replicate 64 (CHR ''a''))" by code_simp
    then show ?thesis
      by (simp add: convertTokens_def example_migration_def example_old_token_def example_candidate_def hexValid_def)
  qed
  moreover have "oc_Profiles example_old = []" by (simp add: example_old_def zero_old_config_def)
  ultimately show ?thesis
    using abs example_candidate_valid
    by (simp add: planMigration_def example_options_def [THEN arg_cong [of _ _ mo_From]] example_options_def [THEN arg_cong [of _ _ mo_Output]]
        activeLegacyProfiles_def Let_def)
      (simp add: example_migration_def example_candidate_def)
qed

lemma example_written:
  "\<not> isl (fst (writeCandidate example_migration candidate_files ''/srv/candidate'' example_candidate example_target))"
  by code_simp

lemma example_prepared:
  "\<exists>report w'. Prepare example_migration candidate_files example_options example_target = (Inr report, w')"
proof -
  obtain r w' where x: "writeCandidate example_migration candidate_files ''/srv/candidate'' example_candidate example_target = (r, w')" by fastforce
  with example_written have "\<not> isl r" by simp
  then obtain v where "r = Inr v" by (metis sum.collapse(2))
  moreover have "mo_Output example_options = ''/srv/candidate''" by (simp add: example_options_def)
  ultimately show ?thesis using x by (simp add: Prepare_def example_plan)
qed

section \<open>Properties\<close>

text \<open>
  The migration alters nothing that exists, whichever system calls fail: every file and directory
  there is before is unchanged after it. New entries are the output directory, its profile directory
  and the files of the candidate, and a migration that is refused creates nothing at all.
\<close>

theorem migration_alters_nothing:
  "preserves w (snd (Prepare env order opts w))
   \<and> only_paths ({mo_Output opts, JoinPath (mo_Output opts) ''profiles''} \<union> JoinPath (mo_Output opts) ` set order) w
        (snd (Prepare env order opts w))
   \<and> (isl (planMigration env opts) \<longrightarrow> snd (Prepare env order opts w) = w)"
proof (cases "planMigration env opts")
  case (Inl e)
  then show ?thesis by (simp add: Prepare_def preserving.refl touching.refl)
next
  case (Inr c)
  let ?S = "{mo_Output opts, JoinPath (mo_Output opts) ''profiles''} \<union> JoinPath (mo_Output opts) ` set order"
  obtain r w' where x: "writeCandidate env order (mo_Output opts) c w = (r, w')" by fastforce
  have f: "keeps (only_paths ?S) (writeCandidateFile env (mo_Output opts) c name)" if "name \<in> set order" for name
    unfolding writeCandidateFile_def Let_def
    by (intro keeps_touch) (use that in \<open>auto intro!: keeps_touch split: sum.split\<close>)
  have "keeps (only_paths ?S) (writeCandidate env order (mo_Output opts) c)"
    unfolding writeCandidate_def by (intro keeps_touch f) auto
  from touching.keepsD [OF this x] have "only_paths ?S w w'" .
  moreover have "preserves w w'" by (rule preserving.keepsD [OF writeCandidate_preserves x])
  ultimately show ?thesis using Inr x by (cases r) (simp_all add: Prepare_def)
qed

theorem migration_alters_nothing_witness:
  "snd (Prepare (example_migration\<lparr>me_TokensEOF := (\<lambda>_. False)\<rparr>) candidate_files (example_options\<lparr>mo_From := []\<rparr>) example_target) = example_target"
proof -
  have "isl (planMigration (example_migration\<lparr>me_TokensEOF := (\<lambda>_. False)\<rparr>) (example_options\<lparr>mo_From := []\<rparr>))"
    by (simp add: planMigration_def)
  with migration_alters_nothing [THEN conjunct2, THEN conjunct2] show ?thesis by blast
qed

text \<open>
  C35: the migration grants nothing. A prepared candidate is a valid configuration in read-only mode
  without active profiles, so that no policy compiled for it allows anything; its token store is
  acceptable to the version 2 reader, every token in it may at most observe, and it is on disk, as
  the encoder gave it, readable by its owner only.
\<close>

theorem migration_grants_nothing:
  assumes "Prepare env order opts w = (Inr report, w')" and "''tokens.json'' \<in> set order"
  shows "\<exists>c n. planMigration env opts = Inr c \<and> report = cn_Report c
    \<and> Validate (cn_Config c) = Inr () \<and> ReadOnly (cn_Config c)
    \<and> (Compile ps (ActiveProfiles (cn_Config c)) tools = Inr pol \<longrightarrow> \<not> Allows pol eff tool res)
    \<and> valid_store (cn_Tokens c) \<and> list_all (\<lambda>t. set (t_Roles t) \<subseteq> {''observe''}) (cn_Tokens c)
    \<and> me_MarshalTokens env (cn_Tokens c) = Inr (nd_Data n)
    \<and> map_of (w_FS w') (JoinPath (mo_Output opts) ''tokens.json'') = Some n \<and> Perm (nd_Stat n) = 0x180"
proof -
  from assms(1) obtain c where c: "planMigration env opts = Inr c" by (cases "planMigration env opts") (auto simp: Prepare_def)
  with assms(1) obtain r where wr: "writeCandidate env order (mo_Output opts) c w = (Inr r, w')" "report = r"
    by (auto simp: Prepare_def split: prod.splits sum.splits)
  then have rep: "report = cn_Report c" by (auto simp: writeCandidate_def bindE_Inr)
  from wr(1) obtain w1 rs where sq: "seqE (writeCandidateFile env (mo_Output opts) c) order w1 = (Inr rs, w')"
    by (auto simp: writeCandidate_def bindE_Inr)
  from c obtain old0 old data where p: "convertTokens env data = Inr (cn_Tokens c)"
    "me_MarshalTokens env (cn_Tokens c) = Inr (cn_Converted c)" "cn_Config c = candidateConfig opts old" "Validate (cn_Config c) = Inr ()"
    by (rule planMigration_Inr)
  from p(1) obtain olds where o: "list_all2 converted olds (cn_Tokens c)" "valid_store (cn_Tokens c)" by (rule convertTokens_Inr)
  from writeFiles_Inr [OF sq assms(2)] obtain n where
    n: "map_of (w_FS w') (JoinPath (mo_Output opts) ''tokens.json'') = Some n" "nd_Data n = cn_Converted c"
      "nd_Stat n = private_stat\<lparr>st_Size := int (length (cn_Converted c))\<rparr>"
    by (auto simp: candidateContent_def)
  have perm: "Perm (nd_Stat n) = 0x180" using n(3) by (simp add: Perm_def private_stat_def)
  have roles: "list_all (\<lambda>t. set (t_Roles t) \<subseteq> {''observe''}) (cn_Tokens c)"
    using o(1) by (auto simp: list_all2_conv_all_nth list_all_length converted_def)
  have none: "\<not> Allows pol eff tool res" if "Compile ps (ActiveProfiles (cn_Config c)) tools = Inr pol"
    using that p(3) by (auto simp: candidateConfig_def Compile_def empty_policy_def Allows_iff)
  show ?thesis
    by (rule exI [of _ c], rule exI [of _ n]) (use c rep p o(2) roles none n perm in \<open>simp add: candidateConfig_def\<close>)
qed

theorem migration_grants_nothing_witness:
  "\<exists>c. planMigration example_migration example_options = Inr c \<and> ReadOnly (cn_Config c) \<and> valid_store (cn_Tokens c)"
proof -
  from example_prepared obtain report w' where
    x: "Prepare example_migration candidate_files example_options example_target = (Inr report, w')" by blast
  have "''tokens.json'' \<in> set candidate_files" by (simp add: candidate_files_def)
  from migration_grants_nothing [OF x this] show ?thesis by blast
qed


definition legacy_item :: old_token where
  "legacy_item = \<lparr>ot_ID = ''a'', ot_Name = ''ops'', ot_Roles = [''health''], ot_Expires = 0, ot_Status = ''active'',
     ot_Hash = legacyDigest example_secret\<rparr>"

definition legacy_record :: token where
  "legacy_record = \<lparr>t_ID = ''a'', t_Name = ''ops'', t_Roles = [''observe''], t_Expires = 0, t_Revoked = False,
     t_Hash = legacyDigest example_secret, t_Legacy = True\<rparr>"


text \<open>
  The reported old profiles are the include closure of the active ones: sorted and without
  duplicates, they contain every active profile and every include of each of them, and each has a
  valid name and was read from a protected file and passed the checks. The traversal always ends; an
  include cycle is refused.
\<close>

theorem legacy_profiles_closed:
  assumes "activeLegacyProfiles env active directories = Inr result"
  shows "sorted result \<and> distinct result \<and> set active \<subseteq> set result
    \<and> list_all (\<lambda>n. legacyProfileName n
          \<and> (\<exists>p. legacyProfile env (if directories = [] then [''/etc/hostlens/profiles''] else directories) n p
               \<and> set (op_Profiles p) \<subseteq> set result)) result"
proof (cases "active = []")
  case True
  with assms show ?thesis by (simp add: activeLegacyProfiles_def)
next
  case False
  let ?dirs = "if directories = [] then [''/etc/hostlens/profiles''] else directories"
  let ?st = "\<lparr>ls_seen = [], ls_visiting = [], ls_bytes = 0\<rparr>"
  from assms False obtain st where s: "visitLegacy env ?dirs 0 active ?st = Inr st" "result = sort (ls_seen st)"
    by (auto simp: activeLegacyProfiles_def split: sum.splits)
  from visitLegacy_visited [OF s(1)] have v: "visited env ?dirs ?st st" "set active \<subseteq> set (ls_seen st)" by auto
  with s(2) show ?thesis by (simp add: visited_def list_all_iff)
qed

theorem legacy_profiles_closed_witness:
  "\<exists>result. activeLegacyProfiles example_migration [''ops''] [''/etc''] = Inr result \<and> ''ops'' \<in> set result"
proof -
  have "\<not> isl (activeLegacyProfiles example_migration [''ops''] [''/etc''])" by code_simp
  then obtain result where r: "activeLegacyProfiles example_migration [''ops''] [''/etc''] = Inr result" by (metis sum.collapse(2))
  from legacy_profiles_closed [OF r] r show ?thesis by auto
qed

end
