(* ===== verification/Ready.thy ===== *)
theory Ready
  imports Config
begin

text \<open>
  The readiness checks of \<open>internal/lifecycle/manager_linux.go\<close>: \<open>unitActive\<close>, \<open>gatewayReady\<close> and the
  polling loop \<open>waitReady\<close>. The loop is run over the probes it makes until its context ends, each
  with the time at which it is judged; their number is not bounded by the model.
\<close>

section \<open>Unit states\<close>

definition is_space :: "char \<Rightarrow> bool" where
  "is_space c \<longleftrightarrow> c = CHR '' '' \<or> CHR 0x09 \<le> c \<and> c \<le> CHR 0x0D"

text \<open>\<open>strings.TrimSpace\<close> on ASCII output.\<close>

definition TrimSpace :: "string \<Rightarrow> string" where
  "TrimSpace s = rev (dropWhile is_space (rev (dropWhile is_space s)))"

definition unitActive :: "(string, string) result \<Rightarrow> (string, bool) result" where
  "unitActive output =
     (case output of
        Inl err \<Rightarrow> Inl ''cannot determine activation state''
      | Inr text \<Rightarrow>
          (let state = TrimSpace text in
           if List.member [''active'', ''activating'', ''reloading'', ''deactivating''] state then Inr True
           else if List.member [''inactive'', ''failed''] state then Inr False
           else Inl ''unrecognized activation state''))"

section \<open>The gateway's health\<close>

text \<open>
  What the check asks of its surroundings: the first PEM block of the certificate file, whether it
  parses, and the request itself, over plain TCP or over TLS with a callback that sees the raw
  certificate of the peer. The hash is a parameter; the code uses SHA-256.
\<close>

record health_env =
  he_OS :: os
  he_PEM :: "bytes \<Rightarrow> (string \<times> bytes) option"
  he_Parses :: "bytes \<Rightarrow> bool"
  he_PeerCertificates :: "bytes list"
  he_Do :: "string \<Rightarrow> (string, int \<times> string) result"

definition checkHealth :: "(string, int \<times> string) result \<Rightarrow> (string, unit) result" where
  "checkHealth response =
     (case response of
        Inl err \<Rightarrow> Inl err
      | Inr (status, cacheControl) \<Rightarrow>
          (if status \<noteq> 401 \<or> cacheControl \<noteq> ''no-store'' then Inl ''gateway health response unavailable'' else Inr ()))"

definition gatewayReady :: "(bytes \<Rightarrow> 'h) \<Rightarrow> health_env \<Rightarrow> config \<Rightarrow> (string, unit) result" where
  "gatewayReady hash env config =
     (if TLSCert config = [] then checkHealth (he_Do env (''http://'' @ Listen config @ ''/mcp''))
      else
        (case OpenTrusted (he_OS env) (TLSCert config) of
           Inl err \<Rightarrow> Inl ''certificate not trusted''
         | Inr fl \<Rightarrow>
             (case f_Data fl of
                Inl err \<Rightarrow> Inl ''gateway TLS certificate unavailable''
              | Inr certificate \<Rightarrow>
                  (if int (length certificate) > 1048576 \<or> isl (f_Close fl) then Inl ''gateway TLS certificate unavailable''
                   else
                     (case he_PEM env certificate of
                        None \<Rightarrow> Inl ''invalid gateway TLS certificate''
                      | Some (ty, block) \<Rightarrow>
                          (if ty \<noteq> ''CERTIFICATE'' then Inl ''invalid gateway TLS certificate''
                           else if \<not> he_Parses env block then Inl ''certificate does not parse''
                           else
                             (case he_PeerCertificates env of
                                [] \<Rightarrow> Inl ''gateway TLS certificate differs from configured certificate''
                              | raw # _ \<Rightarrow>
                                  (if hash raw \<noteq> hash block
                                   then Inl ''gateway TLS certificate differs from configured certificate''
                                   else checkHealth (he_Do env (''https://'' @ Listen config @ ''/mcp''))))))))))"

section \<open>Waiting\<close>

text \<open>Where a unit is probed.\<close>

definition probeAddress :: "string \<Rightarrow> config \<Rightarrow> string \<times> string" where
  "probeAddress name config =
     (if name = ''hostlens-observer.service'' then (ObserverSocket config, ''unix'')
      else if name = ''hostlens-repair.service'' then (RepairSocket config, ''unix'')
      else (Listen config, ''tcp''))"

record probe =
  pb_Now :: int
  pb_State :: "(string, string) result"
  pb_Dial :: "string \<times> string \<Rightarrow> (string, unit) result"
  pb_Health :: health_env

definition probeOK :: "(bytes \<Rightarrow> 'h) \<Rightarrow> string \<Rightarrow> config \<Rightarrow> probe \<Rightarrow> bool" where
  "probeOK hash name config p =
     (case unitActive (pb_State p) of
        Inl err \<Rightarrow> False
      | Inr active \<Rightarrow>
          active \<and> \<not> isl (pb_Dial p (probeAddress name config))
          \<and> (name = ''hostlens-gateway.service'' \<longrightarrow> \<not> isl (gatewayReady hash (pb_Health p) config)))"

definition second :: int where
  "second = 1000000000"

text \<open>
  The loop with its variable \<open>stableSince\<close>; when no probe is left the context has ended and the unit
  did not become ready.
\<close>

fun waitReady :: "(bytes \<Rightarrow> 'h) \<Rightarrow> string \<Rightarrow> config \<Rightarrow> int option \<Rightarrow> probe list \<Rightarrow> bool" where
  "waitReady hash name config stableSince [] = False"
| "waitReady hash name config stableSince (p # ps) =
     (if probeOK hash name config p then
        (let since = (case stableSince of None \<Rightarrow> pb_Now p | Some t \<Rightarrow> t) in
         if pb_Now p - since \<ge> second then True else waitReady hash name config (Some since) ps)
      else waitReady hash name config None ps)"

text \<open>Readiness as it is meant: successful probes in a row over at least a second.\<close>

definition readyStretch :: "(bytes \<Rightarrow> 'h) \<Rightarrow> string \<Rightarrow> config \<Rightarrow> probe list \<Rightarrow> bool" where
  "readyStretch hash name config ps \<longleftrightarrow>
     (\<exists>i j. i \<le> j \<and> j < length ps \<and> (\<forall>k. i \<le> k \<and> k \<le> j \<longrightarrow> probeOK hash name config (ps ! k))
        \<and> pb_Now (ps ! j) - pb_Now (ps ! i) \<ge> second)"

lemma second_pos: "0 < second"
  by (simp add: second_def)

text \<open>A stretch of successes that began at time \<open>t\<close> and goes on to a second.\<close>

fun reaches :: "(bytes \<Rightarrow> 'h) \<Rightarrow> string \<Rightarrow> config \<Rightarrow> int \<Rightarrow> probe list \<Rightarrow> bool" where
  "reaches hash name config t [] = False"
| "reaches hash name config t (p # ps) = (probeOK hash name config p \<and> (pb_Now p - t \<ge> second \<or> reaches hash name config t ps))"

lemma reaches_iff:
  "reaches hash name config t ps \<longleftrightarrow> (\<exists>j<length ps. (\<forall>k\<le>j. probeOK hash name config (ps ! k)) \<and> pb_Now (ps ! j) - t \<ge> second)"
proof (induction ps)
  case (Cons p ps)
  have "(\<exists>j<length (p # ps). (\<forall>k\<le>j. probeOK hash name config ((p # ps) ! k)) \<and> pb_Now ((p # ps) ! j) - t \<ge> second) \<longleftrightarrow>
      probeOK hash name config p \<and> (pb_Now p - t \<ge> second \<or>
        (\<exists>j<length ps. (\<forall>k\<le>j. probeOK hash name config (ps ! k)) \<and> pb_Now (ps ! j) - t \<ge> second))" (is "?L \<longleftrightarrow> ?R")
  proof
    assume ?L
    then obtain j where j: "j < length (p # ps)" "\<forall>k\<le>j. probeOK hash name config ((p # ps) ! k)" "pb_Now ((p # ps) ! j) - t \<ge> second" by blast
    from j(2) have "probeOK hash name config p" by force
    moreover have "\<forall>k\<le>j'. probeOK hash name config (ps ! k)" if "j = Suc j'" for j'
      using j(2) that by force
    ultimately show ?R using j by (cases j) auto
  next
    assume r: ?R
    then have ok: "probeOK hash name config p" by simp
    from r have "pb_Now p - t \<ge> second \<or> (\<exists>j<length ps. (\<forall>k\<le>j. probeOK hash name config (ps ! k)) \<and> pb_Now (ps ! j) - t \<ge> second)" by simp
    then show ?L
    proof (elim disjE exE conjE)
      assume "pb_Now p - t \<ge> second"
      with ok show ?L by (intro exI [of _ 0]) simp
    next
      fix j
      assume j: "j < length ps" "\<forall>k\<le>j. probeOK hash name config (ps ! k)" "pb_Now (ps ! j) - t \<ge> second"
      have "probeOK hash name config ((p # ps) ! k)" if "k \<le> Suc j" for k using that ok j(2) by (cases k) auto
      with j show ?L by (intro exI [of _ "Suc j"]) simp
    qed
  qed
  with Cons show ?case by simp
qed simp

lemma reaches_mono: "reaches hash name config t ps \<Longrightarrow> t' \<le> t \<Longrightarrow> reaches hash name config t' ps"
  by (induction ps) auto

lemma readyStretch_Cons:
  "readyStretch hash name config (p # ps) \<longleftrightarrow> readyStretch hash name config ps \<or> probeOK hash name config p \<and> reaches hash name config (pb_Now p) ps"
proof
  assume "readyStretch hash name config (p # ps)"
  then obtain i j where ij: "i \<le> j" "j < length (p # ps)" "\<forall>k. i \<le> k \<and> k \<le> j \<longrightarrow> probeOK hash name config ((p # ps) ! k)"
    "pb_Now ((p # ps) ! j) - pb_Now ((p # ps) ! i) \<ge> second" unfolding readyStretch_def by blast
  then have "j \<noteq> 0" using second_pos by (cases j) auto
  then obtain j' where j': "j = Suc j'" by (cases j) auto
  show "readyStretch hash name config ps \<or> probeOK hash name config p \<and> reaches hash name config (pb_Now p) ps"
  proof (cases i)
    case 0
    with ij(3) have "probeOK hash name config p" by force
    moreover have "\<forall>k\<le>j'. probeOK hash name config (ps ! k)" using ij(3) j' 0 by force
    ultimately show ?thesis using ij(2,4) j' 0 unfolding reaches_iff by auto
  next
    case (Suc i')
    with ij(3) j' have "\<forall>k. i' \<le> k \<and> k \<le> j' \<longrightarrow> probeOK hash name config (ps ! k)" by force
    with ij j' Suc show ?thesis unfolding readyStretch_def by auto
  qed
next
  assume "readyStretch hash name config ps \<or> probeOK hash name config p \<and> reaches hash name config (pb_Now p) ps"
  then show "readyStretch hash name config (p # ps)"
  proof (elim disjE conjE)
    assume "readyStretch hash name config ps"
    then obtain i j where ij: "i \<le> j" "j < length ps" "\<forall>k. i \<le> k \<and> k \<le> j \<longrightarrow> probeOK hash name config (ps ! k)"
      "pb_Now (ps ! j) - pb_Now (ps ! i) \<ge> second" unfolding readyStretch_def by blast
    have "probeOK hash name config ((p # ps) ! k)" if "Suc i \<le> k" "k \<le> Suc j" for k using that ij(3) by (cases k) auto
    with ij show ?thesis unfolding readyStretch_def by (intro exI [of _ "Suc i"] exI [of _ "Suc j"]) simp
  next
    assume ok: "probeOK hash name config p" and "reaches hash name config (pb_Now p) ps"
    then obtain j where j: "j < length ps" "\<forall>k\<le>j. probeOK hash name config (ps ! k)" "pb_Now (ps ! j) - pb_Now p \<ge> second"
      unfolding reaches_iff by blast
    have "probeOK hash name config ((p # ps) ! k)" if "k \<le> Suc j" for k using that ok j(2) by (cases k) auto
    with j show ?thesis unfolding readyStretch_def by (intro exI [of _ 0] exI [of _ "Suc j"]) simp
  qed
qed

lemma waitReady_stretch:
  assumes "sorted (map pb_Now ps)"
  shows "waitReady hash name config None ps \<longleftrightarrow> readyStretch hash name config ps"
    and "\<forall>p\<in>set ps. t \<le> pb_Now p \<Longrightarrow> waitReady hash name config (Some t) ps \<longleftrightarrow> reaches hash name config t ps \<or> readyStretch hash name config ps"
  using assms
proof (induction ps arbitrary: t)
  case Nil
  case 1
  show ?case by (simp add: readyStretch_def)
  case 2
  show ?case by (simp add: readyStretch_def)
next
  case (Cons p ps)
  {
    case 1
    then have s: "sorted (map pb_Now ps)" "\<forall>q\<in>set ps. pb_Now p \<le> pb_Now q" by auto
    show ?case using Cons.IH(1) [OF s(1)] Cons.IH(2) [OF s(2,1)] second_pos by (auto simp: readyStretch_Cons Let_def)
  next
    case 2
    then have s: "sorted (map pb_Now ps)" "\<forall>q\<in>set ps. t \<le> pb_Now q" "t \<le> pb_Now p" by auto
    show ?case
      using Cons.IH(1) [OF s(1)] Cons.IH(2) [OF s(2,1)] reaches_mono [OF _ s(3)] by (auto simp: readyStretch_Cons Let_def)
  }
qed

section \<open>Properties\<close>

text \<open>
  C39: a unit is reported ready exactly when it was stable: among the probes made before the deadline,
  in order of time, there is a stretch of at least a second in which every probe found the unit
  active, its address accepting connections, and for the gateway its health answer. So a unit that
  becomes and stays healthy is recognized as soon as a second has passed, and one that flaps is not.
\<close>

theorem ready_iff_stable:
  assumes "sorted (map pb_Now ps)"
  shows "waitReady hash name config None ps \<longleftrightarrow>
    (\<exists>i j. i \<le> j \<and> j < length ps \<and> pb_Now (ps ! j) - pb_Now (ps ! i) \<ge> second
       \<and> list_all (\<lambda>k. probeOK hash name config (ps ! k)) [i..<Suc j])"
proof -
  have "list_all (\<lambda>k. probeOK hash name config (ps ! k)) [i..<Suc j] \<longleftrightarrow>
      (\<forall>k. i \<le> k \<and> k \<le> j \<longrightarrow> probeOK hash name config (ps ! k))" for i j
    unfolding list_all_iff by (simp only: set_upt atLeastLessThan_iff less_Suc_eq_le Ball_def)
  then show ?thesis unfolding waitReady_stretch(1) [OF assms] readyStretch_def by blast
qed

definition healthy :: "int \<Rightarrow> probe" where
  "healthy t = \<lparr>pb_Now = t, pb_State = Inr ''active'', pb_Dial = (\<lambda>_. Inr ()),
     pb_Health = \<lparr>he_OS = example_host, he_PEM = (\<lambda>_. None), he_Parses = (\<lambda>_. True),
     he_PeerCertificates = [], he_Do = (\<lambda>_. Inr (401, ''no-store''))\<rparr>\<rparr>"

theorem ready_iff_stable_witness:
  "sorted (map pb_Now [healthy 0, healthy 1000000000]) \<and>
   waitReady (\<lambda>b. b) ''hostlens-gateway.service'' initial_config None [healthy 0, healthy 1000000000]"
proof (intro conjI)
  show s: "sorted (map pb_Now [healthy 0, healthy 1000000000])" by (simp add: healthy_def)
  have "list_all (\<lambda>k. probeOK (\<lambda>b. b) ''hostlens-gateway.service'' initial_config ([healthy 0, healthy 1000000000] ! k)) [0..<Suc 1]"
    by code_simp
  moreover have "pb_Now ([healthy 0, healthy 1000000000] ! 1) - pb_Now ([healthy 0, healthy 1000000000] ! 0) \<ge> second"
    by (simp add: healthy_def second_def)
  ultimately show "waitReady (\<lambda>b. b) ''hostlens-gateway.service'' initial_config None [healthy 0, healthy 1000000000]"
    unfolding ready_iff_stable [OF s] by (intro exI [of _ 0] exI [of _ 1] conjI) simp_all
qed

end
