(* ===== verification/Release.thy ===== *)
theory Release
  imports Ready Uninstall Encoding Gateway
begin

text \<open>
  Releases, in \<open>internal/lifecycle/manager_linux.go\<close>: the manifest, the verified read of an unpacked
  archive, the provenance record of installed units, and the fingerprint of a release. The JSON
  decoder, the build information of an executable and the hash are parameters; the code's hash is
  SHA-256. A Go map is a list of pairs, in whatever order a loop visits it.
\<close>

section \<open>Data\<close>

definition unitNames :: "string list" where
  "unitNames = [''hostlens-gateway.service'', ''hostlens-observer.service'', ''hostlens-repair.service'']"

definition groupNames :: "string list" where
  "groupNames = [''hostlens-shared'', ''hostlens-tokens'']"

definition userNames :: "string list" where
  "userNames = [''hostlens-gateway'', ''hostlens-observer'']"

definition profileNames :: "string list" where
  "profileNames = [''host.yaml'', ''docker-readonly.yaml'', ''docker-evidence.yaml'', ''services-readonly.yaml'',
     ''service-logs.yaml'', ''repair-example.yaml'']"

definition provenancePath :: string where
  "provenancePath = ''/etc/hostlens/unit-provenance.json''"

record manifest =
  rl_Version :: string
  rl_Schema :: int
  rl_Architecture :: string
  rl_Checksums :: "(string \<times> string) list"

record unitProvenance =
  up_Checksums :: "(string \<times> string) list"

text \<open>The first value of a JSON stream, without unknown fields, and whether the stream ends after it.\<close>

record 'a json_decoder =
  json_value :: "bytes \<Rightarrow> (string, 'a) result"
  json_end :: "bytes \<Rightarrow> bool"

type_synonym hash = "bytes \<Rightarrow> bytes"

text \<open>Reading a Go map: a missing key gives the zero value.\<close>

definition at_key :: "(string \<times> 'a list) list \<Rightarrow> string \<Rightarrow> 'a list" where
  "at_key m k = (case map_of m k of None \<Rightarrow> [] | Some v \<Rightarrow> v)"

section \<open>Unit provenance\<close>

definition packagedUnitProvenance :: "hash \<Rightarrow> (string \<times> bytes) list \<Rightarrow> unitProvenance" where
  "packagedUnitProvenance hash data =
     \<lparr>up_Checksums = map (\<lambda>name. (name, HexEncode (hash (at_key data (''systemd/'' @ name))))) unitNames\<rparr>"

definition unitMatches :: "hash \<Rightarrow> unitProvenance \<Rightarrow> string \<Rightarrow> bytes \<Rightarrow> bool" where
  "unitMatches hash record name content \<longleftrightarrow> at_key (up_Checksums record) name = HexEncode (hash content)"

section \<open>The archive\<close>

definition releaseProfile :: "string \<Rightarrow> (string, string) result" where
  "releaseProfile member =
     (let name = TrimPrefix member ''profiles/'' in
      if \<not> HasSuffix name ''.yaml'' \<or> contains_char name (CHR ''/'') \<or> \<not> ValidProfileName (TrimSuffix name ''.yaml'')
      then Inl ''invalid release profile'' else Inr name)"

fun profileMembers :: "string list \<Rightarrow> (string, string list) result" where
  "profileMembers [] = Inr []"
| "profileMembers (m # ms) =
     (if \<not> HasPrefix m ''profiles/'' then profileMembers ms
      else
        (case releaseProfile m of
           Inl e \<Rightarrow> Inl e
         | Inr name \<Rightarrow> (case profileMembers ms of Inl e \<Rightarrow> Inl e | Inr ns \<Rightarrow> Inr (name # ns))))"

definition releaseProfiles :: "manifest \<Rightarrow> (string, string list) result" where
  "releaseProfiles rel =
     (case profileMembers (map fst (rl_Checksums rel)) of Inl e \<Rightarrow> Inl e | Inr ns \<Rightarrow> Inr (sort ns))"

text \<open>The unpacked archive, opened as a root: its members by name.\<close>

record release_root =
  rr_Lstat :: "string \<Rightarrow> (errno, stat) result"
  rr_Open :: "string \<Rightarrow> (errno, file) result"

definition requiredMembers :: "string list" where
  "requiredMembers = [''hostlens'', ''config.example.yaml''] @ map (\<lambda>n. ''profiles/'' @ n) profileNames
     @ map (\<lambda>n. ''systemd/'' @ n) unitNames"

definition unsafeMember :: "string \<Rightarrow> bool" where
  "unsafeMember name \<longleftrightarrow>
     name = [] \<or> IsAbs name \<or> Clean name \<noteq> name \<or> HasPrefix name ''..'' \<or> contains_char name (CHR 0x5C)"

definition maxMember :: int where "maxMember = 67108864"
definition maxRelease :: int where "maxRelease = 134217728"
definition maxManifest :: int where "maxManifest = 1048576"

definition readMember :: "release_root \<Rightarrow> string \<Rightarrow> (string, bytes) result" where
  "readMember root name =
     (if unsafeMember name then Inl ''unsafe release member''
      else
        (case rr_Lstat root name of
           Inl e \<Rightarrow> Inl ''invalid release member''
         | Inr info \<Rightarrow>
             (if \<not> IsRegular info \<or> st_Size info > maxMember then Inl ''invalid release member''
              else
                (case rr_Open root name of
                   Inl e \<Rightarrow> Inl ''cannot open release member''
                 | Inr fl \<Rightarrow>
                     (case f_Data fl of
                        Inl e \<Rightarrow> Inl ''invalid release member''
                      | Inr content \<Rightarrow>
                          (if isl (f_Close fl) \<or> int (length content) > maxMember then Inl ''invalid release member''
                           else Inr content))))))"

fun readMembers :: "hash \<Rightarrow> release_root \<Rightarrow> int \<Rightarrow> (string \<times> string) list \<Rightarrow> (string, (string \<times> bytes) list) result" where
  "readMembers hash root totalBytes [] = Inr []"
| "readMembers hash root totalBytes ((name, want) # members) =
     (case readMember root name of
        Inl e \<Rightarrow> Inl e
      | Inr content \<Rightarrow>
          (let totalBytes = totalBytes + int (length content) in
           if totalBytes > maxRelease then Inl ''release exceeds total byte ceiling''
           else if HexEncode (hash content) \<noteq> want then Inl ''release checksum mismatch''
           else
             (case readMembers hash root totalBytes members of
                Inl e \<Rightarrow> Inl e
              | Inr data \<Rightarrow> Inr ((name, content) # data))))"

record release_env =
  rv_Sum256 :: hash
  rv_Manifest :: "manifest json_decoder"
  rv_BuildInfo :: build_info
  rv_GOARCH :: string

definition readManifest :: "release_env \<Rightarrow> release_root \<Rightarrow> (string, manifest) result" where
  "readManifest env root =
     (case rr_Lstat root ''release.json'' of
        Inl e \<Rightarrow> Inl ''invalid release manifest''
      | Inr info \<Rightarrow>
          (if \<not> IsRegular info \<or> st_Size info > maxManifest then Inl ''invalid release manifest''
           else
             (case rr_Open root ''release.json'' of
                Inl e \<Rightarrow> Inl ''cannot open release manifest''
              | Inr fl \<Rightarrow>
                  (case f_Data fl of
                     Inl e \<Rightarrow> Inl ''release manifest exceeds byte ceiling''
                   | Inr manifestData \<Rightarrow>
                       (if int (length manifestData) > maxManifest then Inl ''release manifest exceeds byte ceiling''
                        else
                          (case json_value (rv_Manifest env) manifestData of
                             Inl e \<Rightarrow> Inl e
                           | Inr rel \<Rightarrow>
                               (if \<not> json_end (rv_Manifest env) manifestData then Inl ''trailing release manifest''
                                else Inr rel)))))))"

definition checkManifest :: "release_env \<Rightarrow> manifest \<Rightarrow> (string, unit) result" where
  "checkManifest env rel =
     (if rl_Schema rel \<noteq> 2 \<or> rl_Architecture rel \<noteq> rv_GOARCH env \<or> rl_Version rel = []
      then Inl ''incompatible release manifest''
      else if length (rl_Checksums rel) < 8 \<or> length (rl_Checksums rel) > 100 then Inl ''invalid release members''
      else if \<not> list_all (\<lambda>name. map_of (rl_Checksums rel) name \<noteq> None) requiredMembers then Inl ''missing release member''
      else (case releaseProfiles rel of Inl e \<Rightarrow> Inl e | Inr _ \<Rightarrow> Inr ()))"

definition mainPackage :: string where
  "mainPackage = ''github.com/Monska85/hostlens/cmd/hostlens''"

definition isHostlens :: "build_info \<Rightarrow> bytes \<Rightarrow> bool" where
  "isHostlens buildinfo content = (case buildinfo content of Inl e \<Rightarrow> False | Inr path \<Rightarrow> path = mainPackage)"

definition archive :: "release_env \<Rightarrow> (errno, release_root) result \<Rightarrow> (string, manifest \<times> (string \<times> bytes) list) result" where
  "archive env source =
     (case source of
        Inl e \<Rightarrow> Inl ''cannot open release''
      | Inr root \<Rightarrow>
          (case readManifest env root of
             Inl e \<Rightarrow> Inl e
           | Inr rel \<Rightarrow>
               (case checkManifest env rel of
                  Inl e \<Rightarrow> Inl e
                | Inr _ \<Rightarrow>
                    (case readMembers (rv_Sum256 env) root 0 (rl_Checksums rel) of
                       Inl e \<Rightarrow> Inl e
                     | Inr data \<Rightarrow>
                         (if \<not> isHostlens (rv_BuildInfo env) (at_key data ''hostlens'') then Inl ''unrecognized release executable''
                          else Inr (rel, data))))))"

section \<open>Fingerprints\<close>

text \<open>The bytes that go into a hash state, one write after the other.\<close>

definition zero_byte :: bytes where
  "zero_byte = [CHR 0x00]"

definition addFingerprint :: "hash \<Rightarrow> bytes \<Rightarrow> string \<Rightarrow> bytes \<Rightarrow> bytes" where
  "addFingerprint hash state name data = state @ name @ zero_byte @ hash data"

definition releaseFingerprint :: "hash \<Rightarrow> manifest \<Rightarrow> string" where
  "releaseFingerprint hash rel =
     HexEncode (hash (concat (map (\<lambda>name. name @ zero_byte @ at_key (rl_Checksums rel) name @ zero_byte)
       (sort (map fst (rl_Checksums rel))))))"

section \<open>Properties\<close>

lemma readMember_Inr:
  "readMember root name = Inr content \<Longrightarrow> \<not> unsafeMember name \<and> int (length content) \<le> maxMember"
  by (auto simp: readMember_def split: sum.splits if_splits)

lemma readMembers_Inr:
  assumes "readMembers hash root bytesRead members = Inr data" and "bytesRead \<le> maxRelease"
  shows "map (\<lambda>(n, c). (n, HexEncode (hash c))) data = members
    \<and> list_all (\<lambda>(n, c). \<not> unsafeMember n \<and> int (length c) \<le> maxMember) data
    \<and> bytesRead + sum_list (map (\<lambda>(n, c). int (length c)) data) \<le> maxRelease"
  using assms
proof (induction hash root bytesRead members arbitrary: data rule: readMembers.induct)
  case (2 hash root bytesRead name want members)
  from "2.prems"(1) obtain c rest where c: "readMember root name = Inr c" "bytesRead + int (length c) \<le> maxRelease"
      "HexEncode (hash c) = want" "readMembers hash root (bytesRead + int (length c)) members = Inr rest" "data = (name, c) # rest"
    by (auto simp: Let_def not_less split: sum.splits if_splits)
  from "2.IH" [OF c(1) refl _ _ c(4,2)] c readMember_Inr [OF c(1)] show ?case by (auto simp: algebra_simps)
qed simp

definition example_release :: manifest where
  "example_release = \<lparr>rl_Version = ''2.0.0'', rl_Schema = 2, rl_Architecture = ''amd64'',
     rl_Checksums = map (\<lambda>n. (n, ''78'')) requiredMembers\<rparr>"

definition example_members :: release_root where
  "example_members = \<lparr>rr_Lstat = (\<lambda>_. Inr unit_stat),
     rr_Open = (\<lambda>n. Inr \<lparr>f_Stat = Inr unit_stat, f_Data = Inr n, f_Close = Inr ()\<rparr>)\<rparr>"

definition example_release_env :: release_env where
  "example_release_env = \<lparr>rv_Sum256 = (\<lambda>_. ''x''), rv_Manifest = \<lparr>json_value = (\<lambda>_. Inr example_release), json_end = (\<lambda>_. True)\<rparr>,
     rv_BuildInfo = (\<lambda>_. Inr mainPackage), rv_GOARCH = ''amd64''\<rparr>"

text \<open>
  C38: a release is accepted only as a whole: its manifest is for this schema and architecture and
  names every required member; every member that it names, and no other file, has been read, under a
  name that stays inside the archive, with the checksum of the manifest; no member is larger than 64 MiB
  and all of them together are not larger than 128 MiB; and the executable is HostLens.
\<close>

theorem archive_verified:
  assumes "archive env source = Inr (rel, data)"
  shows "rl_Schema rel = 2 \<and> rl_Architecture rel = rv_GOARCH env \<and> rl_Version rel \<noteq> []
    \<and> map (\<lambda>(n, c). (n, HexEncode (rv_Sum256 env c))) data = rl_Checksums rel
    \<and> set requiredMembers \<subseteq> fst ` set data
    \<and> list_all (\<lambda>(n, c). n \<noteq> [] \<and> \<not> IsAbs n \<and> Clean n = n \<and> \<not> HasPrefix n ''..'' \<and> int (length c) \<le> 67108864) data
    \<and> sum_list (map (\<lambda>(n, c). int (length c)) data) \<le> 134217728
    \<and> isHostlens (rv_BuildInfo env) (at_key data ''hostlens'')"
proof -
  from assms obtain root where a: "checkManifest env rel = Inr ()" "readMembers (rv_Sum256 env) root 0 (rl_Checksums rel) = Inr data"
      "isHostlens (rv_BuildInfo env) (at_key data ''hostlens'')"
    by (auto simp: archive_def split: sum.splits if_splits)
  have "(0::int) \<le> maxRelease" by (simp add: maxRelease_def)
  from readMembers_Inr [OF a(2) this] have r: "map (\<lambda>(n, c). (n, HexEncode (rv_Sum256 env c))) data = rl_Checksums rel"
      "list_all (\<lambda>(n, c). \<not> unsafeMember n \<and> int (length c) \<le> maxMember) data"
      "sum_list (map (\<lambda>(n, c). int (length c)) data) \<le> maxRelease" by simp_all
  have keys: "fst ` set (rl_Checksums rel) = fst ` set data" unfolding r(1) [symmetric] by force
  have "t \<in> fst ` set data" if "t \<in> set requiredMembers" for t
  proof -
    have "map_of (rl_Checksums rel) t \<noteq> None" using a(1) that by (auto simp: checkManifest_def list_all_iff split: if_splits)
    then show ?thesis using keys by (auto simp: map_of_eq_None_iff)
  qed
  moreover have "list_all (\<lambda>(n, c). n \<noteq> [] \<and> \<not> IsAbs n \<and> Clean n = n \<and> \<not> HasPrefix n ''..'' \<and> int (length c) \<le> 67108864) data"
    using r(2) by (rule list.pred_mono_strong) (auto simp: unsafeMember_def maxMember_def)
  moreover have "rl_Schema rel = 2 \<and> rl_Architecture rel = rv_GOARCH env \<and> rl_Version rel \<noteq> []"
    using a(1) by (auto simp: checkManifest_def split: if_splits)
  ultimately show ?thesis using r(1,3) a(3) by (auto simp: maxRelease_def)
qed

theorem archive_verified_witness:
  "\<exists>rel data. archive example_release_env (Inr example_members) = Inr (rel, data) \<and> set requiredMembers \<subseteq> fst ` set data"
proof -
  have "\<not> isl (archive example_release_env (Inr example_members))" by code_simp
  then obtain rel data where a: "archive example_release_env (Inr example_members) = Inr (rel, data)"
    by (metis prod.collapse sum.collapse(2))
  with archive_verified [OF a] show ?thesis by blast
qed

end
