(* ===== verification/Lifecycle.thy ===== *)
theory Lifecycle
  imports Release
begin

text \<open>
  Installation and upgrade, \<open>internal/lifecycle/manager_linux.go\<close>: the trusted read and the atomic
  write of a target, the preview and its digest, and the application with its rollback, over the
  world of system calls of \<open>Files\<close>. The accounts of the host, the state of units and the probes of
  the readiness check are functions of that world, so they may change as it changes; JSON, YAML, the
  embedded units and the hash are parameters as before.
\<close>

section \<open>Data\<close>

record manager =
  mg_Source :: string
  mg_Root :: string

record plan =
  pl_Action :: string
  pl_Version :: string
  pl_Digest :: string
  pl_Create :: "string list"
  pl_Replace :: "string list"
  pl_Retain :: "string list"
  pl_Start :: "string list"
  pl_Source :: string
  pl_sourceDigest :: string

record snapshot =
  sn_path :: string
  sn_data :: bytes
  sn_mode :: mode
  sn_uid :: int
  sn_gid :: int
  sn_exists :: bool

text \<open>The nodes of a YAML document, as far as the code looks at them.\<close>

datatype yaml_kind = MappingNode | OtherNode

datatype yaml_node = Node (n_Kind: yaml_kind) (n_Tag: string) (n_Value: string) (n_Content: "yaml_node list")

record lifecycle_env =
  le_Release :: release_env
  le_Source :: "world \<Rightarrow> (errno, release_root) result"
  le_Provenance :: "unitProvenance json_decoder"
  le_MarshalProvenance :: "unitProvenance \<Rightarrow> (string, bytes) result"
  le_Units :: unit_files
  le_Group :: "world \<Rightarrow> string \<Rightarrow> (string, string) result"
  le_User :: "world \<Rightarrow> string \<Rightarrow> (string, string \<times> string) result"
  le_UnitState :: "world \<Rightarrow> string \<Rightarrow> (string, string) result"
  le_LookPath :: "string \<Rightarrow> (string, string) result"
  le_Config :: "config yaml_decoder"
  le_Profile :: "profile yaml_decoder"
  le_Document :: "bytes \<Rightarrow> (string, yaml_node) result"
  le_MarshalDocument :: "yaml_node \<Rightarrow> (string, bytes) result"
  le_Random :: "nat \<Rightarrow> nat"
  le_Probes :: "world \<Rightarrow> string \<Rightarrow> probe list"

definition le_Sum256 :: "lifecycle_env \<Rightarrow> hash" where
  "le_Sum256 env = rv_Sum256 (le_Release env)"

definition managerPath :: "manager \<Rightarrow> string \<Rightarrow> string" where
  "managerPath m path = (if mg_Root m = [] then path else JoinPath (mg_Root m) (TrimPrefix path ''/''))"

text \<open>A computed result inside a sequence of calls.\<close>

definition given :: "(string, 'a) result \<Rightarrow> 'a io" where
  "given r = (case r of Inl e \<Rightarrow> fail e | Inr x \<Rightarrow> ret x)"

section \<open>Trusted targets\<close>

text \<open>The protected-directory check of the core library; any of its system calls can fail.\<close>

definition trustedDirectory :: "string \<Rightarrow> unit io" where
  "trustedDirectory path =
     bindE effectless (\<lambda>_. bindE (asking (\<lambda>w. TrustedDirectory (viewOS w) path)) (\<lambda>r.
     case r of Inl e \<Rightarrow> fail ''unsafe target directory'' | Inr _ \<Rightarrow> ret ()))"

text \<open>The loop to the nearest parent that exists; one unit of fuel per turn.\<close>

fun trustedParent :: "nat \<Rightarrow> string \<Rightarrow> unit io" where
  "trustedParent 0 parent = fail ''out of fuel''"
| "trustedParent (Suc fuel) parent =
     bindE (attempt (lstat parent)) (\<lambda>r.
     case r of
       Inr _ \<Rightarrow> trustedDirectory parent
     | Inl err \<Rightarrow>
         (if \<not> not_exist err then throw err
          else if parent = ''/'' then fail ''target root unavailable''
          else trustedParent fuel (Dir parent)))"

definition trusted :: "string \<Rightarrow> stat option io" where
  "trusted path =
     bindE (trustedParent (Suc (length path)) (Dir path)) (\<lambda>_.
     bindE (attempt (lstat path)) (\<lambda>r.
     case r of
       Inl err \<Rightarrow> (if not_exist err then ret None else throw err)
     | Inr info \<Rightarrow>
         (if \<not> IsRegular info \<or> Perm info AND group_other_write \<noteq> 0 then fail ''untrusted file''
          else if st_Uid info \<noteq> 0 then fail ''untrusted owner''
          else ret (Some info))))"

definition capture :: "string \<Rightarrow> snapshot io" where
  "capture path =
     bindE (trusted path) (\<lambda>info.
     case info of
       None \<Rightarrow> ret \<lparr>sn_path = path, sn_data = [], sn_mode = 0, sn_uid = 0, sn_gid = 0, sn_exists = False\<rparr>
     | Some info \<Rightarrow>
         bindE (readFile path) (\<lambda>data.
         ret \<lparr>sn_path = path, sn_data = data, sn_mode = Perm info, sn_uid = uint (st_Uid info),
              sn_gid = uint (st_Gid info), sn_exists = True\<rparr>))"

definition readUnitProvenance :: "lifecycle_env \<Rightarrow> string \<Rightarrow> unitProvenance option io" where
  "readUnitProvenance env path =
     bindE (trusted path) (\<lambda>info.
     case info of
       None \<Rightarrow> ret None
     | Some info \<Rightarrow>
         (if st_Size info > 4096 then fail ''unit provenance exceeds byte ceiling''
          else
            bindE (readFile path) (\<lambda>data.
            bindE (given (json_value (le_Provenance env) data)) (\<lambda>record.
            if \<not> json_end (le_Provenance env) data \<or> length (up_Checksums record) \<noteq> length unitNames
            then fail ''invalid unit provenance'' else ret (Some record)))))"

section \<open>The atomic write\<close>

text \<open>The name that \<open>os.CreateTemp\<close> and \<open>os.MkdirTemp\<close> end with: the pattern with a random number.\<close>

definition tempPath :: "lifecycle_env \<Rightarrow> string \<Rightarrow> string \<Rightarrow> world \<Rightarrow> string" where
  "tempPath env dir prefix w =
     (if dir \<noteq> [] \<and> last dir = CHR ''/'' then dir else dir @ ''/'') @ prefix @ nat_digits (le_Random env (w_Tick w))"

definition temp_stat :: stat where
  "temp_stat = \<lparr>st_Mode = 0x8180, st_Uid = 0, st_Gid = 0, st_Size = 0\<rparr>"

definition chmod :: "mode \<Rightarrow> stat \<Rightarrow> stat" where
  "chmod mode st = st\<lparr>st_Mode := (st_Mode st AND S_IFMT) OR mode\<rparr>"

definition chown :: "int \<Rightarrow> int \<Rightarrow> stat \<Rightarrow> stat" where
  "chown uid gid st = st\<lparr>st_Uid := word_of_int uid, st_Gid := word_of_int gid\<rparr>"

text \<open>A deferred call whose error is dropped.\<close>

definition deferred :: "unit io \<Rightarrow> 'a io \<Rightarrow> 'a io" where
  "deferred cleanup m w = (case m w of (r, w1) \<Rightarrow> (r, snd (cleanup w1)))"

text \<open>
  The body of \<open>write\<close> after the temporary file is there: mode, owner, content, sync, close, rename,
  and the sync of the directory, whose error is joined with the one of closing it. Closing the file
  on the way out of an error has no further effect.
\<close>

definition writeTemp :: "string \<Rightarrow> string \<Rightarrow> bytes \<Rightarrow> mode \<Rightarrow> int \<Rightarrow> int \<Rightarrow> unit io" where
  "writeTemp tmp path content mode uid gid =
     bindE (setStat tmp (chmod mode)) (\<lambda>_.
     bindE (setStat tmp (chown uid gid)) (\<lambda>_.
     bindE (writeAt tmp content) (\<lambda>_.
     bindE effectless (\<lambda>_.
     bindE effectless (\<lambda>_.
     bindE (rename tmp path) (\<lambda>_.
     bindE (lstat (Dir path)) (\<lambda>_.
     bindE (attempt effectless) (\<lambda>sync.
     bindE (attempt effectless) (\<lambda>close.
     case (sync, close) of
       (Inr _, Inr _) \<Rightarrow> ret ()
     | _ \<Rightarrow> throw ((case sync of Inl e \<Rightarrow> e | Inr _ \<Rightarrow> []) @ (case close of Inl e \<Rightarrow> e | Inr _ \<Rightarrow> [])))))))))))"

definition writeFile :: "lifecycle_env \<Rightarrow> string \<Rightarrow> bytes \<Rightarrow> mode \<Rightarrow> int \<Rightarrow> int \<Rightarrow> unit io" where
  "writeFile env path content mode uid gid =
     bindE (asking (tempPath env (Dir path) ''.hostlens-'')) (\<lambda>tmp.
     bindE (create tmp temp_stat) (\<lambda>_.
     deferred (remove tmp) (writeTemp tmp path content mode uid gid)))"

section \<open>The configuration template\<close>

text \<open>
  The loop over keys and values of the top mapping: the first occurrence of each identity field is
  replaced. A key without a value is an index out of range.
\<close>

fun setIdentities :: "(string \<times> int) list \<Rightarrow> yaml_node list \<Rightarrow> (string, (string \<times> int) list \<times> yaml_node list) result" where
  "setIdentities ids [] = Inr (ids, [])"
| "setIdentities ids [key] = Inl ''index out of range''"
| "setIdentities ids (key # val # rest) =
     (let (ids', val') = (case map_of ids (n_Value key) of
            None \<Rightarrow> (ids, val)
          | Some ident \<Rightarrow> (AList.delete (n_Value key) ids, Node (n_Kind val) ''!!int'' (Itoa ident) (n_Content val)))
      in case setIdentities ids' rest of
           Inl e \<Rightarrow> Inl e
         | Inr (left, nodes) \<Rightarrow> Inr (left, key # val' # nodes))"

definition configuredTemplate :: "lifecycle_env \<Rightarrow> bytes \<Rightarrow> int \<Rightarrow> int \<Rightarrow> int \<Rightarrow> int \<Rightarrow> (string, bytes) result" where
  "configuredTemplate env template gateway observer shared tokens =
     (if int (length template) > 1048576 then Inl ''release configuration exceeds byte ceiling''
      else
        (case first_document (le_Config env) template initial_config of
           Inl e \<Rightarrow> Inl e
         | Inr config \<Rightarrow>
             (if \<not> second_at_end (le_Config env) template then Inl ''trailing release configuration document''
              else
                (case le_Document env template of
                   Inl e \<Rightarrow> Inl e
                 | Inr document \<Rightarrow>
                     (case n_Content document of
                        [node] \<Rightarrow>
                          (if n_Kind node \<noteq> MappingNode then Inl ''invalid release configuration document''
                           else
                             (case setIdentities [(''gateway_uid'', gateway), (''observer_uid'', observer),
                                 (''shared_gid'', shared), (''token_gid'', tokens)] (n_Content node) of
                                Inl e \<Rightarrow> Inl e
                              | Inr (ids, nodes) \<Rightarrow>
                                  (if ids \<noteq> [] then Inl ''release configuration lacks service identity fields''
                                   else
                                     (case Validate (config\<lparr>GatewayUID := word_of_int gateway, ObserverUID := word_of_int observer,
                                         SharedGID := word_of_int shared, TokenGID := word_of_int tokens\<rparr>) of
                                        Inl e \<Rightarrow> Inl ''release configuration invalid''
                                      | Inr _ \<Rightarrow>
                                          le_MarshalDocument env (Node (n_Kind document) (n_Tag document) (n_Value document)
                                            [Node (n_Kind node) (n_Tag node) (n_Value node) nodes])))))
                      | _ \<Rightarrow> Inl ''invalid release configuration document''))))) "

section \<open>The preview\<close>

text \<open>The plan so far and the bytes written to the hash state so far.\<close>

type_synonym preview = "plan \<times> bytes"

definition planned :: "(plan \<Rightarrow> plan) \<Rightarrow> bytes \<Rightarrow> preview \<Rightarrow> preview" where
  "planned f b ps = (f (fst ps), snd ps @ b)"

definition addCreate :: "string \<Rightarrow> plan \<Rightarrow> plan" where
  "addCreate x p = p\<lparr>pl_Create := pl_Create p @ [x]\<rparr>"

definition addReplace :: "string \<Rightarrow> plan \<Rightarrow> plan" where
  "addReplace x p = p\<lparr>pl_Replace := pl_Replace p @ [x]\<rparr>"

definition addRetain :: "string \<Rightarrow> plan \<Rightarrow> plan" where
  "addRetain x p = p\<lparr>pl_Retain := pl_Retain p @ [x]\<rparr>"

text \<open>
  The loop over the groups, with the identifiers of those found so far; the check is inside the loop
  over these, so the first group that exists is not compared with anything.
\<close>

fun previewGroups :: "lifecycle_env \<Rightarrow> string list \<Rightarrow> string list \<Rightarrow> preview \<Rightarrow> preview io" where
  "previewGroups env [] existing ps = ret ps"
| "previewGroups env (name # ns) existing ps =
     bindE (asking (\<lambda>w. le_Group env w name)) (\<lambda>r.
     case r of
       Inl e \<Rightarrow> previewGroups env ns existing (planned (addCreate (''group:'' @ name)) [] ps)
     | Inr gid \<Rightarrow>
         (if list_ex (\<lambda>otherID. gid = otherID \<or> gid = ''0'') existing then fail ''conflicting service groups''
          else previewGroups env ns (existing @ [gid])
                 (planned (addRetain (''group:'' @ name)) (''group:'' @ name @ '':'' @ gid) ps)))"

fun previewUsers :: "lifecycle_env \<Rightarrow> string list \<Rightarrow> string list \<Rightarrow> preview \<Rightarrow> preview io" where
  "previewUsers env [] existing ps = ret ps"
| "previewUsers env (name # ns) existing ps =
     bindE (asking (\<lambda>w. (le_User env w name, le_Group env w ''hostlens-shared''))) (\<lambda>(r, shared).
     case r of
       Inl e \<Rightarrow> previewUsers env ns existing (planned (addCreate (''user:'' @ name)) [] ps)
     | Inr (uid, gid) \<Rightarrow>
         (if shared \<noteq> Inr gid \<or> uid = ''0'' then fail ''conflicting service identity''
          else if List.member existing uid then fail ''shared service UID''
          else previewUsers env ns (existing @ [uid])
                 (planned (addRetain (''user:'' @ name)) (''user:'' @ name @ '':'' @ uid @ '':'' @ gid) ps)))"

definition installDirs :: "string list" where
  "installDirs = [''/etc/hostlens'', ''/etc/hostlens/profiles'', ''/etc/hostlens/secrets'']"

fun previewDirs :: "manager \<Rightarrow> string list \<Rightarrow> preview \<Rightarrow> preview io" where
  "previewDirs m [] ps = ret ps"
| "previewDirs m (target # targets) ps =
     bindE (attempt (lstat (managerPath m target))) (\<lambda>r.
     case r of
       Inl statErr \<Rightarrow>
         (if not_exist statErr then previewDirs m targets (planned (addCreate target) target ps) else throw statErr)
     | Inr info \<Rightarrow>
         bindE (trustedDirectory (managerPath m target)) (\<lambda>_.
         previewDirs m targets (planned (addRetain target)
           (target @ Itoa (uint (st_Uid info)) @ '':'' @ Itoa (uint (st_Gid info)) @ '':'' @ Itoa (uint (Perm info))) ps)))"

definition binaryPath :: string where
  "binaryPath = ''/usr/local/bin/hostlens''"

definition configPath :: string where
  "configPath = ''/etc/hostlens/config.yaml''"

definition isUnitPath :: "string \<Rightarrow> bool" where
  "isUnitPath target \<longleftrightarrow> HasPrefix target ''/etc/systemd/system/''"

text \<open>An installed unit that is not the one the record, or else the packaged file, says.\<close>

definition modifiedUnit :: "lifecycle_env \<Rightarrow> unitProvenance option \<Rightarrow> string \<Rightarrow> bytes \<Rightarrow> bool" where
  "modifiedUnit env oldUnits target content =
     (let name = Base target in
      case oldUnits of
        Some record \<Rightarrow> \<not> unitMatches (le_Sum256 env) record name content
      | None \<Rightarrow> PackagedUnit (le_Units env) name \<noteq> Inr content)"

text \<open>The last part of the loop body: what happens to a target that exists.\<close>

definition classify :: "lifecycle_env \<Rightarrow> manager \<Rightarrow> string \<Rightarrow> string \<Rightarrow> preview \<Rightarrow> preview io" where
  "classify env m action target ps =
     (if target = binaryPath then
        bindE (attempt (readFile (managerPath m target))) (\<lambda>r.
        if \<not> (case r of Inl e \<Rightarrow> False | Inr c \<Rightarrow> isHostlens (rv_BuildInfo (le_Release env)) c)
        then fail ''unrecognized installed executable''
        else if action = ''install'' then fail ''HostLens is already installed; use upgrade''
        else ret (planned (addReplace target) [] ps))
      else if isUnitPath target \<or> target = provenancePath then
        (if action = ''install'' \<and> target \<noteq> provenancePath then fail ''unit already exists''
         else ret (planned (addReplace target) [] ps))
      else ret (planned (addRetain target) [] ps))"

definition previewTarget :: "lifecycle_env \<Rightarrow> manager \<Rightarrow> string \<Rightarrow> unitProvenance option \<Rightarrow> string \<Rightarrow> preview \<Rightarrow> preview io" where
  "previewTarget env m action oldUnits target ps =
     bindE (trusted (managerPath m target)) (\<lambda>info.
     case info of
       None \<Rightarrow>
         (if action = ''upgrade'' \<and> target = binaryPath then fail ''installed file missing''
          else ret (planned (addCreate target) target ps))
     | Some _ \<Rightarrow>
         bindE (readFile (managerPath m target)) (\<lambda>content.
         if isUnitPath target \<and> action = ''upgrade'' \<and> modifiedUnit env oldUnits target content
         then fail ''modified installed unit''
         else classify env m action target
                (fst ps, addFingerprint (le_Sum256 env) (snd ps @ target) target content)))"

fun previewTargets :: "lifecycle_env \<Rightarrow> manager \<Rightarrow> string \<Rightarrow> unitProvenance option \<Rightarrow> string list \<Rightarrow> preview \<Rightarrow> preview io" where
  "previewTargets env m action oldUnits [] ps = ret ps"
| "previewTargets env m action oldUnits (target # targets) ps =
     bindE (previewTarget env m action oldUnits target ps) (previewTargets env m action oldUnits targets)"

text \<open>\<open>core.Load\<close> of the installed configuration; any of its system calls can fail.\<close>

definition loadInstalled :: "lifecycle_env \<Rightarrow> manager \<Rightarrow> config io" where
  "loadInstalled env m =
     bindE effectless (\<lambda>_.
     bindE (asking (\<lambda>w. Load (viewOS w) (le_Config env) (le_Profile env) (managerPath m configPath) (the ToolEffects))) (\<lambda>r.
     case r of Inl e \<Rightarrow> fail ''installed configuration'' | Inr (config, _) \<Rightarrow> ret config))"

definition previewRetained :: "lifecycle_env \<Rightarrow> manager \<Rightarrow> string \<Rightarrow> bool \<Rightarrow> unit io" where
  "previewRetained env m action start =
     (if action = ''install'' \<and> start then
        bindE (trusted (managerPath m configPath)) (\<lambda>info.
        case info of
          None \<Rightarrow> ret ()
        | Some _ \<Rightarrow>
            bindE (loadInstalled env m) (\<lambda>configured.
            if \<not> ReadOnly configured then fail ''install --start requires read-only configuration'' else ret ()))
      else ret ())"

text \<open>The units among the given ones that are active.\<close>

fun activeUnits :: "lifecycle_env \<Rightarrow> string list \<Rightarrow> string list io" where
  "activeUnits env [] = ret []"
| "activeUnits env (name # ns) =
     bindE effectless (\<lambda>_.
     bindE (asking (\<lambda>w. unitActive (le_UnitState env w name))) (\<lambda>r.
     case r of
       Inl e \<Rightarrow> fail e
     | Inr active \<Rightarrow> bindE (activeUnits env ns) (\<lambda>units. ret (if active then name # units else units))))"

definition previewStart :: "lifecycle_env \<Rightarrow> manager \<Rightarrow> string \<Rightarrow> bool \<Rightarrow> string list io" where
  "previewStart env m action start =
     bindE (if action = ''upgrade'' then
              bindE (loadInstalled env m) (\<lambda>_.
              if isl (le_LookPath env ''systemctl'') then fail ''systemctl required for upgrade''
              else activeUnits env unitNames)
            else ret []) (\<lambda>active.
     ret (if start \<and> action = ''install'' then active @ [''hostlens-gateway.service''] else active))"

definition initialPlan :: "manager \<Rightarrow> string \<Rightarrow> string \<Rightarrow> string \<Rightarrow> plan" where
  "initialPlan m action version fingerprint =
     \<lparr>pl_Action = action, pl_Version = version, pl_Digest = [], pl_Create = [], pl_Replace = [],
      pl_Retain = [''configuration and profiles already present'', ''token store and credentials'', ''administrator permissions''],
      pl_Start = [], pl_Source = mg_Source m, pl_sourceDigest = fingerprint\<rparr>"

definition initialState :: "string \<Rightarrow> bool \<Rightarrow> manifest \<Rightarrow> string \<Rightarrow> bytes" where
  "initialState action start rel fingerprint =
     action @ '':'' @ (if start then ''true'' else ''false'') @ rl_Version rel @ '':'' @ rl_Architecture rel @ fingerprint"

definition previewPaths :: "string list \<Rightarrow> string list" where
  "previewPaths profiles =
     [binaryPath, configPath] @ map (\<lambda>n. ''/etc/hostlens/profiles/'' @ n) profiles
       @ map (\<lambda>n. ''/etc/systemd/system/'' @ n) unitNames @ [provenancePath]"

definition archiveNow :: "lifecycle_env \<Rightarrow> (manifest \<times> (string \<times> bytes) list) io" where
  "archiveNow env = bindE (asking (\<lambda>w. archive (le_Release env) (le_Source env w))) given"

definition Preview :: "lifecycle_env \<Rightarrow> manager \<Rightarrow> string \<Rightarrow> bool \<Rightarrow> plan io" where
  "Preview env m action start =
     bindE (asking w_Euid) (\<lambda>euid.
     if action \<noteq> ''install'' \<and> action \<noteq> ''upgrade'' then fail ''invalid lifecycle action''
     else if action = ''upgrade'' \<and> euid \<noteq> 0
     then fail ''upgrade preview requires root to inspect protected installation state''
     else
       bindE (archiveNow env) (\<lambda>(rel, _).
       bindE (given (releaseProfiles rel)) (\<lambda>profiles.
       (let fingerprint = releaseFingerprint (le_Sum256 env) rel in
        bindE (previewGroups env groupNames []
                 (initialPlan m action (rl_Version rel) fingerprint, initialState action start rel fingerprint)) (\<lambda>ps.
        bindE (previewUsers env userNames [] ps) (\<lambda>ps.
        bindE (previewDirs m installDirs ps) (\<lambda>ps.
        bindE (readUnitProvenance env (managerPath m provenancePath)) (\<lambda>oldUnits.
        bindE (previewTargets env m action oldUnits (previewPaths profiles) ps) (\<lambda>ps.
        bindE (previewRetained env m action start) (\<lambda>_.
        bindE (previewStart env m action start) (\<lambda>units.
        (let state = snd ps @ concat (map (\<lambda>unit. ''active:'' @ unit) units)
         in ret ((fst ps)\<lparr>pl_Start := units, pl_Digest := HexEncode (le_Sum256 env state)\<rparr>)))))))))))))"

end
