(* ===== verification/Apply.thy ===== *)
theory Apply
  imports Lifecycle
begin

text \<open>
  \<open>Manager.Apply\<close> of \<open>internal/lifecycle/manager_linux.go\<close>: the stages of an installation or upgrade
  and the deferred function that cleans up or rolls back. The local variables that the deferred
  function reads are the record \<open>apply_state\<close>; a stage is a computation over it and the world that
  keeps both when it fails. Progress messages are left out; commands run under a time limit, so
  they can fail at any time.
\<close>

section \<open>Computations over the local variables\<close>

record apply_state =
  as_Changed :: "snapshot list"
  as_Dirs :: "string list"
  as_Prior :: "string list"
  as_Started :: "string list"
  as_Installed :: bool
  as_Backup :: string

type_synonym 'a stage = "apply_state \<Rightarrow> world \<Rightarrow> (io_error list, 'a) result \<times> apply_state \<times> world"

definition bindA :: "'a stage \<Rightarrow> ('a \<Rightarrow> 'b stage) \<Rightarrow> 'b stage" where
  "bindA m f st w =
     (case m st w of
        (Inl e, st', w') \<Rightarrow> (Inl e, st', w')
      | (Inr x, st', w') \<Rightarrow> f x st' w')"

definition doing :: "'a io \<Rightarrow> 'a stage" where
  "doing m st w = (case m w of (r, w') \<Rightarrow> (r, st, w'))"

definition noting :: "(apply_state \<Rightarrow> apply_state) \<Rightarrow> unit stage" where
  "noting f st w = (Inr (), f st, w)"

fun each :: "('a \<Rightarrow> unit stage) \<Rightarrow> 'a list \<Rightarrow> unit stage" where
  "each f [] = doing (ret ())"
| "each f (x # xs) = bindA (f x) (\<lambda>_. each f xs)"

section \<open>Accounts and directories\<close>

definition createGroup :: "lifecycle_env \<Rightarrow> string \<Rightarrow> unit io" where
  "createGroup env name =
     bindE (asking (\<lambda>w. le_Group env w name)) (\<lambda>r.
     if isl r then run [''groupadd'', ''--system'', name] else ret ())"

definition createUser :: "lifecycle_env \<Rightarrow> string \<Rightarrow> unit io" where
  "createUser env name =
     bindE (asking (\<lambda>w. le_User env w name)) (\<lambda>r.
     if isl r
     then run [''useradd'', ''--system'', ''--no-create-home'', ''--gid'', ''hostlens-shared'', ''--shell'', ''/usr/sbin/nologin'', name]
     else ret ())"

definition lookupID :: "lifecycle_env \<Rightarrow> bool \<Rightarrow> string \<Rightarrow> int io" where
  "lookupID env isGroup name =
     bindE (asking (\<lambda>w. if isGroup then le_Group env w name else map_sum (\<lambda>e. e) fst (le_User env w name))) (\<lambda>r.
     bindE (given r) (\<lambda>val.
     case Atoi val of None \<Rightarrow> fail ''invalid identifier'' | Some n \<Rightarrow> ret n))"

record identities =
  id_shared :: int
  id_tokens :: int
  id_gateway :: int
  id_observer :: int

definition serviceAccounts :: "lifecycle_env \<Rightarrow> identities io" where
  "serviceAccounts env =
     bindE (seqE (createGroup env) groupNames) (\<lambda>_.
     bindE (seqE (createUser env) userNames) (\<lambda>_.
     bindE (lookupID env True ''hostlens-shared'') (\<lambda>shared.
     bindE (lookupID env True ''hostlens-tokens'') (\<lambda>tokens.
     bindE (lookupID env False ''hostlens-gateway'') (\<lambda>gateway.
     bindE (lookupID env False ''hostlens-observer'') (\<lambda>observer.
     ret \<lparr>id_shared = shared, id_tokens = tokens, id_gateway = gateway, id_observer = observer\<rparr>))))))"

text \<open>The directories that root makes with modes 0750 and 0700.\<close>

definition install_dir_stat :: stat where
  "install_dir_stat = \<lparr>st_Mode = 0x41E8, st_Uid = 0, st_Gid = 0, st_Size = 0\<rparr>"

definition backup_dir_stat :: stat where
  "backup_dir_stat = \<lparr>st_Mode = 0x41C0, st_Uid = 0, st_Gid = 0, st_Size = 0\<rparr>"

definition makeDirectory :: "manager \<Rightarrow> string \<times> int \<Rightarrow> unit stage" where
  "makeDirectory m item =
     (let path = managerPath m (fst item) in
      bindA (doing (attempt (lstat path))) (\<lambda>r.
      case r of
        Inr _ \<Rightarrow> doing (ret ())
      | Inl statErr \<Rightarrow>
          (if \<not> not_exist statErr then doing (throw statErr)
           else
             bindA (doing (create path install_dir_stat)) (\<lambda>_.
             bindA (noting (\<lambda>st. st\<lparr>as_Dirs := as_Dirs st @ [path]\<rparr>)) (\<lambda>_.
             doing (setStat path (chown 0 (snd item))))))))"

definition makeDirectories :: "manager \<Rightarrow> identities \<Rightarrow> unit stage" where
  "makeDirectories m ids =
     each (makeDirectory m) [(''/etc/hostlens'', id_shared ids), (''/etc/hostlens/profiles'', id_shared ids),
       (''/etc/hostlens/secrets'', id_tokens ids)]"

section \<open>The rollback copy of an upgrade\<close>

definition backupTargets :: "string list" where
  "backupTargets = [binaryPath, provenancePath] @ map (\<lambda>n. ''/etc/systemd/system/'' @ n) unitNames"

definition sameCopy :: "snapshot \<Rightarrow> snapshot \<Rightarrow> bool" where
  "sameCopy verified old \<longleftrightarrow>
     sn_exists verified \<and> sn_data verified = sn_data old \<and> sn_mode verified = sn_mode old
     \<and> sn_uid verified = sn_uid old \<and> sn_gid verified = sn_gid old"

definition backupFile :: "lifecycle_env \<Rightarrow> manager \<Rightarrow> string \<Rightarrow> string \<Rightarrow> unit io" where
  "backupFile env m backupDir path =
     bindE (capture (managerPath m path)) (\<lambda>old.
     if \<not> sn_exists old then ret ()
     else
       (let copyPath = JoinPath backupDir (Base path) in
        bindE (writeFile env copyPath (sn_data old) (sn_mode old) (sn_uid old) (sn_gid old)) (\<lambda>_.
        bindE (attempt (capture copyPath)) (\<lambda>r.
        case r of
          Inl verifyErr \<Rightarrow> throw (verifyErr @ [Msg ''rollback copy verification failed''])
        | Inr verified \<Rightarrow>
            (if \<not> sameCopy verified old then fail ''rollback copy verification failed'' else ret ())))))"

definition makeBackup :: "lifecycle_env \<Rightarrow> manager \<Rightarrow> unit stage" where
  "makeBackup env m =
     bindA (doing (asking (tempPath env (managerPath m ''/etc/hostlens'') ''.rollback-''))) (\<lambda>dir.
     bindA (doing (create dir backup_dir_stat)) (\<lambda>_.
     bindA (noting (\<lambda>st. st\<lparr>as_Backup := dir\<rparr>)) (\<lambda>_.
     doing (bindE (seqE (backupFile env m dir) backupTargets) (\<lambda>_. ret ())))))"

text \<open>The units that are active go on the list one by one, as they are found.\<close>

definition notePrior :: "lifecycle_env \<Rightarrow> string \<Rightarrow> unit stage" where
  "notePrior env unit =
     bindA (doing (activeUnits env [unit])) (\<lambda>active.
     noting (\<lambda>st. st\<lparr>as_Prior := as_Prior st @ active\<rparr>))"

definition stopPrior :: "unit stage" where
  "stopPrior st = each (\<lambda>unit. doing (run [''systemctl'', ''stop'', unit])) (as_Prior st) st"

definition prepareUpgrade :: "lifecycle_env \<Rightarrow> manager \<Rightarrow> unit stage" where
  "prepareUpgrade env m =
     bindA (makeBackup env m) (\<lambda>_.
     bindA (each (notePrior env) unitNames) (\<lambda>_. stopPrior))"

section \<open>Files\<close>

definition put :: "lifecycle_env \<Rightarrow> manager \<Rightarrow> string \<Rightarrow> bytes \<Rightarrow> mode \<Rightarrow> int \<Rightarrow> bool \<Rightarrow> unit stage" where
  "put env m target content mode gid replace =
     (let path = managerPath m target in
      bindA (doing (capture path)) (\<lambda>old.
      if sn_exists old \<and> \<not> replace then doing (ret ())
      else
        bindA (noting (\<lambda>st. st\<lparr>as_Changed := as_Changed st @ [old]\<rparr>)) (\<lambda>_.
        doing (writeFile env path content mode 0 gid))))"

definition installFiles :: "lifecycle_env \<Rightarrow> manager \<Rightarrow> identities \<Rightarrow> string list \<Rightarrow> (string \<times> bytes) list \<Rightarrow> unit stage" where
  "installFiles env m ids profiles data =
     bindA (doing (given (configuredTemplate env (at_key data ''config.example.yaml'') (id_gateway ids) (id_observer ids)
             (id_shared ids) (id_tokens ids)))) (\<lambda>config.
     bindA (put env m binaryPath (at_key data ''hostlens'') 0x1ED 0 True) (\<lambda>_.
     bindA (put env m configPath config 0x1A0 (id_shared ids) False) (\<lambda>_.
     bindA (each (\<lambda>n. put env m (''/etc/hostlens/profiles/'' @ n) (at_key data (''profiles/'' @ n)) 0x1A0 (id_shared ids) False) profiles) (\<lambda>_.
     bindA (each (\<lambda>n. put env m (''/etc/systemd/system/'' @ n) (at_key data (''systemd/'' @ n)) 0x1A4 0 True) unitNames) (\<lambda>_.
     bindA (doing (given (le_MarshalProvenance env (packagedUnitProvenance (le_Sum256 env) data)))) (\<lambda>provenance.
     bindA (put env m provenancePath provenance 0x180 0 True) (\<lambda>_.
     noting (\<lambda>st. st\<lparr>as_Installed := True\<rparr>))))))))"

section \<open>Activation\<close>

definition awaitReady :: "lifecycle_env \<Rightarrow> string \<Rightarrow> config \<Rightarrow> unit io" where
  "awaitReady env unit configured =
     bindE effectless (\<lambda>_.
     bindE (asking (\<lambda>w. waitReady (le_Sum256 env) unit configured None (le_Probes env w unit))) (\<lambda>ready.
     if ready then ret () else fail ''did not become ready''))"

definition startUnit :: "lifecycle_env \<Rightarrow> config \<Rightarrow> string \<Rightarrow> unit stage" where
  "startUnit env configured unit =
     bindA (doing (run [''systemctl'', ''start'', unit])) (\<lambda>_.
     bindA (noting (\<lambda>st. st\<lparr>as_Started := as_Started st @ [unit]\<rparr>)) (\<lambda>_.
     doing (awaitReady env unit configured)))"

definition activate :: "lifecycle_env \<Rightarrow> manager \<Rightarrow> string \<Rightarrow> bool \<Rightarrow> unit stage" where
  "activate env m action start st =
     (let newStart = (action = ''install'' \<and> start) in
      bindA (doing (loadInstalled env m)) (\<lambda>configured.
      if newStart \<and> \<not> ReadOnly configured then doing (fail ''install --start requires read-only configuration'')
      else
        bindA (doing (run [''systemctl'', ''daemon-reload''])) (\<lambda>_.
        bindA (each (startUnit env configured) (as_Prior st @ (if newStart then [''hostlens-gateway.service''] else []))) (\<lambda>_.
        if newStart then doing (run [''systemctl'', ''enable'', ''hostlens-gateway.service'']) else doing (ret ())))) st)"

definition applySteps :: "lifecycle_env \<Rightarrow> manager \<Rightarrow> string \<Rightarrow> bool \<Rightarrow> string list \<Rightarrow> (string \<times> bytes) list \<Rightarrow> unit stage" where
  "applySteps env m action start profiles data =
     bindA (doing (serviceAccounts env)) (\<lambda>ids.
     bindA (makeDirectories m ids) (\<lambda>_.
     bindA (if action = ''upgrade'' then prepareUpgrade env m else doing (ret ())) (\<lambda>_.
     bindA (installFiles env m ids profiles data) (\<lambda>_.
     activate env m action start))))"

section \<open>The deferred function\<close>

text \<open>\<open>errors.Join\<close> of the errors so far with the one of the next call.\<close>

definition joinError :: "unit io \<Rightarrow> io_error list \<times> world \<Rightarrow> io_error list \<times> world" where
  "joinError m x = (case m (snd x) of (Inl e, w) \<Rightarrow> (fst x @ e, w) | (Inr _, w) \<Rightarrow> (fst x, w))"

definition restoreSnapshot :: "lifecycle_env \<Rightarrow> snapshot \<Rightarrow> unit io" where
  "restoreSnapshot env item =
     (if sn_exists item then writeFile env (sn_path item) (sn_data item) (sn_mode item) (sn_uid item) (sn_gid item)
      else bindE (removeIfThere (sn_path item)) (\<lambda>r. case r of None \<Rightarrow> ret () | Some removeErr \<Rightarrow> throw removeErr))"

definition rollbackCalls :: "lifecycle_env \<Rightarrow> string \<Rightarrow> bool \<Rightarrow> apply_state \<Rightarrow> unit io list" where
  "rollbackCalls env action start st =
     (if action = ''install'' \<and> start \<and> as_Installed st
      then [run [''systemctl'', ''disable'', ''--now'', ''hostlens-gateway.service'']] else [])
     @ map (\<lambda>unit. run [''systemctl'', ''stop'', unit]) (as_Started st)
     @ map (restoreSnapshot env) (rev (as_Changed st))
     @ map remove (rev (as_Dirs st))
     @ run [''systemctl'', ''daemon-reload'']
     # map (\<lambda>unit. run [''systemctl'', ''start'', unit]) (as_Prior st)"

definition rollback :: "lifecycle_env \<Rightarrow> string \<Rightarrow> bool \<Rightarrow> apply_state \<Rightarrow> world \<Rightarrow> io_error list \<times> world" where
  "rollback env action start st w =
     (let (restoreErr, w1) = fold joinError (rollbackCalls env action start st) ([], w) in
      if as_Backup st = [] then (restoreErr, w1)
      else if restoreErr \<noteq> [] then (restoreErr @ [Msg ''rollback copy retained''], w1)
      else
        (case removeAll (as_Backup st) w1 of
           (Inl e, w2) \<Rightarrow> (e @ [Msg ''rollback copy retained''], w2)
         | (Inr _, w2) \<Rightarrow> ([], w2)))"

definition noChanges :: apply_state where
  "noChanges = \<lparr>as_Changed = [], as_Dirs = [], as_Prior = [], as_Started = [], as_Installed = False, as_Backup = []\<rparr>"

definition applyPlan :: "lifecycle_env \<Rightarrow> manager \<Rightarrow> string \<Rightarrow> bool \<Rightarrow> plan \<Rightarrow> string list \<Rightarrow> (string \<times> bytes) list \<Rightarrow> plan io" where
  "applyPlan env m action start plan profiles data w =
     (case applySteps env m action start profiles data noChanges w of
        (Inr _, st, w1) \<Rightarrow>
          (if as_Backup st = [] then (Inr plan, w1)
           else
             (case removeAll (as_Backup st) w1 of
                (Inl e, w2) \<Rightarrow> (Inl (Msg ''upgrade activated; remove rollback copy'' # e), w2)
              | (Inr _, w2) \<Rightarrow> (Inr plan, w2)))
      | (Inl err, st, w1) \<Rightarrow>
          (case rollback env action start st w1 of (restoreErr, w2) \<Rightarrow> (Inl (err @ restoreErr), w2)))"

definition Apply :: "lifecycle_env \<Rightarrow> manager \<Rightarrow> string \<Rightarrow> string \<Rightarrow> bool \<Rightarrow> plan io" where
  "Apply env m action approved start =
     bindE (asking w_Euid) (\<lambda>euid.
     if euid \<noteq> 0 then fail ''lifecycle apply requires root''
     else
       bindE (Preview env m action start) (\<lambda>plan.
       if approved = [] \<or> approved \<noteq> pl_Digest plan then fail ''plan changed; preview again''
       else
         bindE (attempt (archiveNow env)) (\<lambda>r.
         case r of
           Inl e \<Rightarrow> fail ''release changed; preview again''
         | Inr (rel, data) \<Rightarrow>
             (if rl_Version rel \<noteq> pl_Version plan \<or> releaseFingerprint (le_Sum256 env) rel \<noteq> pl_sourceDigest plan
              then fail ''release changed; preview again''
              else
                bindE (given (releaseProfiles rel)) (\<lambda>profiles.
                applyPlan env m action start plan profiles data)))))"

end
