(* ===== verification/Lifecycle_Files.thy ===== *)
theory Lifecycle_Files
  imports Apply
begin

text \<open>
  What the file operations of the lifecycle manager do: reading and previewing change nothing, a
  target is replaced atomically or not at all, and temporary names stay apart from targets.
\<close>

section \<open>Steps that leave targets alone\<close>

context step_relation
begin

lemma keeps_deferred: "keeps R c \<Longrightarrow> keeps R m \<Longrightarrow> keeps R (deferred c m)"
  unfolding keeps_def deferred_def by (auto split: prod.split) (metis trans snd_conv)

end

text \<open>Nothing outside the given paths changes, and the machine goes on failing as it would have.\<close>

definition quiet :: "string set \<Rightarrow> world \<Rightarrow> world \<Rightarrow> bool" where
  "quiet S w w' \<longleftrightarrow> only_paths S w w' \<and> w_Fault w' = w_Fault w \<and> w_Euid w' = w_Euid w"

interpretation quietly: step_relation "quiet S" for S
  by unfold_locales (auto simp: quiet_def only_paths_def)

lemma quiet_mono: "quiet S w w' \<Longrightarrow> S \<subseteq> T \<Longrightarrow> quiet T w w'"
  by (auto simp: quiet_def only_paths_def)

lemma keeps_mono: "keeps (quiet S) m \<Longrightarrow> S \<subseteq> T \<Longrightarrow> keeps (quiet T) m"
  unfolding keeps_def using quiet_mono by blast

lemma honest_quiet: "quiet S w w' \<Longrightarrow> honest w' \<longleftrightarrow> honest w"
  by (simp add: quiet_def honest_def)

lemma same_files_quiet: "keeps same_files m \<Longrightarrow> keeps (quiet S) m"
  by (auto simp: keeps_def same_files_def quiet_def only_paths_def)

lemma sys_machine: "w_Fault (snd (sys call w)) = w_Fault w \<and> w_Euid (snd (sys call w)) = w_Euid w"
  by (simp add: sys_def Let_def split: option.split sum.split prod.split)

lemma quiet_touch:
  assumes "keeps (only_paths S) m" and "\<And>w. w_Fault (snd (m w)) = w_Fault w \<and> w_Euid (snd (m w)) = w_Euid w"
  shows "keeps (quiet S) m"
  using assms by (simp add: keeps_def quiet_def)

lemma quiet_remove: "p \<in> S \<Longrightarrow> keeps (quiet S) (remove p)"
  by (rule quiet_touch [OF keeps_remove]) (simp_all add: remove_def sys_machine)

lemma quiet_create: "p \<in> S \<Longrightarrow> keeps (quiet S) (create p st)"
  by (rule quiet_touch [OF keeps_create]) (simp_all add: create_def sys_machine)

lemma quiet_setStat: "p \<in> S \<Longrightarrow> keeps (quiet S) (setStat p f)"
  by (rule quiet_touch [OF keeps_setStat]) (simp_all add: setStat_def sys_machine)

lemma quiet_rename: "p \<in> S \<Longrightarrow> q \<in> S \<Longrightarrow> keeps (quiet S) (rename p q)"
  by (rule quiet_touch [OF keeps_rename]) (simp_all add: rename_def sys_machine)

lemma quiet_writeAt: "p \<in> S \<Longrightarrow> keeps (quiet S) (writeAt p c)"
  by (rule quiet_touch [OF keeps_writeAt]) (simp_all add: writeAt_def Let_def split: option.split)

lemma quiet_removeAll: "(\<And>q. below p q \<Longrightarrow> q \<in> S) \<Longrightarrow> keeps (quiet S) (removeAll p)"
  by (rule quiet_touch [OF keeps_removeAll]) (simp_all add: removeAll_def Let_def split: option.split)

lemma quiet_run: "keeps (quiet S) (run c)"
  by (rule quiet_touch [OF keeps_run]) (simp add: run_def effectless_def sys_machine)

lemmas keeps_quiet = quietly.keeps_intros quiet_remove quiet_create quiet_setStat quiet_rename quiet_writeAt quiet_removeAll
  quiet_run

section \<open>Reading\<close>

lemmas keeps_reading = keeps_read keeps_asking

lemma reads_given: "keeps same_files (given r)"
  unfolding given_def by (intro keeps_reading)

lemma reads_trustedDirectory: "keeps same_files (trustedDirectory p)"
  unfolding trustedDirectory_def by (intro keeps_reading)

lemma reads_trustedParent: "keeps same_files (trustedParent fuel p)"
  by (induction fuel arbitrary: p) (auto intro!: keeps_reading reads_trustedDirectory)

lemma reads_trusted: "keeps same_files (trusted p)"
  unfolding trusted_def by (intro keeps_reading reads_trustedParent)

lemma reads_capture: "keeps same_files (capture p)"
  unfolding capture_def by (intro keeps_reading reads_trusted)

lemma reads_provenance: "keeps same_files (readUnitProvenance env p)"
  unfolding readUnitProvenance_def by (intro keeps_reading reads_trusted reads_given)

lemma reads_loadInstalled: "keeps same_files (loadInstalled env m)"
  unfolding loadInstalled_def by (intro keeps_reading)

lemma reads_activeUnits: "keeps same_files (activeUnits env ns)"
proof (induction ns)
  case Nil
  show ?case unfolding activeUnits.simps by (intro keeps_reading)
next
  case (Cons n ns)
  show ?case unfolding activeUnits.simps by (intro keeps_reading Cons.IH)
qed

lemma reads_archiveNow: "keeps same_files (archiveNow env)"
  unfolding archiveNow_def by (intro keeps_reading reads_given)

lemma reads_previewGroups: "keeps same_files (previewGroups env ns ids ps)"
proof (induction ns arbitrary: ids ps)
  case Nil
  show ?case unfolding previewGroups.simps by (intro keeps_reading)
next
  case (Cons n ns)
  show ?case unfolding previewGroups.simps by (intro keeps_reading Cons.IH)
qed

lemma reads_previewUsers: "keeps same_files (previewUsers env ns ids ps)"
proof (induction ns arbitrary: ids ps)
  case Nil
  show ?case unfolding previewUsers.simps by (intro keeps_reading)
next
  case (Cons n ns)
  show ?case unfolding previewUsers.simps by (intro keeps_reading Cons.IH)
qed

lemma reads_previewDirs: "keeps same_files (previewDirs m ns ps)"
proof (induction ns arbitrary: ps)
  case Nil
  show ?case unfolding previewDirs.simps by (intro keeps_reading)
next
  case (Cons n ns)
  show ?case unfolding previewDirs.simps by (intro keeps_reading Cons.IH reads_trustedDirectory)
qed

lemma reads_classify: "keeps same_files (classify env m action t ps)"
  unfolding classify_def by (intro keeps_reading)

lemma reads_previewTargets: "keeps same_files (previewTargets env m action old ts ps)"
proof (induction ts arbitrary: ps)
  case Nil
  show ?case unfolding previewTargets.simps by (intro keeps_reading)
next
  case (Cons n ns)
  show ?case unfolding previewTargets.simps previewTarget_def by (intro keeps_reading Cons.IH reads_trusted reads_classify)
qed

lemma reads_previewRetained: "keeps same_files (previewRetained env m action start)"
  unfolding previewRetained_def by (intro keeps_reading reads_trusted reads_loadInstalled)

lemma reads_previewStart: "keeps same_files (previewStart env m action start)"
  unfolding previewStart_def by (intro keeps_reading reads_loadInstalled reads_activeUnits)

lemma reads_Preview: "keeps same_files (Preview env m action start)"
  unfolding Preview_def Let_def
  by (intro keeps_reading reads_archiveNow reads_given reads_previewGroups reads_previewUsers reads_previewDirs reads_provenance
      reads_previewTargets reads_previewRetained reads_previewStart)

lemmas reads_lifecycle = reads_given reads_trusted reads_capture reads_loadInstalled reads_activeUnits reads_archiveNow

section \<open>Temporary names\<close>

text \<open>A path with a temporary file or a rollback directory among its elements.\<close>

definition tempElem :: "string \<Rightarrow> bool" where
  "tempElem e \<longleftrightarrow> HasPrefix e ''.hostlens-'' \<or> HasPrefix e ''.rollback-''"

definition scratch :: "string \<Rightarrow> bool" where
  "scratch p \<longleftrightarrow> list_ex tempElem (Split p (CHR ''/''))"

lemma nat_digits_no_slash: "CHR ''/'' \<notin> set (nat_digits n)"
proof (induction n rule: nat_digits.induct)
  case (1 n)
  have d: "CHR ''/'' \<noteq> digit_char k" if "k < 10" for k
  proof -
    have a: "(of_char (digit_char k) :: nat) = 48 + k" using that by (simp add: digit_char_def)
    have b: "(of_char (CHR ''/'') :: nat) = 47" by simp
    show ?thesis
    proof
      assume "CHR ''/'' = digit_char k"
      with a b show False by simp
    qed
  qed
  show ?case
  proof (cases "n < 10")
    case True
    then show ?thesis using d by (simp add: nat_digits.simps [of n])
  next
    case False
    then show ?thesis using 1 d [of "n mod 10"] by (simp add: nat_digits.simps [of n])
  qed
qed

lemma tempPath_split:
  assumes "prefix = ''.hostlens-'' \<or> prefix = ''.rollback-''"
  obtains dirs e where "tempElem e" "CHR ''/'' \<notin> set e" "good_elem e"
    "tempPath env dir prefix w = dirs @ CHR ''/'' # e"
proof
  let ?e = "prefix @ nat_digits (le_Random env (w_Tick w))"
  show "tempElem ?e" using assms by (auto simp: tempElem_def HasPrefix_def)
  show "CHR ''/'' \<notin> set ?e" using assms nat_digits_no_slash by auto
  then show "good_elem ?e" using assms by (auto simp: good_elem_def)
  show "tempPath env dir prefix w = (if dir \<noteq> [] \<and> last dir = CHR ''/'' then butlast dir else dir) @ CHR ''/'' # ?e"
    by (auto simp: tempPath_def) (metis append_butlast_last_id append.assoc append_Cons append_Nil)
qed

lemma tempPath_nonempty: "tempPath env dir prefix w \<noteq> []"
  by (auto simp: tempPath_def)

lemma scratch_append: "scratch (p @ CHR ''/'' # q) \<longleftrightarrow> scratch p \<or> scratch q"
  by (auto simp: scratch_def Split_append_sep)

lemma scratch_elem: "CHR ''/'' \<notin> set e \<Longrightarrow> scratch e \<longleftrightarrow> tempElem e"
  by (simp add: scratch_def Split_no_sep)

lemma scratch_temp: "scratch (tempPath env dir ''.hostlens-'' w)" and scratch_backup: "scratch (tempPath env dir ''.rollback-'' w)"
  by (rule tempPath_split [of "''.hostlens-''" env dir w]; simp add: scratch_append scratch_elem)
     (rule tempPath_split [of "''.rollback-''" env dir w]; simp add: scratch_append scratch_elem)

lemma scratch_below: "scratch p \<Longrightarrow> below p q \<Longrightarrow> scratch q"
proof -
  assume "scratch p" "below p q"
  then have "q = p \<or> q = p @ CHR ''/'' # drop (Suc (length p)) q"
    unfolding below_def HasPrefix_def by (metis append_Cons append_Nil append_assoc append_take_drop_id length_append_singleton)
  with \<open>scratch p\<close> show "scratch q" by (metis scratch_append)
qed

text \<open>Cleaning a path keeps an element that only ordinary elements follow.\<close>

lemma cleanElems_split: "\<exists>acc'. cleanElems rooted acc (xs @ ys) = cleanElems rooted acc' ys"
  by (induction xs arbitrary: acc) (auto split: list.splits)

lemma cleanElems_ordinary: "\<forall>e\<in>set es. good_elem e \<Longrightarrow> cleanElems rooted acc es = rev acc @ es"
  by (induction es arbitrary: acc) (auto simp: good_elem_def)

lemma cleanElems_no_slash:
  "\<forall>e\<in>set acc \<union> set es. CHR ''/'' \<notin> set e \<Longrightarrow> e \<in> set (cleanElems rooted acc es) \<Longrightarrow> CHR ''/'' \<notin> set e"
proof (induction rooted acc es rule: cleanElems.induct)
  case (2 rooted acc e' es)
  then show ?case by (auto split: if_splits list.splits)
qed auto

lemma scratch_Clean:
  assumes "tempElem e" "good_elem e" "\<forall>x\<in>set es. good_elem x"
    and "Split p (CHR ''/'') = xs @ e # es"
  shows "scratch (Clean p)"
proof -
  let ?c = "cleanElems (IsAbs p) [] (Split p (CHR ''/''))"
  obtain acc where "?c = cleanElems (IsAbs p) acc (e # es)" using assms(4) cleanElems_split by metis
  moreover have "cleanElems (IsAbs p) acc (e # es) = rev acc @ e # es" using assms(2,3) by (intro cleanElems_ordinary) auto
  ultimately have c: "?c = rev acc @ e # es" by simp
  have ns: "\<forall>x\<in>set ?c. CHR ''/'' \<notin> set x" using cleanElems_no_slash [of "[]" "Split p (CHR ''/'')"] Split_elem_no_sep by fastforce
  have "?c \<noteq> []" using c by simp
  from Split_Join [OF this ns] have "scratch (Join ?c (CHR ''/''))" using c assms(1) by (simp add: scratch_def)
  then show ?thesis
    using scratch_append [of "[]" "Join ?c (CHR ''/'')"] by (auto simp: Clean_def Let_def scratch_def tempElem_def HasPrefix_def)
qed

lemma scratch_copy:
  assumes "t \<in> set backupTargets"
  shows "scratch (JoinPath (tempPath env dir ''.rollback-'' w) (Base t))"
proof -
  obtain dirs e where e: "tempElem e" "CHR ''/'' \<notin> set e" "good_elem e" "tempPath env dir ''.rollback-'' w = dirs @ CHR ''/'' # e"
    by (rule tempPath_split [OF disjI2 [OF refl], of env dir w])
  have "list_all (\<lambda>t. Base t \<noteq> [] \<and> Base t \<noteq> ''.'' \<and> Base t \<noteq> ''..'' \<and> \<not> List.member (Base t) (CHR ''/'')) backupTargets"
    by code_simp
  then have b: "good_elem (Base t)" using assms by (simp add: list_all_iff good_elem_def)
  then have ns: "CHR ''/'' \<notin> set (Base t)" "Base t \<noteq> []" by (simp_all add: good_elem_def)
  have "Split ((dirs @ CHR ''/'' # e) @ CHR ''/'' # Base t) (CHR ''/'') = Split dirs (CHR ''/'') @ e # [Base t]"
    unfolding Split_append_sep Split_no_sep [OF e(2)] Split_no_sep [OF ns(1)] by simp
  from scratch_Clean [OF e(1,3) _ this] b ns(2) show ?thesis
    by (simp add: JoinPath_def e(4))
qed

section \<open>The atomic write\<close>

lemma bindE_assoc: "bindE (bindE m f) g = bindE m (\<lambda>x. bindE (f x) g)"
  by (rule ext) (simp add: bindE_def split: prod.split sum.split)

lemma bindE_cases:
  assumes "bindE m f w = (r, w')"
  obtains (failed) e where "m w = (Inl e, w')" "r = Inl e"
  | (continued) x w1 where "m w = (Inr x, w1)" "f x w1 = (r, w')"
  using assms by (auto simp: bindE_def split: prod.splits sum.splits)

lemma setStat_Inr:
  "setStat p f w = (Inr u, w') \<Longrightarrow> \<exists>n. map_of (w_FS w) p = Some n \<and> map_of (w_FS w') p = Some (n\<lparr>nd_Stat := f (nd_Stat n)\<rparr>)"
  by (auto simp: setStat_def sys_def lookup_def Let_def update_conv' split: option.splits sum.splits)

lemma rename_Inr:
  "rename p q w = (Inr u, w') \<Longrightarrow> map_of (w_FS w') q = map_of (w_FS w) p"
  by (auto simp: rename_def sys_def lookup_def Let_def update_conv' split: option.splits sum.splits if_splits)

lemma rename_Inl: "rename p q w = (Inl e, w') \<Longrightarrow> w_FS w' = w_FS w"
  by (auto simp: rename_def sys_def Let_def split: option.splits sum.splits if_splits)

lemma remove_Inr: "remove p w = (Inr u, w') \<Longrightarrow> map_of (w_FS w') p = None"
  by (auto simp: remove_def sys_def lookup_def Let_def delete_conv' split: option.splits sum.splits if_splits)

lemma remove_missing: "remove p w = (Inl e, w') \<Longrightarrow> not_exist e \<Longrightarrow> honest w \<Longrightarrow> map_of (w_FS w') p = None"
  by (auto simp: remove_def sys_def lookup_def Let_def not_exist_def honest_def split: option.splits sum.splits if_splits)

text \<open>The file that a write leaves, and the part of the write before it takes effect.\<close>

definition newNode :: "bytes \<Rightarrow> mode \<Rightarrow> int \<Rightarrow> int \<Rightarrow> node" where
  "newNode content mode uid gid =
     \<lparr>nd_Stat = (chown uid gid (chmod mode temp_stat))\<lparr>st_Size := int (length content)\<rparr>, nd_Data = content\<rparr>"

definition stagedTemp :: "string \<Rightarrow> bytes \<Rightarrow> mode \<Rightarrow> int \<Rightarrow> int \<Rightarrow> unit io" where
  "stagedTemp tmp content mode uid gid =
     bindE (setStat tmp (chmod mode)) (\<lambda>_.
     bindE (setStat tmp (chown uid gid)) (\<lambda>_.
     bindE (writeAt tmp content) (\<lambda>_.
     bindE effectless (\<lambda>_. effectless))))"

definition syncDir :: "string \<Rightarrow> unit io" where
  "syncDir path =
     bindE (lstat (Dir path)) (\<lambda>_.
     bindE (attempt effectless) (\<lambda>sync.
     bindE (attempt effectless) (\<lambda>close.
     case (sync, close) of
       (Inr _, Inr _) \<Rightarrow> ret ()
     | _ \<Rightarrow> throw ((case sync of Inl e \<Rightarrow> e | Inr _ \<Rightarrow> []) @ (case close of Inl e \<Rightarrow> e | Inr _ \<Rightarrow> [])))))"

lemma writeTemp_stages:
  "writeTemp tmp path content mode uid gid =
     bindE (stagedTemp tmp content mode uid gid) (\<lambda>_. bindE (rename tmp path) (\<lambda>_. syncDir path))"
  unfolding writeTemp_def stagedTemp_def syncDir_def bindE_assoc by (rule refl)

lemma quiet_stagedTemp: "keeps (quiet {tmp}) (stagedTemp tmp content mode uid gid)"
  unfolding stagedTemp_def by (intro keeps_quiet keeps_effectless [THEN same_files_quiet]) simp_all

lemma reads_syncDir: "keeps same_files (syncDir path)"
  unfolding syncDir_def by (intro keeps_reading) 

lemma stagedTemp_Inr:
  assumes "stagedTemp tmp content mode uid gid w = (Inr u, w')" and "map_of (w_FS w) tmp = Some \<lparr>nd_Stat = temp_stat, nd_Data = []\<rparr>"
  shows "map_of (w_FS w') tmp = Some (newNode content mode uid gid)"
proof -
  from assms(1) obtain w1 w2 w3 w4 where s: "setStat tmp (chmod mode) w = (Inr (), w1)" "setStat tmp (chown uid gid) w1 = (Inr (), w2)"
      "writeAt tmp content w2 = (Inr (), w3)" "effectless w3 = (Inr (), w4)" "effectless w4 = (Inr u, w')"
    by (auto simp: stagedTemp_def bindE_Inr)
  have "map_of (w_FS w2) tmp = Some \<lparr>nd_Stat = chown uid gid (chmod mode temp_stat), nd_Data = []\<rparr>"
    using setStat_Inr [OF s(1)] setStat_Inr [OF s(2)] assms(2) by auto
  from writeAt_Inr [OF s(3) this] have "map_of (w_FS w3) tmp = Some (newNode content mode uid gid)" by (simp add: newNode_def)
  then show ?thesis
    using reading.keepsD [OF keeps_effectless s(4)] reading.keepsD [OF keeps_effectless s(5)] by (simp add: same_files_def)
qed

lemma writeTemp_atomic:
  assumes "writeTemp tmp path content mode uid gid w = (r, w')" and "tmp \<noteq> path"
    and "map_of (w_FS w) tmp = Some \<lparr>nd_Stat = temp_stat, nd_Data = []\<rparr>"
  shows "map_of (w_FS w') path = (if isl r then map_of (w_FS w) path else Some (newNode content mode uid gid))
    \<or> map_of (w_FS w') path = Some (newNode content mode uid gid)"
  using assms(1) unfolding writeTemp_stages
proof (cases rule: bindE_cases)
  case (failed e)
  from quietly.keepsD [OF quiet_stagedTemp failed(1)] assms(2) failed(2) show ?thesis by (simp add: quiet_def only_paths_def)
next
  case (continued u w1)
  from quietly.keepsD [OF quiet_stagedTemp continued(1)] assms(2) have p1: "map_of (w_FS w1) path = map_of (w_FS w) path"
    by (simp add: quiet_def only_paths_def)
  from continued(2) show ?thesis
  proof (cases rule: bindE_cases)
    case (failed e)
    with p1 rename_Inl [OF failed(1)] show ?thesis by simp
  next
    case (continued v w2)
    have "map_of (w_FS w2) path = Some (newNode content mode uid gid)"
      using rename_Inr [OF continued(1)] stagedTemp_Inr [OF \<open>stagedTemp tmp content mode uid gid w = (Inr u, w1)\<close> assms(3)] by simp
    with reading.keepsD [OF reads_syncDir continued(2)] show ?thesis by (simp add: same_files_def)
  qed
qed

lemma quiet_writeTemp: "keeps (quiet {tmp, path}) (writeTemp tmp path content mode uid gid)"
  unfolding writeTemp_stages
  by (intro keeps_quiet quiet_stagedTemp [THEN keeps_mono] reads_syncDir [THEN same_files_quiet]) simp_all

lemma quiet_writeFile: "keeps (quiet (insert path (Collect scratch))) (writeFile env path content mode uid gid)"
proof -
  have t: "scratch (tempPath env (Dir path) ''.hostlens-'' w)" for w by (rule scratch_temp)
  have "keeps (quiet (insert path (Collect scratch)))
      (bindE (create tmp temp_stat) (\<lambda>_. deferred (remove tmp) (writeTemp tmp path content mode uid gid)))" if "scratch tmp" for tmp
    using that by (intro keeps_quiet quietly.keeps_deferred quiet_writeTemp [THEN keeps_mono]) auto
  then show ?thesis unfolding writeFile_def using t by (simp add: keeps_def bindE_def asking_def)
qed

lemma IsRegular_newNode: "mode AND S_IFMT = 0 \<Longrightarrow> IsRegular (nd_Stat (newNode content mode uid gid))"
  by (simp add: newNode_def IsRegular_def chown_def chmod_def temp_stat_def S_IFMT_def S_IFREG_def bit.conj_disj_distrib2)

lemma Perm_newNode: "Perm (nd_Stat (newNode content mode uid gid)) = mode AND 0x1FF"
  by (simp add: newNode_def Perm_def chown_def chmod_def temp_stat_def S_IFMT_def bit.conj_disj_distrib2)

lemma newNode_simps:
  "nd_Data (newNode content mode uid gid) = content" "st_Uid (nd_Stat (newNode content mode uid gid)) = word_of_int uid"
  "st_Gid (nd_Stat (newNode content mode uid gid)) = word_of_int gid"
  by (simp_all add: newNode_def chown_def chmod_def)

lemma writeFile_cases:
  assumes "writeFile env path content mode uid gid w = (r, w')" and ne: "tempPath env (Dir path) ''.hostlens-'' w \<noteq> path"
  shows "isl r \<and> map_of (w_FS w') path = map_of (w_FS w) path \<or> map_of (w_FS w') path = Some (newNode content mode uid gid)"
proof -
  let ?tmp = "tempPath env (Dir path) ''.hostlens-'' w"
  from assms(1) have "bindE (create ?tmp temp_stat) (\<lambda>_. deferred (remove ?tmp) (writeTemp ?tmp path content mode uid gid)) w = (r, w')"
    by (simp add: writeFile_def bindE_def)
  then show ?thesis
  proof (cases rule: bindE_cases)
    case (failed e)
    from quietly.keepsD [OF quiet_create [of ?tmp "{?tmp}"] failed(1)] ne failed(2) show ?thesis by (simp add: quiet_def only_paths_def)
  next
    case (continued u w1)
    from quietly.keepsD [OF quiet_create [of ?tmp "{?tmp}"] continued(1)] ne
    have p1: "map_of (w_FS w1) path = map_of (w_FS w) path" by (simp add: quiet_def only_paths_def)
    from continued(2) obtain w2 where wt: "writeTemp ?tmp path content mode uid gid w1 = (r, w2)" and w': "w' = snd (remove ?tmp w2)"
      by (auto simp: deferred_def split: prod.splits)
    from quiet_remove [of ?tmp "{?tmp}"] ne have "map_of (w_FS w') path = map_of (w_FS w2) path"
      unfolding w' by (simp add: keeps_def quiet_def only_paths_def)
    with writeTemp_atomic [OF wt ne] create_Inr [OF continued(1)] p1 show ?thesis by (auto split: if_splits)
  qed
qed

lemma writeFile_only:
  assumes "writeFile env path content mode uid gid w = (r, w')"
  shows "only_paths {path, tempPath env (Dir path) ''.hostlens-'' w} w w'"
proof -
  let ?tmp = "tempPath env (Dir path) ''.hostlens-'' w"
  have "keeps (quiet {path, ?tmp}) (bindE (create ?tmp temp_stat) (\<lambda>_. deferred (remove ?tmp) (writeTemp ?tmp path content mode uid gid)))"
    by (intro keeps_quiet quietly.keeps_deferred quiet_writeTemp [THEN keeps_mono]) simp_all
  moreover have "bindE (create ?tmp temp_stat) (\<lambda>_. deferred (remove ?tmp) (writeTemp ?tmp path content mode uid gid)) w = (r, w')"
    using assms by (simp add: writeFile_def bindE_def)
  ultimately show ?thesis using quietly.keepsD unfolding quiet_def by blast
qed

text \<open>The parent loop does not run out of fuel on a clean absolute path.\<close>

lemma trustedParent_fuel:
  assumes "\<forall>e\<in>set es. good_elem e" and "length es < fuel"
  shows "trustedParent fuel (abs_path es) w \<noteq> (Inl [Msg ''out of fuel''], w')"
  using assms
proof (induction es arbitrary: fuel w rule: rev_induct)
  case Nil
  then obtain f where f: "fuel = Suc f" by (cases fuel) auto
  have "trustedDirectory p w \<noteq> (Inl [Msg ''out of fuel''], w')" for p w
    by (auto simp: trustedDirectory_def bindE_def effectless_def sys_def Let_def split: option.splits sum.splits)
  moreover have "lstat p w \<noteq> (Inl [Msg e], w')" for p e w
    by (auto simp: lstat_def sys_def Let_def split: option.splits sum.splits)
  ultimately show ?case
    by (auto simp: f abs_path_def bindE_def attempt_def split: prod.splits sum.splits if_splits)
next
  case (snoc e es)
  then obtain f where f: "fuel = Suc f" "length es < f" by (cases fuel) auto
  have d: "Dir (abs_path (es @ [e])) = abs_path es" using Dir_abs_path [OF snoc.prems(1)] by simp
  have "trustedDirectory p w \<noteq> (Inl [Msg ''out of fuel''], w')" for p w
    by (auto simp: trustedDirectory_def bindE_def effectless_def sys_def Let_def split: option.splits sum.splits)
  moreover have "lstat p w \<noteq> (Inl [Msg e], w')" for p e w
    by (auto simp: lstat_def sys_def Let_def split: option.splits sum.splits)
  ultimately show ?case
    using snoc.IH [OF _ f(2)] snoc.prems(1)
    by (auto simp: f(1) d bindE_def attempt_def split: prod.splits sum.splits if_splits)
qed

section \<open>Properties\<close>

text \<open>
  C37: replacing a file is atomic: whichever system call fails, the target holds either what it held
  before, and then the caller is told so, or exactly the new content with the requested mode, owner
  and group; success means the new file is there. No other path is touched but the temporary one.
\<close>

theorem write_atomic:
  assumes "writeFile env path content mode uid gid w = (r, w')" and "tempPath env (Dir path) ''.hostlens-'' w \<noteq> path"
  shows "(isl r \<and> map_of (w_FS w') path = map_of (w_FS w) path
      \<or> (\<exists>n. map_of (w_FS w') path = Some n \<and> nd_Data n = content \<and> Perm (nd_Stat n) = mode AND 0x1FF
           \<and> st_Uid (nd_Stat n) = word_of_int uid \<and> st_Gid (nd_Stat n) = word_of_int gid))
    \<and> only_paths {path, tempPath env (Dir path) ''.hostlens-'' w} w w'"
  using writeFile_cases [OF assms] writeFile_only [OF assms(1)] by (auto simp: newNode_simps Perm_newNode)

definition example_target_dir :: world where
  "example_target_dir = \<lparr>w_FS = [(''/t'', \<lparr>nd_Stat = backup_dir_stat, nd_Data = []\<rparr>)], w_Tick = 0, w_Fault = (\<lambda>_. None),
     w_Partial = 0, w_Euid = 0, w_Log = []\<rparr>"

definition example_names :: lifecycle_env where
  "example_names = \<lparr>le_Release = example_release_env, le_Source = (\<lambda>_. Inr example_members),
     le_Provenance = \<lparr>json_value = (\<lambda>_. Inl ''none''), json_end = (\<lambda>_. True)\<rparr>, le_MarshalProvenance = (\<lambda>_. Inr ''{}''),
     le_Units = (\<lambda>_. Inl ''none''), le_Group = (\<lambda>_ _. Inl ''none''), le_User = (\<lambda>_ _. Inl ''none''),
     le_UnitState = (\<lambda>_ _. Inl ''none''), le_LookPath = (\<lambda>_. Inl ''none''),
     le_Config = \<lparr>first_document = (\<lambda>_ c. Inr c), second_at_end = (\<lambda>_. True)\<rparr>,
     le_Profile = \<lparr>first_document = (\<lambda>_ p. Inr p), second_at_end = (\<lambda>_. True)\<rparr>,
     le_Document = (\<lambda>_. Inl ''none''), le_MarshalDocument = (\<lambda>_. Inr ''yaml''), le_Random = (\<lambda>_. 0), le_Probes = (\<lambda>_ _. [])\<rparr>"

theorem write_atomic_witness:
  "\<exists>n. map_of (w_FS (snd (writeFile example_names ''/t/f'' ''abc'' 0x1A4 0 0 example_target_dir))) ''/t/f'' = Some n
     \<and> nd_Data n = ''abc'' \<and> Perm (nd_Stat n) = 0x1A4"
proof -
  let ?x = "writeFile example_names ''/t/f'' ''abc'' 0x1A4 0 0 example_target_dir"
  have a: "?x = (fst ?x, snd ?x)" by simp
  have t: "tempPath example_names (Dir ''/t/f'') ''.hostlens-'' example_target_dir \<noteq> ''/t/f''" by code_simp
  have "\<not> isl (fst ?x)" by code_simp
  with write_atomic [OF a t] show ?thesis by auto
qed

end
