(* ===== verification/Apply_Correct.thy ===== *)
theory Apply_Correct
  imports Lifecycle_Files
begin

text \<open>
  What an installation or upgrade guarantees. At every point of \<open>Apply\<close> the local variables record
  how to undo what has been done: this is the invariant \<open>restorable\<close>, kept by every stage. So a
  rollback that reports no error leaves every file as it was, and nothing that existed is lost but
  the files that an upgrade replaces.
\<close>

section \<open>Invariants of stages\<close>

definition stable :: "(apply_state \<Rightarrow> world \<Rightarrow> bool) \<Rightarrow> 'a stage \<Rightarrow> bool" where
  "stable P m \<longleftrightarrow> (\<forall>st w. P st w \<longrightarrow> P (fst (snd (m st w))) (snd (snd (m st w))))"

lemma stableI: "(\<And>st w r st' w'. P st w \<Longrightarrow> m st w = (r, st', w') \<Longrightarrow> P st' w') \<Longrightarrow> stable P m"
  unfolding stable_def by (metis prod.collapse)

lemma stableD: "stable P m \<Longrightarrow> P st w \<Longrightarrow> m st w = (r, st', w') \<Longrightarrow> P st' w'"
  unfolding stable_def by (metis fst_conv snd_conv)

lemma bindA_cases:
  assumes "bindA m f st w = (r, st', w')"
  obtains (failed) e where "m st w = (Inl e, st', w')" "r = Inl e"
  | (continued) x st1 w1 where "m st w = (Inr x, st1, w1)" "f x st1 w1 = (r, st', w')"
  using assms by (auto simp: bindA_def split: prod.splits sum.splits)

lemma doing_eq: "doing m st w = (r, st', w') \<longleftrightarrow> m w = (r, w') \<and> st' = st"
  by (auto simp: doing_def split: prod.split)

lemma noting_eq: "noting f st w = (r, st', w') \<longleftrightarrow> r = Inr () \<and> st' = f st \<and> w' = w"
  by (auto simp: noting_def)

lemma stable_bindA_result:
  assumes "stable P m" and "\<And>st w x st' w'. m st w = (Inr x, st', w') \<Longrightarrow> Q x" and "\<And>x. Q x \<Longrightarrow> stable P (f x)"
  shows "stable P (bindA m f)"
proof (rule stableI)
  fix st w r st' w'
  assume p: "P st w" and b: "bindA m f st w = (r, st', w')"
  from b show "P st' w'"
  proof (cases rule: bindA_cases)
    case (failed e)
    with assms(1) p show ?thesis by (blast dest: stableD)
  next
    case (continued x st1 w1)
    from stableD [OF assms(1) p continued(1)] assms(3) [OF assms(2) [OF continued(1)]] continued(2) show ?thesis
      by (blast dest: stableD)
  qed
qed

lemma stable_bindA: "stable P m \<Longrightarrow> (\<And>x. stable P (f x)) \<Longrightarrow> stable P (bindA m f)"
  by (rule stable_bindA_result [where Q = "\<lambda>_. True"]) auto

lemma stable_noting: "(\<And>st w. P st w \<Longrightarrow> P (f st) w) \<Longrightarrow> stable P (noting f)"
  by (auto simp: stable_def noting_def)

lemma stable_if: "(b \<Longrightarrow> stable P x) \<Longrightarrow> (\<not> b \<Longrightarrow> stable P y) \<Longrightarrow> stable P (if b then x else y)"
  by simp

lemma stable_sum:
  "(\<And>a. r = Inl a \<Longrightarrow> stable P (f a)) \<Longrightarrow> (\<And>b. r = Inr b \<Longrightarrow> stable P (g b)) \<Longrightarrow>
   stable P (case r of Inl a \<Rightarrow> f a | Inr b \<Rightarrow> g b)"
  by (cases r) simp_all

text \<open>
  The interface of an invariant that does not depend on certain paths: a call that touches only
  these keeps it, so the stages are checked one primitive at a time.
\<close>

locale stage_invariant =
  fixes P :: "apply_state \<Rightarrow> world \<Rightarrow> bool" and S :: "string set"
  assumes frame: "P st w \<Longrightarrow> quiet S w w' \<Longrightarrow> P st w'"
begin

lemma stable_doing: "keeps (quiet S) m \<Longrightarrow> stable P (doing m)"
  by (rule stableI) (auto simp: doing_eq intro: frame quietly.keepsD)

lemma stable_reading: "keeps same_files m \<Longrightarrow> stable P (doing m)"
  by (rule stable_doing) (rule same_files_quiet)

lemma stable_each: "(\<And>x. x \<in> set xs \<Longrightarrow> stable P (f x)) \<Longrightarrow> stable P (each f xs)"
proof (induction xs)
  case Nil
  show ?case unfolding each.simps by (rule stable_reading) (rule reading.keeps_ret)
next
  case (Cons x xs)
  then show ?case unfolding each.simps by (intro stable_bindA) simp_all
qed

lemma stable_skip: "stable P (doing (ret x))" and stable_throw: "stable P (doing (throw e))" and stable_fail: "stable P (doing (fail e'))"
  by (rule stable_reading, rule reading.keeps_ret reading.keeps_throw reading.keeps_fail)+

lemma stable_run: "stable P (doing (run c))"
  by (rule stable_doing) (rule quiet_run)

lemma stable_asking: "stable P (doing (asking f))"
  by (rule stable_reading) (rule keeps_asking)

lemmas stable_intros = stable_if stable_sum stable_each stable_skip stable_throw stable_fail stable_run stable_asking stable_bindA

end

section \<open>What a snapshot says\<close>

definition faithful :: "snapshot \<Rightarrow> node option \<Rightarrow> bool" where
  "faithful s f =
     (case f of
        None \<Rightarrow> \<not> sn_exists s
      | Some n \<Rightarrow> sn_exists s \<and> sn_data s = nd_Data n \<and> sn_mode s = Perm (nd_Stat n) \<and> IsRegular (nd_Stat n)
          \<and> sn_uid s = uint (st_Uid (nd_Stat n)) \<and> sn_gid s = uint (st_Gid (nd_Stat n)))"

lemma trusted_Inr:
  assumes "trusted p w = (Inr r, w')"
  shows "same_files w w' \<and> (case r of None \<Rightarrow> honest w \<longrightarrow> map_of (w_FS w) p = None
    | Some info \<Rightarrow> \<exists>n. map_of (w_FS w) p = Some n \<and> nd_Stat n = info \<and> IsRegular info)"
proof -
  from assms obtain w1 x w2 where t: "trustedParent (Suc (length p)) (Dir p) w = (Inr (), w1)" "lstat p w1 = (x, w2)"
    and rest: "(case x of Inl err \<Rightarrow> (if not_exist err then ret None else throw err)
     | Inr info \<Rightarrow>
         (if \<not> IsRegular info \<or> Perm info AND group_other_write \<noteq> 0 then fail ''untrusted file''
          else if st_Uid info \<noteq> 0 then fail ''untrusted owner''
          else ret (Some info))) w2 = (Inr r, w')"
    unfolding trusted_def bindE_Inr attempt_Inr by auto
  have r: "w2 = w'" "case x of Inl err \<Rightarrow> r = None \<and> not_exist err | Inr info \<Rightarrow> r = Some info \<and> IsRegular info"
    using rest by (cases x; auto split: if_splits)+
  have s: "same_files w w1" "same_files w1 w'"
    using reading.keepsD [OF reads_trustedParent t(1)] reading.keepsD [OF keeps_lstat t(2)] r(1) by simp_all
  show ?thesis
  proof (cases x)
    case (Inl err)
    with r(2) t(2) [unfolded r(1)] s show ?thesis using lstat_missing [of p w1 err w'] by (auto simp: honest_same [OF s(1)]) (auto simp: same_files_def)
  next
    case (Inr info)
    with r(2) t(2) [unfolded r(1)] s show ?thesis using lstat_Inr [of p w1 info w'] by (auto simp: same_files_def)
  qed
qed

lemma capture_Inr:
  assumes "capture p w = (Inr s, w')" and "honest w"
  shows "same_files w w' \<and> sn_path s = p \<and> faithful s (map_of (w_FS w) p)"
proof -
  from assms(1) obtain info w1 where t: "trusted p w = (Inr info, w1)"
    and c: "case info of None \<Rightarrow> w' = w1 \<and> s = \<lparr>sn_path = p, sn_data = [], sn_mode = 0, sn_uid = 0, sn_gid = 0, sn_exists = False\<rparr>
      | Some i \<Rightarrow> \<exists>data. readFile p w1 = (Inr data, w') \<and> s = \<lparr>sn_path = p, sn_data = data, sn_mode = Perm i,
          sn_uid = uint (st_Uid i), sn_gid = uint (st_Gid i), sn_exists = True\<rparr>"
    by (auto simp: capture_def bindE_Inr split: option.splits)
  note i = trusted_Inr [OF t]
  show ?thesis
  proof (cases info)
    case None
    with i c assms(2) show ?thesis by (simp add: faithful_def)
  next
    case (Some i')
    with c obtain data where d: "readFile p w1 = (Inr data, w')" "sn_path s = p" "sn_exists s" "sn_data s = data" "sn_mode s = Perm i'"
      "sn_uid s = uint (st_Uid i')" "sn_gid s = uint (st_Gid i')" by auto
    from i Some obtain n where n: "map_of (w_FS w) p = Some n" "nd_Stat n = i'" "IsRegular i'" by auto
    have "same_files w w1" "same_files w1 w'" using i reading.keepsD [OF keeps_readFile d(1)] by simp_all
    with d n readFile_Inr [OF d(1)] show ?thesis by (auto simp: faithful_def same_files_def)
  qed
qed

section \<open>The invariant of an application\<close>

definition changedPaths :: "apply_state \<Rightarrow> string set" where
  "changedPaths st = sn_path ` set (as_Changed st)"

text \<open>The paths that the rollback touches.\<close>

definition undone :: "apply_state \<Rightarrow> string set" where
  "undone st = changedPaths st \<union> set (as_Dirs st) \<union> Collect scratch"

text \<open>
  Since the beginning, in world \<open>w0\<close>, only recorded paths have changed; the recorded directories are
  new, and the first snapshot of a path is what was there; only the paths \<open>rep\<close> may have existed.
\<close>

definition explained :: "world \<Rightarrow> string set \<Rightarrow> string \<Rightarrow> snapshot \<Rightarrow> bool" where
  "explained w0 rep p s \<longleftrightarrow> faithful s (map_of (w_FS w0) p) \<and> (p \<in> rep \<or> map_of (w_FS w0) p = None)"

definition firstSnapshot :: "apply_state \<Rightarrow> string \<Rightarrow> snapshot option" where
  "firstSnapshot st p = find (\<lambda>s. sn_path s = p) (as_Changed st)"

definition restorable :: "world \<Rightarrow> string set \<Rightarrow> apply_state \<Rightarrow> world \<Rightarrow> bool" where
  "restorable w0 rep st w \<longleftrightarrow>
     honest w0 \<and> w_Fault w = w_Fault w0 \<and> (as_Backup st \<noteq> [] \<longrightarrow> scratch (as_Backup st))
     \<and> only_paths (undone st) w0 w
     \<and> (\<forall>p\<in>set (as_Dirs st). \<not> scratch p \<longrightarrow> map_of (w_FS w0) p = None)
     \<and> (\<forall>p s. \<not> scratch p \<longrightarrow> p \<notin> set (as_Dirs st) \<longrightarrow> firstSnapshot st p = Some s \<longrightarrow> explained w0 rep p s)"

lemma restorable_frame:
  assumes "restorable w0 rep st w" and "quiet (undone st) w w'"
  shows "restorable w0 rep st w'"
proof -
  have "only_paths (undone st) w0 w'" using assms touching.trans [of "undone st" w0 w w'] by (auto simp: restorable_def quiet_def)
  then show ?thesis using assms by (simp add: restorable_def quiet_def)
qed

interpretation restoring: stage_invariant "restorable w0 rep" "Collect scratch" for w0 rep
proof
  fix st w w'
  assume u: "restorable w0 rep st w" and q: "quiet (Collect scratch) w w'"
  show "restorable w0 rep st w'" by (rule restorable_frame [OF u]) (rule quiet_mono [OF q], simp add: undone_def)
qed

text \<open>While the directories are made, no file has been changed.\<close>

definition untouched :: "world \<Rightarrow> string set \<Rightarrow> apply_state \<Rightarrow> world \<Rightarrow> bool" where
  "untouched w0 rep st w \<longleftrightarrow> restorable w0 rep st w \<and> as_Changed st = []"

interpretation starting: stage_invariant "untouched w0 rep" "Collect scratch" for w0 rep
  by unfold_locales (auto simp: untouched_def intro: restoring.frame)

lemma restorable_honest: "restorable w0 rep st w \<Longrightarrow> honest w"
  by (simp add: restorable_def honest_def)

lemma restorable_elsewhere: "restorable w0 rep st w \<Longrightarrow> p \<notin> undone st \<Longrightarrow> map_of (w_FS w) p = map_of (w_FS w0) p"
  by (simp add: restorable_def only_paths_def)

section \<open>The stages keep it\<close>

lemma create_quiet_Inl: "create p st w = (Inl e, w') \<Longrightarrow> quiet {} w w'"
  by (auto simp: create_def sys_def Let_def quiet_def only_paths_def split: option.splits sum.splits if_splits)

lemma untouched_make:
  assumes u: "untouched w0 rep st w" and none: "map_of (w_FS w) p = None"
    and r: "bindA (doing (create p install_dir_stat)) (\<lambda>_.
      bindA (noting (\<lambda>st. st\<lparr>as_Dirs := as_Dirs st @ [p]\<rparr>)) (\<lambda>_. doing (setStat p (chown 0 gid)))) st w = (r, st', w')"
  shows "untouched w0 rep st' w'"
  using r
proof (cases rule: bindA_cases)
  case (failed e)
  then have "create p install_dir_stat w = (Inl e, w')" "st' = st" by (simp_all add: doing_eq)
  with u starting.frame [OF u quiet_mono [OF create_quiet_Inl]] show ?thesis by blast
next
  case (continued x st1 w1)
  then have c: "create p install_dir_stat w = (Inr (), w1)" "st1 = st" by (simp_all add: doing_eq)
  let ?st = "st\<lparr>as_Dirs := as_Dirs st @ [p]\<rparr>"
  have set: "setStat p (chown 0 gid) w1 = (r, w')" "st' = ?st"
    using continued(2) c(2) by (auto simp: bindA_def noting_def doing_eq)
  have q: "quiet {p} w w1" "quiet {p} w1 w'"
    using quietly.keepsD [OF quiet_create [of p "{p}"] c(1)] quietly.keepsD [OF quiet_setStat [of p "{p}"] set(1)] by simp_all
  have d: "map_of (w_FS w0) p = None" if "\<not> scratch p"
  proof (cases "p \<in> set (as_Dirs st)")
    case True
    with u that show ?thesis by (auto simp: untouched_def restorable_def)
  next
    case False
    with that u none show ?thesis using restorable_elsewhere [of w0 rep st w p] by (simp add: untouched_def undone_def changedPaths_def)
  qed
  have sub: "undone st \<subseteq> undone ?st" "p \<in> undone ?st" by (auto simp: undone_def changedPaths_def)
  have "only_paths (undone ?st) w0 w" using u sub by (auto simp: untouched_def restorable_def only_paths_def)
  then have "restorable w0 rep ?st w" using u d by (auto simp: untouched_def restorable_def firstSnapshot_def)
  moreover have "quiet (undone ?st) w w'"
    using quietly.trans [OF quiet_mono [OF q(1)] quiet_mono [OF q(2)], of "undone ?st"] sub(2) by simp
  ultimately show ?thesis using u set(2) restorable_frame by (simp add: untouched_def)
qed

lemma untouched_makeDirectory: "stable (untouched w0 rep) (makeDirectory m item)"
proof -
  let ?p = "managerPath m (fst item)"
  show ?thesis
  proof (rule stableI)
    fix st w r st' w'
    assume u: "untouched w0 rep st w" and b: "makeDirectory m item st w = (r, st', w')"
    from b [unfolded makeDirectory_def Let_def] show "untouched w0 rep st' w'"
    proof (cases rule: bindA_cases)
      case (failed e)
      then show ?thesis by (simp add: doing_eq)
    next
      case (continued x st1 w1)
      then have l: "lstat ?p w = (x, w1)" "st1 = st" by (simp_all add: doing_eq)
      have s: "same_files w w1" by (rule reading.keepsD [OF keeps_lstat l(1)])
      have u1: "untouched w0 rep st w1"
        using stableD [OF starting.stable_reading [OF keeps_lstat] u, of ?p x st w1] l by (simp add: doing_eq)
      show ?thesis
      proof (cases "\<exists>err. x = Inl err \<and> not_exist err")
        case True
        then obtain err where x: "x = Inl err" "not_exist err" by blast
        have "map_of (w_FS w) ?p = None"
          using lstat_missing [OF l(1) [unfolded x(1)] x(2)] u restorable_honest by (auto simp: untouched_def)
        with s have "map_of (w_FS w1) ?p = None" by (simp add: same_files_def)
        from untouched_make [OF u1 this] continued(2) x l(2) show ?thesis by simp
      next
        case False
        with continued(2) u1 l(2) show ?thesis by (auto simp: doing_eq split: sum.splits if_splits)
      qed
    qed
  qed
qed

lemma find_append: "find P (xs @ ys) = (case find P xs of None \<Rightarrow> find P ys | Some x \<Rightarrow> Some x)"
  by (induction xs) auto

lemma restorable_put:
  assumes "replace \<Longrightarrow> managerPath m target \<in> rep"
  shows "stable (restorable w0 rep) (put env m target content mode gid replace)"
proof (rule stableI)
  let ?p = "managerPath m target"
  fix st w r st' w'
  assume u: "restorable w0 rep st w" and b: "put env m target content mode gid replace st w = (r, st', w')"
  from b [unfolded put_def Let_def] show "restorable w0 rep st' w'"
  proof (cases rule: bindA_cases)
    case (failed e)
    then show ?thesis using stableD [OF restoring.stable_reading [OF reads_capture] u] by blast
  next
    case (continued old st1 w1)
    then have c: "capture ?p w = (Inr old, w1)" "st1 = st" by (simp_all add: doing_eq)
    have u1: "restorable w0 rep st w1" using stableD [OF restoring.stable_reading [OF reads_capture] u continued(1)] c(2) by simp
    note old = capture_Inr [OF c(1) restorable_honest [OF u]]
    show ?thesis
    proof (cases "sn_exists old \<and> \<not> replace")
      case True
      with continued(2) u1 c(2) show ?thesis by (simp add: doing_eq)
    next
      case False
      let ?st = "st\<lparr>as_Changed := as_Changed st @ [old]\<rparr>"
      have wr: "writeFile env ?p content mode 0 gid w1 = (r, w')" "st' = ?st"
        using continued(2) False c(2) by (auto simp: bindA_def noting_def doing_eq)
      have sub: "undone st \<subseteq> undone ?st" "insert ?p (Collect scratch) \<subseteq> undone ?st" using old by (auto simp: undone_def changedPaths_def)
      have ex: "explained w0 rep ?p old" if "?p \<notin> undone st"
        using restorable_elsewhere [OF u that] old False assms by (cases "map_of (w_FS w0) ?p") (auto simp: explained_def faithful_def)
      have f: "explained w0 rep p s" if p: "\<not> scratch p" "p \<notin> set (as_Dirs st)" "firstSnapshot ?st p = Some s" for p s
      proof (cases "firstSnapshot st p")
        case None
        then have "p \<notin> changedPaths st" by (auto simp: firstSnapshot_def find_None_iff changedPaths_def)
        with None p old ex show ?thesis by (auto simp: firstSnapshot_def find_append undone_def split: if_splits)
      next
        case (Some s')
        with p u show ?thesis by (auto simp: firstSnapshot_def find_append restorable_def)
      qed
      have "only_paths (undone ?st) w0 w1" using u1 sub(1) by (auto simp: restorable_def only_paths_def)
      then have "restorable w0 rep ?st w1" using u1 f by (simp add: restorable_def)
      then have "restorable w0 rep ?st w'"
        by (rule restorable_frame) (rule quiet_mono [OF quietly.keepsD [OF quiet_writeFile wr(1)] sub(2)])
      with wr(2) show ?thesis by simp
    qed
  qed
qed

lemmas quiet_reads = keeps_lstat [THEN same_files_quiet] keeps_readFile [THEN same_files_quiet] keeps_effectless [THEN same_files_quiet]
  keeps_asking [THEN same_files_quiet] reads_lifecycle [THEN same_files_quiet]

lemma quiet_serviceAccounts: "keeps (quiet S) (serviceAccounts env)"
  unfolding serviceAccounts_def createGroup_def createUser_def lookupID_def by (intro keeps_quiet quiet_reads)

lemma quiet_backupFile:
  assumes "t \<in> set backupTargets" and "dir = tempPath env d ''.rollback-'' w"
  shows "keeps (quiet (Collect scratch)) (backupFile env m dir t)"
proof -
  let ?copy = "JoinPath dir (Base t)"
  have "insert ?copy (Collect scratch) \<subseteq> Collect scratch" using scratch_copy [OF assms(1)] assms(2) by auto
  from keeps_mono [OF quiet_writeFile this] show ?thesis
    unfolding backupFile_def Let_def by (intro keeps_quiet quiet_reads)
qed

text \<open>
  An invariant that depends only on the recorded snapshots and directories, and accepts any rollback
  directory with a temporary name: the stages around the installation of files keep it.
\<close>

locale bookkeeping_invariant = stage_invariant P "Collect scratch" for P +
  assumes bookkeeping: "P st w \<Longrightarrow> as_Changed st' = as_Changed st \<Longrightarrow> as_Dirs st' = as_Dirs st \<Longrightarrow>
    as_Backup st' = as_Backup st \<or> scratch (as_Backup st') \<Longrightarrow> P st' w"
begin

lemma stable_makeBackup: "stable P (makeBackup env m)"
  unfolding makeBackup_def
proof (rule stable_bindA_result)
  let ?d = "managerPath m ''/etc/hostlens''"
  show "stable P (doing (asking (tempPath env ?d ''.rollback-'')))" by (rule stable_asking)
  show "\<exists>v. dir = tempPath env ?d ''.rollback-'' v" if "doing (asking (tempPath env ?d ''.rollback-'')) st w = (Inr dir, st', w')" for dir st w st' w'
    using that by (auto simp: doing_eq)
  fix dir
  assume "\<exists>v. dir = tempPath env ?d ''.rollback-'' v"
  then obtain v where dir: "dir = tempPath env ?d ''.rollback-'' v" by blast
  have sd: "scratch dir" unfolding dir by (rule scratch_backup)
  show "stable P (bindA (doing (create dir backup_dir_stat)) (\<lambda>_.
      bindA (noting (\<lambda>st. st\<lparr>as_Backup := dir\<rparr>)) (\<lambda>_. doing (bindE (seqE (backupFile env m dir) backupTargets) (\<lambda>_. ret ())))))"
  proof (intro stable_bindA stable_doing stable_noting)
    show "keeps (quiet (Collect scratch)) (create dir backup_dir_stat)" by (rule quiet_create) (simp add: sd)
    show "P (st\<lparr>as_Backup := dir\<rparr>) w" if "P st w" for st w
      by (rule bookkeeping [OF that]) (simp_all add: sd)
    show "keeps (quiet (Collect scratch)) (bindE (seqE (backupFile env m dir) backupTargets) (\<lambda>_. ret ()))"
      by (intro keeps_quiet quiet_backupFile [OF _ dir])
  qed
qed

lemma stable_prepareUpgrade: "stable P (prepareUpgrade env m)"
proof -
  have "stable P (each (\<lambda>unit. doing (run [''systemctl'', ''stop'', unit])) us)" for us by (intro stable_intros)
  then have "stable P stopPrior" by (simp add: stable_def stopPrior_def)
  moreover have "stable P (notePrior env unit)" for unit
    unfolding notePrior_def
    by (intro stable_bindA stable_reading reads_activeUnits stable_noting) (erule bookkeeping, simp_all)
  ultimately show ?thesis
    unfolding prepareUpgrade_def by (intro stable_bindA stable_makeBackup stable_each)
qed

lemma stable_startUnit: "stable P (startUnit env configured unit)"
  unfolding startUnit_def awaitReady_def
  by (intro stable_bindA stable_run stable_reading keeps_reading stable_noting) (erule bookkeeping, simp_all)

lemma stable_activate: "stable P (activate env m action start)"
proof -
  have "stable P (bindA (doing (loadInstalled env m)) (\<lambda>configured.
      if b \<and> \<not> ReadOnly configured then doing (fail e)
      else bindA (doing (run c)) (\<lambda>_. bindA (each (startUnit env configured) us) (\<lambda>_.
        if b then doing (run c') else doing (ret ())))))" for b e c us c'
    by (intro stable_intros stable_reading reads_loadInstalled stable_startUnit)
  then show ?thesis unfolding stable_def activate_def Let_def by blast
qed

end

interpretation recording: bookkeeping_invariant "restorable w0 rep" for w0 rep
  by unfold_locales (auto simp: restorable_def undone_def changedPaths_def firstSnapshot_def)

text \<open>The targets that replace what is there.\<close>

definition replacedPaths :: "manager \<Rightarrow> string set" where
  "replacedPaths m = managerPath m ` ({binaryPath, provenancePath} \<union> (\<lambda>n. ''/etc/systemd/system/'' @ n) ` set unitNames)"

lemma restorable_installFiles: "stable (restorable w0 (replacedPaths m)) (installFiles env m ids profiles data)"
  unfolding installFiles_def
  by (intro stable_bindA restoring.stable_each restoring.stable_reading reads_given restorable_put stable_noting)
    (auto simp: replacedPaths_def restorable_def undone_def changedPaths_def firstSnapshot_def)

lemma restorable_start: "honest w \<Longrightarrow> untouched w rep noChanges w"
  by (simp add: untouched_def restorable_def noChanges_def only_paths_def firstSnapshot_def)

lemma restorable_applySteps:
  assumes "applySteps env m action start profiles data noChanges w = (r, st, w')" and "honest w"
  shows "restorable w (replacedPaths m) st w'"
proof -
  let ?rep = "replacedPaths m"
  have rest: "stable (restorable w ?rep) (bindA (if action = ''upgrade'' then prepareUpgrade env m else doing (ret ())) (\<lambda>_.
     bindA (installFiles env m ids profiles data) (\<lambda>_. activate env m action start)))" for ids
    by (intro stable_bindA stable_if recording.stable_prepareUpgrade restoring.stable_skip restorable_installFiles recording.stable_activate)
  have u0: "untouched w ?rep noChanges w" by (rule restorable_start [OF assms(2)])
  have acc: "stable (untouched w ?rep) (doing (serviceAccounts env))" by (rule starting.stable_doing) (rule quiet_serviceAccounts)
  have dirs: "stable (untouched w ?rep) (makeDirectories m ids)" for ids
    unfolding makeDirectories_def by (intro starting.stable_each untouched_makeDirectory)
  from assms(1) [unfolded applySteps_def] show ?thesis
  proof (cases rule: bindA_cases)
    case (failed e)
    from stableD [OF acc u0 failed(1)] show ?thesis by (simp add: untouched_def)
  next
    case (continued ids st1 w1)
    note u1 = stableD [OF acc u0 continued(1)]
    from continued(2) show ?thesis
    proof (cases rule: bindA_cases)
      case (failed e)
      from stableD [OF dirs u1 failed(1)] show ?thesis by (simp add: untouched_def)
    next
      case (continued x st2 w2)
      from stableD [OF dirs u1 continued(1)] have "restorable w ?rep st2 w2" by (simp add: untouched_def)
      from stableD [OF rest this continued(2)] show ?thesis .
    qed
  qed
qed

section \<open>The rollback\<close>

text \<open>A call that fails says so: no failure is the empty list of errors, which is no error.\<close>

definition loud :: "'a io \<Rightarrow> bool" where
  "loud m \<longleftrightarrow> (\<forall>w e w'. m w = (Inl e, w') \<longrightarrow> e \<noteq> [])"

lemma loud_sys: "loud (sys call)"
  by (auto simp: loud_def sys_def Let_def split: option.splits sum.splits)

lemma loud_bindE: "loud m \<Longrightarrow> (\<And>x. loud (f x)) \<Longrightarrow> loud (bindE m f)"
  unfolding loud_def bindE_Inl by blast

lemma loud_throw: "e \<noteq> [] \<Longrightarrow> loud (throw e)"
  by (simp add: loud_def)

lemma loud_sum:
  "(\<And>a. r = Inl a \<Longrightarrow> loud (f a)) \<Longrightarrow> (\<And>b. r = Inr b \<Longrightarrow> loud (g b)) \<Longrightarrow> loud (case r of Inl a \<Rightarrow> f a | Inr b \<Rightarrow> g b)"
  by (cases r) simp_all

lemma loud_handled:
  assumes "loud m" and "\<And>r. (\<And>e. r = Inl e \<Longrightarrow> e \<noteq> []) \<Longrightarrow> loud (f r)"
  shows "loud (bindE (attempt m) f)"
  using assms unfolding loud_def by (auto simp: bindE_def attempt_def split: prod.splits) (metis)

lemma loud_ret: "loud (ret x)" and loud_asking: "loud (asking f)" and loud_attempt: "loud (attempt m)"
  by (simp_all add: loud_def attempt_def split: prod.split)

lemma loud_deferred: "loud m \<Longrightarrow> loud (deferred c m)"
  by (fastforce simp: loud_def deferred_def split: prod.splits)

lemma loud_calls: "loud (lstat p)" "loud effectless" "loud (remove p)" "loud (create p st)" "loud (setStat p f)" "loud (rename p q)"
  by (simp_all add: lstat_def effectless_def remove_def create_def setStat_def rename_def loud_sys)

lemma loud_writeAt: "loud (writeAt p c)"
  by (auto simp: loud_def writeAt_def Let_def split: option.splits)

lemma loud_run: "loud (run c)"
  using loud_calls(2) by (simp add: loud_def run_def)

lemma loud_writeFile: "loud (writeFile env p c mode uid gid)"
proof -
  have "loud (syncDir q)" for q
    unfolding syncDir_def by (intro loud_bindE loud_handled loud_calls) (auto intro!: loud_ret loud_throw split: sum.splits)
  then show ?thesis
    unfolding writeFile_def writeTemp_stages stagedTemp_def
    by (intro loud_bindE loud_asking loud_calls loud_deferred loud_writeAt)
qed

lemma removeIfThere_eq:
  "removeIfThere p w =
     (case remove p w of
        (Inl e, w') \<Rightarrow> (Inr (if not_exist e then None else Some e), w')
      | (Inr _, w') \<Rightarrow> (Inr None, w'))"
  by (simp add: removeIfThere_def bindE_def attempt_def split: prod.split sum.split)

lemma loud_restoreSnapshot: "loud (restoreSnapshot env s)"
proof -
  have r: "remove p w = (Inl e, w') \<Longrightarrow> e \<noteq> []" for p w e w' using loud_calls(3) by (auto simp: loud_def)
  have "loud (bindE (removeIfThere p) (\<lambda>r. case r of None \<Rightarrow> ret () | Some removeErr \<Rightarrow> throw removeErr))" for p
    by (auto simp: loud_def removeIfThere_eq bindE_def dest: r split: prod.splits sum.splits option.splits if_splits)
  then show ?thesis by (simp add: restoreSnapshot_def loud_writeFile)
qed

text \<open>Calls that all succeed, one after the other.\<close>

fun allSucceed :: "unit io list \<Rightarrow> world \<Rightarrow> world \<Rightarrow> bool" where
  "allSucceed [] w w' \<longleftrightarrow> w' = w"
| "allSucceed (m # ms) w w' \<longleftrightarrow> (\<exists>w1. m w = (Inr (), w1) \<and> allSucceed ms w1 w')"

lemma allSucceed_append: "allSucceed (ms @ ns) w w' \<longleftrightarrow> (\<exists>w1. allSucceed ms w w1 \<and> allSucceed ns w1 w')"
  by (induction ms arbitrary: w) auto

lemma joinError_none: "fold joinError ms (es, w) = ([], w') \<Longrightarrow> es = []"
proof (induction ms arbitrary: es w)
  case (Cons m ms)
  obtain e2 w2 where j: "joinError m (es, w) = (e2, w2)" by (cases "joinError m (es, w)")
  from Cons.prems j have "e2 = []" by (intro Cons.IH [of e2 w2]) simp
  with j show ?case by (auto simp: joinError_def split: prod.splits sum.splits)
qed simp

lemma joinError_all: "\<forall>m\<in>set ms. loud m \<Longrightarrow> fold joinError ms ([], w) = ([], w') \<Longrightarrow> allSucceed ms w w'"
proof (induction ms arbitrary: w)
  case (Cons m ms)
  obtain e2 w2 where j: "joinError m ([], w) = (e2, w2)" by (cases "joinError m ([], w)")
  with Cons.prems(2) have f: "fold joinError ms (e2, w2) = ([], w')" by simp
  from joinError_none [OF this] have "e2 = []" .
  with j Cons.prems(1) have "m w = (Inr (), w2)" by (auto simp: joinError_def loud_def split: prod.splits sum.splits)
  with Cons.IH Cons.prems(1) f \<open>e2 = []\<close> show ?case by auto
qed simp

lemma joinError_quiet: "\<forall>m\<in>set ms. keeps (quiet S) m \<Longrightarrow> quiet S w (snd (fold joinError ms (es, w)))"
proof (induction ms arbitrary: es w)
  case Nil
  show ?case by (simp add: quietly.refl)
next
  case (Cons m ms)
  obtain e2 w2 where j: "joinError m (es, w) = (e2, w2)" by (cases "joinError m (es, w)")
  have "quiet S w w2" using j Cons.prems by (auto simp: joinError_def split: prod.splits sum.splits intro: quietly.keepsD)
  from quietly.trans [OF this] Cons.IH [of w2 e2] Cons.prems j show ?case by simp
qed

lemma allSucceed_quiet: "allSucceed ms w w' \<Longrightarrow> \<forall>m\<in>set ms. keeps (quiet S) m \<Longrightarrow> quiet S w w'"
proof (induction ms arbitrary: w)
  case (Cons m ms)
  then obtain w1 where m: "m w = (Inr (), w1)" "allSucceed ms w1 w'" by auto
  from Cons.prems(2) m(1) have "quiet S w w1" by (auto intro: quietly.keepsD)
  from quietly.trans [OF this] Cons.IH [OF m(2)] Cons.prems(2) show ?case by simp
qed (simp add: quietly.refl)

text \<open>Restoring one path, and then all of them.\<close>

definition restoredAs :: "snapshot \<Rightarrow> node option \<Rightarrow> bool" where
  "restoredAs s f \<longleftrightarrow>
     (if sn_exists s then f = Some (newNode (sn_data s) (sn_mode s) (sn_uid s) (sn_gid s)) else f = None)"

lemma quiet_restoreSnapshot: "keeps (quiet (insert (sn_path s) (Collect scratch))) (restoreSnapshot env s)"
  unfolding restoreSnapshot_def removeIfThere_def by (intro keeps_quiet quiet_writeFile) simp_all

lemma restoreSnapshot_Inr:
  assumes "restoreSnapshot env s w = (Inr u, w')" and "honest w" and "\<not> scratch (sn_path s)"
  shows "restoredAs s (map_of (w_FS w') (sn_path s))"
proof (cases "sn_exists s")
  case True
  have "tempPath env (Dir (sn_path s)) ''.hostlens-'' w \<noteq> sn_path s" using scratch_temp assms(3) by metis
  from writeFile_cases [OF _ this] assms(1) True show ?thesis by (fastforce simp: restoreSnapshot_def restoredAs_def)
next
  case False
  then obtain r where r: "remove (sn_path s) w = (r, w')" "case r of Inl e \<Rightarrow> not_exist e | Inr _ \<Rightarrow> True"
    using assms(1) by (cases "remove (sn_path s) w"; cases "fst (remove (sn_path s) w)")
      (auto simp: restoreSnapshot_def removeIfThere_eq bindE_def split: if_splits)
  then have "map_of (w_FS w') (sn_path s) = None"
    using remove_Inr remove_missing assms(2) by (auto split: sum.splits)
  with False show ?thesis by (simp add: restoredAs_def)
qed

lemma restoreAll:
  assumes "allSucceed (map (restoreSnapshot env) (rev ss)) w w'" and "honest w" and "\<not> scratch p"
  shows "case find (\<lambda>s. sn_path s = p) ss of None \<Rightarrow> map_of (w_FS w') p = map_of (w_FS w) p | Some s \<Rightarrow> restoredAs s (map_of (w_FS w') p)"
  using assms(1)
proof (induction ss arbitrary: w')
  case (Cons s ss)
  from Cons.prems obtain w1 where a: "allSucceed (map (restoreSnapshot env) (rev ss)) w w1" "restoreSnapshot env s w1 = (Inr (), w')"
    by (auto simp: allSucceed_append)
  have "quiet (sn_path ` set ss \<union> Collect scratch) w w1"
    by (rule allSucceed_quiet [OF a(1)]) (auto intro!: keeps_mono [OF quiet_restoreSnapshot])
  then have h: "honest w1" using assms(2) honest_quiet by blast
  show ?case
  proof (cases "sn_path s = p")
    case True
    with restoreSnapshot_Inr [OF a(2) h] assms(3) show ?thesis by simp
  next
    case False
    with quietly.keepsD [OF quiet_restoreSnapshot a(2)] assms(3) have "map_of (w_FS w') p = map_of (w_FS w1) p"
      by (simp add: quiet_def only_paths_def)
    with Cons.IH [OF a(1)] False show ?thesis by (simp split: option.splits)
  qed
qed simp

lemma removeDirs:
  assumes "allSucceed (map remove ds) w w'"
  shows "\<forall>p\<in>set ds. map_of (w_FS w') p = None"
proof -
  have keep: "map_of (w_FS w2) p = None" if "remove q w1 = (Inr (), w2)" "map_of (w_FS w1) p = None" for p q w1 w2
    using that by (auto simp: remove_def sys_def lookup_def Let_def delete_conv' split: option.splits sum.splits if_splits)
  have gone: "allSucceed (map remove ds) w w' \<Longrightarrow> map_of (w_FS w) p = None \<Longrightarrow> map_of (w_FS w') p = None" for ds w p
    by (induction ds arbitrary: w) (auto dest: keep)
  show ?thesis using assms by (induction ds arbitrary: w) (auto dest: remove_Inr gone)
qed

text \<open>The same file as far as content, permissions and owner go.\<close>

definition sameFile :: "node option \<Rightarrow> node option \<Rightarrow> bool" where
  "sameFile a b \<longleftrightarrow>
     a = b \<or>
     (case (a, b) of
        (Some n, Some n') \<Rightarrow>
          IsRegular (nd_Stat n) \<and> IsRegular (nd_Stat n') \<and> nd_Data n' = nd_Data n \<and> Perm (nd_Stat n') = Perm (nd_Stat n)
          \<and> st_Uid (nd_Stat n') = st_Uid (nd_Stat n) \<and> st_Gid (nd_Stat n') = st_Gid (nd_Stat n)
      | _ \<Rightarrow> False)"

lemma Perm_mask: "Perm st AND 0x1FF = Perm st" "Perm st AND S_IFMT = 0"
  by (simp_all add: Perm_def S_IFMT_def and.assoc)

lemma faithful_restored: "faithful s f \<Longrightarrow> restoredAs s f' \<Longrightarrow> sameFile f f'"
  by (cases f) (auto simp: faithful_def restoredAs_def sameFile_def newNode_simps Perm_newNode IsRegular_newNode Perm_mask split: if_splits)

lemma rollback_quiet:
  assumes "as_Backup st \<noteq> [] \<longrightarrow> scratch (as_Backup st)"
  shows "quiet (undone st) w (snd (rollback env action start st w))"
proof -
  let ?S = "undone st"
  have "insert (sn_path s) (Collect scratch) \<subseteq> ?S" if "s \<in> set (as_Changed st)" for s
    using that by (auto simp: undone_def changedPaths_def)
  then have "\<forall>c\<in>set (rollbackCalls env action start st). keeps (quiet ?S) c"
    by (auto simp: rollbackCalls_def undone_def intro!: quiet_run quiet_remove keeps_mono [OF quiet_restoreSnapshot])
  from joinError_quiet [OF this, of w "[]"] have q: "quiet ?S w (snd (fold joinError (rollbackCalls env action start st) ([], w)))" .
  have "keeps (quiet ?S) (removeAll (as_Backup st))" if "as_Backup st \<noteq> []"
    using assms that by (intro quiet_removeAll) (auto simp: undone_def intro: scratch_below)
  then have "quiet ?S v (snd (removeAll (as_Backup st) v))" if "as_Backup st \<noteq> []" for v using that by (simp add: keeps_def)
  then show ?thesis using q quietly.trans [OF q] by (auto simp: rollback_def split: prod.split sum.split) (metis snd_conv)+
qed

lemma rollback_success:
  assumes "rollback env action start st w = ([], w')" and "as_Backup st \<noteq> [] \<longrightarrow> scratch (as_Backup st)"
  obtains w1 where "allSucceed (rollbackCalls env action start st) w w1" and "quiet (Collect scratch) w1 w'"
proof -
  have l: "\<forall>c\<in>set (rollbackCalls env action start st). loud c"
    by (auto simp: rollbackCalls_def loud_run loud_restoreSnapshot loud_calls)
  obtain es w1 where f: "fold joinError (rollbackCalls env action start st) ([], w) = (es, w1)"
    by (cases "fold joinError (rollbackCalls env action start st) ([], w)")
  have "keeps (quiet (Collect scratch)) (removeAll (as_Backup st))" if "as_Backup st \<noteq> []"
    using assms(2) that by (intro quiet_removeAll) (auto intro: scratch_below)
  then have "es = []" "quiet (Collect scratch) w1 w'"
    using assms(1) f quietly.refl
    by (auto simp: rollback_def split: if_splits prod.splits sum.splits intro: quietly.keepsD)
  with that joinError_all [OF l] f show thesis by blast
qed

lemma rollback_restored:
  assumes inv: "restorable w0 rep st w1" and r: "rollback env action start st w1 = ([], w2)" and p: "\<not> scratch p"
  shows "sameFile (map_of (w_FS w0) p) (map_of (w_FS w2) p)"
proof -
  have bk: "as_Backup st \<noteq> [] \<longrightarrow> scratch (as_Backup st)" using inv by (simp add: restorable_def)
  obtain wr where calls: "allSucceed (rollbackCalls env action start st) w1 wr" and q: "quiet (Collect scratch) wr w2"
    by (rule rollback_success [OF r bk])
  let ?stops = "(if action = ''install'' \<and> start \<and> as_Installed st
      then [run [''systemctl'', ''disable'', ''--now'', ''hostlens-gateway.service'']] else [])
     @ map (\<lambda>unit. run [''systemctl'', ''stop'', unit]) (as_Started st)"
  let ?starts = "run [''systemctl'', ''daemon-reload''] # map (\<lambda>unit. run [''systemctl'', ''start'', unit]) (as_Prior st)"
  have "rollbackCalls env action start st =
      ?stops @ map (restoreSnapshot env) (rev (as_Changed st)) @ map remove (rev (as_Dirs st)) @ ?starts"
    by (simp add: rollbackCalls_def)
  with calls obtain wa wb wc where a: "allSucceed ?stops w1 wa" and b: "allSucceed (map (restoreSnapshot env) (rev (as_Changed st))) wa wb"
    and c: "allSucceed (map remove (rev (as_Dirs st))) wb wc" and d: "allSucceed ?starts wc wr"
    by (auto simp only: allSucceed_append)
  have qa: "quiet {} w1 wa" and qd: "quiet {} wc wr"
    by (rule allSucceed_quiet [OF a], auto intro: quiet_run) (rule allSucceed_quiet [OF d], auto intro: quiet_run)
  have qc: "quiet (set (as_Dirs st)) wb wc" by (rule allSucceed_quiet [OF c]) (auto intro: quiet_remove)
  have "honest wa" using restorable_honest [OF inv] honest_quiet [OF qa] by simp
  note rs = restoreAll [OF b this p]
  have e: "map_of (w_FS w2) p = map_of (w_FS wc) p" "map_of (w_FS wa) p = map_of (w_FS w1) p"
    using q qd qa p by (auto simp: quiet_def only_paths_def)
  show ?thesis
  proof (cases "p \<in> set (as_Dirs st)")
    case True
    with removeDirs [OF c] e inv p show ?thesis by (simp add: sameFile_def restorable_def)
  next
    case False
    with qc have "map_of (w_FS wc) p = map_of (w_FS wb) p" by (simp add: quiet_def only_paths_def)
    with e rs have f: "case firstSnapshot st p of None \<Rightarrow> map_of (w_FS w2) p = map_of (w_FS w1) p | Some s \<Rightarrow> restoredAs s (map_of (w_FS w2) p)"
      by (simp add: firstSnapshot_def split: option.splits)
    show ?thesis
    proof (cases "firstSnapshot st p")
      case None
      then have "p \<notin> undone st" using False p by (auto simp: undone_def changedPaths_def firstSnapshot_def find_None_iff)
      with restorable_elsewhere [OF inv] f None show ?thesis by (simp add: sameFile_def)
    next
      case (Some s)
      with f inv p False show ?thesis by (auto simp: restorable_def explained_def intro: faithful_restored)
    qed
  qed
qed

section \<open>Properties\<close>


lemma applyPlan_retains:
  assumes "honest w" and "map_of (w_FS w) p \<noteq> None" and "\<not> scratch p" and "p \<notin> replacedPaths m"
  shows "map_of (w_FS (snd (applyPlan env m action start plan profiles data w))) p = map_of (w_FS w) p"
proof -
  obtain r st w1 where s: "applySteps env m action start profiles data noChanges w = (r, st, w1)"
    by (cases "applySteps env m action start profiles data noChanges w") auto
  have inv: "restorable w (replacedPaths m) st w1" by (rule restorable_applySteps [OF s assms(1)])
  then have bk: "as_Backup st \<noteq> [] \<longrightarrow> scratch (as_Backup st)" by (simp add: restorable_def)
  have dirs: "p \<notin> set (as_Dirs st)" using inv assms(2,3) by (auto simp: restorable_def)
  have "firstSnapshot st p = None"
  proof (cases "firstSnapshot st p")
    case (Some sn)
    with inv assms dirs show ?thesis by (auto simp: restorable_def explained_def)
  qed
  then have u: "p \<notin> undone st" using assms(3) dirs by (auto simp: undone_def changedPaths_def firstSnapshot_def find_None_iff)
  have k: "map_of (w_FS v) p = map_of (w_FS w) p" if "quiet (undone st) w1 v" for v
    using that restorable_elsewhere [OF inv u] u by (simp add: quiet_def only_paths_def)
  have "quiet (undone st) w1 (snd (removeAll (as_Backup st) w1))" if "as_Backup st \<noteq> []"
  proof -
    have "keeps (quiet (undone st)) (removeAll (as_Backup st))"
      using bk that by (intro quiet_removeAll) (auto simp: undone_def intro: scratch_below)
    then show ?thesis by (simp add: keeps_def)
  qed
  with k [OF quietly.refl] k [OF rollback_quiet [OF bk, where env = env and action = action and start = start]] k s show ?thesis
    by (auto simp: applyPlan_def split: sum.splits prod.splits)
qed

lemma Apply_cases:
  assumes "Apply env m action approved start w = (r, w')"
  obtains (refused) "same_files w w'" "isl r"
  | (applied) plan w1 rel data profiles where "w_Euid w = 0" "approved \<noteq> []" "Preview env m action start w = (Inr plan, w1)"
      "pl_Digest plan = approved" "archive (le_Release env) (le_Source env w1) = Inr (rel, data)"
      "releaseFingerprint (le_Sum256 env) rel = pl_sourceDigest plan" "rl_Version rel = pl_Version plan"
      "releaseProfiles rel = Inr profiles" "same_files w w1" "applyPlan env m action start plan profiles data w1 = (r, w')"
proof (cases "w_Euid w = 0")
  case False
  with assms have "r = Inl [Msg ''lifecycle apply requires root'']" "w' = w" by (simp_all add: Apply_def bindE_def)
  then show thesis by (intro refused) (simp_all add: reading.refl)
next
  case root: True
  obtain p w1 where pr: "Preview env m action start w = (p, w1)" by (cases "Preview env m action start w")
  have s: "same_files w w1" by (rule reading.keepsD [OF reads_Preview pr])
  let ?a = "archive (le_Release env) (le_Source env w1)"
  have arch: "archiveNow env w1 = (case ?a of Inl e \<Rightarrow> Inl [Msg e] | Inr x \<Rightarrow> Inr x, w1)"
    by (simp add: archiveNow_def bindE_def given_def split: sum.split)
  show thesis
  proof (cases p)
    case (Inl e)
    with assms pr root have "r = Inl e" "w' = w1" by (simp_all add: Apply_def bindE_def)
    with s show thesis by (intro refused) simp_all
  next
    case (Inr plan)
    show thesis
    proof (cases "approved \<noteq> [] \<and> approved = pl_Digest plan \<and> (\<exists>rel data profiles. ?a = Inr (rel, data) \<and> rl_Version rel = pl_Version plan
        \<and> releaseFingerprint (le_Sum256 env) rel = pl_sourceDigest plan \<and> releaseProfiles rel = Inr profiles)")
      case True
      then obtain rel data profiles where x: "?a = Inr (rel, data)" "rl_Version rel = pl_Version plan"
        "releaseFingerprint (le_Sum256 env) rel = pl_sourceDigest plan" "releaseProfiles rel = Inr profiles" by blast
      have "applyPlan env m action start plan profiles data w1 = (r, w')"
        using assms pr root Inr True x arch by (auto simp: Apply_def bindE_def attempt_def given_def)
      with True root pr Inr x s show thesis by (intro applied) auto
    next
      case False
      with assms pr root Inr arch have "isl r" "w' = w1"
        by (auto simp: Apply_def bindE_def attempt_def given_def split: sum.splits if_splits)
      with s show thesis by (intro refused) simp_all
    qed
  qed
qed


text \<open>
  C15: nothing is changed without approval of exactly this plan: if an application leaves anything
  behind, in the files or in the commands it ran, then it ran as root, the digest it was given is
  the digest of a preview of the state it found, and the release it installs has passed the archive
  checks and has the version and fingerprint of the previewed one. A preview changes nothing.
\<close>

theorem apply_needs_approval:
  "same_files w (snd (Preview env m action start w))
   \<and> (same_files w (snd (Apply env m action approved start w)) \<or>
      w_Euid w = 0 \<and> approved \<noteq> []
      \<and> (\<exists>plan w1 rel data. Preview env m action start w = (Inr plan, w1) \<and> pl_Digest plan = approved
          \<and> archive (le_Release env) (le_Source env w1) = Inr (rel, data)
          \<and> rl_Version rel = pl_Version plan \<and> releaseFingerprint (le_Sum256 env) rel = pl_sourceDigest plan))"
proof
  show "same_files w (snd (Preview env m action start w))" using reads_Preview by (simp add: keeps_def)
  obtain r w' where a: "Apply env m action approved start w = (r, w')" by (cases "Apply env m action approved start w")
  then show "same_files w (snd (Apply env m action approved start w)) \<or>
      w_Euid w = 0 \<and> approved \<noteq> []
      \<and> (\<exists>plan w1 rel data. Preview env m action start w = (Inr plan, w1) \<and> pl_Digest plan = approved
          \<and> archive (le_Release env) (le_Source env w1) = Inr (rel, data)
          \<and> rl_Version rel = pl_Version plan \<and> releaseFingerprint (le_Sum256 env) rel = pl_sourceDigest plan)"
    by (cases rule: Apply_cases) (use a in auto)
qed

section \<open>An example\<close>

text \<open>
  A fresh system on which the accounts exist, and a release whose members contain their own names.
  The profile decoder refuses everything, so the installed configuration does not load.
\<close>

definition example_identity_node :: "string \<Rightarrow> yaml_node list" where
  "example_identity_node k = [Node OtherNode ''!!str'' k [], Node OtherNode ''!!int'' ''1'' []]"

definition example_small :: config where
  "example_small = example_config\<lparr>Listen := ''[::1]:8'', GatewayUID := 1, ObserverUID := 2, SharedGID := 1, TokenGID := 2\<rparr>"

definition example_lifecycle :: lifecycle_env where
  "example_lifecycle = \<lparr>
     le_Release = example_release_env,
     le_Source = (\<lambda>_. Inr example_members),
     le_Provenance = \<lparr>json_value = (\<lambda>_. Inl ''none''), json_end = (\<lambda>_. True)\<rparr>,
     le_MarshalProvenance = (\<lambda>_. Inr ''{}''), le_Units = (\<lambda>_. Inl ''none''),
     le_Group = (\<lambda>_ n. if n = ''hostlens-shared'' then Inr ''1'' else Inr ''2''),
     le_User = (\<lambda>_ n. if n = ''hostlens-gateway'' then Inr (''1'', ''1'') else Inr (''2'', ''1'')),
     le_UnitState = (\<lambda>_ _. Inr ''inactive''), le_LookPath = (\<lambda>_. Inr ''/bin/systemctl''),
     le_Config = \<lparr>first_document = (\<lambda>_ _. Inr example_small), second_at_end = (\<lambda>_. True)\<rparr>,
     le_Profile = \<lparr>first_document = (\<lambda>_ _. Inl ''refused''), second_at_end = (\<lambda>_. True)\<rparr>,
     le_Document = (\<lambda>_. Inr (Node OtherNode [] [] [Node MappingNode [] []
        (concat (map example_identity_node [''gateway_uid'', ''observer_uid'', ''shared_gid'', ''token_gid'']))])),
     le_MarshalDocument = (\<lambda>_. Inr ''yaml''), le_Random = (\<lambda>n. 0), le_Probes = (\<lambda>_ _. [])\<rparr>"

definition example_dir :: node where
  "example_dir = \<lparr>nd_Stat = \<lparr>st_Mode = 0x41ED, st_Uid = 0, st_Gid = 0, st_Size = 0\<rparr>, nd_Data = []\<rparr>"

definition example_fresh :: world where
  "example_fresh = \<lparr>w_FS = map (\<lambda>p. (p, example_dir)) [''/'', ''/etc'', ''/etc/systemd'', ''/etc/systemd/system'', ''/usr'', ''/usr/local'',
       ''/usr/local/bin''],
     w_Tick = 0, w_Fault = (\<lambda>k. if k = 19 then Some (ErrOther ''input/output error'') else None), w_Partial = 0, w_Euid = 0, w_Log = []\<rparr>"

definition example_profiles' :: "string list" where
  "example_profiles' = projr (releaseProfiles example_release)"

definition example_data :: "(string \<times> bytes) list" where
  "example_data = map (\<lambda>n. (n, n)) requiredMembers"

definition example_manager' :: manager where
  "example_manager' = \<lparr>mg_Source = ''/tmp/release'', mg_Root = []\<rparr>"

definition example_ids :: identities where
  "example_ids = \<lparr>id_shared = 1, id_tokens = 2, id_gateway = 1, id_observer = 2\<rparr>"

lemma example_accounts: "fst (serviceAccounts example_lifecycle example_fresh) = Inr example_ids"
  by code_simp

definition example_dirs where
  "example_dirs = makeDirectories example_manager' example_ids noChanges (snd (serviceAccounts example_lifecycle example_fresh))"

definition example_steps where
  "example_steps = installFiles example_lifecycle example_manager' example_ids [] example_data (fst (snd example_dirs)) (snd (snd example_dirs))"

lemma example_dirs_made: "fst example_dirs = Inr ()"
  by code_simp

lemma example_fails: "fst example_steps = Inl [Sys (ErrOther ''input/output error'')]"
  by code_simp

lemma example_changed:
  "map sn_path (as_Changed (fst (snd example_steps))) = [binaryPath] \<and> map_of (w_FS (snd (snd example_steps))) binaryPath \<noteq> None"
  by code_simp

lemma example_rollback:
  "fst (rollback example_lifecycle ''install'' False (fst (snd example_steps)) (snd (snd example_steps))) = []"
  by code_simp

lemma bindA_Inr: "m st w = (Inr x, st', w') \<Longrightarrow> bindA m f st w = f x st' w'"
  and bindA_Inl: "m st w = (Inl e, st', w') \<Longrightarrow> bindA m f st w = (Inl e, st', w')"
  by (simp_all add: bindA_def)

lemma example_applySteps:
  "applySteps example_lifecycle example_manager' ''install'' False [] example_data noChanges example_fresh = example_steps"
proof -
  let ?w = "snd (serviceAccounts example_lifecycle example_fresh)"
  have a: "doing (serviceAccounts example_lifecycle) noChanges example_fresh = (Inr example_ids, noChanges, ?w)"
    unfolding doing_eq using example_accounts by (metis prod.collapse)
  have d: "makeDirectories example_manager' example_ids noChanges ?w = (Inr (), fst (snd example_dirs), snd (snd example_dirs))"
    unfolding example_dirs_def [symmetric] using example_dirs_made by (metis prod.collapse)
  have i: "installFiles example_lifecycle example_manager' example_ids [] example_data (fst (snd example_dirs)) (snd (snd example_dirs))
      = (Inl [Sys (ErrOther ''input/output error'')], fst (snd example_steps), snd (snd example_steps))"
    unfolding example_steps_def [symmetric] using example_fails by (metis prod.collapse)
  have n: "(if ''install'' = ''upgrade'' then prepareUpgrade example_lifecycle example_manager' else doing (ret ())) = doing (ret ())" by simp
  have r: "doing (ret ()) st w = (Inr (), st, w)" for st w by (simp add: doing_eq)
  show ?thesis
    unfolding applySteps_def n
      bindA_Inr [where m = "doing (serviceAccounts example_lifecycle)", OF a]
      bindA_Inr [where m = "makeDirectories example_manager' example_ids", OF d]
      bindA_Inr [where m = "doing (ret ())", OF r]
      bindA_Inl [where m = "installFiles example_lifecycle example_manager' example_ids [] example_data", OF i]
    using example_fails by (metis prod.collapse)
qed



end
