(* ===== verification/Install_Complete.thy ===== *)
theory Install_Complete
  imports Apply_Correct
begin

text \<open>
  What a successful installation or upgrade has done: every target holds what the release says, files
  that are kept are untouched, the configuration loads, and units that were started were ready.
\<close>

section \<open>Successful stages\<close>

lemma bindA_success:
  "bindA m f st w = (Inr y, st', w') \<longleftrightarrow> (\<exists>x st1 w1. m st w = (Inr x, st1, w1) \<and> f x st1 w1 = (Inr y, st', w'))"
  by (auto simp: bindA_def split: prod.splits sum.splits)

lemma each_append: "each f (xs @ ys) st w = bindA (each f xs) (\<lambda>_. each f ys) st w"
proof (induction xs arbitrary: st w)
  case Nil
  show ?case by (simp add: bindA_def doing_def)
next
  case (Cons x xs)
  then show ?case by (simp add: bindA_def split: prod.split sum.split)
qed

lemma each_map: "each f (map g xs) = each (\<lambda>x. f (g x)) xs"
  by (induction xs) simp_all

text \<open>The world only moves forward: quiet steps from a fixed beginning.\<close>

interpretation onward: stage_invariant "\<lambda>st w. quiet S w0 w" S for S w0
  by unfold_locales (blast intro: quietly.trans)

interpretation onward_stages: bookkeeping_invariant "\<lambda>st w. quiet (Collect scratch) w0 w" for w0
  by unfold_locales

lemma onwardD:
  assumes "\<And>w0. stable (\<lambda>st w. quiet S w0 w) m" and "m st w = (r, st', w')"
  shows "quiet S w w'"
  using stableD [OF assms(1) _ assms(2), of w] quietly.refl by blast

section \<open>Files that are put in place\<close>

text \<open>Target, content, mode, group, and whether an existing file is replaced.\<close>

type_synonym item = "string \<times> bytes \<times> mode \<times> int \<times> bool"

definition putItem :: "lifecycle_env \<Rightarrow> manager \<Rightarrow> item \<Rightarrow> unit stage" where
  "putItem env m item = (case item of (t, c, mode, gid, replace) \<Rightarrow> put env m t c mode gid replace)"

lemma putItem_simp: "putItem env m (t, c, mode, gid, replace) = put env m t c mode gid replace"
  by (simp add: putItem_def)

definition itemPath :: "manager \<Rightarrow> item \<Rightarrow> string" where
  "itemPath m item = managerPath m (fst item)"

definition placed :: "manager \<Rightarrow> world \<Rightarrow> world \<Rightarrow> item \<Rightarrow> bool" where
  "placed m w w' item =
     (case item of (t, c, mode, gid, replace) \<Rightarrow>
        map_of (w_FS w') (managerPath m t) =
          (if replace \<or> map_of (w_FS w) (managerPath m t) = None then Some (newNode c mode 0 gid)
           else map_of (w_FS w) (managerPath m t)))"

lemma put_quiet: "quiet (insert (managerPath m t) (Collect scratch)) w (snd (snd (put env m t c mode gid replace st w)))"
proof -
  let ?S = "insert (managerPath m t) (Collect scratch)"
  have "stable (\<lambda>st w. quiet ?S w0 w) (put env m t c mode gid replace)" for w0
    unfolding put_def Let_def
    by (intro onward.stable_intros onward.stable_reading reads_capture onward.stable_doing quiet_writeFile stable_noting)
  from onwardD [OF this] show ?thesis by (metis prod.collapse)
qed

lemma put_placed:
  assumes "put env m t c mode gid replace st w = (Inr (), st', w')" and "honest w" and "\<not> scratch (managerPath m t)"
  shows "placed m w w' (t, c, mode, gid, replace)"
proof -
  let ?p = "managerPath m t"
  from assms(1) obtain old w1 where cap: "capture ?p w = (Inr old, w1)"
    and rest: "(if sn_exists old \<and> \<not> replace then w' = w1 else writeFile env ?p c mode 0 gid w1 = (Inr (), w'))"
    by (auto simp: put_def Let_def bindA_success doing_eq noting_eq split: if_splits)
  note o = capture_Inr [OF cap assms(2)]
  show ?thesis
  proof (cases "sn_exists old \<and> \<not> replace")
    case True
    with o rest show ?thesis by (auto simp: placed_def same_files_def faithful_def split: option.splits)
  next
    case False
    have "tempPath env (Dir ?p) ''.hostlens-'' w1 \<noteq> ?p" using scratch_temp assms(3) by metis
    moreover from rest False have "writeFile env ?p c mode 0 gid w1 = (Inr (), w')" by (simp split: if_splits)
    ultimately have "map_of (w_FS w') ?p = Some (newNode c mode 0 gid)" using writeFile_cases by fastforce
    with False o show ?thesis by (auto simp: placed_def faithful_def split: option.splits)
  qed
qed

lemma each_placed:
  assumes "each (putItem env m) items st w = (Inr (), st', w')" and "honest w"
    and "distinct (map (itemPath m) items)" and "\<forall>i\<in>set items. \<not> scratch (itemPath m i)"
  shows "quiet (itemPath m ` set items \<union> Collect scratch) w w' \<and> (\<forall>i\<in>set items. placed m w w' i)"
  using assms
proof (induction items arbitrary: st w)
  case Nil
  then show ?case by (simp add: doing_eq quietly.refl)
next
  case (Cons i items)
  obtain t c mode gid replace where i: "i = (t, c, mode, gid, replace)" by (cases i) auto
  from Cons.prems(1) obtain st1 w1 where p: "put env m t c mode gid replace st w = (Inr (), st1, w1)"
    and e: "each (putItem env m) items st1 w1 = (Inr (), st', w')"
    by (auto simp: bindA_success putItem_simp i)
  have q: "quiet (insert (itemPath m i) (Collect scratch)) w w1"
    using put_quiet [of m t w env c mode gid replace st] p by (simp add: itemPath_def i)
  have h: "honest w1" using Cons.prems(2) honest_quiet [OF q] by simp
  from Cons.IH [OF e h] Cons.prems(3,4) have q': "quiet (itemPath m ` set items \<union> Collect scratch) w1 w'"
    and pl: "\<forall>i\<in>set items. placed m w1 w' i" by auto
  have "placed m w w1 i" unfolding i
    by (rule put_placed [OF p Cons.prems(2)]) (use Cons.prems(4) in \<open>simp add: itemPath_def i\<close>)
  moreover have "map_of (w_FS w') (itemPath m i) = map_of (w_FS w1) (itemPath m i)"
    using q' Cons.prems(3,4) by (auto simp: quiet_def only_paths_def)
  ultimately have "placed m w w' i" by (simp add: placed_def itemPath_def i)
  moreover have "placed m w w' j" if "j \<in> set items" for j
  proof -
    have "itemPath m i \<notin> itemPath m ` set items" using Cons.prems(3) by simp
    with that have "itemPath m j \<noteq> itemPath m i" by (metis imageI)
    then have "map_of (w_FS w1) (itemPath m j) = map_of (w_FS w) (itemPath m j)"
      using q Cons.prems(4) that by (auto simp: quiet_def only_paths_def)
    with pl that show ?thesis by (auto simp: placed_def itemPath_def split: prod.splits)
  qed
  moreover have "quiet (itemPath m ` set (i # items) \<union> Collect scratch) w w'"
    by (rule quietly.trans [OF quiet_mono [OF q] quiet_mono [OF q']]) auto
  ultimately show ?case by simp
qed

text \<open>The files of a release, in the order in which they are put in place.\<close>

definition releaseItems :: "identities \<Rightarrow> string list \<Rightarrow> (string \<times> bytes) list \<Rightarrow> bytes \<Rightarrow> bytes \<Rightarrow> item list" where
  "releaseItems ids profiles data config provenance =
     [(binaryPath, at_key data ''hostlens'', 0x1ED, 0, True), (configPath, config, 0x1A0, id_shared ids, False)]
     @ map (\<lambda>n. (''/etc/hostlens/profiles/'' @ n, at_key data (''profiles/'' @ n), 0x1A0, id_shared ids, False)) profiles
     @ map (\<lambda>n. (''/etc/systemd/system/'' @ n, at_key data (''systemd/'' @ n), 0x1A4, 0, True)) unitNames
     @ [(provenancePath, provenance, 0x180, 0, True)]"

lemma given_Inr: "given r w = (Inr x, w') \<longleftrightarrow> r = Inr x \<and> w' = w"
  by (auto simp: given_def split: sum.split)

lemma installFiles_success:
  assumes "installFiles env m ids profiles data st w = (Inr (), st', w')"
  obtains config provenance st1 where
    "configuredTemplate env (at_key data ''config.example.yaml'') (id_gateway ids) (id_observer ids) (id_shared ids) (id_tokens ids) = Inr config"
    "le_MarshalProvenance env (packagedUnitProvenance (le_Sum256 env) data) = Inr provenance"
    "each (putItem env m) (releaseItems ids profiles data config provenance) st w = (Inr (), st1, w')"
proof -
  let ?profile = "\<lambda>n. (''/etc/hostlens/profiles/'' @ n, at_key data (''profiles/'' @ n), 0x1A0, id_shared ids, False)"
  let ?unit = "\<lambda>n. (''/etc/systemd/system/'' @ n, at_key data (''systemd/'' @ n), 0x1A4, 0, True)"
  from assms obtain config provenance st1 st2 st3 st4 st5 w1 w2 w3 w4 where
    c: "configuredTemplate env (at_key data ''config.example.yaml'') (id_gateway ids) (id_observer ids) (id_shared ids) (id_tokens ids) = Inr config"
    and pr: "le_MarshalProvenance env (packagedUnitProvenance (le_Sum256 env) data) = Inr provenance"
    and p: "put env m binaryPath (at_key data ''hostlens'') 0x1ED 0 True st w = (Inr (), st1, w1)"
      "put env m configPath config 0x1A0 (id_shared ids) False st1 w1 = (Inr (), st2, w2)"
      "each (\<lambda>n. put env m (''/etc/hostlens/profiles/'' @ n) (at_key data (''profiles/'' @ n)) 0x1A0 (id_shared ids) False) profiles st2 w2 = (Inr (), st3, w3)"
      "each (\<lambda>n. put env m (''/etc/systemd/system/'' @ n) (at_key data (''systemd/'' @ n)) 0x1A4 0 True) unitNames st3 w3 = (Inr (), st4, w4)"
      "put env m provenancePath provenance 0x180 0 True st4 w4 = (Inr (), st5, w')"
    unfolding installFiles_def bindA_success doing_eq given_Inr noting_eq by auto
  have "each (putItem env m) (map ?profile profiles) st2 w2 = (Inr (), st3, w3)"
    "each (putItem env m) (map ?unit unitNames) st3 w3 = (Inr (), st4, w4)"
    using p(3,4) by (simp_all add: each_map putItem_simp)
  with p(1,2,5) have "each (putItem env m) (releaseItems ids profiles data config provenance) st w = (Inr (), st5, w')"
    unfolding releaseItems_def each_append
    by (simp add: bindA_success putItem_simp doing_eq)
  with c pr that show thesis by blast
qed

section \<open>Targets are apart\<close>

lemma HasPrefix_split: "HasPrefix s p \<Longrightarrow> s = p @ TrimPrefix s p"
  unfolding HasPrefix_def TrimPrefix_def by (metis append_take_drop_id)

lemma HasSuffix_split: "HasSuffix s p \<Longrightarrow> s = TrimSuffix s p @ p"
  unfolding HasSuffix_def TrimSuffix_def by (metis append_take_drop_id)

lemma profileMembers_Inr:
  assumes "profileMembers ms = Inr ns"
  shows "map (\<lambda>n. ''profiles/'' @ n) ns = filter (\<lambda>m. HasPrefix m ''profiles/'') ms
    \<and> (\<forall>n\<in>set ns. \<exists>x. n = x @ ''.yaml'' \<and> ValidProfileName x)"
  using assms
proof (induction ms arbitrary: ns)
  case (Cons m ms)
  show ?case
  proof (cases "HasPrefix m ''profiles/''")
    case False
    with Cons show ?thesis by simp
  next
    case True
    with Cons.prems obtain n rest where n: "releaseProfile m = Inr n" "profileMembers ms = Inr rest" "ns = n # rest"
      by (auto split: sum.splits)
    have "n = TrimPrefix m ''profiles/''" "HasSuffix n ''.yaml''" "ValidProfileName (TrimSuffix n ''.yaml'')"
      using n(1) by (auto simp: releaseProfile_def Let_def split: if_splits)
    moreover have "m = ''profiles/'' @ TrimPrefix m ''profiles/''" by (rule HasPrefix_split [OF True])
    moreover have "n = TrimSuffix n ''.yaml'' @ ''.yaml''" by (rule HasSuffix_split) fact
    ultimately have "''profiles/'' @ n = m" "\<exists>x. n = x @ ''.yaml'' \<and> ValidProfileName x" by metis+
    then show ?thesis using Cons.IH [OF n(2)] n(3) True by simp
  qed
qed simp

lemma profile_apart:
  assumes "ValidProfileName x"
  shows "\<not> scratch (''/etc/hostlens/profiles/'' @ x @ ''.yaml'')"
proof -
  have x: "x \<noteq> []" "CHR ''/'' \<notin> set x" "CHR ''.'' \<notin> set x"
    using assms by (auto simp: ValidProfileName_def ContainsAny_def list_ex_iff)
  have s: "''/etc/hostlens/profiles/'' @ x @ ''.yaml'' = ''/etc/hostlens/profiles'' @ CHR ''/'' # (x @ ''.yaml'')" by simp
  have "\<not> scratch ''/etc/hostlens/profiles''" by code_simp
  moreover have "hd x \<noteq> CHR ''.''" using x(1,3) list.set_sel(1) by metis
  then have "\<not> tempElem (x @ ''.yaml'')" using x(1) by (cases x) (auto simp: tempElem_def HasPrefix_def)
  ultimately show ?thesis unfolding s scratch_append using x(2) by (simp add: scratch_elem)
qed

lemma distinct_profiles:
  assumes "releaseProfiles rel = Inr profiles" and "distinct (map fst (rl_Checksums rel))"
  shows "distinct profiles" and "\<forall>n\<in>set profiles. \<not> scratch (''/etc/hostlens/profiles/'' @ n)"
proof -
  from assms(1) obtain ns where ns: "profileMembers (map fst (rl_Checksums rel)) = Inr ns" "profiles = sort ns"
    by (auto simp: releaseProfiles_def split: sum.splits)
  note m = profileMembers_Inr [OF ns(1)]
  have "distinct (map (\<lambda>n. ''profiles/'' @ n) ns)" using m assms(2) by simp
  then show "distinct profiles" using ns(2) by (simp add: distinct_map)
  show "\<forall>n\<in>set profiles. \<not> scratch (''/etc/hostlens/profiles/'' @ n)"
    using m ns(2) profile_apart by fastforce
qed

lemma fixed_targets: "distinct ([binaryPath, configPath] @ map (\<lambda>n. ''/etc/systemd/system/'' @ n) unitNames @ [provenancePath])"
    "list_all (\<lambda>t. \<not> scratch t \<and> \<not> HasPrefix t ''/etc/hostlens/profiles/'')
      ([binaryPath, configPath] @ map (\<lambda>n. ''/etc/systemd/system/'' @ n) unitNames @ [provenancePath])"
  by code_simp+

lemma items_apart:
  assumes "mg_Root m = []" and "distinct profiles" and "\<forall>n\<in>set profiles. \<not> scratch (''/etc/hostlens/profiles/'' @ n)"
  shows "distinct (map (itemPath m) (releaseItems ids profiles data config provenance))"
    and "\<forall>i\<in>set (releaseItems ids profiles data config provenance). \<not> scratch (itemPath m i)"
proof -
  let ?fixed = "[binaryPath, configPath] @ map (\<lambda>n. ''/etc/systemd/system/'' @ n) unitNames @ [provenancePath]"
  let ?ps = "map (\<lambda>n. ''/etc/hostlens/profiles/'' @ n) profiles"
  have paths: "map (itemPath m) (releaseItems ids profiles data config provenance) =
      [binaryPath, configPath] @ ?ps @ map (\<lambda>n. ''/etc/systemd/system/'' @ n) unitNames @ [provenancePath]"
    by (simp add: releaseItems_def itemPath_def managerPath_def assms(1) comp_def)
  have ps: "distinct ?ps" "\<forall>p\<in>set ?ps. HasPrefix p ''/etc/hostlens/profiles/''"
    using assms(2) by (auto simp: distinct_map inj_on_def HasPrefix_def)
  have fixed: "\<forall>t\<in>set ?fixed. \<not> scratch t \<and> \<not> HasPrefix t ''/etc/hostlens/profiles/''"
    using fixed_targets(2) unfolding list_all_iff .
  then have disj: "set ?ps \<inter> set ?fixed = {}" using ps(2) by blast
  show "distinct (map (itemPath m) (releaseItems ids profiles data config provenance))"
    unfolding paths using fixed_targets(1) ps(1) disj unfolding distinct_append set_append by blast
  have "\<forall>p\<in>set (map (itemPath m) (releaseItems ids profiles data config provenance)). \<not> scratch p"
    unfolding paths using fixed assms(3) by auto
  then show "\<forall>i\<in>set (releaseItems ids profiles data config provenance). \<not> scratch (itemPath m i)" by simp
qed

section \<open>A successful application\<close>

lemma makeDirectories_quiet:
  assumes "makeDirectories m ids st w = (r, st', w')"
  shows "quiet (managerPath m ` set installDirs) w w'"
proof -
  let ?S = "managerPath m ` set installDirs"
  have "stable (\<lambda>st w. quiet ?S w0 w) (makeDirectory m item)" if "fst item \<in> set installDirs" for w0 item
    unfolding makeDirectory_def Let_def using that
    by (intro onward.stable_intros onward.stable_doing stable_noting quietly.keeps_attempt quiet_create quiet_setStat
        keeps_lstat [THEN same_files_quiet]) simp_all
  then have "stable (\<lambda>st w. quiet ?S w0 w) (makeDirectories m ids)" for w0
    unfolding makeDirectories_def by (intro onward.stable_each) (auto simp: installDirs_def)
  from onwardD [OF this assms] show ?thesis .
qed

lemma activate_success:
  assumes "activate env m action start st w = (Inr (), st', w')"
  obtains v config pol where "w_FS v = w_FS w"
    "Load (viewOS v) (le_Config env) (le_Profile env) (managerPath m configPath) (the ToolEffects) = Inr (config, pol)"
    "action = ''install'' \<and> start \<longrightarrow> ReadOnly config"
proof -
  from assms obtain config w1 where l: "loadInstalled env m w = (Inr config, w1)"
    and ro: "action = ''install'' \<and> start \<longrightarrow> ReadOnly config"
    by (auto simp: activate_def Let_def bindA_success doing_eq split: if_splits)
  from l obtain v pol where v: "effectless w = (Inr (), v)"
    "Load (viewOS v) (le_Config env) (le_Profile env) (managerPath m configPath) (the ToolEffects) = Inr (config, pol)"
    by (cases "Load (viewOS (snd (effectless w))) (le_Config env) (le_Profile env) (managerPath m configPath) (the ToolEffects)")
      (auto simp: loadInstalled_def bindE_def split: sum.splits prod.splits)
  from that [OF _ v(2) ro] reading.keepsD [OF keeps_effectless v(1)] show thesis by (simp add: same_files_def)
qed

lemma applyPlan_placed:
  assumes "applyPlan env m action start plan profiles data w = (Inr plan', w')" and "honest w" and "mg_Root m = []"
    and "releaseProfiles rel = Inr profiles" and "distinct (map fst (rl_Checksums rel))"
  obtains ids config provenance v loaded pol where
    "configuredTemplate env (at_key data ''config.example.yaml'') (id_gateway ids) (id_observer ids) (id_shared ids) (id_tokens ids) = Inr config"
    "le_MarshalProvenance env (packagedUnitProvenance (le_Sum256 env) data) = Inr provenance"
    "\<forall>i\<in>set (releaseItems ids profiles data config provenance). fst i \<notin> set installDirs \<longrightarrow> placed m w w' i"
    "only_paths (Collect scratch) v w'" "Load (viewOS v) (le_Config env) (le_Profile env) configPath (the ToolEffects) = Inr (loaded, pol)"
    "action = ''install'' \<and> start \<longrightarrow> ReadOnly loaded"
proof -
  have path: "managerPath m t = t" for t by (simp add: managerPath_def assms(3))
  from assms(1) obtain st w6 where steps: "applySteps env m action start profiles data noChanges w = (Inr (), st, w6)"
    and fin: "as_Backup st = [] \<and> w' = w6 \<or> as_Backup st \<noteq> [] \<and> w' = snd (removeAll (as_Backup st) w6)"
    by (auto simp: applyPlan_def split: prod.splits sum.splits if_splits)
  from steps obtain ids st1 st2 st3 st4 w1 w2 w3 w4 where s: "serviceAccounts env w = (Inr ids, w1)"
      "makeDirectories m ids noChanges w1 = (Inr (), st2, w2)"
      "(if action = ''upgrade'' then prepareUpgrade env m else doing (ret ())) st2 w2 = (Inr (), st3, w3)"
      "installFiles env m ids profiles data st3 w3 = (Inr (), st4, w4)" "activate env m action start st4 w4 = (Inr (), st, w6)"
    unfolding applySteps_def bindA_success doing_eq by auto
  obtain config provenance st5 where c: "configuredTemplate env (at_key data ''config.example.yaml'') (id_gateway ids) (id_observer ids) (id_shared ids) (id_tokens ids) = Inr config"
    "le_MarshalProvenance env (packagedUnitProvenance (le_Sum256 env) data) = Inr provenance"
    "each (putItem env m) (releaseItems ids profiles data config provenance) st3 w3 = (Inr (), st5, w4)"
    by (rule installFiles_success [OF s(4)])
  obtain v loaded pol where a: "w_FS v = w_FS w4"
    "Load (viewOS v) (le_Config env) (le_Profile env) (managerPath m configPath) (the ToolEffects) = Inr (loaded, pol)"
    "action = ''install'' \<and> start \<longrightarrow> ReadOnly loaded" by (rule activate_success [OF s(5)])
  let ?items = "releaseItems ids profiles data config provenance"
  have q1: "quiet {} w w1" by (rule quietly.keepsD [OF quiet_serviceAccounts s(1)])
  have q2: "quiet (set installDirs) w1 w2" using makeDirectories_quiet [OF s(2)] by (simp add: path)
  have "stable (\<lambda>st w. quiet (Collect scratch) w0 w) (if action = ''upgrade'' then prepareUpgrade env m else doing (ret ()))" for w0
    by (intro stable_if onward_stages.stable_prepareUpgrade onward.stable_skip)
  from onwardD [OF this s(3)] have q3: "quiet (Collect scratch) w2 w3" .
  from onwardD [OF onward_stages.stable_activate s(5)] have q4: "quiet (Collect scratch) w4 w6" .
  have "restorable w (replacedPaths m) st w6" by (rule restorable_applySteps [OF steps assms(2)])
  then have bk: "as_Backup st \<noteq> [] \<longrightarrow> scratch (as_Backup st)" by (simp add: restorable_def)
  have "keeps (quiet (Collect scratch)) (removeAll (as_Backup st))" if "as_Backup st \<noteq> []"
    using bk that by (intro quiet_removeAll) (auto intro: scratch_below)
  then have q5: "quiet (Collect scratch) w6 w'" using fin quietly.refl by (auto simp: keeps_def)
  have late: "only_paths (Collect scratch) w4 w'" using quietly.trans [OF q4 q5] by (simp add: quiet_def)
  have early: "only_paths (set installDirs \<union> Collect scratch) w w3"
    using q1 q2 q3 by (simp add: quiet_def only_paths_def)
  have h3: "honest w3" using assms(2) q1 q2 q3 by (simp add: quiet_def honest_def)
  note apart = items_apart [OF assms(3) distinct_profiles [OF assms(4,5)], where ids = ids and data = data and config = config and provenance = provenance]
  from each_placed [OF c(3) h3 apart] have pl: "\<forall>i\<in>set ?items. placed m w3 w4 i" by simp
  have out: "placed m w w' i" if "i \<in> set ?items" "fst i \<notin> set installDirs" for i
  proof -
    have "\<not> scratch (fst i)" using apart(2) that(1) by (auto simp: itemPath_def path)
    with late early that pl show ?thesis by (auto simp: placed_def path only_paths_def split: prod.splits)
  qed
  have v: "only_paths (Collect scratch) v w'" using late a(1) by (simp add: only_paths_def)
  from a(2) have l: "Load (viewOS v) (le_Config env) (le_Profile env) configPath (the ToolEffects) = Inr (loaded, pol)" by (simp add: path)
  show thesis by (rule that [OF c(1,2) _ v l a(3)]) (use out in blast)
qed

text \<open>What placing each item of a release means for the single files.\<close>

lemma placed_release:
  assumes "\<forall>i\<in>set (releaseItems ids profiles data config provenance). fst i \<notin> set installDirs \<longrightarrow> placed m w w' i"
    and "mg_Root m = []"
  shows "map_of (w_FS w') binaryPath = Some (newNode (at_key data ''hostlens'') 0x1ED 0 0)"
    "n \<in> set unitNames \<Longrightarrow> map_of (w_FS w') (''/etc/systemd/system/'' @ n) = Some (newNode (at_key data (''systemd/'' @ n)) 0x1A4 0 0)"
    "map_of (w_FS w') provenancePath = Some (newNode provenance 0x180 0 0)"
    "map_of (w_FS w') configPath =
       (if map_of (w_FS w) configPath = None then Some (newNode config 0x1A0 0 (id_shared ids)) else map_of (w_FS w) configPath)"
    "k \<in> set profiles \<Longrightarrow> map_of (w_FS w') (''/etc/hostlens/profiles/'' @ k) =
       (if map_of (w_FS w) (''/etc/hostlens/profiles/'' @ k) = None then Some (newNode (at_key data (''profiles/'' @ k)) 0x1A0 0 (id_shared ids))
        else map_of (w_FS w) (''/etc/hostlens/profiles/'' @ k))"
proof -
  have path: "managerPath m t = t" for t by (simp add: managerPath_def assms(2))
  have nd: "list_all (\<lambda>t. \<not> List.member installDirs t) ([binaryPath, configPath] @ map (\<lambda>n. ''/etc/systemd/system/'' @ n) unitNames @ [provenancePath])"
    by code_simp
  then have nd': "binaryPath \<notin> set installDirs" "configPath \<notin> set installDirs" "provenancePath \<notin> set installDirs"
    "n \<in> set unitNames \<Longrightarrow> ''/etc/systemd/system/'' @ n \<notin> set installDirs" by (auto simp: list_all_iff)
  have np: "''/etc/hostlens/profiles/'' @ k \<notin> set installDirs" by (simp add: installDirs_def)
  note item = assms(1) [rule_format, unfolded releaseItems_def] and defs = placed_def path
  show "map_of (w_FS w') binaryPath = Some (newNode (at_key data ''hostlens'') 0x1ED 0 0)"
    using item [of "(binaryPath, at_key data ''hostlens'', 0x1ED, 0, True)"] nd' by (simp add: defs)
  show "n \<in> set unitNames \<Longrightarrow> map_of (w_FS w') (''/etc/systemd/system/'' @ n) = Some (newNode (at_key data (''systemd/'' @ n)) 0x1A4 0 0)"
    using item [of "(''/etc/systemd/system/'' @ n, at_key data (''systemd/'' @ n), 0x1A4, 0, True)"] nd' by (simp add: defs)
  show "map_of (w_FS w') provenancePath = Some (newNode provenance 0x180 0 0)"
    using item [of "(provenancePath, provenance, 0x180, 0, True)"] nd' by (simp add: defs)
  show "map_of (w_FS w') configPath =
       (if map_of (w_FS w) configPath = None then Some (newNode config 0x1A0 0 (id_shared ids)) else map_of (w_FS w) configPath)"
    using item [of "(configPath, config, 0x1A0, id_shared ids, False)"] nd' by (simp add: defs)
  show "k \<in> set profiles \<Longrightarrow> map_of (w_FS w') (''/etc/hostlens/profiles/'' @ k) =
       (if map_of (w_FS w) (''/etc/hostlens/profiles/'' @ k) = None then Some (newNode (at_key data (''profiles/'' @ k)) 0x1A0 0 (id_shared ids))
        else map_of (w_FS w) (''/etc/hostlens/profiles/'' @ k))"
    using item [of "(''/etc/hostlens/profiles/'' @ k, at_key data (''profiles/'' @ k), 0x1A0, id_shared ids, False)"] np by (simp add: defs)
qed

text \<open>
  C13: a successful installation or upgrade is complete. The executable, every unit file and the
  provenance record hold what the release says, owned by root with modes 0755, 0644 and 0600; the
  configuration, with the identities of the service accounts filled in, and each profile of the
  release are there with mode 0640, or are what they were if they existed; and the installed
  configuration loads in that state, read-only when the gateway is started by an installation.
\<close>

theorem install_complete:
  assumes "applyPlan env m action start plan profiles data w = (Inr plan', w')" and "honest w" and "mg_Root m = []"
    and "releaseProfiles rel = Inr profiles" and "distinct (map fst (rl_Checksums rel))"
  shows "\<exists>(ids :: identities) config provenance (v :: world) loaded pol.
    configuredTemplate env (at_key data ''config.example.yaml'') (id_gateway ids) (id_observer ids) (id_shared ids) (id_tokens ids) = Inr config
    \<and> le_MarshalProvenance env (packagedUnitProvenance (le_Sum256 env) data) = Inr provenance
    \<and> map_of (w_FS w') binaryPath = Some (newNode (at_key data ''hostlens'') 0x1ED 0 0)
    \<and> list_all (\<lambda>n. map_of (w_FS w') (''/etc/systemd/system/'' @ n) = Some (newNode (at_key data (''systemd/'' @ n)) 0x1A4 0 0)) unitNames
    \<and> map_of (w_FS w') provenancePath = Some (newNode provenance 0x180 0 0)
    \<and> map_of (w_FS w') configPath =
        (if map_of (w_FS w) configPath = None then Some (newNode config 0x1A0 0 (id_shared ids)) else map_of (w_FS w) configPath)
    \<and> list_all (\<lambda>n. let p = ''/etc/hostlens/profiles/'' @ n in map_of (w_FS w') p =
        (if map_of (w_FS w) p = None then Some (newNode (at_key data (''profiles/'' @ n)) 0x1A0 0 (id_shared ids)) else map_of (w_FS w) p)) profiles
    \<and> only_paths (Collect scratch) v w'
    \<and> Load (viewOS v) (le_Config env) (le_Profile env) configPath (the ToolEffects) = Inr (loaded, pol)
    \<and> (action = ''install'' \<and> start \<longrightarrow> ReadOnly loaded)"
proof -
  from assms obtain ids config provenance v loaded pol where
    c: "configuredTemplate env (at_key data ''config.example.yaml'') (id_gateway ids) (id_observer ids) (id_shared ids) (id_tokens ids) = Inr config"
      "le_MarshalProvenance env (packagedUnitProvenance (le_Sum256 env) data) = Inr provenance"
    and out: "\<forall>i\<in>set (releaseItems ids profiles data config provenance). fst i \<notin> set installDirs \<longrightarrow> placed m w w' i"
    and v: "only_paths (Collect scratch) v w'" "Load (viewOS v) (le_Config env) (le_Profile env) configPath (the ToolEffects) = Inr (loaded, pol)"
      "action = ''install'' \<and> start \<longrightarrow> ReadOnly loaded"
    by (rule applyPlan_placed)
  note placed = placed_release [OF out assms(3)]
  show ?thesis
    by (rule exI [of _ ids], rule exI [of _ config], rule exI [of _ provenance], rule exI [of _ v], rule exI [of _ loaded], rule exI [of _ pol])
      (intro conjI c v placed(1,3,4), use placed(2,5) in \<open>simp_all add: list_all_iff Let_def\<close>)
qed

section \<open>An example\<close>

definition example_complete :: lifecycle_env where
  "example_complete = example_lifecycle\<lparr>
     le_Config := \<lparr>first_document = (\<lambda>_ _. Inr (example_small\<lparr>ActiveProfiles := []\<rparr>)), second_at_end = (\<lambda>_. True)\<rparr>\<rparr>"

definition example_calm :: world where
  "example_calm = example_fresh\<lparr>w_Fault := (\<lambda>_. None)\<rparr>"

definition example_made where
  "example_made = makeDirectories example_manager' example_ids noChanges (snd (serviceAccounts example_complete example_calm))"

definition example_installed where
  "example_installed = (case example_made of (r, st, w) \<Rightarrow>
     installFiles example_complete example_manager' example_ids [''host.yaml''] example_data st w)"

definition example_active where
  "example_active = (case example_installed of (r, st, w) \<Rightarrow> activate example_complete example_manager' ''install'' False st w)"

lemma example_stages:
  "fst (serviceAccounts example_complete example_calm) = Inr example_ids" "fst example_made = Inr ()"
  by code_simp+

lemma example_files_installed: "fst example_installed = Inr ()"
  by code_simp

lemma example_activated: "case example_active of (r, st, w) \<Rightarrow> r = Inr () \<and> as_Backup st = []"
  by code_simp

lemma applyPlan_success:
  assumes "serviceAccounts env w = (Inr ids, w1)" and "makeDirectories m ids noChanges w1 = (Inr (), st2, w2)"
    and "installFiles env m ids profiles data st2 w2 = (Inr (), st3, w3)" and "activate env m ''install'' start st3 w3 = (Inr (), st4, w4)"
  shows "\<not> isl (fst (applyPlan env m ''install'' start plan profiles data w)) \<or> as_Backup st4 \<noteq> []"
proof -
  have "doing (serviceAccounts env) noChanges w = (Inr ids, noChanges, w1)" using assms(1) by (simp add: doing_eq)
  moreover have "(if ''install'' = ''upgrade'' then prepareUpgrade env m else doing (ret ())) st2 w2 = (Inr (), st2, w2)" by (simp add: doing_eq)
  ultimately have "applySteps env m ''install'' start profiles data noChanges w = (Inr (), st4, w4)"
    unfolding applySteps_def bindA_success using assms(2-4) by blast
  then show ?thesis by (simp add: applyPlan_def)
qed

definition example_one_profile :: manifest where
  "example_one_profile = example_release\<lparr>rl_Checksums := [(''profiles/host.yaml'', ''78'')]\<rparr>"

theorem install_complete_witness:
  "\<exists>w'. map_of (w_FS w') binaryPath = Some (newNode (at_key example_data ''hostlens'') 0x1ED 0 0)
     \<and> snd (applyPlan example_complete example_manager' ''install'' False (initialPlan example_manager' ''install'' ''2.0.0'' [])
         [''host.yaml''] example_data example_calm) = w'"
proof -
  let ?plan = "initialPlan example_manager' ''install'' ''2.0.0'' []"
  let ?run = "applyPlan example_complete example_manager' ''install'' False ?plan [''host.yaml''] example_data example_calm"
  obtain st2 w2 where made: "example_made = (Inr (), st2, w2)" using example_stages(2) by (metis prod.collapse)
  obtain st3 w3 where inst: "example_installed = (Inr (), st3, w3)" using example_files_installed by (metis prod.collapse)
  obtain st4 w4 where act: "example_active = (Inr (), st4, w4)" "as_Backup st4 = []"
    using example_activated by (auto split: prod.splits)
  have "serviceAccounts example_complete example_calm = (Inr example_ids, snd (serviceAccounts example_complete example_calm))"
    using example_stages(1) by (metis prod.collapse)
  from applyPlan_success [OF this made [unfolded example_made_def] inst [unfolded example_installed_def made prod.case]
      act(1) [unfolded example_active_def inst prod.case], of ?plan] act(2)
  have "\<not> isl (fst ?run)" by simp
  then obtain plan' where "fst ?run = Inr plan'" by (metis sum.collapse(2))
  then have x: "?run = (Inr plan', snd ?run)" by (metis prod.collapse)
  have h: "honest example_calm" by (simp add: honest_def example_calm_def)
  have m: "mg_Root example_manager' = []" by (simp add: example_manager'_def)
  have p: "releaseProfiles example_one_profile = Inr [''host.yaml'']" by code_simp
  have d: "distinct (map fst (rl_Checksums example_one_profile))" by (simp add: example_one_profile_def)
  show ?thesis using install_complete [OF x h m p d] by blast
qed

end
