(* ===== verification/App.thy ===== *)
theory App
  imports Observer Repair Uninstall Migrate Apply
begin

text \<open>
  The command line of \<open>internal/app\<close>: what each process does from its flags to the component it
  runs. \<open>runtime_linux.go\<close> puts the adapters, the clients and the workers together, \<open>serve.go\<close> starts
  the gateway, \<open>cli.go\<close> holds the bodies of the commands. Parsing the arguments is the work of a
  third-party package, so a command is a value of \<open>cli_command\<close> with its flags. A record \<open>runtime\<close>
  holds what the process asks of its surroundings: the texts of errors that other packages compose,
  the decoders, sockets, Docker's client and systemd.
\<close>

section \<open>Surroundings\<close>

record linux_env =
  lx_Now :: time
  lx_Arch :: string
  lx_Sources :: host_sources
  lx_Slot :: bool
  lx_Run :: Status.command
  lx_Systemd :: systemd
  lx_Journal :: journal_codec
  lx_JournalRun :: "string \<Rightarrow> string list \<Rightarrow> bytes list \<times> bytes list \<times> string option"
  lx_Text :: "status_error \<Rightarrow> string"

record runtime =
  rt_OS :: os
  rt_Config :: "config yaml_decoder"
  rt_Profile :: "profile yaml_decoder"
  rt_Systemctl :: "(string, bytes) result"
  rt_Linux :: linux_env
  rt_Dial :: "string \<Rightarrow> (string, connection) result"
  rt_Observer :: "connection \<Rightarrow> string \<Rightarrow> (string, http_reply) result"
  rt_Observation :: obs_codec
  rt_ObserverText :: "observer_error \<Rightarrow> string"
  rt_Repair :: "connection \<Rightarrow> repair_request \<Rightarrow> (string, http_reply) result"
  rt_Response :: "bytes \<Rightarrow> (string, repair_response) result"
  rt_ResponseEOF :: "bytes \<Rightarrow> bool"
  rt_RepairText :: "client_error \<Rightarrow> string"
  rt_Docker :: "string \<Rightarrow> bool \<Rightarrow> docker_api"
  rt_DockerText :: "docker_error \<Rightarrow> string"
  rt_Listen :: "string \<Rightarrow> string option"
  rt_Sockets :: socket_env
  rt_Time :: "string \<Rightarrow> (string, time) result"
  rt_Machine :: host
  rt_Tokens :: json_codec

text \<open>What keeps a read-only gateway from starting while a repair worker may still run.\<close>

datatype drain_error =
    ShutdownUnconfirmed string
  | WorkerIs string
  | UnitUninspected errno
  | SocketRemains string
  | SocketUninspected errno

datatype app_error =
    LoadFailed load_error
  | Refusal string
  | NotDrained drain_error
  | DockerFailed docker_error
  | ListenFailed string
  | ServeEnded serve_error
  | ShutdownFailed string
  | WorkerFailed string
  | StoreFailed store_error
  | TimeInvalid string
  | MigrateFailed migrate_failure
  | CallsFailed "io_error list"
  | PrintFailed string

definition loadConfig :: "runtime \<Rightarrow> string \<Rightarrow> (app_error, config \<times> policy) result" where
  "loadConfig rt path =
     (case Load (rt_OS rt) (rt_Config rt) (rt_Profile rt) path (the ToolEffects) of
        Inl e \<Rightarrow> Inl (LoadFailed e)
      | Inr cp \<Rightarrow> Inr cp)"

definition administrator :: "runtime \<Rightarrow> bool" where
  "administrator rt \<longleftrightarrow> Geteuid (rt_OS rt) = 0"

text \<open>The conversion \<open>uint32(os.Geteuid())\<close>.\<close>

definition euid32 :: "runtime \<Rightarrow> uid" where
  "euid32 rt = word_of_int (Geteuid (rt_OS rt))"

definition gatewayIdentity :: "runtime \<Rightarrow> config \<Rightarrow> bool" where
  "gatewayIdentity rt config \<longleftrightarrow> euid32 rt = GatewayUID config"

section \<open>Adapters and clients\<close>

definition linuxReader :: "linux_env \<Rightarrow> host_reader" where
  "linuxReader lx =
     \<lparr>rd_Host = hostStatus (lx_Now lx) (lx_Arch lx) (lx_Sources lx) (lx_Slot lx) (lx_Run lx),
      rd_Service = (\<lambda>name. map_sum (lx_Text lx) id (serviceStatus (lx_Systemd lx) name)),
      rd_Services = (\<lambda>permitted. map_sum (lx_Text lx) id (listServices (lx_Now lx) (lx_Slot lx) (lx_Run lx) permitted)),
      rd_ServiceLogs = (\<lambda>name limit.
        map_sum (lx_Text lx) id (ServiceLogs (lx_Journal lx) (lx_JournalRun lx) (lx_Now lx) name limit))\<rparr>"

definition linuxRestarter :: "linux_env \<Rightarrow> string \<Rightarrow> (string, service_restart) result" where
  "linuxRestarter lx name = map_sum (lx_Text lx) id (fst (RestartService (lx_Systemd lx) name))"

definition observerClient :: "runtime \<Rightarrow> string \<Rightarrow> uid \<Rightarrow> docker_reader" where
  "observerClient rt socket expectedUID =
     (let link = \<lparr>ol_UID = expectedUID, ol_Dialed = rt_Dial rt socket, ol_HTTP = rt_Observer rt\<rparr>;
          codec = rt_Observation rt
      in
      \<lparr>dr_Engine = map_sum (rt_ObserverText rt) id (clientEngine link codec),
       dr_Containers = map_sum (rt_ObserverText rt) id (clientContainers link codec),
       dr_Container = (\<lambda>i. map_sum (rt_ObserverText rt) id (clientContainer link codec i)),
       dr_Stats = (\<lambda>i. map_sum (rt_ObserverText rt) id (clientStats link codec i)),
       dr_Logs = (\<lambda>i limit. map_sum (rt_ObserverText rt) id (clientLogs link codec i limit))\<rparr>)"

definition repairClient :: "runtime \<Rightarrow> string \<Rightarrow> uid \<Rightarrow> repair_service" where
  "repairClient rt socket expectedUID =
     (let call = repairCall expectedUID (rt_Dial rt socket) (rt_Repair rt) (rt_Response rt) (rt_ResponseEOF rt) in
      \<lparr>rp_RestartService = (\<lambda>secret target. map_sum (rt_RepairText rt) id (clientRestartService call secret target)),
       rp_RestartContainer = (\<lambda>secret target. map_sum (rt_RepairText rt) id (clientRestartContainer call secret target))\<rparr>)"

text \<open>The engine's adapter as the observer's reader and as the worker's restarter.\<close>

definition engineReader :: "runtime \<Rightarrow> docker_api \<Rightarrow> docker_reader" where
  "engineReader rt api =
     \<lparr>dr_Engine = map_sum (rt_DockerText rt) id (dockerEngine api),
      dr_Containers = map_sum (rt_DockerText rt) id (dockerContainers api),
      dr_Container = (\<lambda>i. map_sum (rt_DockerText rt) id (fst (dockerContainer api 0 i))),
      dr_Stats = (\<lambda>i. map_sum (rt_DockerText rt) id (dockerStats api i)),
      dr_Logs = (\<lambda>i limit. map_sum (rt_DockerText rt) id (dockerLogs api i limit))\<rparr>"

definition NewReader :: "runtime \<Rightarrow> string \<Rightarrow> (docker_error, docker_reader) result" where
  "NewReader rt socket = map_sum id (\<lambda>_. engineReader rt (rt_Docker rt socket False)) (newDockerClient socket False)"

definition NewRestarter :: "runtime \<Rightarrow> string \<Rightarrow> (docker_error, string \<Rightarrow> (string, container_restart) result) result" where
  "NewRestarter rt socket =
     map_sum id (\<lambda>_ i. map_sum (rt_DockerText rt) id (fst (dockerRestart (rt_Docker rt socket True) i)))
       (newDockerClient socket True)"

section \<open>Starting the gateway\<close>

definition repairUnit :: string where
  "repairUnit = ''/etc/systemd/system/hostlens-repair.service''"

definition unitDrained :: "runtime \<Rightarrow> (drain_error, unit) result" where
  "unitDrained rt =
     (case Lstat (rt_OS rt) repairUnit of
        Inr _ \<Rightarrow>
          (case rt_Systemctl rt of
             Inl queryErr \<Rightarrow> Inl (ShutdownUnconfirmed queryErr)
           | Inr state \<Rightarrow>
               (let value = TrimSpace state in
                if value \<noteq> ''inactive'' \<and> value \<noteq> ''failed'' then Inl (WorkerIs value) else Inr ()))
      | Inl err \<Rightarrow> if err \<noteq> ErrNotExist then Inl (UnitUninspected err) else Inr ())"

definition repairDrained :: "runtime \<Rightarrow> config \<Rightarrow> (drain_error, unit) result" where
  "repairDrained rt config =
     (case unitDrained rt of
        Inl e \<Rightarrow> Inl e
      | Inr _ \<Rightarrow>
          (if RepairSocket config = [] then Inr ()
           else
             (case Lstat (rt_OS rt) (RepairSocket config) of
                Inr _ \<Rightarrow> Inl (SocketRemains (RepairSocket config))
              | Inl err \<Rightarrow> if err \<noteq> ErrNotExist then Inl (SocketUninspected err) else Inr ())))"

definition platformServices :: "runtime \<Rightarrow> config
    \<Rightarrow> (app_error, host_reader \<times> docker_reader option \<times> repair_service option) result" where
  "platformServices rt config =
     (let docker = (if DockerSocket config \<noteq> [] \<and> ObserverSocket config \<noteq> []
                    then Some (observerClient rt (ObserverSocket config) (ObserverUID config)) else None);
          repairs = (if \<not> ReadOnly config \<and> RepairSocket config \<noteq> []
                     then Some (repairClient rt (RepairSocket config) (RepairUID config)) else None)
      in Inr (linuxReader (rt_Linux rt), docker, repairs))"

text \<open>\<open>server.New\<close> keeps its arguments; the tools it registers are \<open>registered\<close> of the result.\<close>

definition newApp :: "store \<Rightarrow> policy \<Rightarrow> bool \<Rightarrow> host_reader \<Rightarrow> docker_reader option \<Rightarrow> repair_service option \<Rightarrow> app" where
  "newApp tokens policy readOnly host docker repair =
     \<lparr>ap_Policy = policy, ap_ReadOnly = readOnly, ap_Tokens = tokens, ap_Host = host, ap_Docker = docker, ap_Repair = repair\<rparr>"

definition startServe :: "runtime \<Rightarrow> string \<Rightarrow> (app_error, config \<times> app) result" where
  "startServe rt path =
     (case loadConfig rt path of
        Inl e \<Rightarrow> Inl e
      | Inr (config, policy) \<Rightarrow>
          (if \<not> gatewayIdentity rt config then Inl (Refusal ''gateway identity mismatch'')
           else
             (case (if ReadOnly config then repairDrained rt config else Inr ()) of
                Inl e \<Rightarrow> Inl (NotDrained e)
              | Inr _ \<Rightarrow>
                  (case platformServices rt config of
                     Inl e \<Rightarrow> Inl e
                   | Inr (host, docker, repairs) \<Rightarrow>
                       Inr (config, newApp \<lparr>s_Path = TokenStore config, s_TokenGID = 0\<rparr> policy (ReadOnly config) host docker repairs)))))"

text \<open>The HTTP server, with its limits in seconds and bytes, and the certificate and key it serves with.\<close>

record http_server =
  hv_Handler :: app
  hv_Address :: string
  hv_ReadHeaderTimeout :: int
  hv_ReadTimeout :: int
  hv_WriteTimeout :: int
  hv_IdleTimeout :: int
  hv_MaxHeaderBytes :: int
  hv_TLS :: "(string \<times> string) option"

definition serveEnd :: "serve_run \<Rightarrow> (app_error, unit) result" where
  "serveEnd ended =
     (case sv_Select ended of
        ServedFirst \<Rightarrow> if sv_ServeErr ended = ErrServerClosed then Inr () else Inl (ServeEnded (sv_ServeErr ended))
      | DoneFirst \<Rightarrow> (case sv_ShutdownErr ended of None \<Rightarrow> Inr () | Some e \<Rightarrow> Inl (ShutdownFailed e)))"

text \<open>The second result is the server that was started; \<open>serving\<close> tells how it ends.\<close>

definition runServe :: "runtime \<Rightarrow> (http_server \<Rightarrow> serve_run) \<Rightarrow> string \<Rightarrow> (app_error, unit) result \<times> http_server option" where
  "runServe rt serving path =
     (case startServe rt path of
        Inl e \<Rightarrow> (Inl e, None)
      | Inr (config, a) \<Rightarrow>
          (case rt_Listen rt (Listen config) of
             Some e \<Rightarrow> (Inl (ListenFailed e), None)
           | None \<Rightarrow>
               (let httpServer = \<lparr>hv_Handler = a, hv_Address = Listen config, hv_ReadHeaderTimeout = 5, hv_ReadTimeout = 10,
                      hv_WriteTimeout = 50, hv_IdleTimeout = 30, hv_MaxHeaderBytes = 8192,
                      hv_TLS = (if TLSCert config \<noteq> [] then Some (TLSCert config, TLSKey config) else None)\<rparr>
                in (serveEnd (serving httpServer), Some httpServer))))"

section \<open>Starting the workers\<close>

definition startObserver :: "runtime \<Rightarrow> string \<Rightarrow> (app_error, observer_server) result" where
  "startObserver rt path =
     (case loadConfig rt path of
        Inl e \<Rightarrow> Inl e
      | Inr (config, _) \<Rightarrow>
          (if ObserverSocket config = [] \<or> DockerSocket config = [] then Inl (Refusal ''Docker observer is not configured'')
           else if euid32 rt \<noteq> ObserverUID config then Inl (Refusal ''observer identity mismatch'')
           else
             (case NewReader rt (DockerSocket config) of
                Inl e \<Rightarrow> Inl (DockerFailed e)
              | Inr reader \<Rightarrow>
                  Inr \<lparr>ob_Socket = ObserverSocket config, ob_GatewayUID = GatewayUID config,
                     ob_SharedGID = uint (SharedGID config), ob_Docker = Some reader\<rparr>)))"

definition startRepair :: "runtime \<Rightarrow> string \<Rightarrow> (app_error, repair_server) result" where
  "startRepair rt path =
     (case loadConfig rt path of
        Inl e \<Rightarrow> Inl e
      | Inr (config, _) \<Rightarrow>
          (if ReadOnly config \<or> RepairSocket config = [] then Inl (Refusal ''repair is disabled'')
           else if euid32 rt \<noteq> RepairUID config then Inl (Refusal ''repair identity mismatch'')
           else
             (case (if DockerSocket config = [] then Inr None else map_sum id Some (NewRestarter rt (DockerSocket config))) of
                Inl e \<Rightarrow> Inl (DockerFailed e)
              | Inr docker \<Rightarrow>
                  Inr \<lparr>rs_Socket = RepairSocket config, rs_ConfigPath = path, rs_GatewayUID = GatewayUID config,
                     rs_SharedGID = uint (SharedGID config), rs_Tokens = \<lparr>s_Path = TokenStore config, s_TokenGID = 0\<rparr>,
                     rs_Services = Some (linuxRestarter (rt_Linux rt)), rs_Containers = docker\<rparr>)))"

definition workerResult :: "string option \<times> sock_dir \<Rightarrow> (app_error, unit) result \<times> sock_dir" where
  "workerResult r = (case r of (None, d) \<Rightarrow> (Inr (), d) | (Some e, d) \<Rightarrow> (Inl (WorkerFailed e), d))"

definition observerCommand :: "runtime \<Rightarrow> string \<Rightarrow> sock_dir \<Rightarrow> (app_error, unit) result \<times> sock_dir" where
  "observerCommand rt path d =
     (case startObserver rt path of
        Inl e \<Rightarrow> (Inl e, d)
      | Inr s \<Rightarrow> workerResult (runObserver (rt_Sockets rt) s d))"

definition repairCommand :: "runtime \<Rightarrow> string \<Rightarrow> sock_dir \<Rightarrow> (app_error, unit) result \<times> sock_dir" where
  "repairCommand rt path d =
     (case startRepair rt path of
        Inl e \<Rightarrow> (Inl e, d)
      | Inr s \<Rightarrow> workerResult (runRepair (rt_Sockets rt) s d))"

section \<open>Token commands\<close>

definition parseExpiry :: "runtime \<Rightarrow> string \<Rightarrow> (app_error, time) result" where
  "parseExpiry rt v = (if v = ''never'' then Inr 0 else map_sum TimeInvalid id (rt_Time rt v))"

text \<open>The steps every token command begins with: the configuration, then the caller's identity.\<close>

definition tokenAdmin :: "runtime \<Rightarrow> string \<Rightarrow> (app_error, config) result" where
  "tokenAdmin rt path =
     (case loadConfig rt path of
        Inl e \<Rightarrow> Inl e
      | Inr (config, _) \<Rightarrow>
          (if \<not> administrator rt then Inl (Refusal ''token administration requires administrator identity'') else Inr config))"

text \<open>A token command gives its result and the directory states it goes through.\<close>

definition tokenCreate :: "runtime \<Rightarrow> string \<Rightarrow> string \<Rightarrow> string \<Rightarrow> string \<Rightarrow> dir
    \<Rightarrow> (app_error, token \<times> string) result \<times> dir list" where
  "tokenCreate rt path name roles expires d =
     (case tokenAdmin rt path of
        Inl e \<Rightarrow> (Inl e, [])
      | Inr config \<Rightarrow>
          (case parseExpiry rt expires of
             Inl e \<Rightarrow> (Inl e, [])
           | Inr deadline \<Rightarrow>
               (case Create \<lparr>s_Path = TokenStore config, s_TokenGID = uint (TokenGID config)\<rparr> (rt_Machine rt) (rt_Tokens rt)
                       name (Split roles (CHR '','')) deadline d of
                  (r, ds) \<Rightarrow> (map_sum StoreFailed id r, ds))))"

definition tokenList :: "runtime \<Rightarrow> string \<Rightarrow> dir \<Rightarrow> (app_error, token list) result" where
  "tokenList rt path d =
     (case tokenAdmin rt path of
        Inl e \<Rightarrow> Inl e
      | Inr config \<Rightarrow>
          map_sum StoreFailed id (ListTokens \<lparr>s_Path = TokenStore config, s_TokenGID = 0\<rparr> (rt_Machine rt) (rt_Tokens rt) d))"

definition tokenRevoke :: "runtime \<Rightarrow> string \<Rightarrow> string \<Rightarrow> dir \<Rightarrow> (app_error, unit) result \<times> dir list" where
  "tokenRevoke rt path i d =
     (case tokenAdmin rt path of
        Inl e \<Rightarrow> (Inl e, [])
      | Inr config \<Rightarrow>
          (case Revoke \<lparr>s_Path = TokenStore config, s_TokenGID = uint (TokenGID config)\<rparr> (rt_Machine rt) (rt_Tokens rt) i d of
             (r, ds) \<Rightarrow> (map_sum StoreFailed id r, ds)))"

definition tokenRotate :: "runtime \<Rightarrow> string \<Rightarrow> string \<Rightarrow> string \<Rightarrow> string \<Rightarrow> dir
    \<Rightarrow> (app_error, token \<times> string) result \<times> dir list" where
  "tokenRotate rt path i expires overlap d =
     (case tokenAdmin rt path of
        Inl e \<Rightarrow> (Inl e, [])
      | Inr config \<Rightarrow>
          (case parseExpiry rt expires of
             Inl e \<Rightarrow> (Inl e, [])
           | Inr deadline \<Rightarrow>
               (case rt_Time rt overlap of
                  Inl e \<Rightarrow> (Inl (TimeInvalid e), [])
                | Inr retire \<Rightarrow>
                    (case Rotate \<lparr>s_Path = TokenStore config, s_TokenGID = uint (TokenGID config)\<rparr> (rt_Machine rt) (rt_Tokens rt)
                            i deadline retire d of
                       (r, ds) \<Rightarrow> (map_sum StoreFailed id r, ds)))))"

definition policyExplain :: "runtime \<Rightarrow> string \<Rightarrow> string \<Rightarrow> string \<Rightarrow> string \<Rightarrow> (app_error, explanation) result" where
  "policyExplain rt path eff name resource =
     (if \<not> administrator rt then Inl (Refusal ''policy explanation requires administrator identity'')
      else
        (case loadConfig rt path of
           Inl e \<Rightarrow> Inl e
         | Inr (_, pol) \<Rightarrow>
             (if (the ToolEffects) name \<noteq> Some eff then Inl (Refusal ''unknown tool or effect'')
              else Inr (Explain pol eff name resource))))"

section \<open>The commands\<close>

text \<open>
  The state that commands change, in the parts the components model: the files of the administrative
  commands, the directory of the token store, and the sockets of the workers.
\<close>

record machine_state =
  ms_World :: world
  ms_Tokens :: dir
  ms_Sockets :: sock_dir

datatype cli_output =
    Silent
  | VersionLine string
  | ConfigurationValid
  | MigrateOutput migrate_report
  | UninstallOutput uninstall_report
  | PlanOutput plan
  | StatusOutput host_status
  | SecretOutput string string
  | TokensOutput "token list"
  | ExplainOutput explanation

record cli_env =
  ce_Runtime :: runtime
  ce_Serving :: "http_server \<Rightarrow> serve_run"
  ce_Migrate :: migrate_env
  ce_Order :: "string list"
  ce_Units :: unit_files
  ce_Buildinfo :: build_info
  ce_Lifecycle :: lifecycle_env
  ce_Version :: string
  ce_Encode :: "cli_output \<Rightarrow> string option"

datatype cli_command =
    VersionCommand
  | ConfigValidate
  | MigrateCommand migrate_options
  | UninstallCommand bool
  | LifecycleCommand string string string bool bool
  | StatusCommand
  | ServeCommand
  | ObserverCommand
  | RepairCommand
  | TokenCreate string string string
  | TokenList
  | TokenRevoke string
  | TokenRotate string string string
  | PolicyExplain string string string

definition runMigrate :: "cli_env \<Rightarrow> migrate_options \<Rightarrow> world \<Rightarrow> (app_error, migrate_report) result \<times> world" where
  "runMigrate env opts w = (case Prepare (ce_Migrate env) (ce_Order env) opts w of (r, w) \<Rightarrow> (map_sum MigrateFailed id r, w))"

definition runUninstall :: "cli_env \<Rightarrow> bool \<Rightarrow> world \<Rightarrow> (app_error, uninstall_report) result \<times> world" where
  "runUninstall env apply' w =
     (case Execute \<lparr>um_UnitDir = [], um_Binary = [], um_ExpectedMain = []\<rparr> (ce_Units env) (ce_Buildinfo env) apply' w of
        (r, w) \<Rightarrow> (map_sum CallsFailed id r, w))"

definition runLifecycle :: "cli_env \<Rightarrow> string \<Rightarrow> string \<Rightarrow> string \<Rightarrow> bool \<Rightarrow> bool \<Rightarrow> world \<Rightarrow> (app_error, plan) result \<times> world" where
  "runLifecycle env action source approved apply' start w =
     (let m = \<lparr>mg_Source = source, mg_Root = []\<rparr> in
      if \<not> apply' \<and> approved \<noteq> [] then (Inl (Refusal ''--plan requires --apply''), w)
      else
        (case (if apply' then Apply (ce_Lifecycle env) m action approved start w else Preview (ce_Lifecycle env) m action start w) of
           (r, w) \<Rightarrow> (map_sum CallsFailed id r, w)))"

definition runStatus :: "runtime \<Rightarrow> host_status" where
  "runStatus rt = rd_Host (linuxReader (rt_Linux rt)) (Some (\<lambda>_. True))"

text \<open>
  The command of a process. The system calls of the administrative commands are made with the
  process's own user. The output is written to the standard output as JSON, which can fail after the
  state has changed; \<open>token revoke\<close> prints nothing, and the uninstaller writes its report itself.
\<close>

definition unprinted :: "cli_env \<Rightarrow> cli_env" where
  "unprinted env = env\<lparr>ce_Encode := (\<lambda>_. None)\<rparr>"

definition encoded :: "cli_env \<Rightarrow> (app_error, cli_output) result \<Rightarrow> (app_error, cli_output) result" where
  "encoded env r =
     (case r of
        Inl e \<Rightarrow> Inl e
      | Inr out \<Rightarrow> (case ce_Encode env out of None \<Rightarrow> Inr out | Some e \<Rightarrow> Inl (PrintFailed e)))"

definition onWorld :: "cli_env \<Rightarrow> ('a \<Rightarrow> cli_output) \<Rightarrow> (world \<Rightarrow> (app_error, 'a) result \<times> world) \<Rightarrow> machine_state
    \<Rightarrow> (app_error, cli_output) result \<times> machine_state" where
  "onWorld env out f st =
     (case f ((ms_World st)\<lparr>w_Euid := Geteuid (rt_OS (ce_Runtime env))\<rparr>) of
        (r, w) \<Rightarrow> (encoded env (map_sum id out r), st\<lparr>ms_World := w\<lparr>w_Euid := w_Euid (ms_World st)\<rparr>\<rparr>))"

definition onTokens :: "cli_env \<Rightarrow> ('a \<Rightarrow> cli_output) \<Rightarrow> (dir \<Rightarrow> (app_error, 'a) result \<times> dir list) \<Rightarrow> machine_state
    \<Rightarrow> (app_error, cli_output) result \<times> machine_state" where
  "onTokens env out f st =
     (case f (ms_Tokens st) of (r, ds) \<Rightarrow> (encoded env (map_sum id out r), st\<lparr>ms_Tokens := last (ms_Tokens st # ds)\<rparr>))"

definition onSockets :: "(sock_dir \<Rightarrow> (app_error, unit) result \<times> sock_dir) \<Rightarrow> machine_state
    \<Rightarrow> (app_error, cli_output) result \<times> machine_state" where
  "onSockets f st = (case f (ms_Sockets st) of (r, d) \<Rightarrow> (map_sum id (\<lambda>_. Silent) r, st\<lparr>ms_Sockets := d\<rparr>))"

definition runCommand :: "cli_env \<Rightarrow> string \<Rightarrow> cli_command \<Rightarrow> machine_state \<Rightarrow> (app_error, cli_output) result \<times> machine_state" where
  "runCommand env path cmd st =
     (let rt = ce_Runtime env in
      case cmd of
        VersionCommand \<Rightarrow> (Inr (VersionLine (ce_Version env)), st)
      | ConfigValidate \<Rightarrow> (map_sum id (\<lambda>_. ConfigurationValid) (loadConfig rt path), st)
      | MigrateCommand opts \<Rightarrow>
          (if \<not> administrator rt then (Inl (Refusal ''migration requires administrator identity''), st)
           else onWorld env MigrateOutput (runMigrate env opts) st)
      | UninstallCommand apply' \<Rightarrow> onWorld (unprinted env) UninstallOutput (runUninstall env apply') st
      | LifecycleCommand action source approved apply' start \<Rightarrow>
          onWorld env PlanOutput (runLifecycle env action source approved apply' start) st
      | StatusCommand \<Rightarrow> (encoded env (Inr (StatusOutput (runStatus rt))), st)
      | ServeCommand \<Rightarrow> (map_sum id (\<lambda>_. Silent) (fst (runServe rt (ce_Serving env) path)), st)
      | ObserverCommand \<Rightarrow> onSockets (observerCommand rt path) st
      | RepairCommand \<Rightarrow> onSockets (repairCommand rt path) st
      | TokenCreate name roles expires \<Rightarrow>
          onTokens env (\<lambda>(t, secret). SecretOutput (t_ID t) secret) (tokenCreate rt path name roles expires) st
      | TokenList \<Rightarrow> (encoded env (map_sum id TokensOutput (tokenList rt path (ms_Tokens st))), st)
      | TokenRevoke i \<Rightarrow> onTokens (unprinted env) (\<lambda>_. Silent) (tokenRevoke rt path i) st
      | TokenRotate i expires overlap \<Rightarrow>
          onTokens env (\<lambda>(t, secret). SecretOutput (t_ID t) secret) (tokenRotate rt path i expires overlap) st
      | PolicyExplain eff name resource \<Rightarrow> (encoded env (map_sum id ExplainOutput (policyExplain rt path eff name resource)), st))"

end
