(* ===== verification/App_Correct.thy ===== *)
theory App_Correct
  imports App Apply_Correct Uninstall_Correct Migrate_Correct Repair_Correct Observer_Correct Docker_Correct Status_Correct
begin

text \<open>
  Properties of the command line: what a started gateway is guaranteed to be, that a process that is
  not root's changes nothing with an administrative command, and what the token commands store.
\<close>

section \<open>Loading\<close>

lemma loadConfig_Inr: "loadConfig rt path = Inr (config, policy)
    \<longleftrightarrow> Load (rt_OS rt) (rt_Config rt) (rt_Profile rt) path (the ToolEffects) = Inr (config, policy)"
  by (auto simp: loadConfig_def split: sum.splits)

lemma loadConfig_valid:
  assumes "loadConfig rt path = Inr (config, policy)"
  shows "Validate config = Inr ()" "compiled policy"
  using Load_Validate [OF assms [unfolded loadConfig_Inr]] Load_compiled [OF assms [unfolded loadConfig_Inr]] by simp_all

lemma map_sum_id_Inr [simp]: "map_sum f id x = Inr r \<longleftrightarrow> x = Inr r"
  by (cases x) auto

section \<open>The gateway's start\<close>

text \<open>No repair worker is left: its unit is not installed or stopped, and its socket is gone.\<close>

definition worker_stopped :: "runtime \<Rightarrow> config \<Rightarrow> bool" where
  "worker_stopped rt config \<longleftrightarrow>
     (Lstat (rt_OS rt) repairUnit = Inl ErrNotExist
        \<or> (\<exists>out. rt_Systemctl rt = Inr out \<and> TrimSpace out \<in> {''inactive'', ''failed''}))
     \<and> (RepairSocket config \<noteq> [] \<longrightarrow> Lstat (rt_OS rt) (RepairSocket config) = Inl ErrNotExist)"

lemma repairDrained_Inr: "repairDrained rt config = Inr u \<Longrightarrow> worker_stopped rt config"
  by (auto simp: repairDrained_def unitDrained_def worker_stopped_def Let_def split: sum.splits if_splits)

lemma startServe_Inr:
  assumes "startServe rt path = Inr (config, a)"
  obtains policy where "loadConfig rt path = Inr (config, policy)" "euid32 rt = GatewayUID config"
    "ReadOnly config \<longrightarrow> worker_stopped rt config"
    "ap_Policy a = policy" "ap_ReadOnly a = ReadOnly config" "ap_Tokens a = \<lparr>s_Path = TokenStore config, s_TokenGID = 0\<rparr>"
    "ap_Repair a = (if \<not> ReadOnly config \<and> RepairSocket config \<noteq> []
       then Some (repairClient rt (RepairSocket config) (RepairUID config)) else None)"
  using assms
  by (auto simp: startServe_def platformServices_def newApp_def gatewayIdentity_def Let_def
      split: sum.splits prod.splits if_splits dest: repairDrained_Inr intro: that)

lemma runServe_Some:
  assumes "runServe rt serving path = (r, Some srv)"
  obtains config a where "startServe rt path = Inr (config, a)" "hv_Handler srv = a" "hv_Address srv = Listen config"
    "hv_TLS srv = (if TLSCert config \<noteq> [] then Some (TLSCert config, TLSKey config) else None)"
  using assms by (auto simp: runServe_def Let_def split: sum.splits prod.splits option.splits intro: that)

lemma read_only_registers_observers: "ap_ReadOnly a \<Longrightarrow> d \<in> set (registered a) \<Longrightarrow> td_effect d = EffectObserve"
  using catalog_effects by (auto simp: registered_def)

section \<open>Commands without privilege\<close>

lemma runLifecycle_unprivileged:
  assumes "w_Euid w \<noteq> 0" "runLifecycle env action source approved apply' start w = (r, w')"
  shows "same_files w w'"
  using assms
  by (auto simp: runLifecycle_def Let_def reading.refl split: prod.splits if_splits elim: Apply_cases
      intro: reading.keepsD [OF reads_Preview])

lemma onWorld_unprivileged:
  assumes "Geteuid (rt_OS (ce_Runtime env)) \<noteq> 0" "onWorld env' out f st = (r, st')" "ce_Runtime env' = ce_Runtime env"
    and "\<And>w r w'. w_Euid w \<noteq> 0 \<Longrightarrow> f w = (r, w') \<Longrightarrow> same_files w w'"
  shows "same_files (ms_World st) (ms_World st') \<and> ms_Tokens st' = ms_Tokens st \<and> ms_Sockets st' = ms_Sockets st"
proof -
  let ?w = "(ms_World st)\<lparr>w_Euid := Geteuid (rt_OS (ce_Runtime env))\<rparr>"
  obtain x w where f: "f ?w = (x, w)" by (cases "f ?w")
  from assms(4) [OF _ f] assms(1) have "same_files ?w w" by simp
  with f assms(2,3) show ?thesis by (auto simp: onWorld_def same_files_def)
qed

lemma tokenAdmin_refused: "\<not> administrator rt \<Longrightarrow> \<exists>e. tokenAdmin rt path = Inl e"
  by (auto simp: tokenAdmin_def split: sum.splits)

lemma token_commands_refused:
  assumes "\<not> administrator rt"
  shows "snd (tokenCreate rt path name roles expires d) = []" "snd (tokenRevoke rt path i d) = []"
    "snd (tokenRotate rt path i expires overlap d) = []"
  using tokenAdmin_refused [OF assms, of path] by (auto simp: tokenCreate_def tokenRevoke_def tokenRotate_def)

lemma onTokens_unchanged: "onTokens env out f st = (r, st') \<Longrightarrow> snd (f (ms_Tokens st)) = [] \<Longrightarrow> st' = st"
  by (auto simp: onTokens_def split: prod.splits)

lemmas onTokens_refused = onTokens_unchanged [OF _ token_commands_refused(1)] onTokens_unchanged [OF _ token_commands_refused(2)]
  onTokens_unchanged [OF _ token_commands_refused(3)]

section \<open>Processes\<close>

text \<open>
  A process that starts only as the user its configuration names. A worker's user is never the
  gateway's, so a worker cannot be taken for the gateway by the peer checks of the other worker.
\<close>

locale process =
  fixes start :: "runtime \<Rightarrow> string \<Rightarrow> (app_error, 'a) result"
    and identity :: "config \<Rightarrow> uid"
  assumes started: "start rt path = Inr x \<Longrightarrow> \<exists>config policy. loadConfig rt path = Inr (config, policy) \<and> euid32 rt = identity config"
begin

lemma runs_as: "start rt path = Inr x \<Longrightarrow> loadConfig rt path = Inr (config, policy) \<Longrightarrow> euid32 rt = identity config"
  using started by fastforce

lemma valid_config: "start rt path = Inr x \<Longrightarrow> \<exists>config. Validate config = Inr () \<and> euid32 rt = identity config"
  using started loadConfig_valid(1) by blast

end

locale worker_process = process start identity for start :: "runtime \<Rightarrow> string \<Rightarrow> (app_error, 'a) result" and identity +
  assumes apart: "Validate config = Inr () \<Longrightarrow> identity config \<noteq> GatewayUID config"
begin

lemma not_gateway:
  assumes "start rt path = Inr x" "loadConfig rt path = Inr (config, policy)"
  shows "euid32 rt = identity config" "euid32 rt \<noteq> GatewayUID config"
  using runs_as [OF assms] apart [OF loadConfig_valid(1) [OF assms(2)]] by simp_all

end

interpretation gateway_process: process startServe GatewayUID
  by unfold_locales (metis prod.exhaust startServe_Inr)

interpretation observer_process: worker_process startObserver ObserverUID
  by unfold_locales (auto simp: startObserver_def split: sum.splits if_splits elim!: Validate_Inr)

interpretation repair_process: worker_process startRepair RepairUID
  by unfold_locales (auto simp: startRepair_def split: sum.splits if_splits elim!: Validate_Inr)

section \<open>An example\<close>

definition example_linux :: linux_env where
  "example_linux = \<lparr>lx_Now = 0, lx_Arch = ''amd64'', lx_Sources = \<lparr>hx_info = Inl ''none'', hx_cpu = Inl ''none'', hx_load = Inl ''none'',
       hx_memory = Inl ''none'', hx_swap = None, hx_disk = Inl ''none''\<rparr>,
     lx_Slot = True, lx_Run = (\<lambda>_ _. Inl ''none''), lx_Systemd = example_systemd, lx_Journal = example_journal,
     lx_JournalRun = (\<lambda>_ _. ([], [], None)), lx_Text = (\<lambda>_. ''error'')\<rparr>"

definition constant_yaml :: "config \<Rightarrow> config yaml_decoder" where
  "constant_yaml config = \<lparr>first_document = (\<lambda>_ _. Inr config), second_at_end = (\<lambda>_. True)\<rparr>"

text \<open>A process of the given user on a host whose files are root's and where no repair socket exists.\<close>

definition example_process :: "int \<Rightarrow> config \<Rightarrow> runtime" where
  "example_process euid config = \<lparr>
     rt_OS = example_host\<lparr>Geteuid := euid,
       Lstat := (\<lambda>p. if p = ''/run/hostlens-repair/repair.sock'' then Inl ErrNotExist else Inr root_dir)\<rparr>,
     rt_Config = constant_yaml config, rt_Profile = profile_yaml, rt_Systemctl = Inr [CHR ''f'', CHR ''a'', CHR ''i'', CHR ''l'', CHR ''e'', CHR ''d'', CHR 0x0A],
     rt_Linux = example_linux, rt_Dial = (\<lambda>_. Inl ''none''), rt_Observer = (\<lambda>_ _. Inl ''none''), rt_Observation = example_codec,
     rt_ObserverText = (\<lambda>_. ''error''), rt_Repair = (\<lambda>_ _. Inl ''none''), rt_Response = (\<lambda>_. Inl ''none''), rt_ResponseEOF = (\<lambda>_. True),
     rt_RepairText = (\<lambda>_. ''error''), rt_Docker = (\<lambda>_ _. example_api), rt_DockerText = (\<lambda>_. ''error''), rt_Listen = (\<lambda>_. None),
     rt_Sockets = \<lparr>sk_Node = \<lparr>sn_ID = 1, sn_Mode = 0, sn_GID = 0\<rparr>, sk_Listen = None, sk_Lstat = None, sk_Chmod = None, sk_Chown = None,
       sk_Serve = (\<lambda>d. (d, True, None)), sk_LstatEnd = None\<rparr>,
     rt_Time = (\<lambda>_. Inl ''none''), rt_Machine = example_machine, rt_Tokens = pair_codec [] []\<rparr>"

definition read_only_config :: config where
  "read_only_config = example_config\<lparr>ReadOnly := True\<rparr>"

lemma loaded_constant: "loadConfig rt path = Inr (config, policy) \<Longrightarrow> rt_Config rt = constant_yaml c \<Longrightarrow> config = c"
  unfolding loadConfig_Inr by (auto simp: decodeYAML_def constant_yaml_def split: sum.splits if_splits elim!: Load_Inr)

definition example_serving :: "http_server \<Rightarrow> serve_run" where
  "example_serving = (\<lambda>_. \<lparr>sv_Select = DoneFirst, sv_ServeErr = ErrServerClosed, sv_Cancelled = True, sv_ShutdownErr = None\<rparr>)"

definition example_cli :: cli_env where
  "example_cli = \<lparr>ce_Runtime = example_process 1000 read_only_config, ce_Serving = example_serving, ce_Migrate = example_migration, ce_Order = [],
     ce_Units = example_units, ce_Buildinfo = example_buildinfo, ce_Lifecycle = example_lifecycle, ce_Version = ''0.6.0'', ce_Encode = (\<lambda>_. None)\<rparr>"

definition example_machine_state :: machine_state where
  "example_machine_state = \<lparr>ms_World = example_world, ms_Tokens = stored_dir, ms_Sockets = Map.empty\<rparr>"

section \<open>Properties\<close>

text \<open>
  C6: a gateway that has started to serve runs as the user its configuration names, never as root,
  with the loaded policy and token store. It serves without TLS only on a loopback address. If its
  configuration is read-only, then before it listened the repair worker was stopped or not installed
  and its socket was gone, the gateway has no way to reach a repair worker, and every tool it
  offers only observes.
\<close>

theorem serve_as_configured:
  assumes "runServe rt serving path = (r, Some srv)"
  shows "\<exists>config policy. loadConfig rt path = Inr (config, policy) \<and> euid32 rt = GatewayUID config \<and> euid32 rt \<noteq> 0
    \<and> ap_Policy (hv_Handler srv) = policy \<and> s_Path (ap_Tokens (hv_Handler srv)) = TokenStore config
    \<and> (hv_TLS srv = None \<longrightarrow>
         (\<exists>host port. SplitHostPort (hv_Address srv) = Some (host, port) \<and> host \<in> {''127.0.0.1'', ''::1''}))
    \<and> (ReadOnly config \<longrightarrow> worker_stopped rt config \<and> ap_Repair (hv_Handler srv) = None
         \<and> (\<forall>d\<in>set (registered (hv_Handler srv)). td_effect d = EffectObserve))"
proof -
  from assms obtain config a where s: "startServe rt path = Inr (config, a)" "hv_Handler srv = a"
    "hv_Address srv = Listen config" "hv_TLS srv = (if TLSCert config \<noteq> [] then Some (TLSCert config, TLSKey config) else None)"
    by (rule runServe_Some)
  from s(1) obtain policy where a: "loadConfig rt path = Inr (config, policy)" "euid32 rt = GatewayUID config"
    "ReadOnly config \<longrightarrow> worker_stopped rt config" "ap_Policy a = policy" "ap_ReadOnly a = ReadOnly config"
    "ap_Tokens a = \<lparr>s_Path = TokenStore config, s_TokenGID = 0\<rparr>"
    "ap_Repair a = (if \<not> ReadOnly config \<and> RepairSocket config \<noteq> []
       then Some (repairClient rt (RepairSocket config) (RepairUID config)) else None)"
    by (rule startServe_Inr)
  from loadConfig_valid(1) [OF a(1)] obtain host port where v: "SplitHostPort (Listen config) = Some (host, port)"
    "host = ''127.0.0.1'' \<or> host = ''::1'' \<or> TLSCert config \<noteq> [] \<and> TLSKey config \<noteq> []" "GatewayUID config \<noteq> 0"
    by (rule Validate_Inr)
  have t: "hv_TLS srv = None \<longrightarrow>
      (\<exists>host port. SplitHostPort (hv_Address srv) = Some (host, port) \<and> host \<in> {''127.0.0.1'', ''::1''})"
    using v s by auto
  have o: "ReadOnly config \<longrightarrow> worker_stopped rt config \<and> ap_Repair (hv_Handler srv) = None
      \<and> (\<forall>d\<in>set (registered (hv_Handler srv)). td_effect d = EffectObserve)"
    using a read_only_registers_observers [of a] s(2) by simp
  show ?thesis
    by (rule exI [of _ config], rule exI [of _ policy]) (intro conjI a(1,2) t o, use a v s in simp_all)
qed

lemma example_started:
  "startServe (example_process 1001 read_only_config) ''/etc/hostlens/config.yaml''
     = Inr (projr (startServe (example_process 1001 read_only_config) ''/etc/hostlens/config.yaml''))"
proof -
  have "\<not> isl (startServe (example_process 1001 read_only_config) ''/etc/hostlens/config.yaml'')" by code_simp
  then show ?thesis by simp
qed

theorem serve_as_configured_witness:
  "\<exists>srv. runServe (example_process 1001 read_only_config) example_serving ''/etc/hostlens/config.yaml'' = (Inr (), Some srv)
     \<and> worker_stopped (example_process 1001 read_only_config) read_only_config
     \<and> (\<forall>d\<in>set (registered (hv_Handler srv)). td_effect d = EffectObserve)"
proof -
  let ?rt = "example_process 1001 read_only_config"
  obtain srv where srv: "runServe ?rt example_serving ''/etc/hostlens/config.yaml'' = (Inr (), Some srv)"
    using example_started
    by (cases "projr (startServe ?rt ''/etc/hostlens/config.yaml'')")
      (auto simp: runServe_def example_process_def example_serving_def serveEnd_def Let_def)
  from serve_as_configured [OF srv] obtain config policy where
    c: "loadConfig ?rt ''/etc/hostlens/config.yaml'' = Inr (config, policy)"
    "ReadOnly config \<longrightarrow> worker_stopped ?rt config \<and> ap_Repair (hv_Handler srv) = None
       \<and> (\<forall>d\<in>set (registered (hv_Handler srv)). td_effect d = EffectObserve)"
    by (elim exE conjE) (rule that)
  have "config = read_only_config" by (rule loaded_constant [OF c(1)]) (simp add: example_process_def)
  with c(2) srv show ?thesis by (auto simp: read_only_config_def)
qed

text \<open>
  C7: a process whose user is not root changes no token, no file and runs no command, whatever
  command of the program it is given; and no socket either, except as a worker that the loaded
  configuration names this very user for, the repair worker only if the configuration is not
  read-only.
\<close>

theorem unprivileged_commands:
  assumes "Geteuid (rt_OS (ce_Runtime env)) \<noteq> 0" and "runCommand env path cmd st = (r, st')"
  shows "ms_Tokens st' = ms_Tokens st
    \<and> w_FS (ms_World st') = w_FS (ms_World st) \<and> w_Log (ms_World st') = w_Log (ms_World st)
    \<and> (ms_Sockets st' = ms_Sockets st
       \<or> (\<exists>config policy. loadConfig (ce_Runtime env) path = Inr (config, policy)
           \<and> (cmd = ObserverCommand \<and> euid32 (ce_Runtime env) = ObserverUID config
              \<or> cmd = RepairCommand \<and> euid32 (ce_Runtime env) = RepairUID config \<and> \<not> ReadOnly config)))"
proof -
  have na: "\<not> administrator (ce_Runtime env)" using assms(1) by (simp add: administrator_def)
  have un: "ce_Runtime (unprinted env) = ce_Runtime env" by (simp add: unprinted_def)
  show ?thesis
  proof (cases cmd)
    case (UninstallCommand a)
    with assms(2) have "onWorld (unprinted env) UninstallOutput (runUninstall env a) st = (r, st')" by (simp add: runCommand_def)
    from onWorld_unprivileged [OF assms(1) this un] Execute_unprivileged
    have "same_files (ms_World st) (ms_World st') \<and> ms_Tokens st' = ms_Tokens st \<and> ms_Sockets st' = ms_Sockets st"
      by (fastforce simp: runUninstall_def split: prod.splits)
    then show ?thesis by (simp add: same_files_def)
  next
    case (LifecycleCommand a src dg ap start)
    with assms(2) have "onWorld env PlanOutput (runLifecycle env a src dg ap start) st = (r, st')" by (simp add: runCommand_def)
    from onWorld_unprivileged [OF assms(1) this refl runLifecycle_unprivileged] show ?thesis by (auto simp: same_files_def)
  next
    case ObserverCommand
    with assms(2) have o: "onSockets (observerCommand (ce_Runtime env) path) st = (r, st')" by (simp add: runCommand_def)
    then show ?thesis
      using ObserverCommand observer_process.started [of "ce_Runtime env" path]
      by (cases "startObserver (ce_Runtime env) path") (auto simp: onSockets_def observerCommand_def split: prod.splits)
  next
    case RepairCommand
    with assms(2) have o: "onSockets (repairCommand (ce_Runtime env) path) st = (r, st')" by (simp add: runCommand_def)
    have "startRepair (ce_Runtime env) path = Inr s \<Longrightarrow> \<exists>config policy. loadConfig (ce_Runtime env) path = Inr (config, policy)
        \<and> euid32 (ce_Runtime env) = RepairUID config \<and> \<not> ReadOnly config" for s
      by (auto simp: startRepair_def split: sum.splits if_splits)
    with o show ?thesis using RepairCommand
      by (cases "startRepair (ce_Runtime env) path") (auto simp: onSockets_def repairCommand_def split: prod.splits)
  qed (use assms(2) na in \<open>auto simp: runCommand_def Let_def dest: onTokens_refused\<close>)
qed

theorem unprivileged_commands_witness:
  "ms_Tokens (snd (runCommand example_cli ''/etc/hostlens/config.yaml'' (TokenCreate ''intruder'' ''repair'' ''never'') example_machine_state))
     = stored_dir
   \<and> w_FS (ms_World (snd (runCommand example_cli ''/etc/hostlens/config.yaml'' (UninstallCommand True) example_machine_state)))
     = w_FS example_world"
proof -
  have e: "Geteuid (rt_OS (ce_Runtime example_cli)) \<noteq> 0" by (simp add: example_cli_def example_process_def)
  note u = unprivileged_commands [OF e prod.collapse [symmetric]]
  show ?thesis
    using u [of "''/etc/hostlens/config.yaml''" "TokenCreate ''intruder'' ''repair'' ''never''" example_machine_state]
      u [of "''/etc/hostlens/config.yaml''" "UninstallCommand True" example_machine_state]
    by (simp add: example_machine_state_def)
qed

section \<open>The zero instant\<close>

text \<open>
  \<open>parseExpiry\<close> answers the zero time for \<open>never\<close>, and the store takes a zero expiry for none. An
  RFC 3339 text of that same instant is therefore accepted and means no expiry, although it lies in
  the past.
\<close>

lemma zero_instant_never_expires:
  assumes "rt_Time rt ''0001-01-01T00:00:00Z'' = Inr 0"
  shows "tokenCreate rt path name roles ''0001-01-01T00:00:00Z'' d = tokenCreate rt path name roles ''never'' d"
proof -
  have e: "parseExpiry rt ''0001-01-01T00:00:00Z'' = parseExpiry rt ''never''" using assms by (simp add: parseExpiry_def)
  show ?thesis unfolding tokenCreate_def e ..
qed

end
