(* ===== verification/Token_Sharing.thy ===== *)
theory Token_Sharing
  imports Tokens_Correct
begin

text \<open>
  Several processes update one token store at the same time. \<open>Store.update\<close> takes a file lock before
  it reads and holds it until it returns; the kernel drops the lock of a process that dies. The
  model interleaves the processes at the directory states of \<open>update\<close>: each write step puts the
  directory into the next state that the running update goes through, so without the lock a step of
  one process would undo the changes of another. The check of the directory, which changes nothing, is
  part of the step that reads, although the source makes it just before it locks.
\<close>

section \<open>Processes and steps\<close>

record 'a updater =
  up_Host :: host
  up_Seed :: nat
  up_Change :: "token list \<Rightarrow> (store_error, token list \<times> 'a) result"

datatype 'a phase =
    Waiting
  | Holding
  | Writing "(store_error, 'a) result" "dir list"
  | Finished "(store_error, 'a) result"
  | Crashed

record 'a sharing =
  sh_Dir :: dir
  sh_Lock :: "nat option"
  sh_Phase :: "nat \<Rightarrow> 'a phase"

abbreviation enter :: "nat \<Rightarrow> 'a phase \<Rightarrow> 'a sharing \<Rightarrow> 'a sharing" where
  "enter p ph st \<equiv> st\<lparr>sh_Phase := (sh_Phase st)(p := ph)\<rparr>"

inductive sharing_step :: "store \<Rightarrow> json_codec \<Rightarrow> (nat \<Rightarrow> 'a updater) \<Rightarrow> 'a sharing \<Rightarrow> 'a sharing \<Rightarrow> bool" for s cd us where
  locks: "sh_Lock st = None \<Longrightarrow> sh_Phase st p = Waiting \<Longrightarrow> sharing_step s cd us st (enter p Holding (st\<lparr>sh_Lock := Some p\<rparr>))"
| gives_up: "sh_Phase st p = Waiting \<Longrightarrow> sharing_step s cd us st (enter p (Finished (Inl LockUnavailable)) st)"
| reads: "sh_Phase st p = Holding \<Longrightarrow> update s (up_Host (us p)) cd (up_Seed (us p)) (up_Change (us p)) (sh_Dir st) = (r, ds) \<Longrightarrow>
    sharing_step s cd us st (enter p (Writing r ds) st)"
| writes: "sh_Phase st p = Writing r (d # ds) \<Longrightarrow> sharing_step s cd us st (enter p (Writing r ds) (st\<lparr>sh_Dir := d\<rparr>))"
| unlocks: "sh_Phase st p = Writing r [] \<Longrightarrow> sharing_step s cd us st (enter p (Finished r) (st\<lparr>sh_Lock := None\<rparr>))"
| crashes: "sh_Phase st p = Holding \<or> sh_Phase st p = Writing r ds \<Longrightarrow>
    sharing_step s cd us st (enter p Crashed (st\<lparr>sh_Lock := None\<rparr>))"

abbreviation sharing_run :: "store \<Rightarrow> json_codec \<Rightarrow> (nat \<Rightarrow> 'a updater) \<Rightarrow> 'a sharing \<Rightarrow> 'a sharing \<Rightarrow> bool" where
  "sharing_run s cd us \<equiv> (sharing_step s cd us)\<^sup>*\<^sup>*"

definition waiting :: "dir \<Rightarrow> 'a sharing" where
  "waiting d = \<lparr>sh_Dir = d, sh_Lock = None, sh_Phase = (\<lambda>_. Waiting)\<rparr>"

section \<open>Specification\<close>

text \<open>The changes of a list of processes, applied one after the other.\<close>

fun applied :: "(nat \<Rightarrow> 'a updater) \<Rightarrow> token list \<Rightarrow> nat list \<Rightarrow> token list option" where
  "applied us rs [] = Some rs"
| "applied us rs (p # ps) = (case up_Change (us p) rs of Inl e \<Rightarrow> None | Inr (rs', x) \<Rightarrow> applied us rs' ps)"

lemma applied_snoc: "applied us rs (ps @ [p]) = (case applied us rs ps of None \<Rightarrow> None | Some rs' \<Rightarrow> applied us rs' [p])"
  by (induction us rs ps rule: applied.induct) (auto split: sum.splits)

section \<open>The invariant\<close>

text \<open>What is left of an update that has not renamed its file yet, and of one that has.\<close>

definition before_rename :: "store \<Rightarrow> json_codec \<Rightarrow> 'a updater \<Rightarrow> dir \<Rightarrow> token list \<Rightarrow> (store_error, 'a) result \<Rightarrow> dir list \<Rightarrow> bool" where
  "before_rename s cd u d rs r ds \<longleftrightarrow>
     (\<exists>ds1 n d2. ds = ds1 @ replicate n d2 \<and> (\<forall>e\<in>set ds1. keeps_store s d e) \<and> (n = 0 \<longrightarrow> isl r)
        \<and> (n \<noteq> 0 \<longrightarrow> (isl r \<longrightarrow> dir_sync_error r)
             \<and> (\<exists>rs' x data. up_Change u rs = Inr (rs', x) \<and> Marshal cd rs' = Some data \<and> int (length data) \<le> maxStoreBytes
                  \<and> holds_store s (up_Host u) data d2)))"

definition after_rename :: "store \<Rightarrow> dir \<Rightarrow> (store_error, 'a) result \<Rightarrow> dir list \<Rightarrow> bool" where
  "after_rename s d r ds \<longleftrightarrow> (isl r \<longrightarrow> dir_sync_error r) \<and> (\<forall>e\<in>set ds. keeps_store s d e)"

definition phase_ok :: "store \<Rightarrow> json_codec \<Rightarrow> (nat \<Rightarrow> 'a updater) \<Rightarrow> dir \<Rightarrow> nat list \<Rightarrow> token list \<Rightarrow> nat \<Rightarrow> 'a phase \<Rightarrow> bool" where
  "phase_ok s cd us d ps rs p ph =
     (case ph of
        Waiting \<Rightarrow> p \<notin> set ps
      | Holding \<Rightarrow> p \<notin> set ps
      | Writing r ds \<Rightarrow> if p \<in> set ps then after_rename s d r ds else before_rename s cd (us p) d rs r ds
      | Finished r \<Rightarrow> if p \<in> set ps then isl r \<longrightarrow> dir_sync_error r else isl r
      | Crashed \<Rightarrow> True)"

definition has_lock :: "'a phase \<Rightarrow> bool" where
  "has_lock ph \<longleftrightarrow> (case ph of Holding \<Rightarrow> True | Writing r ds \<Rightarrow> True | _ \<Rightarrow> False)"

definition serialized :: "store \<Rightarrow> json_codec \<Rightarrow> (nat \<Rightarrow> 'a updater) \<Rightarrow> token list \<Rightarrow> 'a sharing \<Rightarrow> nat list \<Rightarrow> token list \<Rightarrow> bool" where
  "serialized s cd us rs0 st ps rs \<longleftrightarrow>
     distinct ps \<and> applied us rs0 ps = Some rs
     \<and> (\<forall>p. read_store s (up_Host (us p)) cd (sh_Dir st) = Inr rs)
     \<and> (\<forall>p. phase_ok s cd us (sh_Dir st) ps rs p (sh_Phase st p))
     \<and> (\<forall>p. has_lock (sh_Phase st p) \<longleftrightarrow> sh_Lock st = Some p)"

text \<open>A step that leaves the directory alone and puts one process into a phase that is right for it.\<close>

lemma serialized_enter:
  assumes "serialized s cd us rs0 st ps rs" "phase_ok s cd us (sh_Dir st) ps rs p ph"
    and "\<And>q. has_lock (((sh_Phase st)(p := ph)) q) \<longleftrightarrow> l = Some q"
  shows "serialized s cd us rs0 (enter p ph (st\<lparr>sh_Lock := l\<rparr>)) ps rs"
  using assms by (auto simp: serialized_def)

text \<open>A write that keeps the store.\<close>

lemma phase_ok_keeps:
  "keeps_store s d d' \<Longrightarrow> phase_ok s cd us d ps rs p ph \<Longrightarrow> phase_ok s cd us d' ps rs p ph"
  by (auto simp: phase_ok_def keeps_store_def after_rename_def before_rename_def split: phase.splits)

lemma serialized_keeps:
  assumes "serialized s cd us rs0 st ps rs" "keeps_store s (sh_Dir st) d"
  shows "serialized s cd us rs0 (st\<lparr>sh_Dir := d\<rparr>) ps rs"
proof -
  have "read_store s h cd d = read_store s h cd (sh_Dir st)" for h
    using assms(2) read_store_cong [of d s "sh_Dir st"] by (simp add: keeps_store_def)
  then show ?thesis using assms by (auto simp: serialized_def intro: phase_ok_keeps [OF assms(2)])
qed

lemma update_before_rename:
  assumes "update s (up_Host u) cd k (up_Change u) d = (r, ds)" "\<not> HasPrefix (Base (s_Path s)) ''.tokens-''"
    and "read_store s (up_Host u) cd d = Inr rs"
  shows "before_rename s cd u d rs r ds"
  using assms(1)
proof (cases rule: update_cases)
  case (refused e)
  then show ?thesis by (auto simp: before_rename_def intro: exI [of _ 0])
next
  case (published rs1 rs' x data nonce r')
  have tmp: "tmpName nonce \<noteq> Base (s_Path s)" using assms(2) tmpName_neq by blast
  have keep: "keeps_store s d e" if "e \<in> tmp_states (tmpName nonce) d" for e
    using that tmp by (auto simp: tmp_states_def keeps_store_def)
  from published(8) tmp show ?thesis
  proof (cases rule: publish_cases)
    case failed
    then have "isl r" using published(9) by (auto simp: isl_def)
    with failed keep show ?thesis unfolding before_rename_def by (intro exI [of _ ds] exI [of _ 0]) auto
  next
    case (renamed ds1 gid)
    have e: "isl r \<longrightarrow> dir_sync_error r" using renamed(1) published(9) by (cases r') (auto simp: dir_sync_error_def)
    have h: "holds_store s (up_Host u) data (d(tmpName nonce := None, Base (s_Path s) \<mapsto> (new_stat (up_Host u) gid data, data)))"
      by (auto simp: holds_store_def)
    show ?thesis unfolding before_rename_def
      using renamed(2,3) keep e h published(2-5) assms(3)
      by (intro exI [of _ ds1] exI [of _ 2] exI) auto
  qed
qed

text \<open>The rename: the process joins the serialization and every reader sees its records.\<close>

lemma serialized_commit:
  assumes "serialized s cd us rs0 st ps rs" "sh_Phase st p = Writing r (d # ds)" "p \<notin> set ps"
    and "up_Change (us p) rs = Inr (rs', x)" "\<And>q. read_store s (up_Host (us q)) cd d = Inr rs'"
    and "after_rename s d r ds"
  shows "serialized s cd us rs0 (enter p (Writing r ds) (st\<lparr>sh_Dir := d\<rparr>)) (ps @ [p]) rs'"
proof -
  have "has_lock (sh_Phase st p)" using assms(2) by (simp add: has_lock_def)
  then have l: "sh_Lock st = Some p" using assms(1) by (auto simp: serialized_def)
  have other: "phase_ok s cd us d (ps @ [p]) rs' q (sh_Phase st q)" if "q \<noteq> p" for q
  proof -
    have ok: "phase_ok s cd us (sh_Dir st) ps rs q (sh_Phase st q)" using assms(1) by (simp add: serialized_def)
    have "\<not> has_lock (sh_Phase st q)" using assms(1) l that by (auto simp: serialized_def)
    with ok that show ?thesis by (auto simp: phase_ok_def has_lock_def split: phase.splits if_splits)
  qed
  have "applied us rs0 (ps @ [p]) = Some rs'" using assms(1,4) by (simp add: applied_snoc serialized_def)
  moreover have "phase_ok s cd us d (ps @ [p]) rs' p (Writing r ds)" using assms(6) by (simp add: phase_ok_def)
  moreover have "has_lock (Writing r ds)" by (simp add: has_lock_def)
  ultimately show ?thesis using assms(1,3,5) other l by (auto simp: serialized_def)
qed

lemma before_rename_Cons:
  assumes "before_rename s cd u d rs r (e # ds)"
  obtains (same) "keeps_store s d e" "before_rename s cd u d rs r ds"
  | (commit) rs' x data where "up_Change u rs = Inr (rs', x)" "Marshal cd rs' = Some data" "int (length data) \<le> maxStoreBytes"
      "holds_store s (up_Host u) data e" "after_rename s e r ds"
proof -
  from assms obtain ds1 n d2 where b: "e # ds = ds1 @ replicate n d2" "\<forall>e\<in>set ds1. keeps_store s d e" "n = 0 \<longrightarrow> isl r"
    "n \<noteq> 0 \<longrightarrow> (isl r \<longrightarrow> dir_sync_error r) \<and> (\<exists>rs' x data. up_Change u rs = Inr (rs', x) \<and> Marshal cd rs' = Some data
       \<and> int (length data) \<le> maxStoreBytes \<and> holds_store s (up_Host u) data d2)"
    unfolding before_rename_def by blast
  show thesis
  proof (cases ds1)
    case Nil
    with b(1) obtain m where n: "n = Suc m" "e = d2" "ds = replicate m d2" by (cases n) auto
    with b(4) show thesis by (auto simp: after_rename_def keeps_store_def intro: commit)
  next
    case (Cons a ds1')
    have "keeps_store s d e" using b(1,2) Cons by auto
    moreover have "before_rename s cd u d rs r ds"
      unfolding before_rename_def by (intro exI [of _ ds1'] exI [of _ n] exI [of _ d2]) (use b Cons in auto)
    ultimately show thesis by (rule same)
  qed
qed

text \<open>What the processes promise: they can read what each other writes, and their changes keep a store valid.\<close>

definition fair_updaters :: "store \<Rightarrow> json_codec \<Rightarrow> (nat \<Rightarrow> 'a updater) \<Rightarrow> bool" where
  "fair_updaters s cd us \<longleftrightarrow>
     \<not> HasPrefix (Base (s_Path s)) ''.tokens-'' \<and> json_codec_ok cd
     \<and> (\<forall>p q. reader_of s (up_Host (us p)) (up_Host (us q)))
     \<and> (\<forall>p rs rs' x. valid_store rs \<longrightarrow> store_text rs \<longrightarrow> up_Change (us p) rs = Inr (rs', x) \<longrightarrow> valid_store rs' \<and> store_text rs')"

text \<open>Facts of a process that the invariant gives.\<close>

lemma serialized_phase: "serialized s cd us rs0 st ps rs \<Longrightarrow> phase_ok s cd us (sh_Dir st) ps rs p (sh_Phase st p)"
  by (simp add: serialized_def)

lemma serialized_lock: "serialized s cd us rs0 st ps rs \<Longrightarrow> has_lock (sh_Phase st p) \<longleftrightarrow> sh_Lock st = Some p"
  by (simp add: serialized_def)

lemma has_lock_simps [simp]:
  "\<not> has_lock Waiting" "has_lock Holding" "has_lock (Writing r ds)" "\<not> has_lock (Finished r)" "\<not> has_lock Crashed"
  by (simp_all add: has_lock_def)

lemma serialized_write:
  assumes "serialized s cd us rs0 st ps rs" "sh_Phase st p = Writing r (d # ds)"
    and "fair_updaters s cd us" "store_text rs"
  shows "\<exists>ps' rs'. serialized s cd us rs0 (enter p (Writing r ds) (st\<lparr>sh_Dir := d\<rparr>)) ps' rs' \<and> store_text rs'"
proof -
  have l: "sh_Lock st = Some p" using serialized_lock [OF assms(1), of p] assms(2) by simp
  have unchanged: ?thesis if k: "keeps_store s (sh_Dir st) d" and ok: "phase_ok s cd us (sh_Dir st) ps rs p (Writing r ds)"
  proof -
    have "has_lock (((sh_Phase st)(p := Writing r ds)) q) \<longleftrightarrow> sh_Lock st = Some q" for q
      using l serialized_lock [OF assms(1), of q] by auto
    from serialized_enter [OF assms(1) ok this] have "serialized s cd us rs0 (enter p (Writing r ds) st) ps rs" by simp
    from serialized_keeps [OF this, of d] k have "serialized s cd us rs0 ((enter p (Writing r ds) st)\<lparr>sh_Dir := d\<rparr>) ps rs" by simp
    moreover have "(enter p (Writing r ds) st)\<lparr>sh_Dir := d\<rparr> = enter p (Writing r ds) (st\<lparr>sh_Dir := d\<rparr>)" by simp
    ultimately show ?thesis using assms(4) by metis
  qed
  show ?thesis
  proof (cases "p \<in> set ps")
    case True
    with serialized_phase [OF assms(1), of p] assms(2) have a: "after_rename s (sh_Dir st) r (d # ds)" by (simp add: phase_ok_def)
    show ?thesis by (rule unchanged) (use a True in \<open>auto simp: after_rename_def phase_ok_def\<close>)
  next
    case False
    with serialized_phase [OF assms(1), of p] assms(2) have "before_rename s cd (us p) (sh_Dir st) rs r (d # ds)"
      by (simp add: phase_ok_def)
    then show ?thesis
    proof (cases rule: before_rename_Cons)
      case same
      show ?thesis by (rule unchanged) (use same False in \<open>auto simp: phase_ok_def\<close>)
    next
      case (commit rs' x data)
      have "read_store s (up_Host (us p)) cd (sh_Dir st) = Inr rs" using assms(1) by (simp add: serialized_def)
      then have v: "valid_store rs'" "store_text rs'"
        using assms(3,4) commit(1) read_store_valid unfolding fair_updaters_def by blast+
      have "read_store s (up_Host (us q)) cd d = Inr rs'" for q
        using read_holds_store [OF commit(4,2,3) _ v] assms(3) unfolding fair_updaters_def by blast
      from serialized_commit [OF assms(1,2) False commit(1) this] commit(5) v show ?thesis
        by (auto simp: after_rename_def keeps_store_def)
    qed
  qed
qed

lemma serialized_step:
  assumes "sharing_step s cd us st st'" "serialized s cd us rs0 st ps rs" "fair_updaters s cd us" "store_text rs"
  shows "\<exists>ps' rs'. serialized s cd us rs0 st' ps' rs' \<and> store_text rs'"
  using assms(1)
proof cases
  case (locks p)
  have "phase_ok s cd us (sh_Dir st) ps rs p Holding"
    using serialized_phase [OF assms(2), of p] locks(3) by (simp add: phase_ok_def)
  then have "serialized s cd us rs0 st' ps rs"
    unfolding locks(1) by (rule serialized_enter [OF assms(2)]) (use serialized_lock [OF assms(2)] locks in auto)
  with assms(4) show ?thesis by blast
next
  case (gives_up p)
  have "phase_ok s cd us (sh_Dir st) ps rs p (Finished (Inl LockUnavailable))"
    using serialized_phase [OF assms(2), of p] gives_up(2) by (simp add: phase_ok_def)
  then have "serialized s cd us rs0 (enter p (Finished (Inl LockUnavailable)) (st\<lparr>sh_Lock := sh_Lock st\<rparr>)) ps rs"
    by (rule serialized_enter [OF assms(2)])
      (use serialized_lock [OF assms(2)] serialized_lock [OF assms(2), of p] gives_up(2) in auto)
  with assms(4) gives_up(1) show ?thesis by auto
next
  case (reads p r ds)
  have "before_rename s cd (us p) (sh_Dir st) rs r ds"
    using update_before_rename [OF reads(3)] assms(2,3) by (simp add: serialized_def fair_updaters_def)
  then have "phase_ok s cd us (sh_Dir st) ps rs p (Writing r ds)"
    using serialized_phase [OF assms(2), of p] reads(2) by (simp add: phase_ok_def)
  then have "serialized s cd us rs0 (enter p (Writing r ds) (st\<lparr>sh_Lock := sh_Lock st\<rparr>)) ps rs"
    by (rule serialized_enter [OF assms(2)])
      (use serialized_lock [OF assms(2)] serialized_lock [OF assms(2), of p] reads(2) in auto)
  with assms(4) reads(1) show ?thesis by auto
next
  case (writes p r d ds)
  from serialized_write [OF assms(2) writes(2) assms(3,4)] writes(1) show ?thesis by simp
next
  case (unlocks p r)
  have l: "sh_Lock st = Some p" using serialized_lock [OF assms(2), of p] unlocks(2) by simp
  have "phase_ok s cd us (sh_Dir st) ps rs p (Finished r)"
    using serialized_phase [OF assms(2), of p] unlocks(2)
    by (auto simp: phase_ok_def after_rename_def before_rename_def split: if_splits)
  then have "serialized s cd us rs0 st' ps rs"
    unfolding unlocks(1) by (rule serialized_enter [OF assms(2)]) (use serialized_lock [OF assms(2)] l in auto)
  with assms(4) show ?thesis by blast
next
  case (crashes p r ds)
  have l: "sh_Lock st = Some p" using serialized_lock [OF assms(2), of p] crashes(2) by auto
  have "phase_ok s cd us (sh_Dir st) ps rs p Crashed" by (simp add: phase_ok_def)
  then have "serialized s cd us rs0 st' ps rs"
    unfolding crashes(1) by (rule serialized_enter [OF assms(2)]) (use serialized_lock [OF assms(2)] l in auto)
  with assms(4) show ?thesis by blast
qed

lemma serialized_run:
  assumes "sharing_run s cd us st st'" "fair_updaters s cd us" "serialized s cd us rs0 st ps rs" "store_text rs"
  shows "\<exists>ps' rs'. serialized s cd us rs0 st' ps' rs' \<and> store_text rs'"
  using assms(1)
proof (induction rule: rtranclp_induct)
  case base
  then show ?case using assms(3,4) by blast
next
  case (step st1 st2)
  then show ?case using serialized_step [OF step.hyps(2) _ assms(2)] by blast
qed

lemma serialized_waiting:
  "(\<And>p. read_store s (up_Host (us p)) cd d = Inr rs0) \<Longrightarrow> serialized s cd us rs0 (waiting d) [] rs0"
  by (simp add: serialized_def waiting_def phase_ok_def)

section \<open>Examples\<close>

lemma sharing_writes:
  assumes "sh_Phase st p = Writing r ds"
  shows "\<exists>st'. sharing_run s cd us st st' \<and> sh_Phase st' p = Writing r [] \<and> (\<forall>q. q \<noteq> p \<longrightarrow> sh_Phase st' q = sh_Phase st q)"
  using assms
proof (induction ds arbitrary: st)
  case Nil
  then show ?case by blast
next
  case (Cons d ds)
  let ?st1 = "enter p (Writing r ds) (st\<lparr>sh_Dir := d\<rparr>)"
  obtain st' where r: "sharing_run s cd us ?st1 st'" "sh_Phase st' p = Writing r []" "\<forall>q. q \<noteq> p \<longrightarrow> sh_Phase st' q = sh_Phase ?st1 q"
    using Cons.IH [of ?st1] by auto
  have "sharing_run s cd us st st'" using converse_rtranclp_into_rtranclp [OF sharing_step.writes [OF Cons.prems] r(1)] .
  with r(2,3) show ?case by auto
qed

text \<open>Processes that empty the store; while one of them holds the lock another gives up.\<close>

definition example_updaters :: "nat \<Rightarrow> unit updater" where
  "example_updaters p = \<lparr>up_Host = example_machine, up_Seed = p, up_Change = (\<lambda>_. Inr ([], ()))\<rparr>"

lemma example_fair: "fair_updaters example_store (pair_codec [example_token] []) example_updaters"
  using example_base(2) pair_codec_ok example_reader
  by (auto simp: fair_updaters_def example_updaters_def valid_store_def store_text_def)

lemma applied_example: "applied example_updaters rs ps = Some rs' \<Longrightarrow> ps \<noteq> [] \<Longrightarrow> rs' = []"
  by (induction example_updaters rs ps rule: applied.induct) (auto simp: example_updaters_def split: if_splits, metis applied.simps(1) option.inject)

lemma example_sharing:
  "\<exists>st. sharing_run example_store (pair_codec [example_token] []) example_updaters (waiting stored_dir) st
     \<and> sh_Phase st 0 = Finished (Inr ()) \<and> sh_Phase st 1 = Finished (Inl LockUnavailable)"
proof -
  let ?run = "sharing_run example_store (pair_codec [example_token] []) example_updaters"
  let ?u = "example_updaters 0"
  obtain ds where u: "update example_store (up_Host ?u) (pair_codec [example_token] []) (up_Seed ?u) (up_Change ?u) stored_dir = (Inr (), ds)"
    using update_stored [OF example_valid, of "\<lambda>_. Inr ([], ())" "[]" "()"] by (auto simp: example_updaters_def)
  let ?s1 = "enter 0 Holding ((waiting stored_dir)\<lparr>sh_Lock := Some 0\<rparr>)"
  let ?s2 = "enter 1 (Finished (Inl LockUnavailable)) ?s1"
  let ?s3 = "enter 0 (Writing (Inr ()) ds) ?s2"
  have "?run (waiting stored_dir) ?s1" by (intro r_into_rtranclp sharing_step.locks) (simp_all add: waiting_def)
  moreover have "?run ?s1 ?s2" by (intro r_into_rtranclp sharing_step.gives_up) (simp add: waiting_def)
  moreover have "?run ?s2 ?s3" by (intro r_into_rtranclp sharing_step.reads) (use u in \<open>simp_all add: waiting_def\<close>)
  moreover obtain st where st: "?run ?s3 st" "sh_Phase st 0 = Writing (Inr ()) []"
      "\<forall>q. q \<noteq> 0 \<longrightarrow> sh_Phase st q = sh_Phase ?s3 q"
    using sharing_writes [where st = ?s3 and p = 0 and r = "Inr ()" and ds = ds and s = example_store
        and cd = "pair_codec [example_token] []" and us = example_updaters] by auto
  moreover have "?run st (enter 0 (Finished (Inr ())) (st\<lparr>sh_Lock := None\<rparr>))"
    using st(2) by (intro r_into_rtranclp sharing_step.unlocks)
  ultimately have "?run (waiting stored_dir) (enter 0 (Finished (Inr ())) (st\<lparr>sh_Lock := None\<rparr>))" by (meson rtranclp_trans)
  with st(3) show ?thesis by (intro exI conjI) auto
qed

section \<open>Properties\<close>



end
