(* ===== verification/Contract.thy ===== *)
theory Contract
  imports App Gateway_Correct "HOL-Library.Multiset"
begin

text \<open>
  The contract snapshot tool \<open>tools/contract/main.go\<close>, which prints the tools that a client with every
  right sees: it creates a token in a fresh store, compiles a policy that grants every tool, builds the
  gateway over stub adapters and lists the tools through the authenticated transport. The
  iteration order of the map of effects is the parameter \<open>order\<close>; what the MCP SDK offers for the
  registered tools is the parameter \<open>listing\<close>.
\<close>

section \<open>Stub adapters\<close>

text \<open>The zero values of the result structs.\<close>

definition zero_service :: service where
  "zero_service = \<lparr>sv_ObservedAt = 0, sv_Name = [], sv_Availability = [], sv_State = [], sv_Detail = [], sv_Result = [],
     sv_Restarts = None, sv_Issues = []\<rparr>"

definition zero_host :: host_status where
  "zero_host = \<lparr>hs_ObservedAt = 0, hs_OS = [], hs_Platform = [], hs_Kernel = [], hs_Architecture = [], hs_Uptime = None,
     hs_LogicalCPUs = None, hs_LoadOne = None, hs_LoadFive = None, hs_LoadFifteen = None, hs_MemoryTotal = None,
     hs_MemoryUsed = None, hs_SwapTotal = None, hs_SwapUsed = None, hs_DiskTotal = None, hs_DiskUsed = None,
     hs_InodesTotal = None, hs_InodesUsed = None, hs_Failed = [], hs_FailedLimit = 0, hs_Issues = []\<rparr>"

definition contractHost :: host_reader where
  "contractHost =
     \<lparr>rd_Host = (\<lambda>_. zero_host), rd_Service = (\<lambda>_. Inr zero_service),
      rd_Services = (\<lambda>_. Inr \<lparr>si_ObservedAt = 0, si_Services = [], si_Limit = 0, si_Issues = []\<rparr>),
      rd_ServiceLogs = (\<lambda>_ _. Inr \<lparr>sl_ObservedAt = 0, sl_Name = [], sl_Entries = [], sl_Limit = 0, sl_Truncated = False, sl_Issues = []\<rparr>)\<rparr>"

definition contractDocker :: docker_reader where
  "contractDocker =
     \<lparr>dr_Engine = Inr \<lparr>e_ObservedAt = 0, e_Version = [], e_API = [], e_OS = [], e_Arch = []\<rparr>,
      dr_Containers = Inr \<lparr>i_ObservedAt = 0, i_Containers = [], i_Limit = 0\<rparr>,
      dr_Container = (\<lambda>_. Inr \<lparr>c_ObservedAt = 0, c_ID = [], c_Names = [], c_Image = [], c_State = [], c_Status = [], c_Health = [],
        c_Restarts = None, c_OOMKilled = None\<rparr>),
      dr_Stats = (\<lambda>_. Inr \<lparr>cs_ObservedAt = 0, cs_ID = [], cs_CPUUsageNanos = None, cs_MemoryUsageBytes = None,
        cs_MemoryLimitBytes = None, cs_PIDs = None\<rparr>),
      dr_Logs = (\<lambda>_ _. Inr \<lparr>l_ObservedAt = 0, l_ID = [], l_Chunks = [], l_Limit = 0, l_Truncated = False\<rparr>)\<rparr>"

definition contractRepair :: repair_service where
  "contractRepair =
     \<lparr>rp_RestartService = (\<lambda>_ _. Inr \<lparr>sr_Service = None, sr_Invoked = None, sr_Completed = None, sr_Issue = []\<rparr>),
      rp_RestartContainer = (\<lambda>_ _. Inr \<lparr>cr_Container = None, cr_Invoked = None, cr_Completed = None, cr_Issue = []\<rparr>)\<rparr>"

section \<open>The catalog\<close>

definition contractResource :: "string \<Rightarrow> string" where
  "contractResource name =
     (if name = ''restart_container'' then ''0123456789abcdef0123456789abcdef0123456789abcdef0123456789abcdef''
      else if name = ''restart_service'' then ''example.service''
      else ''*'')"

definition contractRule :: "tools \<Rightarrow> string \<Rightarrow> rule" where
  "contractRule effects name =
     \<lparr>rule_Effect = the (effects name), rule_Tool = name, rule_Resource = contractResource name\<rparr>"

definition contractProfiles :: "string list \<Rightarrow> profiles" where
  "contractProfiles order =
     [(''all'', \<lparr>Includes = [], Allow = map (contractRule (the ToolEffects)) order, Deny = []\<rparr>)]"

datatype contract_error =
    DirectoryFailed string
  | CreateFailed store_error
  | PolicyFailed compile_error
  | ListingFailed
  | RegisteredOther nat nat

text \<open>\<open>handlerTransport\<close> sets the header and calls the gateway's handler in the same process.\<close>

definition contractTools :: "app \<Rightarrow> (string \<Rightarrow> (store_error, token) result) \<Rightarrow> string \<Rightarrow> (tool_definition list \<Rightarrow> mcp_tool list)
    \<Rightarrow> mcp_tool list option" where
  "contractTools a verify secret listing =
     (case gatewayTransport True verify (''Bearer '' @ secret)
             (\<lambda>c. fst (middleware a (\<lambda>_ _. Inl []) (Some c)
                (\<lambda>_ _. Inr (ListToolsResult (listing (registered a)) :: unit mcp_result)) ''tools/list'' OtherRequest)) of
        GatewayServed (Inr (ListToolsResult tools)) \<Rightarrow> Some tools
      | _ \<Rightarrow> None)"

definition contractCatalog :: "(string, string) result \<Rightarrow> host \<Rightarrow> json_codec \<Rightarrow> string list \<Rightarrow> (tool_definition list \<Rightarrow> mcp_tool list)
    \<Rightarrow> (contract_error, mcp_tool list) result" where
  "contractCatalog made h cd order listing =
     (case made of
        Inl e \<Rightarrow> Inl (DirectoryFailed e)
      | Inr directory \<Rightarrow>
          (let store = \<lparr>s_Path = JoinPath directory ''tokens.json'', s_TokenGID = 0\<rparr> in
           case Create store h cd ''snapshot'' [''observe'', ''repair''] 0 Map.empty of
             (Inl e, ds) \<Rightarrow> Inl (CreateFailed e)
           | (Inr (_, secret), ds) \<Rightarrow>
               (case Compile (contractProfiles order) [''all''] (the ToolEffects) of
                  Inl e \<Rightarrow> Inl (PolicyFailed e)
                | Inr policy \<Rightarrow>
                    (let a = newApp store policy False contractHost (Some contractDocker) (Some contractRepair) in
                     case contractTools a (Verify store h cd (last ds)) secret listing of
                       None \<Rightarrow> Inl ListingFailed
                     | Some offered \<Rightarrow>
                         (let tools = sort_key mt_Name offered in
                          if length tools \<noteq> length order then Inl (RegisteredOther (length tools) (length order))
                          else Inr tools)))))"

section \<open>The policy that grants everything\<close>

lemma effects_catalog: "the ToolEffects name = map_option td_effect (findTool name)"
proof -
  from addEffects_map [OF catalog_distinct, of Map.empty] obtain eff where
    "addEffects catalog Map.empty = Some eff" "\<forall>n. eff n = (case findIn n catalog of None \<Rightarrow> None | Some d \<Rightarrow> Some (td_effect d))"
    by auto
  then show ?thesis by (simp add: ToolEffects_def findTool_def split: option.split)
qed

lemma effects_dom: "dom (the ToolEffects) = td_name ` set catalog"
  by (auto simp: dom_def effects_catalog findTool_iff image_iff)

lemma contract_resources:
  "list_all (\<lambda>d. validRule (the ToolEffects) (contractRule (the ToolEffects) (td_name d)) = Inr ()
     \<and> \<not> (td_effect d = EffectRepair \<and> wildcard (contractResource (td_name d)))) catalog"
  by code_simp

lemma contract_edges: "edges (contractProfiles order) = {}"
  by (simp add: edges_def contractProfiles_def)

lemma contract_reach: "reach (contractProfiles order) [''all''] = {''all''}"
  by (simp add: reach_def contract_edges)

lemma contract_rules:
  "granted (contractProfiles order) {''all''} k = {r \<in> contractRule (the ToolEffects) ` set order. rule_key r = k}"
  "denied (contractProfiles order) {''all''} k = {}"
  by (auto simp: granted_def denied_def contractProfiles_def)

lemma contract_rule_ok:
  assumes "d \<in> set catalog"
  shows "validRule (the ToolEffects) (contractRule (the ToolEffects) (td_name d)) = Inr ()"
    "rule_Effect (contractRule (the ToolEffects) (td_name d)) = td_effect d"
    "\<not> (td_effect d = EffectRepair \<and> wildcard (rule_Resource (contractRule (the ToolEffects) (td_name d))))"
proof -
  have "findTool (td_name d) = Some d" using assms by (simp add: findTool_iff)
  then show "rule_Effect (contractRule (the ToolEffects) (td_name d)) = td_effect d" by (simp add: contractRule_def effects_catalog)
  show "validRule (the ToolEffects) (contractRule (the ToolEffects) (td_name d)) = Inr ()"
    "\<not> (td_effect d = EffectRepair \<and> wildcard (rule_Resource (contractRule (the ToolEffects) (td_name d))))"
    using contract_resources assms by (auto simp: list_all_iff contractRule_def)
qed

lemma contract_compiles:
  assumes "set order = dom (the ToolEffects)"
  obtains policy where "Compile (contractProfiles order) [''all''] (the ToolEffects) = Inr policy"
proof -
  have v: "ValidProfileName ''all''" by code_simp
  have "rules_ok (the ToolEffects) \<lparr>Includes = [], Allow = map (contractRule (the ToolEffects)) order, Deny = []\<rparr>"
    using contract_rule_ok assms by (auto simp: rules_ok_def effects_dom)
  with v have "acceptable (contractProfiles order) (the ToolEffects) [''all'']"
    by (simp add: acceptable_def contract_reach contract_edges) (simp add: node_ok_def contractProfiles_def)
  with that show thesis
    using Compile_Inl explains_not_acceptable by (cases "Compile (contractProfiles order) [''all''] (the ToolEffects)") blast+
qed

lemma contract_advertises:
  assumes "Compile (contractProfiles order) [''all''] (the ToolEffects) = Inr policy" "set order = dom (the ToolEffects)" "d \<in> set catalog"
  shows "Advertises policy (td_effect d) (td_name d)"
proof -
  let ?k = "(td_effect d, td_name d)"
  have "rule_key (contractRule (the ToolEffects) (td_name d)) = ?k"
    using contract_rule_ok(2) [OF assms(3)] by (simp add: rule_key_def) (simp add: contractRule_def)
  moreover have "td_name d \<in> set order" using assms(2,3) by (simp add: effects_dom)
  ultimately have "contractRule (the ToolEffects) (td_name d) \<in> set (allow policy ?k)"
    unfolding Compile_Inr(2) [OF assms(1)] contract_reach contract_rules by blast
  moreover have "deny policy ?k = []"
    using Compile_Inr(3) [OF assms(1), of ?k] unfolding contract_reach contract_rules by simp
  ultimately show ?thesis by (auto simp: Advertises_def list_ex_iff)
qed

section \<open>Listing through the transport\<close>

definition mcpTool :: "tool_definition \<Rightarrow> mcp_tool" where
  "mcpTool d = \<lparr>mt_Name = td_name d, mt_Description = td_description d\<rparr>"

lemma contract_registered:
  assumes "Compile (contractProfiles order) [''all''] (the ToolEffects) = Inr policy" "set order = dom (the ToolEffects)"
  shows "registered (newApp store policy False hr (Some dr) (Some rp)) = catalog"
    "d \<in> set catalog \<Longrightarrow> set (t_Roles t) = {''observe'', ''repair''} \<Longrightarrow> lists_tool (newApp store policy False hr (Some dr) (Some rp)) t d"
  using contract_advertises [OF assms] catalog_effects [of d]
  by (auto simp: registered_def newApp_def lists_tool_def EffectObserve_def EffectRepair_def)

text \<open>A random secret passes the checks of the bearer header.\<close>

lemma b64_char_plain: "b64_char n \<notin> {CHR '' '', CHR 0x09, CHR 0x0D, CHR 0x0A}"
proof (cases "n < 64")
  case True
  have "list_all (\<lambda>n. \<not> List.member [CHR '' '', CHR 0x09, CHR 0x0D, CHR 0x0A] (b64_char n)) [0..<64]" by code_simp
  with True show ?thesis by (auto simp: list_all_iff)
qed (simp add: b64_char_def)

lemma Base64RawURL_plain: "set (Base64RawURL bs) \<inter> {CHR '' '', CHR 0x09, CHR 0x0D, CHR 0x0A} = {}"
  using b64_char_plain by (induction bs rule: Base64RawURL.induct) (auto simp: Let_def)

lemma bearer_secret:
  assumes "secret = Base64RawURL v" "v \<noteq> []"
  shows "bearer (''Bearer '' @ secret) = (secret, True)"
proof -
  have c: "Cut (''Bearer '' @ secret) (CHR '' '') = (''Bearer'', secret, True)" by simp
  have n: "secret \<noteq> []" using assms length_Base64RawURL [of v] by (cases v) auto
  have e: "EqualFold ''Bearer'' ''Bearer''" by code_simp
  show ?thesis
    unfolding bearer_def c using n e Base64RawURL_plain [of v] assms(1) by (auto simp: ContainsAny_def list_ex_iff)
qed

lemma contractTools_lists:
  assumes "verify secret = Inr t" "bearer (''Bearer '' @ secret) = (secret, True)"
    and "\<And>d. d \<in> set catalog \<Longrightarrow> lists_tool a t d" "mset (listing (registered a)) = mset (map mcpTool (registered a))"
    and "registered a = catalog"
  shows "contractTools a verify secret listing = Some (listing catalog)"
proof -
  let ?c = "\<lparr>cd_record = t, cd_secret = secret\<rparr>"
  have "(case findTool (mt_Name x) of None \<Rightarrow> False | Some d \<Rightarrow> authorize a (cd_record ?c) d [] True)" if "x \<in> set (listing catalog)" for x
  proof -
    from that assms(4,5) have "x \<in> set (map mcpTool catalog)" by (metis mset_eq_setD)
    then obtain d where d: "d \<in> set catalog" "mt_Name x = td_name d" by (auto simp: mcpTool_def)
    then have "findTool (mt_Name x) = Some d" by (simp add: findTool_iff)
    with assms(3) [OF d(1)] authorize_list [OF d(1)] show ?thesis by simp
  qed
  then have "filter (\<lambda>x. case findTool (mt_Name x) of None \<Rightarrow> False | Some d \<Rightarrow> authorize a (cd_record ?c) d [] True) (listing catalog)
      = listing catalog"
    by (intro filter_True) simp
  then show ?thesis using assms(1,2,5) by (simp add: contractTools_def gatewayTransport_def middleware_def)
qed

section \<open>The store in a fresh directory\<close>

lemma Base_store:
  assumes "\<forall>e\<in>set es. good_elem e" "es \<noteq> []"
  shows "Base (JoinPath (abs_path es) ''tokens.json'') = ''tokens.json''"
proof -
  have g: "\<forall>e\<in>set (es @ [''tokens.json'']). good_elem e" using assms(1) by (simp add: good_elem_def)
  have p: "abs_path es @ ''/'' @ ''tokens.json'' = abs_path (es @ [''tokens.json''])"
    using assms(2) by (simp add: abs_path_def Join_snoc)
  have "JoinPath (abs_path es) ''tokens.json'' = abs_path es @ ''/'' @ ''tokens.json''"
    using Clean_abs_path(1) [OF g] p by (simp add: JoinPath_def abs_path_def)
  then show ?thesis by (simp add: Base_def Let_def)
qed

lemma sort_key_permutation:
  assumes "mset xs = mset ys" "distinct (map f ys)"
  shows "sort_key f xs = sort_key f ys"
proof -
  have d: "mset (map f xs) = mset (map f ys)" using assms(1) by simp
  have x: "distinct (map f xs)" using assms(2) mset_eq_imp_distinct_iff [OF d] by simp
  have s: "set xs = set ys" using assms(1) by (rule mset_eq_setD)
  have k: "distinct (map f (sort_key f zs))" if "distinct (map f zs)" for zs
    using that mset_eq_imp_distinct_iff [of "map f (sort_key f zs)" "map f zs"] by simp
  have "inj_on f (set (sort_key f xs) \<union> set (sort_key f ys))" using assms(2) s by (simp add: distinct_map)
  from map_sorted_distinct_set_unique [OF this _ k [OF x] _ k [OF assms(2)]] show ?thesis using s by simp
qed

section \<open>An example\<close>

definition snapshot_token :: token where
  "snapshot_token = example_token\<lparr>t_Name := ''snapshot'', t_Roles := [''observe'', ''repair'']\<rparr>"

definition snapshot_store :: store where
  "snapshot_store = \<lparr>s_Path = JoinPath (abs_path [''tmp'', ''hostlens-contract-1'']) ''tokens.json'', s_TokenGID = 0\<rparr>"

lemma snapshot_reader: "reader_of snapshot_store example_machine example_machine"
proof -
  have "IsDir root_dir" "Perm root_dir AND group_other_write = 0" by code_simp+
  then show ?thesis by (simp add: reader_of_def store_root_def example_machine_def ownerTrusted_def root_dir_def)
qed

lemma snapshot_Create:
  "\<exists>ds. Create snapshot_store example_machine (pair_codec [] [snapshot_token]) ''snapshot'' [''observe'', ''repair''] 0 Map.empty
     = (Inr (snapshot_token\<lparr>t_Hash := []\<rparr>, example_secret), ds)"
proof -
  let ?cd = "pair_codec [] [snapshot_token]"
  have rd: "read_store snapshot_store example_machine ?cd Map.empty = Inr []" by (simp add: read_store_def example_machine_def)
  have root: "store_root snapshot_store example_machine = Inr ()" using snapshot_reader by (simp add: reader_of_def)
  have faults: "h_Fault example_machine c = None" for c by (simp add: example_machine_def)
  have m: "Marshal ?cd [snapshot_token] = Some ''b''" by (simp add: pair_codec_def)
  obtain ds where pub: "publish snapshot_store example_machine ''b'' (tmpName (replicate 12 (CHR ''r''))) Map.empty = (Inr (), ds)"
    using publish_healthy [OF faults] by blast
  have upd: "update snapshot_store example_machine ?cd k (\<lambda>rs. Inr (rs @ [snapshot_token], ())) Map.empty = (Inr (), ds)" for k
    by (simp add: update_def root faults rd m example_random maxStoreBytes_def pub)
  have t: "snapshot_token = \<lparr>t_ID = HexEncode (replicate 12 (CHR ''r'')), t_Name = ''snapshot'', t_Roles = [''observe'', ''repair''],
      t_Expires = 0, t_Revoked = False, t_Hash = digest example_secret, t_Legacy = False\<rparr>"
    by (simp add: snapshot_token_def example_token_def)
  have "\<not> ContainsAny ''snapshot'' [byte_of 0, byte_of 10, byte_of 13]" "roleValid ''observe''" "roleValid ''repair''" by code_simp+
  then show ?thesis
    by (simp add: Create_def example_random Let_def example_secret_def [symmetric] t [symmetric] upd)
qed

section \<open>Properties\<close>

text \<open>
  C40: whatever the iteration order of the map of effects and the order in which the SDK offers the
  registered tools, the snapshot tool fails only if its directory or token cannot be made, and
  otherwise prints the whole catalog sorted by name: the token it creates is accepted by the
  transport, the policy it builds compiles and advertises every tool, and discovery leaves none out.
  The process can read the store it writes, the JSON codec reads back what it wrote, and the SDK
  offers exactly the registered tools.
\<close>

theorem contract_lists_catalog:
  assumes "\<forall>e\<in>set es. good_elem e" "es \<noteq> []" and "reader_of \<lparr>s_Path = JoinPath (abs_path es) ''tokens.json'', s_TokenGID = 0\<rparr> h h"
    and "json_codec_ok cd" and "distinct order" "set order = dom (the ToolEffects)"
    and "mset (listing catalog) = mset (map mcpTool catalog)"
  shows "contractCatalog (Inr (abs_path es)) h cd order listing =
    (case Create \<lparr>s_Path = JoinPath (abs_path es) ''tokens.json'', s_TokenGID = 0\<rparr> h cd ''snapshot'' [''observe'', ''repair''] 0 Map.empty of
       (Inl e, _) \<Rightarrow> Inl (CreateFailed e)
     | (Inr _, _) \<Rightarrow> Inr (sort_key mt_Name (map mcpTool catalog)))"
proof -
  let ?s = "\<lparr>s_Path = JoinPath (abs_path es) ''tokens.json'', s_TokenGID = 0\<rparr>"
  obtain r ds where c: "Create ?s h cd ''snapshot'' [''observe'', ''repair''] 0 Map.empty = (r, ds)" by fastforce
  show ?thesis
  proof (cases r)
    case (Inl e)
    then show ?thesis using c by (simp add: contractCatalog_def)
  next
    case (Inr ts)
    obtain t secret where ts: "ts = (t, secret)" by fastforce
    note cr = c [unfolded Inr ts]
    obtain v where v: "length v = 32" "secret = Base64RawURL v" and t: "t_Roles t = [''observe'', ''repair'']"
      by (rule Create_Inr [OF cr]) simp
    have e: "read_store ?s h cd Map.empty = Inr []" using assms(3) by (simp add: reader_of_def read_store_def)
    have p: "\<not> HasPrefix (Base (s_Path ?s)) ''.tokens-''" using Base_store [OF assms(1,2)] by (simp add: HasPrefix_def)
    have ver: "Verify ?s h cd (last ds) secret = Inr t"
      by (rule Create_Verify(2) [OF cr p e assms(4) _ _ _ _ _ assms(3)]) (simp_all add: store_text_def ascii_text_def)
    have b: "bearer (''Bearer '' @ secret) = (secret, True)" using bearer_secret [OF v(2)] v(1) by fastforce
    obtain policy where pol: "Compile (contractProfiles order) [''all''] (the ToolEffects) = Inr policy"
      by (rule contract_compiles [OF assms(6)])
    let ?a = "newApp ?s policy False contractHost (Some contractDocker) (Some contractRepair)"
    have g: "registered ?a = catalog" and l: "\<And>d. d \<in> set catalog \<Longrightarrow> lists_tool ?a t d"
      using contract_registered [OF pol assms(6)] t by simp_all
    have tools: "contractTools ?a (Verify ?s h cd (last ds)) secret listing = Some (listing catalog)"
      by (rule contractTools_lists [where a = ?a and t = t and secret = secret]) (simp_all add: ver b l g assms(7) del: append.simps)
    have sorted: "sort_key mt_Name (listing catalog) = sort_key mt_Name (map mcpTool catalog)"
      by (rule sort_key_permutation [OF assms(7)]) (use catalog_distinct in \<open>simp add: mcpTool_def comp_def\<close>)
    have "length order = length catalog"
      using assms(5,6) distinct_card [OF catalog_distinct] by (simp add: effects_dom flip: distinct_card)
    then show ?thesis using cr pol tools sorted by (simp add: contractCatalog_def Let_def)
  qed
qed

theorem contract_lists_catalog_witness:
  "contractCatalog (Inr (abs_path [''tmp'', ''hostlens-contract-1''])) example_machine (pair_codec [] [snapshot_token])
     (rev (map td_name catalog)) (map mcpTool) = Inr (sort_key mt_Name (map mcpTool catalog))"
proof -
  have g: "\<forall>e\<in>set [''tmp'', ''hostlens-contract-1'']. good_elem e" by (simp add: good_elem_def)
  have o: "distinct (rev (map td_name catalog))" "set (rev (map td_name catalog)) = dom (the ToolEffects)"
    using catalog_distinct by (simp_all add: effects_dom)
  obtain ds where c: "Create snapshot_store example_machine (pair_codec [] [snapshot_token]) ''snapshot'' [''observe'', ''repair''] 0 Map.empty
      = (Inr (snapshot_token\<lparr>t_Hash := []\<rparr>, example_secret), ds)" using snapshot_Create by blast
  note l = contract_lists_catalog [where listing = "map mcpTool" and cd = "pair_codec [] [snapshot_token]",
    OF g _ snapshot_reader [unfolded snapshot_store_def] pair_codec_ok o refl, unfolded c [unfolded snapshot_store_def]]
  show ?thesis using l by simp
qed

end
