(* ===== verification/Portable.thy ===== *)
theory Portable
  imports Contract
begin

text \<open>
  The program entry \<open>cmd/hostlens/main.go\<close>, and the program built for a system other than Linux: the
  functions of \<open>runtime_other.go\<close>, \<open>trusted_other.go\<close>, \<open>ownership_other.go\<close>, \<open>socket_other.go\<close>, \<open>unsupported.go\<close>
  and \<open>repair_other.go\<close> in the place of the Linux ones. What the shared code does after a guard that such a
  build never passes is the parameter \<open>rest\<close>; the lemmas show that no choice of it matters.
\<close>

section \<open>The entry\<close>

text \<open>The exit code and the lines on standard error.\<close>

definition programExit :: "('e \<Rightarrow> string) \<Rightarrow> ('e, 'a) result \<Rightarrow> int \<times> string list" where
  "programExit message r = (case r of Inl e \<Rightarrow> (1, [message e]) | Inr _ \<Rightarrow> (0, []))"

section \<open>Stubs\<close>

definition portableOpenTrusted :: "string \<Rightarrow> (string, file) result" where
  "portableOpenTrusted path = Inl ''protected file access unavailable on this platform''"

definition portableTrustedDirectory :: "string \<Rightarrow> (string, unit) result" where
  "portableTrustedDirectory path = Inl ''protected directory access unavailable on this platform''"

definition portableTrustedOwner :: "stat \<Rightarrow> bool" where
  "portableTrustedOwner info = False"

definition portableOwnerTrusted :: "stat \<Rightarrow> bool" where
  "portableOwnerTrusted info = False"

definition portableSocketOwnedByRoot :: "stat \<Rightarrow> bool" where
  "portableSocketOwnedByRoot info = False"

definition portableReader :: host_reader where
  "portableReader =
     \<lparr>rd_Host = (\<lambda>_. zero_host\<lparr>hs_Issues := [Issue ''host'' ''unsupported_platform'']\<rparr>),
      rd_Service = (\<lambda>_. Inl ''service adapter unavailable on this platform''),
      rd_Services = (\<lambda>_. Inl ''service adapter unavailable on this platform''),
      rd_ServiceLogs = (\<lambda>_ _. Inl ''journal adapter unavailable on this platform'')\<rparr>"

definition portableRestarter :: "string \<Rightarrow> (string, service_restart) result" where
  "portableRestarter name = Inl ''service restart unavailable on this platform''"

definition unsupportedPlatform :: string where
  "unsupportedPlatform = ''native HostLens status and repair adapters are not available on this platform''"

definition portableAdministrator :: bool where
  "portableAdministrator = False"

definition portableGatewayIdentity :: "config \<Rightarrow> bool" where
  "portableGatewayIdentity config = False"

definition portableRepairDrained :: "config \<Rightarrow> (string, unit) result" where
  "portableRepairDrained config = Inl unsupportedPlatform"

definition portablePlatformServices :: "config \<Rightarrow> (string, host_reader \<times> docker_reader option \<times> repair_service option) result" where
  "portablePlatformServices config = Inl unsupportedPlatform"

section \<open>Shared code over the stubs\<close>

definition portableRoot :: "store \<Rightarrow> host \<Rightarrow> (store_error, unit) result" where
  "portableRoot s h =
     (case h_DirInfo h (Dir (s_Path s)) of
        Inl e \<Rightarrow> Inl ProtectedDirRequired
      | Inr info \<Rightarrow>
          (if \<not> IsDir info \<or> Perm info AND group_other_write \<noteq> 0 then Inl ProtectedDirRequired
           else if \<not> portableOwnerTrusted info then Inl UntrustedDirOwner
           else (case h_Fault h SysOpenRoot of Some e \<Rightarrow> Inl (OpenRootFailed e) | None \<Rightarrow> Inr ())))"

definition portableLoad :: "(file \<Rightarrow> (string, config \<times> policy) result) \<Rightarrow> string \<Rightarrow> (string, config \<times> policy) result" where
  "portableLoad decoded path = (case portableOpenTrusted path of Inl e \<Rightarrow> Inl e | Inr fl \<Rightarrow> decoded fl)"

text \<open>The commands that load the configuration, check the caller and go on.\<close>

definition portableServe :: "(file \<Rightarrow> (string, config \<times> policy) result) \<Rightarrow> (app \<Rightarrow> (string, cli_output) result) \<Rightarrow> string
    \<Rightarrow> (string, cli_output) result" where
  "portableServe decoded serve path =
     (case portableLoad decoded path of
        Inl e \<Rightarrow> Inl e
      | Inr (config, policy) \<Rightarrow>
          (if \<not> portableGatewayIdentity config then Inl ''gateway identity mismatch''
           else
             (case (if ReadOnly config then portableRepairDrained config else Inr ()) of
                Inl e \<Rightarrow> Inl e
              | Inr _ \<Rightarrow>
                  (case portablePlatformServices config of
                     Inl e \<Rightarrow> Inl e
                   | Inr (host, docker, repairs) \<Rightarrow>
                       serve (newApp \<lparr>s_Path = TokenStore config, s_TokenGID = 0\<rparr> policy (ReadOnly config) host docker repairs)))))"

type_synonym portable_body = "config \<Rightarrow> machine_state \<Rightarrow> (string, cli_output) result \<times> machine_state"

definition portableTokens :: "(file \<Rightarrow> (string, config \<times> policy) result) \<Rightarrow> portable_body \<Rightarrow> string \<Rightarrow> machine_state
    \<Rightarrow> (string, cli_output) result \<times> machine_state" where
  "portableTokens decoded rest path st =
     (case portableLoad decoded path of
        Inl e \<Rightarrow> (Inl e, st)
      | Inr (config, _) \<Rightarrow>
          (if \<not> portableAdministrator then (Inl ''token administration requires administrator identity'', st)
           else rest config st))"

definition portableCommand :: "string \<Rightarrow> (file \<Rightarrow> (string, config \<times> policy) result) \<Rightarrow> (app \<Rightarrow> (string, cli_output) result) \<Rightarrow> portable_body
    \<Rightarrow> string \<Rightarrow> cli_command \<Rightarrow> machine_state \<Rightarrow> (string, cli_output) result \<times> machine_state" where
  "portableCommand version decoded serve rest path cmd st =
     (case cmd of
        VersionCommand \<Rightarrow> (Inr (VersionLine version), st)
      | ConfigValidate \<Rightarrow> (map_sum id (\<lambda>_. ConfigurationValid) (portableLoad decoded path), st)
      | MigrateCommand opts \<Rightarrow>
          (if \<not> portableAdministrator then (Inl ''migration requires administrator identity'', st) else (Inl unsupportedPlatform, st))
      | UninstallCommand apply' \<Rightarrow> (Inl unsupportedPlatform, st)
      | LifecycleCommand action source approved apply' start \<Rightarrow> (Inl unsupportedPlatform, st)
      | StatusCommand \<Rightarrow> (Inl unsupportedPlatform, st)
      | ServeCommand \<Rightarrow> (portableServe decoded serve path, st)
      | ObserverCommand \<Rightarrow> (Inl unsupportedPlatform, st)
      | RepairCommand \<Rightarrow> (Inl unsupportedPlatform, st)
      | TokenCreate name roles expires \<Rightarrow> portableTokens decoded rest path st
      | TokenList \<Rightarrow> portableTokens decoded rest path st
      | TokenRevoke i \<Rightarrow> portableTokens decoded rest path st
      | TokenRotate i expires overlap \<Rightarrow> portableTokens decoded rest path st
      | PolicyExplain eff name resource \<Rightarrow>
          (if \<not> portableAdministrator then (Inl ''policy explanation requires administrator identity'', st)
           else
             (case portableLoad decoded path of
                Inl e \<Rightarrow> (Inl e, st)
              | Inr (_, pol) \<Rightarrow>
                  (if (the ToolEffects) name \<noteq> Some eff then (Inl ''unknown tool or effect'', st)
                   else (Inr (ExplainOutput (Explain pol eff name resource)), st)))))"

section \<open>A closed build\<close>

text \<open>No token store is opened, and every command but \<open>version\<close> fails and changes nothing.\<close>

lemma portableRoot_closed: "\<exists>e. portableRoot s h = Inl e"
  by (simp add: portableRoot_def portableOwnerTrusted_def split: sum.split)

lemma portable_refuses:
  "snd (portableCommand version decoded serve rest path cmd st) = st \<and>
   fst (programExit message (fst (portableCommand version decoded serve rest path cmd st))) = (if cmd = VersionCommand then 0 else 1)"
  by (cases cmd) (simp_all add: portableCommand_def portableTokens_def portableServe_def portableLoad_def portableOpenTrusted_def
      portableAdministrator_def programExit_def)

end
