(* ===== verification/Spec2Isabelle.thy ===== *)
theory Spec2Isabelle
  imports Docker_Correct Status_Correct Observer_Correct Repair_Correct Uninstall_Correct Migrate_Correct Install_Complete App_Correct
    Token_Sharing Portable
begin

text \<open>
  \<^bold>\<open>HostLens\<close> lets a remote MCP client observe a Linux host and, where an administrator has granted
  it, restart a service or a container. This development models the Go code under \<open>src/\<close> as HOL
  functions and proves what makes it safe and correct. The root theory holds the property that
  spans all processes; every other theory opens with a note on what it holds.

  \<^bold>\<open>The program.\<close> One binary runs as three processes of three users. The gateway (\<open>internal/server\<close>)
  authenticates each HTTP request against the token store (\<open>internal/auth\<close>), decides by the compiled
  profiles (\<open>internal/core\<close>) and answers from the host adapter (\<open>internal/status\<close>) or through two local
  workers. The Docker observer (\<open>internal/observer\<close>) reads the engine (\<open>internal/containers\<close>); the
  repair worker (\<open>internal/repair\<close>) loads the configuration, verifies the token and decides again
  before it restarts anything. The workers listen on Unix sockets and trust the peer identity that
  the kernel gives (\<open>internal/localipc\<close>). The same binary administers itself: \<open>internal/lifecycle\<close>
  installs and upgrades a verified release, \<open>internal/migrate\<close> prepares a candidate from an older
  version, \<open>internal/uninstall\<close> removes the installation, and \<open>internal/app\<close> is the command line that
  starts the processes and runs the commands.

  \<^bold>\<open>Theories and sources.\<close>
  \<^item> \<open>Prelude\<close>, \<open>GoPath\<close>, \<open>Encoding\<close>: results, strings and words; \<open>path.Clean\<close>, \<open>Match\<close>, \<open>Split\<close> and the
    numeric and address parsers of the Go library; Base64, hexadecimal and SHA-256.
  \<^item> \<open>Policy\<close>, \<open>Policy_Correct\<close>: \<open>core/policy.go\<close>. \<open>Compile\<close> as a three-colour search over the include
    graph, \<open>Allows\<close>, \<open>Advertises\<close>, \<open>Explain\<close>. Compilation is characterized completely (success,
    contents, decisions), repairs need exact grants. The locale \<open>access_decider\<close> is the contract of
    the decisions for the gateway and the worker.
  \<^item> \<open>Trusted\<close>, \<open>Config\<close>: \<open>core/trusted_linux.go\<close>, \<open>core/ownership_linux.go\<close>, \<open>core/config.go\<close>. The walk
    over protected parents, \<open>Validate\<close>, the bounded YAML read, the profile loader and \<open>Load\<close>: what a
    loaded policy grants stands in a protected file, and the service identities are separate.
  \<^item> \<open>Tokens\<close>, \<open>Tokens_Correct\<close>: \<open>auth/store.go\<close>. \<open>Verify\<close>, \<open>Create\<close>, \<open>Revoke\<close>, \<open>Rotate\<close> over a directory,
    with every state between two system calls, so that atomicity includes a crash. The locale
    \<open>credential_check\<close> is what the gateway and the worker rely on.
  \<^item> \<open>Token_Sharing\<close>: concurrent processes that update one token store, as a step relation over the lock
    and the directory states of \<open>update\<close>. By rule induction the updates serialize.
  \<^item> \<open>Docker\<close>, \<open>Docker_Correct\<close>: \<open>containers/docker.go\<close>, the transport contract, byte and line limits and
    the restart of exactly the inspected container.
  \<^item> \<open>Status\<close>, \<open>Status_Correct\<close>: \<open>status/*.go\<close>, measurements, unit rows, journal and the restart of
    exactly the identified unit.
  \<^item> \<open>Slots\<close>: the buffered channels that bound concurrent handlers, as a step relation over
    interleaved requests; one locale, interpreted for each of the four servers.
  \<^item> \<open>Gateway\<close>, \<open>Gateway_Correct\<close>: \<open>server/server.go\<close>, catalog, targets, authorization, middleware,
    handlers, registration and transport. A call reaches its handler exactly under the stated
    conditions; the locale \<open>repair_gate\<close> states the gate that both the gateway and the worker are.
  \<^item> \<open>LocalIPC\<close>, \<open>Observer\<close>, \<open>Observer_Correct\<close>, \<open>Repair\<close>, \<open>Repair_Correct\<close>: peer identity, socket life and
    graceful stop; both ends of the two workers. The observer's client and server together refine
    the reader behind them; the worker acts only after every check and an audit record.
  \<^item> \<open>Files\<close>: a file system in which every system call takes a tick and may fail at it, with the locale
    \<open>step_relation\<close> for what sequences of calls preserve. Under it \<open>Uninstall\<close>, \<open>Migrate\<close>, \<open>Release\<close>,
    \<open>Lifecycle\<close> and \<open>Apply\<close> with their \<open>_Correct\<close> theories, \<open>Lifecycle_Files\<close> for the atomic write and
    \<open>Install_Complete\<close> for a successful installation: \<open>uninstall/uninstall_linux.go\<close>,
    \<open>migrate/migrate_linux.go\<close> and \<open>lifecycle/manager_linux.go\<close>. A failed application is rolled back
    completely wherever it failed (locales \<open>stage_invariant\<close> and \<open>bookkeeping_invariant\<close>), nothing
    outside the planned targets is touched, and nothing happens without the approved digest.
  \<^item> \<open>Ready\<close>: \<open>unitActive\<close>, \<open>gatewayReady\<close> and the polling loop \<open>waitReady\<close> of the lifecycle manager.
  \<^item> \<open>App\<close>, \<open>App_Correct\<close>: \<open>app/cli.go\<close>, \<open>app/runtime_linux.go\<close>, \<open>app/serve.go\<close>. What each process is built
    from, the commands as one function on the machine's state, and the locales \<open>process\<close> and
    \<open>worker_process\<close> for processes that start only as the user their configuration names.
  \<^item> \<open>Contract\<close>: \<open>tools/contract/main.go\<close>, which composes the token store, the compiler, the gateway and its
    transport to print the catalog. The model shows that the composition offers every tool.
  \<^item> \<open>Portable\<close>: \<open>cmd/hostlens/main.go\<close> and the functions that replace the Linux ones on other systems,
    where every command but \<open>version\<close> refuses.
  \<^item> \<open>Spec2Isabelle\<close>: a restart from the started gateway through the socket and the started worker to
    systemd.

  \<^bold>\<open>How the code is modelled.\<close> Structs are records with the source's field names (prefixed where names
  would clash), enumerations datatypes, \<open>uint32\<close> identities and mode bits words, Go strings lists of
  characters, times integers of nanoseconds. An error is the left value of a sum, with a constructor
  per error that the source distinguishes; errors that other packages compose are strings. Maps that
  the code iterates in random order are handled by an order given as a parameter. Code outside
  the repository is a parameter with named assumptions where a property needs any: YAML and JSON
  codecs, the MCP SDK, the Docker client and \<open>stdcopy\<close>, D-Bus, systemctl and journalctl, measurement
  libraries, \<open>doublestar\<close>, build information and embedded units, HTTP and TLS, the accounts of the
  host, \<open>time.Parse\<close>, and the hash in the lifecycle manager.

  \<^bold>\<open>Loops and fuel.\<close> Recursion is structural or has a termination proof. Fuel appears in the two walks to
  the root of a path (\<open>trustParentsFrom\<close>, \<open>trustedParent\<close>), where the length of the path plus one is
  proved enough for clean absolute paths, and in the depth limits that the source itself has: 32 and 128 for
  profiles (\<open>loadAll\<close>), 64 for legacy profiles. \<open>waitReady\<close> runs over the probes until its deadline, a
  list of any length; \<open>ready_iff_stable\<close> says exactly when it reports readiness.

  \<^bold>\<open>Not modelled.\<close> The parsing of command-line arguments (cobra), signals and goroutine scheduling
  inside the HTTP libraries, progress messages on standard error, TLS itself, and the JSON output of the
  snapshot tool. The administrative commands run without interference from other processes, except for the
  updates of the token store (\<open>Token_Sharing\<close>); their faults are the failing system calls. The token
  directory, the workers' sockets and the files of the administrative commands are separate parts of the
  state of \<open>App\<close>.

  \<^bold>\<open>Findings.\<close> Modelling showed some places where the code does not do what it or its documentation
  says: an update of the token store can report an error after it has published; an empty last
  log frame costs a line; a shortened journal message hides a malformed rest; an unidentified peer is
  represented by a user identifier that a configuration may name; the first service group is not
  compared with the root group in a preview; and an expiry at the zero instant means no expiry
  (\<open>App_Correct.zero_instant_never_expires\<close>).
\<close>

section \<open>A restart from end to end\<close>

text \<open>The request of a service restart.\<close>

definition service_request :: "string \<Rightarrow> string \<Rightarrow> repair_request" where
  "service_request secret target = \<lparr>rq_Secret = secret, rq_Tool = ''restart_service'', rq_Target = target\<rparr>"

lemma checked_grant:
  assumes "request_checked s (workerCalls os cdec pdec h cd d s env) req input config policy t"
  shows "Load os cdec pdec (rs_ConfigPath s) (the ToolEffects) = Inr (config, policy)" "\<not> ReadOnly config"
    "ht_Peer req = rs_GatewayUID s" "Verify (rs_Tokens s) h cd d (rq_Secret input) = Inr t" "\<not> t_Revoked t"
    "''repair'' \<in> set (t_Roles t)"
    "protected_rule os pdec config \<lparr>rule_Effect = EffectRepair, rule_Tool = rq_Tool input, rule_Resource = rq_Target input\<rparr>"
proof -
  have c: "re_Load (workerCalls os cdec pdec h cd d s env) = Load os cdec pdec (rs_ConfigPath s) (the ToolEffects)"
    "re_Verify (workerCalls os cdec pdec h cd d s env) = Verify (rs_Tokens s) h cd d" by (simp_all add: workerCalls_def)
  show l: "Load os cdec pdec (rs_ConfigPath s) (the ToolEffects) = Inr (config, policy)" "\<not> ReadOnly config"
    "ht_Peer req = rs_GatewayUID s" and v: "Verify (rs_Tokens s) h cd d (rq_Secret input) = Inr t"
    using assms c by (auto simp: request_checked_def)
  have adm: "worker_admits policy t (rq_Tool input) (rq_Target input)" using assms by (simp add: request_checked_def)
  show "\<not> t_Revoked t" by (rule store_check.not_revoked [OF v])
  from worker_gate.admitted_exactly [OF Load_compiled [OF l(1)] adm]
  have g: "exact_grant policy (rq_Tool input) (rq_Target input)" "''repair'' \<in> set (t_Roles t)" by auto
  then show "''repair'' \<in> set (t_Roles t)" by simp
  show "protected_rule os pdec config \<lparr>rule_Effect = EffectRepair, rule_Tool = rq_Tool input, rule_Resource = rq_Target input\<rparr>"
    using Load_rule [OF l(1)] g(1) by (auto simp: exact_grant_def)
qed

lemma remote_restart_authorized:
  assumes "clientRestartService (repairCall u dialed (joined er eo slot s (workerCalls os cdec pdec h cd d s env) gateway)
      decode atEOF) secret target = Inr r"
    and "\<And>out. fst (invokeRepair s (service_request secret target)) = Inr out \<Longrightarrow> decode (eo out) = Inr out"
    and "re_Decode env (er (service_request secret target)) = Inr (service_request secret target)"
  obtains config policy t restart where "rs_Services s = Some restart" "restart target = Inr r"
    "peerContext gateway = rs_GatewayUID s"
    "Load os cdec pdec (rs_ConfigPath s) (the ToolEffects) = Inr (config, policy)" "\<not> ReadOnly config"
    "protected_rule os pdec config \<lparr>rule_Effect = EffectRepair, rule_Tool = ''restart_service'', rule_Resource = target\<rparr>"
    "Verify (rs_Tokens s) h cd d secret = Inr t" "\<not> t_Revoked t" "''repair'' \<in> set (t_Roles t)"
proof -
  let ?env = "workerCalls os cdec pdec h cd d s env"
  have dec: "re_Decode ?env (er (service_request secret target)) = Inr (service_request secret target)"
    using assms(3) by (simp add: workerCalls_def)
  obtain config policy t restart where r: "rs_Services s = Some restart" "restart target = Inr r"
    "request_checked s ?env ((postRepair er (service_request secret target))\<lparr>ht_Peer := peerContext gateway\<rparr>)
       (service_request secret target) config policy t"
    by (rule remote_restart [OF assms(1) service_request_def assms(2) dec])
  have f: "rq_Secret (service_request secret target) = secret" "rq_Tool (service_request secret target) = ''restart_service''"
    "rq_Target (service_request secret target) = target" by (simp_all add: service_request_def)
  note c = checked_grant [OF r(3), unfolded f]
  from c(3) have p: "peerContext gateway = rs_GatewayUID s" by simp
  show thesis by (rule that [OF r(1,2) p c(1,2) c(7) c(4-6)])
qed

text \<open>The worker that a started process runs, and the client that a started gateway holds.\<close>

lemma startRepair_Inr:
  assumes "startRepair rt path = Inr s" "loadConfig rt path = Inr (config, policy)"
  shows "rs_Services s = Some (linuxRestarter (rt_Linux rt))" "rs_GatewayUID s = GatewayUID config" "rs_ConfigPath s = path"
    "rs_Tokens s = \<lparr>s_Path = TokenStore config, s_TokenGID = 0\<rparr>"
  using assms by (auto simp: startRepair_def split: sum.splits if_splits)

lemma started_client:
  assumes "startServe gw path = Inr (config, a)" "ap_Repair a = Some client"
    "rp_RestartService client secret target = Inr r"
  obtains conn where "rt_Dial gw (RepairSocket config) = Inr conn" "PeerUID conn = Inr (RepairUID config)"
    "clientRestartService (repairCall (RepairUID config) (rt_Dial gw (RepairSocket config)) (rt_Repair gw) (rt_Response gw)
       (rt_ResponseEOF gw)) secret target = Inr r"
proof -
  from assms(1) have "ap_Repair a = (if \<not> ReadOnly config \<and> RepairSocket config \<noteq> []
      then Some (repairClient gw (RepairSocket config) (RepairUID config)) else None)" by (rule startServe_Inr)
  with assms(2) have "client = repairClient gw (RepairSocket config) (RepairUID config)" by (auto split: if_splits)
  with assms(3) have c: "clientRestartService (repairCall (RepairUID config) (rt_Dial gw (RepairSocket config)) (rt_Repair gw)
      (rt_Response gw) (rt_ResponseEOF gw)) secret target = Inr r"
    by (simp add: repairClient_def Let_def)
  then obtain out where "repairCall (RepairUID config) (rt_Dial gw (RepairSocket config)) (rt_Repair gw) (rt_Response gw)
      (rt_ResponseEOF gw) (service_request secret target) = Inr out"
    by (auto simp: clientRestartService_def service_request_def split: sum.splits)
  with that c show thesis by (auto elim: repairCall_Inr)
qed

text \<open>A complete example: the packaged configuration, a store with a repair token, and both processes.\<close>

definition repair_record :: token where
  "repair_record = example_token\<lparr>t_Roles := [''observe'', ''repair'']\<rparr>"

abbreviation config_file :: string where
  "config_file \<equiv> ''/etc/hostlens/config.yaml''"

definition worker_runtime :: runtime where
  "worker_runtime = example_process 0 example_config"

definition worker_load :: "config \<times> policy" where
  "worker_load = projr (loadConfig worker_runtime config_file)"

lemma worker_loads: "loadConfig worker_runtime config_file = Inr (example_config, snd worker_load)"
proof -
  have "\<not> isl (loadConfig worker_runtime config_file)" by code_simp
  then have l: "loadConfig worker_runtime config_file = Inr (fst worker_load, snd worker_load)" by (simp add: worker_load_def)
  have "fst worker_load = example_config" by (rule loaded_constant [OF l]) (simp add: worker_runtime_def example_process_def)
  with l show ?thesis by simp
qed

lemma worker_allows: "Allows (snd worker_load) EffectRepair ''restart_service'' ''nginx.service''"
  by code_simp

definition started_worker :: repair_server where
  "started_worker = \<lparr>rs_Socket = ''/run/hostlens-repair/repair.sock'', rs_ConfigPath = config_file, rs_GatewayUID = 1001,
     rs_SharedGID = 1001, rs_Tokens = \<lparr>s_Path = ''/etc/hostlens/secrets/tokens.json'', s_TokenGID = 0\<rparr>,
     rs_Services = Some (linuxRestarter example_linux), rs_Containers = None\<rparr>"

lemma worker_starts: "startRepair worker_runtime config_file = Inr started_worker"
  unfolding startRepair_def worker_loads
  by (simp add: example_config_def initial_config_def started_worker_def worker_runtime_def example_process_def euid32_def)

definition restarted :: service_restart where
  "restarted = projr (fst (RestartService example_systemd ''nginx.service''))"

lemma worker_restarts: "linuxRestarter example_linux ''nginx.service'' = Inr restarted"
proof -
  have "\<not> isl (fst (RestartService example_systemd ''nginx.service''))" by code_simp
  then have "fst (RestartService example_systemd ''nginx.service'') = Inr restarted" by (simp add: restarted_def)
  then show ?thesis by (simp add: linuxRestarter_def example_linux_def)
qed

lemma restarted_complete:
  "\<exists>sv. sr_Service restarted = Some sv \<and> sr_Completed restarted = Some True \<and> sr_Issue restarted = []"
proof -
  have "validateUnit ''nginx.service''" by code_simp
  then show ?thesis by (simp add: restarted_def RestartService_def example_systemd_def prop_string_def restart_result_def)
qed

definition restart_output :: repair_response where
  "restart_output = \<lparr>rr_Service = sr_Service restarted, rr_Container = None, rr_Invoked = sr_Invoked restarted,
     rr_Completed = sr_Completed restarted, rr_Issue = sr_Issue restarted\<rparr>"

definition worker_calls :: repair_env where
  "worker_calls = workerCalls (rt_OS worker_runtime) (rt_Config worker_runtime) (rt_Profile worker_runtime) example_machine
     (pair_codec [repair_record] [repair_record]) stored_dir started_worker example_env"

lemma Verify_path: "s_Path s = s_Path s' \<Longrightarrow> Verify s h cd d secret = Verify s' h cd d secret"
proof -
  assume e: "s_Path s = s_Path s'"
  show ?thesis unfolding Verify_def store_root_def read_store_def e ..
qed

lemma worker_verifies: "re_Verify worker_calls example_secret = Inr (repair_record\<lparr>t_Hash := []\<rparr>)"
proof -
  have "roleValid ''repair''" "roleValid ''observe''" by code_simp+
  then have "valid_store [repair_record]" "store_text [repair_record]"
    using example_valid by (auto simp: valid_store_def store_text_def record_ok_def repair_record_def)
  then have "read_store example_store example_machine (pair_codec [repair_record] [repair_record]) stored_dir = Inr [repair_record]"
    by (rule read_stored)
  moreover have "first_accepting (h_Now example_machine) example_secret [repair_record] 0"
    by (simp add: first_accepting_def accepts_def repair_record_def example_token_def)
  ultimately have v: "Verify example_store example_machine (pair_codec [repair_record] [repair_record]) stored_dir example_secret
      = Inr (repair_record\<lparr>t_Hash := []\<rparr>)"
    unfolding Verify_iff using example_root by (auto simp: example_secret_def length_Base64RawURL)
  have "s_Path (rs_Tokens started_worker) = s_Path example_store" by (simp add: started_worker_def example_store_def)
  from Verify_path [OF this] v show ?thesis by (simp add: worker_calls_def workerCalls_def)
qed

lemma worker_replies:
  "fst (serveRepair True started_worker worker_calls gateway_conn (postRepair (\<lambda>_. ''{}'') rq)) = RepairOutput restart_output"
proof -
  have l: "re_Load worker_calls = Inr (example_config, snd worker_load)"
    using worker_loads by (simp add: worker_calls_def workerCalls_def loadConfig_Inr started_worker_def)
  have e: "re_Euid worker_calls = 0" "re_Decode worker_calls = (\<lambda>_. Inr example_repair_request)"
    "re_DecodeEOF worker_calls = (\<lambda>_. True)" "re_AuditOk worker_calls = (\<lambda>_. True)"
    by (simp_all add: worker_calls_def workerCalls_def example_env_def)
  have r: "readAllLimit (maxFrame + 1) (''{}'', BodyEOF) = (''{}'', BodyEOF)" by (simp add: readAllLimit_def maxFrame_def)
  have p: "peerContext gateway_conn = 1001" by (simp add: peerContext_def PeerUID_def gateway_conn_def)
  have w: "workerRole (repair_record\<lparr>t_Hash := []\<rparr>)" by (simp add: workerRole_def RoleRepair_def repair_record_def)
  show ?thesis
    using l e r p w worker_allows worker_verifies worker_restarts
    by (simp add: serveRepair_def handleRepair_def postRepair_def started_worker_def example_repair_request_def Let_def maxFrame_def
        performRepair_def recordAudit_def invokeRepair_def restart_output_def example_config_def initial_config_def)
qed

lemma worker_codecs:
  "fst (invokeRepair started_worker (service_request example_secret ''nginx.service'')) = Inr restart_output"
  "re_Decode example_env ''{}'' = Inr (service_request example_secret ''nginx.service'')"
  using worker_restarts
  by (simp_all add: invokeRepair_def started_worker_def service_request_def restart_output_def example_env_def example_repair_request_def)

definition gateway_runtime :: runtime where
  "gateway_runtime = (example_process 1001 example_config)\<lparr>rt_Dial := (\<lambda>_. Inr (conn_of 0)),
     rt_Repair := joined (\<lambda>_. ''{}'') (\<lambda>_. ''{}'') True started_worker worker_calls gateway_conn,
     rt_Response := (\<lambda>_. Inr restart_output)\<rparr>"

definition gateway_load :: "config \<times> policy" where
  "gateway_load = projr (loadConfig (example_process 1001 example_config) config_file)"

lemma gateway_loads: "loadConfig gateway_runtime config_file = Inr (example_config, snd gateway_load)"
proof -
  have "\<not> isl (loadConfig (example_process 1001 example_config) config_file)" by code_simp
  then have l: "loadConfig (example_process 1001 example_config) config_file = Inr (fst gateway_load, snd gateway_load)"
    by (simp add: gateway_load_def)
  have "fst gateway_load = example_config" by (rule loaded_constant [OF l]) (simp add: example_process_def)
  with l show ?thesis by (simp add: loadConfig_def gateway_runtime_def)
qed

lemma gateway_starts:
  "\<exists>a. startServe gateway_runtime config_file = Inr (example_config, a)
     \<and> ap_Repair a = Some (repairClient gateway_runtime ''/run/hostlens-repair/repair.sock'' 0)"
  unfolding startServe_def gateway_loads
  by (simp add: gatewayIdentity_def euid32_def platformServices_def newApp_def gateway_runtime_def example_process_def
      example_config_def initial_config_def)

lemma gateway_restarts:
  "rp_RestartService (repairClient gateway_runtime ''/run/hostlens-repair/repair.sock'' 0) example_secret ''nginx.service'' = Inr restarted"
proof -
  have "dialPeer 0 (Inr (conn_of 0)) = Inr (conn_of 0)" by (simp add: dialPeer_Inr PeerUID_conn_of)
  moreover have "readAllLimit (maxFrame + 1) (''{}'', BodyEOF) = (''{}'', BodyEOF)" by (simp add: readAllLimit_def maxFrame_def)
  moreover obtain sv where "sr_Service restarted = Some sv" "sr_Completed restarted = Some True" "sr_Issue restarted = []"
    using restarted_complete by auto
  ultimately show ?thesis
    using worker_replies
    by (simp add: repairClient_def clientRestartService_def repairCall_def joined_def writeReply_def gateway_runtime_def
        example_process_def maxFrame_def restart_output_def Let_def)
qed

section \<open>Properties\<close>

text \<open>
  C1: take a gateway and a repair worker that the program has started from a configuration file that
  both read alike, joined by the socket. If the gateway's repair service reports a restart, then
  systemd's answer to the worker is that very result. The connection went to a process of the
  worker's own user and the worker saw the gateway's own user, which are different. The restart was
  authorized where it was carried out: the configuration loaded for this request is not read-only, a
  rule in a protected profile file names exactly this service for this tool, and the presented secret
  is that of a live token with the repair role in the configured store. The JSON codecs are assumed
  to read back the request and the response of this call.
\<close>

theorem restart_end_to_end:
  assumes "startServe gw path = Inr (config, a)" and "startRepair wk path = Inr s" and "loadConfig wk path = Inr (config, policy)"
    and "ap_Repair a = Some client"
    and "rt_Repair gw = joined er eo slot s (workerCalls os cdec pdec h cd d s env) peer"
    and "\<forall>out. fst (invokeRepair s (service_request secret target)) = Inr out \<longrightarrow> rt_Response gw (eo out) = Inr out"
    and "re_Decode env (er (service_request secret target)) = Inr (service_request secret target)"
    and "rp_RestartService client secret target = Inr r"
  shows "fst (RestartService (lx_Systemd (rt_Linux wk)) target) = Inr r
    \<and> (\<exists>conn. rt_Dial gw (RepairSocket config) = Inr conn \<and> PeerUID conn = Inr (euid32 wk))
    \<and> peerContext peer = euid32 gw \<and> euid32 wk \<noteq> euid32 gw
    \<and> (\<exists>config' policy' t. Load os cdec pdec path (the ToolEffects) = Inr (config', policy') \<and> \<not> ReadOnly config'
         \<and> protected_rule os pdec config'
             \<lparr>rule_Effect = EffectRepair, rule_Tool = ''restart_service'', rule_Resource = target\<rparr>
         \<and> Verify \<lparr>s_Path = TokenStore config, s_TokenGID = 0\<rparr> h cd d secret = Inr t \<and> \<not> t_Revoked t
         \<and> ''repair'' \<in> set (t_Roles t))"
proof -
  from started_client [OF assms(1,4,8)] obtain conn where
    c: "rt_Dial gw (RepairSocket config) = Inr conn" "PeerUID conn = Inr (RepairUID config)"
    "clientRestartService (repairCall (RepairUID config) (rt_Dial gw (RepairSocket config))
       (joined er eo slot s (workerCalls os cdec pdec h cd d s env) peer) (rt_Response gw) (rt_ResponseEOF gw)) secret target = Inr r"
    unfolding assms(5) .
  obtain config' policy' t restart where w: "rs_Services s = Some restart" "restart target = Inr r"
    "peerContext peer = rs_GatewayUID s" "Load os cdec pdec (rs_ConfigPath s) (the ToolEffects) = Inr (config', policy')"
    "\<not> ReadOnly config'"
    "protected_rule os pdec config' \<lparr>rule_Effect = EffectRepair, rule_Tool = ''restart_service'', rule_Resource = target\<rparr>"
    "Verify (rs_Tokens s) h cd d secret = Inr t" "\<not> t_Revoked t" "''repair'' \<in> set (t_Roles t)"
    by (rule remote_restart_authorized [OF c(3) assms(6) [rule_format] assms(7)])
  note s = startRepair_Inr [OF assms(2,3)]
  note u = repair_process.not_gateway [OF assms(2,3)]
  from assms(1) have g: "euid32 gw = GatewayUID config" by (rule startServe_Inr)
  from w(1) s(1) have "restart = linuxRestarter (rt_Linux wk)" by simp
  with w(2) have f: "fst (RestartService (lx_Systemd (rt_Linux wk)) target) = Inr r" by (simp add: linuxRestarter_def)
  have l: "Load os cdec pdec path (the ToolEffects) = Inr (config', policy')" using w(4) s(3) by simp
  have v: "Verify \<lparr>s_Path = TokenStore config, s_TokenGID = 0\<rparr> h cd d secret = Inr t" using w(7) s(4) by simp
  have p: "PeerUID conn = Inr (euid32 wk)" "peerContext peer = euid32 gw" "euid32 wk \<noteq> euid32 gw"
    using c(2) w(3) s(2) u g by simp_all
  show ?thesis
    by (intro conjI exI [of _ conn] exI [of _ config'] exI [of _ policy'] exI [of _ t] f c(1) p l v w(5,6,8,9))
qed

theorem restart_end_to_end_witness:
  "fst (RestartService example_systemd ''nginx.service'') = Inr restarted \<and> euid32 worker_runtime \<noteq> euid32 gateway_runtime"
proof -
  obtain a where a: "startServe gateway_runtime config_file = Inr (example_config, a)"
    "ap_Repair a = Some (repairClient gateway_runtime ''/run/hostlens-repair/repair.sock'' 0)"
    using gateway_starts by blast
  have link: "rt_Repair gateway_runtime = joined (\<lambda>_. ''{}'') (\<lambda>_. ''{}'') True started_worker
      (workerCalls (rt_OS worker_runtime) (rt_Config worker_runtime) (rt_Profile worker_runtime) example_machine
        (pair_codec [repair_record] [repair_record]) stored_dir started_worker example_env) gateway_conn"
    by (simp add: gateway_runtime_def worker_calls_def)
  have codec: "\<forall>out. fst (invokeRepair started_worker (service_request example_secret ''nginx.service'')) = Inr out
      \<longrightarrow> rt_Response gateway_runtime ''{}'' = Inr out"
    using worker_codecs(1) by (simp add: gateway_runtime_def)
  have sd: "lx_Systemd (rt_Linux worker_runtime) = example_systemd"
    by (simp add: worker_runtime_def example_process_def example_linux_def)
  show ?thesis
    using restart_end_to_end [OF a(1) worker_starts worker_loads a(2) link codec worker_codecs(2) gateway_restarts] sd by simp
qed

end
